(* ===== verification/Py_Float.thy ===== *)
theory Py_Float
  imports Prelude
begin

text \<open>
  IEEE-754 binary64 arithmetic as CPython and SQLite compute it: a finite float is the
  rational number it denotes, and every operation is the exact rational operation
  followed by \<open>dbl\<close>, rounding to the nearest representable number, ties to even. The
  sign of zero is not represented. \<open>dbl_int\<close>: integers up to 2^53 are represented
  exactly, which is the bound the budget theorems use.
\<close>

datatype pyfloat = Fin rat | PosInf | NegInf | NaN

definition pow2 :: "int \<Rightarrow> rat" where
  "pow2 e = (if 0 \<le> e then of_int (2 ^ nat e) else 1 / of_int (2 ^ nat (- e)))"

text \<open>The number of binary digits of a positive integer.\<close>

fun blen :: "int \<Rightarrow> int" where
  "blen n = (if n \<le> 0 then 0 else 1 + blen (n div 2))"

declare blen.simps [simp del]

lemma blen_step: "0 < n \<Longrightarrow> blen n = 1 + blen (n div 2)"
  by (simp add: blen.simps)

lemma blen_nonpos [simp]: "n \<le> 0 \<Longrightarrow> blen n = 0"
  by (simp add: blen.simps)

text \<open>The exponent of the leading binary digit of a positive rational.\<close>

definition exponent_of :: "rat \<Rightarrow> int" where
  "exponent_of x =
     (if 1 \<le> x then blen \<lfloor>x\<rfloor> - 1
      else let k = blen \<lfloor>1 / x\<rfloor> - 1 in if pow2 k * x = 1 then - k else - k - 1)"

definition round_half_even :: "rat \<Rightarrow> int" where
  "round_half_even x = (let f = \<lfloor>x\<rfloor>; d = x - of_int f
     in if d < 1 / 2 then f else if 1 / 2 < d then f + 1 else if even f then f else f + 1)"

definition ulp_exponent :: "rat \<Rightarrow> int" where
  "ulp_exponent x = max (exponent_of x - 52) (- 1074)"

definition round_pos :: "rat \<Rightarrow> rat" where
  "round_pos x = (let q = ulp_exponent x in of_int (round_half_even (x / pow2 q)) * pow2 q)"

definition dbl :: "rat \<Rightarrow> pyfloat" where
  "dbl x = (if x = 0 then Fin 0
     else let r = round_pos \<bar>x\<bar>
          in if 1024 \<le> exponent_of r then (if 0 < x then PosInf else NegInf)
             else Fin (if 0 < x then r else - r))"

fun fneg :: "pyfloat \<Rightarrow> pyfloat" where
  "fneg (Fin x) = Fin (- x)"
| "fneg PosInf = NegInf"
| "fneg NegInf = PosInf"
| "fneg NaN = NaN"

fun fadd :: "pyfloat \<Rightarrow> pyfloat \<Rightarrow> pyfloat" where
  "fadd (Fin x) (Fin y) = dbl (x + y)"
| "fadd NaN y = NaN"
| "fadd x NaN = NaN"
| "fadd PosInf NegInf = NaN"
| "fadd NegInf PosInf = NaN"
| "fadd PosInf y = PosInf"
| "fadd NegInf y = NegInf"
| "fadd x PosInf = PosInf"
| "fadd x NegInf = NegInf"

definition fsub :: "pyfloat \<Rightarrow> pyfloat \<Rightarrow> pyfloat" where
  "fsub x y = fadd x (fneg y)"

fun fmul :: "pyfloat \<Rightarrow> pyfloat \<Rightarrow> pyfloat" where
  "fmul (Fin x) (Fin y) = dbl (x * y)"
| "fmul NaN y = NaN"
| "fmul x NaN = NaN"
| "fmul (Fin x) i = (if x = 0 then NaN else if 0 < x then i else fneg i)"
| "fmul i (Fin y) = (if y = 0 then NaN else if 0 < y then i else fneg i)"
| "fmul PosInf i = i"
| "fmul NegInf i = fneg i"

text \<open>The comparisons; every comparison with a NaN is false.\<close>

fun flt :: "pyfloat \<Rightarrow> pyfloat \<Rightarrow> bool" where
  "flt (Fin x) (Fin y) = (x < y)"
| "flt NaN y = False"
| "flt x NaN = False"
| "flt x NegInf = False"
| "flt PosInf y = False"
| "flt NegInf y = True"
| "flt x PosInf = True"

definition feq :: "pyfloat \<Rightarrow> pyfloat \<Rightarrow> bool" where
  "feq x y = (x \<noteq> NaN \<and> x = y)"

definition fle :: "pyfloat \<Rightarrow> pyfloat \<Rightarrow> bool" where
  "fle x y = (flt x y \<or> feq x y)"

fun is_finite :: "pyfloat \<Rightarrow> bool" where
  "is_finite (Fin x) = True"
| "is_finite y = False"

text \<open>\<open>float(i)\<close> of an integer: too large an integer raises OverflowError (None here).\<close>

definition float_of_int :: "int \<Rightarrow> pyfloat option" where
  "float_of_int i = (case dbl (of_int i) of Fin x \<Rightarrow> Some (Fin x) | _ \<Rightarrow> None)"

section \<open>Exact integers\<close>

lemma pow2_pos: "0 < pow2 e"
  by (simp add: pow2_def)

lemma round_half_even_int [simp]: "round_half_even (of_int n) = n"
  by (simp add: round_half_even_def)

lemma blen_bounds: "0 < n \<Longrightarrow> 2 ^ nat (blen n - 1) \<le> n \<and> n < 2 ^ nat (blen n) \<and> 1 \<le> blen n"
proof (induction n rule: blen.induct)
  case (1 n)
  show ?case
  proof (cases "n = 1")
    case True
    then show ?thesis by (simp add: blen_step)
  next
    case False
    with 1 have pos: "0 < n div 2" and IH: "2 ^ nat (blen (n div 2) - 1) \<le> n div 2"
        "n div 2 < 2 ^ nat (blen (n div 2))" "1 \<le> blen (n div 2)" by auto
    have b: "blen n = 1 + blen (n div 2)" using "1.prems" by (rule blen_step)
    obtain k where k: "blen (n div 2) = int k + 1"
      using IH(3) by (metis add.commute nat_0_le zle_iff_zadd)
    then have "2 ^ k \<le> n div 2" "n div 2 < 2 * 2 ^ k" using IH by (auto simp: nat_add_distrib)
    then have "2 * 2 ^ k \<le> n" "n < 4 * 2 ^ k" by linarith+
    then show ?thesis using b k by (simp add: nat_add_distrib)
  qed
qed

lemma exponent_of_int:
  assumes "0 < n"
  shows "exponent_of (of_int n) = blen n - 1"
  using assms by (simp add: exponent_of_def)

lemma round_pos_int:
  assumes "0 < n" and "n \<le> 2 ^ 53"
  shows "round_pos (of_int n) = of_int n"
proof (cases "n = 2 ^ 53")
  case True
  have "blen ((2::int) ^ 53) = 54" by (simp add: blen_step)
  then have "ulp_exponent (of_int (2 ^ 53)) = 1"
    using exponent_of_int [of "2 ^ 53"] by (simp add: ulp_exponent_def)
  moreover have "(of_int (2 ^ 53) :: rat) / pow2 1 = of_int (2 ^ 52)" by (simp add: pow2_def)
  ultimately have "round_pos (of_int (2 ^ 53)) = of_int (2 ^ 52) * pow2 1"
    unfolding round_pos_def Let_def by (metis round_half_even_int)
  then show ?thesis using True by (simp add: pow2_def)
next
  case False
  with assms have lt: "n < 2 ^ 53" by simp
  have low: "2 ^ nat (blen n - 1) \<le> n" "1 \<le> blen n" using blen_bounds [OF assms(1)] by auto
  have "blen n - 1 \<le> 52"
  proof (rule ccontr)
    assume "\<not> ?thesis"
    then have "53 \<le> nat (blen n - 1)" by simp
    then have "(2::int) ^ 53 \<le> 2 ^ nat (blen n - 1)" by (rule power_increasing) simp
    with low lt show False by simp
  qed
  with low(2) have q: "ulp_exponent (of_int n) \<le> 0"
    using exponent_of_int [OF assms(1)] by (auto simp: ulp_exponent_def)
  define k where "k = nat (- ulp_exponent (of_int n))"
  have p: "pow2 (ulp_exponent (of_int n)) = 1 / 2 ^ k"
    using q by (auto simp: pow2_def k_def)
  have "(of_int n :: rat) / pow2 (ulp_exponent (of_int n)) = of_int (n * 2 ^ k)"
    by (simp add: p)
  then have "round_pos (of_int n) = of_int (n * 2 ^ k) * (1 / 2 ^ k)"
    unfolding round_pos_def Let_def using p by (metis round_half_even_int)
  then show ?thesis by simp
qed

lemma blen_mono: "m \<le> n \<Longrightarrow> blen m \<le> blen n"
proof (induction m arbitrary: n rule: blen.induct)
  case (1 m)
  show ?case
  proof (cases "m \<le> 0")
    case True
    have "0 \<le> blen n"
      by (cases "0 < n") (use blen_bounds [of n] in \<open>auto simp: blen.simps [of n]\<close>)
    then show ?thesis using True by (simp add: blen.simps [of m])
  next
    case False
    with 1 have "blen (m div 2) \<le> blen (n div 2)" by (simp add: zdiv_mono1)
    then show ?thesis using False "1.prems" by (simp add: blen.simps [of m] blen.simps [of n])
  qed
qed

lemma dbl_int:
  assumes "\<bar>n\<bar> \<le> 2 ^ 53"
  shows "dbl (of_int n) = Fin (of_int n)"
proof (cases "n = 0")
  case True
  then show ?thesis by (simp add: dbl_def)
next
  case False
  have r: "round_pos \<bar>of_int n\<bar> = of_int \<bar>n\<bar>"
    using round_pos_int [of "\<bar>n\<bar>"] assms False by simp
  have "blen \<bar>n\<bar> \<le> blen (2 ^ 53)" using assms by (rule blen_mono)
  also have "\<dots> = 54" by (simp add: blen_step)
  finally have "exponent_of (of_int \<bar>n\<bar>) < 1024"
    using exponent_of_int [of "\<bar>n\<bar>"] False by simp
  with r False show ?thesis by (auto simp: dbl_def Let_def)
qed

lemma fadd_int:
  assumes "\<bar>m + n\<bar> \<le> 2 ^ 53"
  shows "fadd (Fin (of_int m)) (Fin (of_int n)) = Fin (of_int (m + n))"
  using dbl_int [OF assms] by simp

lemma fsub_int:
  assumes "\<bar>m - n\<bar> \<le> 2 ^ 53"
  shows "fsub (Fin (of_int m)) (Fin (of_int n)) = Fin (of_int (m - n))"
  using dbl_int [OF assms] by (simp add: fsub_def)

lemma fle_Fin [simp]: "fle (Fin x) (Fin y) = (x \<le> y)"
  by (auto simp: fle_def feq_def)

section \<open>The shortest decimal form\<close>

text \<open>
  \<open>repr(x)\<close>: the shortest decimal string that rounds back to \<open>x\<close>, as the JSON
  encoder prints a float. \<open>shortest\<close> tries 1 to 17 significant digits.
\<close>

definition pow10 :: "int \<Rightarrow> rat" where
  "pow10 e = (if 0 \<le> e then of_int (10 ^ nat e) else 1 / of_int (10 ^ nat (- e)))"

definition exponent10_of :: "rat \<Rightarrow> int" where
  "exponent10_of x =
     (if 1 \<le> x then int (length (dec (nat \<lfloor>x\<rfloor>))) - 1
      else let k = int (length (dec (nat \<lfloor>1 / x\<rfloor>))) - 1 in if pow10 k * x = 1 then - k else - k - 1)"

fun shortest :: "nat \<Rightarrow> nat \<Rightarrow> rat \<Rightarrow> int \<times> int" where
  "shortest 0 n x = (0, 0)"
| "shortest (Suc fuel) n x =
     (let q = exponent10_of x - int n + 1; m = round_half_even (x / pow10 q)
      in if fuel = 0 \<or> dbl (of_int m * pow10 q) = Fin x then (m, q)
         else shortest fuel (Suc n) x)"

fun strip_zeros :: "nat \<Rightarrow> string \<Rightarrow> string" where
  "strip_zeros 0 s = s"
| "strip_zeros (Suc k) s =
     (if s \<noteq> [] \<and> last s = CHR ''0'' \<and> 1 < length s then strip_zeros k (butlast s) else s)"

definition repr_pos :: "rat \<Rightarrow> string" where
  "repr_pos x = (let (m, q) = shortest 17 1 x; all = dec (nat m);
       e = q + int (length all) - 1; ds = strip_zeros (length all) all
     in if - 4 \<le> e \<and> e < 16
        then (if e < 0 then ''0.'' @ replicate (nat (- e - 1)) (CHR ''0'') @ ds
              else if int (length ds) \<le> e + 1
                   then ds @ replicate (nat (e + 1) - length ds) (CHR ''0'') @ ''.0''
                   else take (nat (e + 1)) ds @ ''.'' @ drop (nat (e + 1)) ds)
        else (take 1 ds @ (if length ds = 1 then [] else ''.'' @ drop 1 ds) @
              (if e < 0 then ''e-'' else ''e+'') @ padded 2 (nat \<bar>e\<bar>)))"

fun float_repr :: "pyfloat \<Rightarrow> string" where
  "float_repr (Fin x) =
     (if x = 0 then ''0.0'' else if x < 0 then CHR ''-'' # repr_pos (- x) else repr_pos x)"
| "float_repr PosInf = ''Infinity''"
| "float_repr NegInf = ''-Infinity''"
| "float_repr NaN = ''NaN''"

end
