(* ===== verification/Py_Monad.thy ===== *)
theory Py_Monad
  imports Prelude
begin

text \<open>
  Python statements as state transformers. An action takes the world and returns either
  the exception it raised or its value, together with the world it leaves behind: an
  exception does not undo the assignments made before it.

  \<open>wp\<close> is the weakest precondition of an action for a normal and an exceptional
  postcondition, with one equation per construct; the locale \<open>frame_relation\<close> is the
  interface for facts of the form "whatever this action does, it relates the world
  before to the world after by R", for a reflexive and transitive R.
\<close>

named_theorems py_wp \<open>weakest-precondition equations, one per construct\<close>
named_theorems py_run \<open>equations that run an action on a given world\<close>

section \<open>Exceptions\<close>

text \<open>
  The exception classes the modelled code raises. \<open>PolicyDenied\<close> and
  \<open>BridgeDenied\<close> are subclasses of \<open>AuthorizationError\<close>, the \<open>Backup...\<close>
  errors and \<open>ValidationError\<close> are subclasses of \<open>ValueError\<close>, and the three
  database errors are subclasses of \<open>sqlite3.Error\<close>. \<open>PortError c m\<close> is an exception of
  class \<open>c\<close> that code outside the repository raises.
\<close>

datatype exn =
    AuthorizationError string
  | PolicyDenied string bool
  | BridgeDenied string
  | ValidationError string
  | BackupApprovalError string
  | BackupAdapterError string
  | BackupRestoreError string
  | ValueError string
  | TypeError string
  | KeyError string
  | AttributeError string
  | OverflowError string
  | IntegrityError string
  | OperationalError string
  | DatabaseError string
  | BackupExecutionError string
  | BackupExecutionReconciliationRequired string
  | BackupProviderError string
  | BackupCredentialError string
  | BackupPilotError string
  | BackupActivationError string
  | BackupOperatorError string
  | BackupRestoreOperatorError string
  | BackupReconciliationRequired string
  | BackupSecretError string
  | BackupRestoreSecretError string
  | BackupEncryptionError string
  | BackupRestoreProviderError string
  | MigrationGuardError string
  | BackupRestoreExecutionError string
  | BackupRestoreExecutionReconciliationRequired string
  | PortError string string

fun exn_str :: "exn \<Rightarrow> string" where
  "exn_str (AuthorizationError m) = m"
| "exn_str (PolicyDenied m a) = m"
| "exn_str (BridgeDenied m) = m"
| "exn_str (ValidationError m) = m"
| "exn_str (BackupApprovalError m) = m"
| "exn_str (BackupAdapterError m) = m"
| "exn_str (BackupRestoreError m) = m"
| "exn_str (ValueError m) = m"
| "exn_str (TypeError m) = m"
| "exn_str (KeyError m) = m"
| "exn_str (AttributeError m) = m"
| "exn_str (OverflowError m) = m"
| "exn_str (IntegrityError m) = m"
| "exn_str (OperationalError m) = m"
| "exn_str (DatabaseError m) = m"
| "exn_str (BackupExecutionError m) = m"
| "exn_str (BackupExecutionReconciliationRequired m) = m"
| "exn_str (BackupProviderError m) = m"
| "exn_str (BackupCredentialError m) = m"
| "exn_str (BackupPilotError m) = m"
| "exn_str (BackupActivationError m) = m"
| "exn_str (BackupOperatorError m) = m"
| "exn_str (BackupRestoreOperatorError m) = m"
| "exn_str (BackupReconciliationRequired m) = m"
| "exn_str (BackupSecretError m) = m"
| "exn_str (BackupRestoreSecretError m) = m"
| "exn_str (BackupEncryptionError m) = m"
| "exn_str (BackupRestoreProviderError m) = m"
| "exn_str (MigrationGuardError m) = m"
| "exn_str (BackupRestoreExecutionError m) = m"
| "exn_str (BackupRestoreExecutionReconciliationRequired m) = m"
| "exn_str (PortError c m) = m"

text \<open>\<open>type(exc).__name__\<close>.\<close>

fun exn_class :: "exn \<Rightarrow> string" where
  "exn_class (PolicyDenied m a) = ''PolicyDenied''"
| "exn_class (AuthorizationError m) = ''AuthorizationError''"
| "exn_class (BridgeDenied m) = ''BridgeDenied''"
| "exn_class (ValidationError m) = ''ValidationError''"
| "exn_class (BackupApprovalError m) = ''BackupApprovalError''"
| "exn_class (BackupAdapterError m) = ''BackupAdapterError''"
| "exn_class (BackupRestoreError m) = ''BackupRestoreError''"
| "exn_class (ValueError m) = ''ValueError''"
| "exn_class (TypeError m) = ''TypeError''"
| "exn_class (KeyError m) = ''KeyError''"
| "exn_class (AttributeError m) = ''AttributeError''"
| "exn_class (OverflowError m) = ''OverflowError''"
| "exn_class (IntegrityError m) = ''IntegrityError''"
| "exn_class (OperationalError m) = ''OperationalError''"
| "exn_class (DatabaseError m) = ''DatabaseError''"
| "exn_class (BackupExecutionError m) = ''BackupExecutionError''"
| "exn_class (BackupExecutionReconciliationRequired m) = ''BackupExecutionReconciliationRequired''"
| "exn_class (BackupProviderError m) = ''BackupProviderError''"
| "exn_class (BackupCredentialError m) = ''BackupCredentialError''"
| "exn_class (BackupPilotError m) = ''BackupPilotError''"
| "exn_class (BackupActivationError m) = ''BackupActivationError''"
| "exn_class (BackupOperatorError m) = ''BackupOperatorError''"
| "exn_class (BackupRestoreOperatorError m) = ''BackupRestoreOperatorError''"
| "exn_class (BackupReconciliationRequired m) = ''BackupReconciliationRequired''"
| "exn_class (BackupSecretError m) = ''BackupSecretError''"
| "exn_class (BackupRestoreSecretError m) = ''BackupRestoreSecretError''"
| "exn_class (BackupEncryptionError m) = ''BackupEncryptionError''"
| "exn_class (BackupRestoreProviderError m) = ''BackupRestoreProviderError''"
| "exn_class (MigrationGuardError m) = ''MigrationGuardError''"
| "exn_class (BackupRestoreExecutionError m) = ''BackupRestoreExecutionError''"
| "exn_class (BackupRestoreExecutionReconciliationRequired m) = ''BackupRestoreExecutionReconciliationRequired''"
| "exn_class (PortError c m) = c"

fun is_authorization :: "exn \<Rightarrow> bool" where
  "is_authorization (AuthorizationError m) = True"
| "is_authorization (PolicyDenied m a) = True"
| "is_authorization (BridgeDenied m) = True"
| "is_authorization e = False"

fun is_sqlite :: "exn \<Rightarrow> bool" where
  "is_sqlite (IntegrityError m) = True"
| "is_sqlite (OperationalError m) = True"
| "is_sqlite (DatabaseError m) = True"
| "is_sqlite e = False"

fun is_validation :: "exn \<Rightarrow> bool" where
  "is_validation (ValidationError m) = True"
| "is_validation e = False"

section \<open>Actions\<close>

type_synonym ('w, 'a) act = "'w \<Rightarrow> (exn + 'a) \<times> 'w"

definition ret :: "'a \<Rightarrow> ('w, 'a) act" where
  "ret x = (\<lambda>w. (Inr x, w))"

definition raise :: "exn \<Rightarrow> ('w, 'a) act" where
  "raise e = (\<lambda>w. (Inl e, w))"

definition bind :: "('w, 'a) act \<Rightarrow> ('a \<Rightarrow> ('w, 'b) act) \<Rightarrow> ('w, 'b) act" where
  "bind m f = (\<lambda>w. case m w of (Inl e, w') \<Rightarrow> (Inl e, w') | (Inr x, w') \<Rightarrow> f x w')"

definition seq :: "('w, 'a) act \<Rightarrow> ('w, 'b) act \<Rightarrow> ('w, 'b) act" where
  "seq m n = bind m (\<lambda>_. n)"

definition raise_if :: "bool \<Rightarrow> exn \<Rightarrow> ('w, unit) act" where
  "raise_if c e = (if c then raise e else ret ())"

definition reads :: "('w \<Rightarrow> 'a) \<Rightarrow> ('w, 'a) act" where
  "reads f = (\<lambda>w. (Inr (f w), w))"

definition modify :: "('w \<Rightarrow> 'w) \<Rightarrow> ('w, unit) act" where
  "modify f = (\<lambda>w. (Inr (), f w))"

definition lift_result :: "exn + 'a \<Rightarrow> ('w, 'a) act" where
  "lift_result r = (\<lambda>w. (r, w))"

text \<open>\<open>try: m except ...: h e\<close>; a handler that does not apply re-raises its exception.\<close>

definition try_except :: "('w, 'a) act \<Rightarrow> (exn \<Rightarrow> ('w, 'a) act) \<Rightarrow> ('w, 'a) act" where
  "try_except m h = (\<lambda>w. case m w of (Inl e, w') \<Rightarrow> h e w' | (Inr x, w') \<Rightarrow> (Inr x, w'))"

text \<open>\<open>attempt m\<close> is the result of \<open>m\<close>, its exception included; \<open>try_finally m f\<close> is \<open>try: m finally: f\<close>.\<close>

definition attempt :: "('w, 'a) act \<Rightarrow> ('w, exn + 'a) act" where
  "attempt m = try_except (bind m (\<lambda>x. ret (Inr x))) (\<lambda>e. ret (Inl e))"

definition try_finally :: "('w, 'a) act \<Rightarrow> ('w, 'b) act \<Rightarrow> ('w, 'a) act" where
  "try_finally m f = bind (attempt m) (\<lambda>r. seq f (lift_result r))"

primrec for_each :: "'x list \<Rightarrow> ('x \<Rightarrow> ('w, unit) act) \<Rightarrow> ('w, unit) act" where
  "for_each [] f = ret ()"
| "for_each (x # xs) f = seq (f x) (for_each xs f)"

primrec collect :: "'x list \<Rightarrow> ('x \<Rightarrow> ('w, 'a) act) \<Rightarrow> ('w, 'a list) act" where
  "collect [] f = ret []"
| "collect (x # xs) f = bind (f x) (\<lambda>y. bind (collect xs f) (\<lambda>ys. ret (y # ys)))"

lemma run_ret [py_run]: "ret x w = (Inr x, w)"
  by (simp add: ret_def)

lemma run_raise [py_run]: "raise e w = (Inl e, w)"
  by (simp add: raise_def)

lemma run_reads [py_run]: "reads f w = (Inr (f w), w)"
  by (simp add: reads_def)

lemma run_modify [py_run]: "modify f w = (Inr (), f w)"
  by (simp add: modify_def)

lemma run_lift_result [py_run]: "lift_result r w = (r, w)"
  by (simp add: lift_result_def)

lemma run_raise_if [py_run]: "raise_if c e w = (if c then Inl e else Inr (), w)"
  by (simp add: raise_if_def raise_def ret_def)

lemma run_bind [py_run]:
  "bind m f w = (case m w of (Inl e, w') \<Rightarrow> (Inl e, w') | (Inr x, w') \<Rightarrow> f x w')"
  by (simp add: bind_def)

lemma run_seq [py_run]:
  "seq m n w = (case m w of (Inl e, w') \<Rightarrow> (Inl e, w') | (Inr x, w') \<Rightarrow> n w')"
  by (simp add: seq_def bind_def)

lemma run_try_except [py_run]:
  "try_except m h w = (case m w of (Inl e, w') \<Rightarrow> h e w' | (Inr x, w') \<Rightarrow> (Inr x, w'))"
  by (simp add: try_except_def)

section \<open>Weakest preconditions\<close>

definition wp ::
  "('w, 'a) act \<Rightarrow> ('a \<Rightarrow> 'w \<Rightarrow> bool) \<Rightarrow> (exn \<Rightarrow> 'w \<Rightarrow> bool) \<Rightarrow> 'w \<Rightarrow> bool" where
  "wp m Q E w = (case m w of (Inl e, w') \<Rightarrow> E e w' | (Inr x, w') \<Rightarrow> Q x w')"

lemma wp_ret [py_wp]: "wp (ret x) Q E w = Q x w"
  by (simp add: wp_def ret_def)

lemma wp_raise [py_wp]: "wp (raise e) Q E w = E e w"
  by (simp add: wp_def raise_def)

lemma wp_reads [py_wp]: "wp (reads f) Q E w = Q (f w) w"
  by (simp add: wp_def reads_def)

lemma wp_modify [py_wp]: "wp (modify f) Q E w = Q () (f w)"
  by (simp add: wp_def modify_def)

lemma wp_lift_result [py_wp]:
  "wp (lift_result r) Q E w = (case r of Inl e \<Rightarrow> E e w | Inr x \<Rightarrow> Q x w)"
  by (simp add: wp_def lift_result_def split: sum.split)

lemma wp_raise_if [py_wp]: "wp (raise_if c e) Q E w = (if c then E e w else Q () w)"
  by (simp add: wp_def raise_if_def raise_def ret_def)

lemma wp_bind [py_wp]: "wp (bind m f) Q E w = wp m (\<lambda>x. wp (f x) Q E) E w"
  by (simp add: wp_def bind_def split: prod.split sum.split)

lemma wp_seq [py_wp]: "wp (seq m n) Q E w = wp m (\<lambda>_. wp n Q E) E w"
  by (simp add: seq_def wp_bind)

lemma wp_try_except [py_wp]: "wp (try_except m h) Q E w = wp m Q (\<lambda>e. wp (h e) Q E) w"
  by (simp add: wp_def try_except_def split: prod.split sum.split)

lemma wp_if [py_wp]: "wp (if c then m else n) Q E w = (if c then wp m Q E w else wp n Q E w)"
  by simp

lemma wp_option [py_wp]:
  "wp (case x of None \<Rightarrow> m | Some y \<Rightarrow> f y) Q E w =
     (case x of None \<Rightarrow> wp m Q E w | Some y \<Rightarrow> wp (f y) Q E w)"
  by (simp split: option.split)

lemma wp_for_each_Nil [py_wp]: "wp (for_each [] f) Q E w = Q () w"
  by (simp add: wp_ret)

lemma wp_for_each_Cons [py_wp]:
  "wp (for_each (x # xs) f) Q E w = wp (f x) (\<lambda>_. wp (for_each xs f) Q E) E w"
  by (simp add: wp_seq)

lemma wp_mono:
  "wp m Q E w \<Longrightarrow> (\<And>x w'. Q x w' \<Longrightarrow> Q' x w') \<Longrightarrow> (\<And>e w'. E e w' \<Longrightarrow> E' e w') \<Longrightarrow> wp m Q' E' w"
  by (auto simp: wp_def split: prod.splits sum.splits)

lemma wp_conj:
  "wp m Q E w \<Longrightarrow> wp m Q' E' w \<Longrightarrow> wp m (\<lambda>x w. Q x w \<and> Q' x w) (\<lambda>e w. E e w \<and> E' e w) w"
  by (auto simp: wp_def split: prod.splits sum.splits)

text \<open>From a run to a fact about its result, and back.\<close>

lemma wp_result:
  assumes "m w = (Inr x, w')" and "wp m Q E w"
  shows "Q x w'"
  using assms by (simp add: wp_def)

lemma wp_error:
  assumes "m w = (Inl e, w')" and "wp m Q E w"
  shows "E e w'"
  using assms by (simp add: wp_def)

lemma wp_attempt:
  "wp (attempt m) Q E w = wp m (\<lambda>x. Q (Inr x)) (\<lambda>e. Q (Inl e)) w"
  by (auto simp: attempt_def try_except_def bind_def ret_def wp_def split: prod.splits sum.splits)

lemma wp_try_finally:
  "wp (try_finally m f) Q E w = wp m (\<lambda>x. wp f (\<lambda>_. Q x) E) (\<lambda>e. wp f (\<lambda>_. E e) E) w"
  by (auto simp: try_finally_def attempt_def try_except_def bind_def ret_def wp_def seq_def lift_result_def
      split: prod.splits sum.splits)

lemma wp_for_each_invariant:
  assumes "I w" and "\<And>x w. x \<in> set xs \<Longrightarrow> I w \<Longrightarrow> wp (f x) (\<lambda>_. I) E w"
  shows "wp (for_each xs f) (\<lambda>_. I) E w"
  using assms
proof (induction xs arbitrary: w)
  case Nil
  then show ?case by (simp add: wp_ret)
next
  case (Cons x xs)
  have "wp (f x) (\<lambda>_. I) E w" using Cons.prems by simp
  then have "wp (f x) (\<lambda>_. wp (for_each xs f) (\<lambda>_. I) E) E w"
    by (rule wp_mono) (use Cons in auto)
  then show ?case by (simp add: wp_seq)
qed

section \<open>Relations every action keeps\<close>

definition keeps :: "('w \<Rightarrow> 'w \<Rightarrow> bool) \<Rightarrow> ('w, 'a) act \<Rightarrow> bool" where
  "keeps R m \<longleftrightarrow> (\<forall>w. R w (snd (m w)))"

locale frame_relation =
  fixes R :: "'w \<Rightarrow> 'w \<Rightarrow> bool"
  assumes R_refl: "R w w"
    and R_trans: "R u v \<Longrightarrow> R v w \<Longrightarrow> R u w"
begin

lemma keeps_ret: "keeps R (ret x)"
  by (simp add: keeps_def ret_def R_refl)

lemma keeps_raise: "keeps R (raise e)"
  by (simp add: keeps_def raise_def R_refl)

lemma keeps_raise_if: "keeps R (raise_if c e)"
  by (simp add: keeps_def raise_if_def raise_def ret_def R_refl)

lemma keeps_reads: "keeps R (reads f)"
  by (simp add: keeps_def reads_def R_refl)

lemma keeps_lift_result: "keeps R (lift_result r)"
  by (simp add: keeps_def lift_result_def R_refl)

lemma keeps_modify: "(\<And>w. R w (f w)) \<Longrightarrow> keeps R (modify f)"
  by (simp add: keeps_def modify_def)

lemma keeps_bind:
  assumes "keeps R m" and "\<And>x. keeps R (f x)"
  shows "keeps R (bind m f)"
proof -
  have "R w (snd (bind m f w))" for w
  proof -
    have 1: "R w (snd (m w))" using assms(1) by (simp add: keeps_def)
    have 2: "R (snd (m w)) (snd (f x (snd (m w))))" for x
      using assms(2) by (simp add: keeps_def)
    show ?thesis
      using 1 R_trans [OF 1 2] by (auto simp: bind_def split: prod.splits sum.splits)
  qed
  then show ?thesis by (simp add: keeps_def)
qed

lemma keeps_seq: "keeps R m \<Longrightarrow> keeps R n \<Longrightarrow> keeps R (seq m n)"
  by (simp add: seq_def keeps_bind)

lemma keeps_try_except:
  assumes "keeps R m" and "\<And>e. keeps R (h e)"
  shows "keeps R (try_except m h)"
proof -
  have "R w (snd (try_except m h w))" for w
  proof -
    have 1: "R w (snd (m w))" using assms(1) by (simp add: keeps_def)
    have 2: "R (snd (m w)) (snd (h e (snd (m w))))" for e
      using assms(2) by (simp add: keeps_def)
    show ?thesis
      using 1 R_trans [OF 1 2] by (auto simp: try_except_def split: prod.splits sum.splits)
  qed
  then show ?thesis by (simp add: keeps_def)
qed

lemma keeps_if: "keeps R m \<Longrightarrow> keeps R n \<Longrightarrow> keeps R (if c then m else n)"
  by simp

lemma keeps_option:
  "keeps R m \<Longrightarrow> (\<And>y. keeps R (f y)) \<Longrightarrow> keeps R (case x of None \<Rightarrow> m | Some y \<Rightarrow> f y)"
  by (cases x) auto

lemma keeps_sum:
  "(\<And>y. keeps R (f y)) \<Longrightarrow> (\<And>z. keeps R (g z)) \<Longrightarrow>
   keeps R (case x of Inl y \<Rightarrow> f y | Inr z \<Rightarrow> g z)"
  by (cases x) auto

lemma keeps_prod: "(\<And>a b. keeps R (f a b)) \<Longrightarrow> keeps R (case p of (a, b) \<Rightarrow> f a b)"
  by (cases p) auto

lemma keeps_list:
  "keeps R m \<Longrightarrow> (\<And>y ys. keeps R (f y ys)) \<Longrightarrow> keeps R (case xs of [] \<Rightarrow> m | y # ys \<Rightarrow> f y ys)"
  by (cases xs) auto

lemma keeps_for_each: "(\<And>x. keeps R (f x)) \<Longrightarrow> keeps R (for_each xs f)"
  by (induction xs) (auto intro: keeps_ret keeps_seq)

lemma keeps_collect: "(\<And>x. keeps R (f x)) \<Longrightarrow> keeps R (collect xs f)"
  by (induction xs) (auto intro: keeps_ret keeps_bind)

lemmas keeps_intros =
  keeps_ret keeps_raise keeps_raise_if keeps_reads keeps_lift_result keeps_bind keeps_seq
  keeps_try_except keeps_if keeps_option keeps_sum keeps_prod keeps_list keeps_for_each
  keeps_collect

lemma keepsD: "keeps R m \<Longrightarrow> m w = (r, w') \<Longrightarrow> R w w'"
  unfolding keeps_def by (metis snd_conv)

end

section \<open>Fallible values\<close>

definition ebind :: "exn + 'a \<Rightarrow> ('a \<Rightarrow> exn + 'b) \<Rightarrow> exn + 'b" where
  "ebind r f = (case r of Inl e \<Rightarrow> Inl e | Inr x \<Rightarrow> f x)"

lemma ebind_Inr_iff: "ebind r f = Inr y \<longleftrightarrow> (\<exists>x. r = Inr x \<and> f x = Inr y)"
  by (auto simp: ebind_def split: sum.splits)

lemma ebind_simps [simp]: "ebind (Inl e) f = Inl e" "ebind (Inr x) f = f x"
  by (simp_all add: ebind_def)

primrec echeck :: "'x list \<Rightarrow> ('x \<Rightarrow> exn + unit) \<Rightarrow> exn + unit" where
  "echeck [] f = Inr ()"
| "echeck (x # xs) f = ebind (f x) (\<lambda>_. echeck xs f)"

lemma echeck_Inr_iff: "echeck xs f = Inr u \<longleftrightarrow> (\<forall>x\<in>set xs. f x = Inr ())"
  by (induction xs) (auto simp: ebind_Inr_iff)

end
