(* ===== verification/Py_Value.thy ===== *)
theory Py_Value
  imports Py_Float Py_Monad
begin

text \<open>
  JSON-shaped Python values. A dict is the association list of its items in insertion
  order, with distinct keys (\<open>wf_val\<close>). \<open>py_eq\<close> is Python's \<open>==\<close>, which
  compares numbers by value and dicts regardless of order; \<open>canon\<close> is what
  \<open>json.loads(json.dumps(v, sort_keys=True))\<close> returns, and \<open>dumps\<close> the compact
  encoding \<open>json.dumps(v, sort_keys=True, separators=(",", ":"))\<close> that every digest
  of the runtime hashes.
\<close>

datatype pyval =
    PNone
  | PBool bool
  | PInt int
  | PFloat pyfloat
  | PStr string
  | PList "pyval list"
  | PDict "(string \<times> pyval) list"

type_synonym pydict = "(string \<times> pyval) list"

section \<open>Dictionaries\<close>

text \<open>\<open>d[k] = v\<close> keeps the position of an existing key and appends a new one.\<close>

fun dput :: "string \<Rightarrow> pyval \<Rightarrow> pydict \<Rightarrow> pydict" where
  "dput k v [] = [(k, v)]"
| "dput k v ((k', v') # d) = (if k' = k then (k, v) # d else (k', v') # dput k v d)"

text \<open>\<open>d.update(e)\<close>.\<close>

definition dupdate :: "pydict \<Rightarrow> pydict \<Rightarrow> pydict" where
  "dupdate d e = fold (\<lambda>(k, v) acc. dput k v acc) e d"

text \<open>\<open>d.get(k)\<close>, and \<open>d.get(k, x)\<close>.\<close>

definition dget :: "pydict \<Rightarrow> string \<Rightarrow> pyval" where
  "dget d k = (case map_of d k of None \<Rightarrow> PNone | Some v \<Rightarrow> v)"

definition dget_or :: "pydict \<Rightarrow> string \<Rightarrow> pyval \<Rightarrow> pyval" where
  "dget_or d k x = (case map_of d k of None \<Rightarrow> x | Some v \<Rightarrow> v)"

definition dhas :: "pydict \<Rightarrow> string \<Rightarrow> bool" where
  "dhas d k = (k \<in> fst ` set d)"

text \<open>\<open>set(d) == fields\<close>.\<close>

definition fields_are :: "pydict \<Rightarrow> string list \<Rightarrow> bool" where
  "fields_are d ks = (list_all (\<lambda>(k, v). List.member ks k) d \<and> list_all (\<lambda>k. dhas d k) ks)"

lemma map_of_dput [simp]: "map_of (dput k v d) = (map_of d)(k \<mapsto> v)"
  by (induction d) auto

lemma keys_dput: "fst ` set (dput k v d) = insert k (fst ` set d)"
proof -
  have "dom (map_of (dput k v d)) = insert k (dom (map_of d))" by simp
  then show ?thesis by (simp only: dom_map_of_conv_image_fst)
qed

lemma distinct_dput: "distinct (map fst d) \<Longrightarrow> distinct (map fst (dput k v d))"
proof (induction d)
  case Nil
  then show ?case by simp
next
  case (Cons p d)
  then show ?case by (cases p) (auto simp: keys_dput)
qed

lemma dupdate_Nil [simp]: "dupdate d [] = d"
  by (simp add: dupdate_def)

lemma dupdate_Cons [simp]: "dupdate d ((k, v) # e) = dupdate (dput k v d) e"
  by (simp add: dupdate_def)

lemma map_of_dupdate:
  "distinct (map fst e) \<Longrightarrow> map_of (dupdate d e) = map_of d ++ map_of e"
proof (induction e arbitrary: d)
  case Nil
  then show ?case by simp
next
  case (Cons p e)
  obtain k v where p: "p = (k, v)" by (cases p)
  with Cons have "map_of (dupdate d (p # e)) = (map_of d)(k \<mapsto> v) ++ map_of e"
    by simp
  moreover have "k \<notin> dom (map_of e)" using Cons.prems p by (simp add: dom_map_of_conv_image_fst)
  ultimately show ?case using p by (auto simp: fun_eq_iff map_add_def split: option.split)
qed

lemma fields_are_iff: "fields_are d ks \<longleftrightarrow> fst ` set d = set ks"
proof
  assume a: "fields_are d ks"
  show "fst ` set d = set ks"
    using a by (auto simp: fields_are_def dhas_def list_all_iff)
next
  assume eq: "fst ` set d = set ks"
  have "k \<in> set ks" if "(k, v) \<in> set d" for k v
    using eq that by (metis fst_conv image_eqI)
  then show "fields_are d ks" using eq by (auto simp: fields_are_def dhas_def list_all_iff)
qed

section \<open>Types, truth and conversions\<close>

fun is_str :: "pyval \<Rightarrow> bool" where
  "is_str (PStr s) = True"
| "is_str v = False"

fun is_dict :: "pyval \<Rightarrow> bool" where
  "is_dict (PDict d) = True"
| "is_dict v = False"

fun truthy :: "pyval \<Rightarrow> bool" where
  "truthy PNone = False"
| "truthy (PBool b) = b"
| "truthy (PInt i) = (i \<noteq> 0)"
| "truthy (PFloat x) = (x \<noteq> Fin 0)"
| "truthy (PStr s) = (s \<noteq> [])"
| "truthy (PList xs) = (xs \<noteq> [])"
| "truthy (PDict d) = (d \<noteq> [])"

text \<open>
  \<open>float("...")\<close>: an optional sign, decimal digits with an optional fraction and
  exponent, or the names of the special values, surrounded by white space. Underscores
  between digits are not modelled.
\<close>

definition digits_value :: "string \<Rightarrow> nat" where
  "digits_value s = foldl (\<lambda>n c. 10 * n + ((of_char c :: nat) - 48)) 0 s"

definition parse_unsigned_float :: "string \<Rightarrow> pyfloat option" where
  "parse_unsigned_float s =
     (let whole = takeWhile is_digit s; r1 = dropWhile is_digit s;
          dot = (r1 \<noteq> [] \<and> hd r1 = CHR ''.'');
          r2 = (if dot then tl r1 else r1);
          frac = (if dot then takeWhile is_digit r2 else []);
          r3 = (if dot then dropWhile is_digit r2 else r2);
          ex = (r3 \<noteq> [] \<and> lower_char (hd r3) = CHR ''e'');
          r4 = (if ex then tl r3 else r3);
          neg = (r4 \<noteq> [] \<and> hd r4 = CHR ''-'');
          r5 = (if ex \<and> r4 \<noteq> [] \<and> (hd r4 = CHR ''-'' \<or> hd r4 = CHR ''+'') then tl r4 else r4);
          e = (if neg then - int (digits_value r5) else int (digits_value r5));
          x = rat_of_nat (digits_value (whole @ frac)) * pow10 ((if ex then e else 0) - int (length frac))
      in if whole @ frac = [] then None
         else if ex \<and> (r5 = [] \<or> \<not> list_all is_digit r5) then None
         else if \<not> ex \<and> r3 \<noteq> [] then None
         else Some (dbl x))"

definition parse_float :: "string \<Rightarrow> pyfloat option" where
  "parse_float text =
     (let s = lower (strip text);
          neg = (s \<noteq> [] \<and> hd s = CHR ''-'');
          u = (if s \<noteq> [] \<and> (hd s = CHR ''-'' \<or> hd s = CHR ''+'') then tl s else s);
          r = (if u = ''inf'' \<or> u = ''infinity'' then Some PosInf
               else if u = ''nan'' then Some NaN else parse_unsigned_float u)
      in if neg then map_option fneg r else r)"

text \<open>\<open>float(v)\<close>, with the exceptions the built-in raises.\<close>

fun py_float :: "pyval \<Rightarrow> exn + pyfloat" where
  "py_float (PFloat x) = Inr x"
| "py_float (PBool b) = Inr (Fin (if b then 1 else 0))"
| "py_float (PInt i) = (case float_of_int i of
     Some x \<Rightarrow> Inr x | None \<Rightarrow> Inl (OverflowError ''int too large to convert to float''))"
| "py_float (PStr s) = (case parse_float s of
     Some x \<Rightarrow> Inr x | None \<Rightarrow> Inl (ValueError (''could not convert string to float: '' @ s)))"
| "py_float v = Inl (TypeError ''float() argument must be a string or a real number'')"

text \<open>Numbers by value: booleans are integers, and every finite float is a rational.\<close>

fun num_val :: "pyval \<Rightarrow> rat option" where
  "num_val (PBool b) = Some (if b then 1 else 0)"
| "num_val (PInt i) = Some (of_int i)"
| "num_val (PFloat (Fin x)) = Some x"
| "num_val v = None"

function py_eq :: "pyval \<Rightarrow> pyval \<Rightarrow> bool" where
  "py_eq PNone v = (v = PNone)"
| "py_eq (PStr s) v = (v = PStr s)"
| "py_eq (PList xs) v = (case v of PList ys \<Rightarrow>
     length xs = length ys \<and> list_all (\<lambda>(x, y). py_eq x y) (zip xs ys) | _ \<Rightarrow> False)"
| "py_eq (PDict d) v = (case v of PDict e \<Rightarrow>
     length d = length e \<and>
     list_all (\<lambda>(k, x). case map_of e k of None \<Rightarrow> False | Some y \<Rightarrow> py_eq x y) d | _ \<Rightarrow> False)"
| "py_eq (PBool b) v = (num_val v = num_val (PBool b))"
| "py_eq (PInt i) v = (num_val v = num_val (PInt i))"
| "py_eq (PFloat x) v =
     (case x of Fin r \<Rightarrow> num_val v = Some r | NaN \<Rightarrow> False | _ \<Rightarrow> v = PFloat x)"
  by pat_completeness auto
termination
proof (relation "measure (\<lambda>(x, y). size x)", goal_cases)
  case 1
  show ?case by simp
next
  case (2 xs v ys p x y)
  then have "x \<in> set xs" by (auto dest: set_zip_leftD)
  then show ?case by (simp add: size_list_estimation' less_Suc_eq_le)
next
  case (3 d v e p k x y)
  then have "(k, x) \<in> set d" by simp
  then have "size_prod (\<lambda>x. 0) size (k, x) \<le> size_list (size_prod (\<lambda>x. 0) size) d"
    by (rule size_list_estimation') simp
  then show ?case by simp
qed

section \<open>Canonical form and encoding\<close>

fun wf_val :: "pyval \<Rightarrow> bool" where
  "wf_val (PList xs) = list_all wf_val xs"
| "wf_val (PDict d) = (distinct (map fst d) \<and> list_all (\<lambda>(k, v). wf_val v) d)"
| "wf_val v = True"

fun canon :: "pyval \<Rightarrow> pyval" where
  "canon (PList xs) = PList (map canon xs)"
| "canon (PDict d) = PDict (sort_key fst (map (\<lambda>(k, v). (k, canon v)) d))"
| "canon v = v"

definition canon_dict :: "pydict \<Rightarrow> pydict" where
  "canon_dict d = sort_key fst (map (\<lambda>(k, v). (k, canon v)) d)"

lemma canon_PDict: "canon (PDict d) = PDict (canon_dict d)"
  by (simp add: canon_dict_def)

definition hex_digit :: "nat \<Rightarrow> char" where
  "hex_digit n = ''0123456789abcdef'' ! (n mod 16)"

definition json_char :: "char \<Rightarrow> string" where
  "json_char c = (let n = (of_char c :: nat) in
     if c = CHR 0x22 then [CHR 0x5C, CHR 0x22]
     else if c = CHR 0x5C then [CHR 0x5C, CHR 0x5C]
     else if n = 10 then CHR 0x5C # ''n'' else if n = 13 then CHR 0x5C # ''r''
     else if n = 9 then CHR 0x5C # ''t'' else if n = 8 then CHR 0x5C # ''b''
     else if n = 12 then CHR 0x5C # ''f''
     else if 32 \<le> n \<and> n \<le> 126 then [c]
     else CHR 0x5C # ''u00'' @ [hex_digit (n div 16), hex_digit n])"

definition json_string :: "string \<Rightarrow> string" where
  "json_string s = CHR 0x22 # concat (map json_char s) @ [CHR 0x22]"

fun dumps_canon :: "pyval \<Rightarrow> string" where
  "dumps_canon PNone = ''null''"
| "dumps_canon (PBool b) = (if b then ''true'' else ''false'')"
| "dumps_canon (PInt i) = dec_int i"
| "dumps_canon (PFloat x) = float_repr x"
| "dumps_canon (PStr s) = json_string s"
| "dumps_canon (PList xs) = ''['' @ join '','' (map dumps_canon xs) @ '']''"
| "dumps_canon (PDict d) =
     ''{'' @ join '','' (map (\<lambda>(k, v). json_string k @ '':'' @ dumps_canon v) d) @ ''}''"

definition dumps :: "pyval \<Rightarrow> string" where
  "dumps v = dumps_canon (canon v)"

lemma canon_canon_dict_keys: "set (map fst (canon_dict d)) = set (map fst d)"
  by (force simp: canon_dict_def)

lemma sorted_canon_dict: "sorted (map fst (canon_dict d))"
  by (simp add: canon_dict_def)

lemma distinct_canon_dict:
  "distinct (map fst d) \<Longrightarrow> distinct (map fst (canon_dict d))"
proof -
  assume d: "distinct (map fst d)"
  have "mset (map fst (canon_dict d)) = image_mset fst (mset (map (\<lambda>(k, v). (k, canon v)) d))"
    by (simp add: canon_dict_def)
  also have "\<dots> = mset (map fst d)"
    by (simp add: multiset.map_comp comp_def case_prod_beta)
  finally show ?thesis using d by (metis mset_eq_imp_distinct_iff)
qed

lemma canon_idem: "canon (canon v) = canon v"
proof (induction v rule: canon.induct)
  case (2 d)
  have eq: "map (\<lambda>(k, v). (k, canon v)) (canon_dict d) = canon_dict d"
    using 2 by (intro map_idI) (auto simp: canon_dict_def)
  have "sort_key fst (canon_dict d) = canon_dict d"
    by (intro sort_key_id_if_sorted sorted_canon_dict)
  with eq show ?case by (simp add: canon_PDict del: canon.simps) (simp add: canon_dict_def)
qed auto

lemma map_of_canon_dict:
  assumes "distinct (map fst d)"
  shows "map_of (canon_dict d) k = map_option canon (map_of d k)"
proof -
  have "distinct (map fst (map (\<lambda>(k, v). (k, canon v)) d))"
    using assms by (simp add: comp_def case_prod_beta)
  moreover have "set (canon_dict d) = set (map (\<lambda>(k, v). (k, canon v)) d)"
    by (simp add: canon_dict_def)
  ultimately have "map_of (canon_dict d) = map_of (map (\<lambda>(k, v). (k, canon v)) d)"
    using distinct_canon_dict [OF assms] by (metis map_of_inject_set)
  then show ?thesis by (simp add: map_of_map)
qed

lemma wf_canon: "wf_val v \<Longrightarrow> wf_val (canon v)"
proof (induction v rule: canon.induct)
  case (2 d)
  then have "distinct (map fst (canon_dict d))" by (simp add: distinct_canon_dict)
  moreover have "list_all (\<lambda>(k, v). wf_val v) (canon_dict d)"
    using 2 by (auto simp: canon_dict_def list_all_iff)
  ultimately show ?case by (simp add: canon_PDict del: canon.simps)
qed (auto simp: list_all_iff)

end
