(* ===== verification/Py_Time.thy ===== *)
theory Py_Time
  imports Py_Value
begin

text \<open>
  The part of \<open>datetime\<close> the runtime uses. An instant is the number of microseconds
  since 0001-01-01T00:00:00 UTC; a parsed timestamp is the local time in microseconds with
  the UTC offset, if it has one. \<open>iso_utc\<close> prints \<open>datetime.now(timezone.utc)\<close>,
  \<open>fromisoformat\<close> follows the CPython 3.12 parser: calendar and ISO-week dates, basic
  and extended forms, fractions and offsets.
\<close>

type_synonym instant = int
type_synonym datetime = "int \<times> int option"

section \<open>The calendar\<close>

definition is_leap :: "int \<Rightarrow> bool" where
  "is_leap y = (y mod 4 = 0 \<and> (y mod 100 \<noteq> 0 \<or> y mod 400 = 0))"

definition days_before_year :: "int \<Rightarrow> int" where
  "days_before_year year = (let y = year - 1 in y * 365 + y div 4 - y div 100 + y div 400)"

definition month_days :: "bool \<Rightarrow> int \<Rightarrow> int" where
  "month_days leap m = (if m = 2 then (if leap then 29 else 28)
     else if m = 4 \<or> m = 6 \<or> m = 9 \<or> m = 11 then 30 else 31)"

definition before_month :: "bool \<Rightarrow> int \<Rightarrow> int" where
  "before_month leap m =
     (if m \<le> 1 then 0 else if m = 2 then 31
      else (if leap then 1 else 0) +
        (if m = 3 then 59 else if m = 4 then 90 else if m = 5 then 120 else if m = 6 then 151
         else if m = 7 then 181 else if m = 8 then 212 else if m = 9 then 243
         else if m = 10 then 273 else if m = 11 then 304 else 334))"

definition ymd2ord :: "int \<Rightarrow> int \<Rightarrow> int \<Rightarrow> int" where
  "ymd2ord y m d = days_before_year y + before_month (is_leap y) m + d"

text \<open>The month and day of a zero-based day of the year.\<close>

definition month_day :: "bool \<Rightarrow> int \<Rightarrow> int \<times> int" where
  "month_day leap n =
     (let m = (n + 50) div 32;
          m' = (if before_month leap m > n then m - 1 else m)
      in (m', n - before_month leap m' + 1))"

definition ord2ymd :: "int \<Rightarrow> int \<times> int \<times> int" where
  "ord2ymd ord =
     (let n = ord - 1; n400 = n div 146097; a = n mod 146097;
          n100 = a div 36524; b = a mod 36524; n4 = b div 1461; c = b mod 1461;
          n1 = c div 365; r = c mod 365;
          year = n400 * 400 + 1 + n100 * 100 + n4 * 4 + n1
      in if n1 = 4 \<or> n100 = 4 then (year - 1, 12, 31)
         else (year, month_day (n1 = 3 \<and> (n4 \<noteq> 24 \<or> n100 = 3)) r))"

definition valid_date :: "int \<Rightarrow> int \<Rightarrow> int \<Rightarrow> bool" where
  "valid_date y m d = (1 \<le> y \<and> y \<le> 9999 \<and> 1 \<le> m \<and> m \<le> 12 \<and> 1 \<le> d \<and> d \<le> month_days (is_leap y) m)"

section \<open>Printing\<close>

definition usec_of_day :: int where
  "usec_of_day = 86400000000"

definition pad :: "nat \<Rightarrow> int \<Rightarrow> string" where
  "pad w i = padded w (nat i)"

definition iso_local :: "int \<Rightarrow> string" where
  "iso_local t =
     (let day = t div usec_of_day; u = t mod usec_of_day; (y, m, d) = ord2ymd (day + 1);
          s = u div 1000000; f = u mod 1000000
      in pad 4 y @ ''-'' @ pad 2 m @ ''-'' @ pad 2 d @ ''T'' @ pad 2 (s div 3600) @ '':'' @
         pad 2 (s div 60 mod 60) @ '':'' @ pad 2 (s mod 60) @
         (if f = 0 then [] else ''.'' @ pad 6 f))"

definition iso_offset :: "int \<Rightarrow> string" where
  "iso_offset off =
     (let a = \<bar>off\<bar>; s = a div 1000000; f = a mod 1000000
      in (if off < 0 then ''-'' else ''+'') @ pad 2 (s div 3600) @ '':'' @ pad 2 (s div 60 mod 60) @
         (if s mod 60 = 0 \<and> f = 0 then [] else '':'' @ pad 2 (s mod 60)) @
         (if f = 0 then [] else ''.'' @ pad 6 f))"

text \<open>\<open>datetime.isoformat()\<close>.\<close>

definition isoformat :: "datetime \<Rightarrow> string" where
  "isoformat dt = iso_local (fst dt) @ (case snd dt of None \<Rightarrow> [] | Some off \<Rightarrow> iso_offset off)"

definition iso_utc :: "instant \<Rightarrow> string" where
  "iso_utc t = iso_local t @ ''+00:00''"

lemma isoformat_utc: "isoformat (t, Some 0) = iso_utc t"
  by (simp add: isoformat_def iso_utc_def iso_offset_def pad_def digit_char_def numeral_2_eq_2)

text \<open>\<open>strftime("%Y-%m")\<close>: the period key of the monthly budgets.\<close>

definition year_month :: "instant \<Rightarrow> string" where
  "year_month t = (let (y, m, d) = ord2ymd (t div usec_of_day + 1) in pad 4 y @ ''-'' @ pad 2 m)"

section \<open>Parsing\<close>

definition take_digits :: "nat \<Rightarrow> string \<Rightarrow> (nat \<times> string) option" where
  "take_digits n s =
     (if length s < n \<or> \<not> list_all is_digit (take n s) then None
      else Some (digits_value (take n s), drop n s))"

definition find_separator :: "string \<Rightarrow> nat option" where
  "find_separator s =
     (let n = length s in
      if n = 7 then Some 7
      else if s ! 4 = CHR ''-'' then
        (if s ! 5 = CHR ''W'' then
           (if 8 < n \<and> s ! 8 = CHR ''-'' then
              (if n = 9 then None
               else if 10 < n \<and> is_digit (s ! 10) then Some 8 else Some 10)
            else Some 8)
         else Some 10)
      else if s ! 4 = CHR ''W'' then
        (let idx = 7 + length (takeWhile is_digit (drop 7 s))
         in if idx < 9 then Some idx else if even idx then Some 7 else Some 8)
      else Some 8)"

definition isoweek1monday :: "int \<Rightarrow> int" where
  "isoweek1monday y =
     (let first = ymd2ord y 1 1; wd = (first + 6) mod 7; monday = first - wd
      in if 3 < wd then monday + 7 else monday)"

definition isoweek_to_gregorian :: "int \<Rightarrow> int \<Rightarrow> int \<Rightarrow> (int \<times> int \<times> int) option" where
  "isoweek_to_gregorian y w d =
     (let first = ymd2ord y 1 1 mod 7;
          week_ok = (0 < w \<and> (w < 53 \<or> (w = 53 \<and> (first = 4 \<or> (first = 3 \<and> is_leap y)))))
      in if 1 \<le> y \<and> y \<le> 9999 \<and> week_ok \<and> 0 < d \<and> d < 8
         then Some (ord2ymd (isoweek1monday y + (w - 1) * 7 + (d - 1))) else None)"

definition parse_date :: "string \<Rightarrow> (int \<times> int \<times> int) option" where
  "parse_date s = (case take_digits 4 s of None \<Rightarrow> None | Some (y, r) \<Rightarrow>
     (let sep = (take 1 r = ''-''); r1 = (if sep then drop 1 r else r) in
      if take 1 r1 = ''W'' then
        (case take_digits 2 (drop 1 r1) of None \<Rightarrow> None | Some (w, r2) \<Rightarrow>
           if r2 = [] then isoweek_to_gregorian (int y) (int w) 1
           else if (take 1 r2 = ''-'') \<noteq> sep then None
           else (case take_digits 1 (if sep then drop 1 r2 else r2) of None \<Rightarrow> None
                 | Some (d, r3) \<Rightarrow> isoweek_to_gregorian (int y) (int w) (int d)))
      else
        (case take_digits 2 r1 of None \<Rightarrow> None | Some (m, r2) \<Rightarrow>
           if (take 1 r2 = ''-'') \<noteq> sep then None
           else (case take_digits 2 (if sep then drop 1 r2 else r2) of None \<Rightarrow> None
                 | Some (d, r3) \<Rightarrow> if r3 = [] then Some (int y, int m, int d) else None))))"

text \<open>\<open>HH[:?MM[:?SS[(.|,)f+]]]\<close>; the fraction is cut to six digits.\<close>

definition parse_fraction :: "string \<Rightarrow> int option" where
  "parse_fraction s =
     (if s = [] then Some 0
      else if hd s \<noteq> CHR ''.'' \<and> hd s \<noteq> CHR '','' then None
      else let f = tl s in
        if f = [] \<or> \<not> list_all is_digit f then None
        else Some (int (digits_value (take 6 (f @ replicate 5 (CHR ''0''))))))"

definition parse_clock :: "string \<Rightarrow> (int \<times> int \<times> int \<times> int) option" where
  "parse_clock s = (case take_digits 2 s of None \<Rightarrow> None | Some (h, r0) \<Rightarrow>
     (if r0 = [] then Some (int h, 0, 0, 0)
      else let sep = (hd r0 = CHR '':''); r1 = (if sep then tl r0 else r0) in
      case take_digits 2 r1 of None \<Rightarrow> None | Some (mi, r2) \<Rightarrow>
        if r2 = [] then Some (int h, int mi, 0, 0)
        else if sep \<and> hd r2 \<noteq> CHR '':'' then None
        else case take_digits 2 (if sep then tl r2 else r2) of None \<Rightarrow> None | Some (se, r3) \<Rightarrow>
          (case parse_fraction r3 of None \<Rightarrow> None
           | Some f \<Rightarrow> Some (int h, int mi, int se, f))))"

definition index_of :: "char \<Rightarrow> string \<Rightarrow> nat option" where
  "index_of c s = (let k = length (takeWhile (\<lambda>x. x \<noteq> c) s) in if k < length s then Some k else None)"

definition tz_position :: "string \<Rightarrow> nat option" where
  "tz_position s = (case index_of (CHR ''-'') s of Some k \<Rightarrow> Some k | None \<Rightarrow>
     (case index_of (CHR ''+'') s of Some k \<Rightarrow> Some k | None \<Rightarrow> index_of (CHR ''Z'') s))"

definition clock_usec :: "int \<times> int \<times> int \<times> int \<Rightarrow> int" where
  "clock_usec c = (case c of (h, mi, s, f) \<Rightarrow> ((h * 60 + mi) * 60 + s) * 1000000 + f)"

definition valid_clock :: "int \<times> int \<times> int \<times> int \<Rightarrow> bool" where
  "valid_clock c = (case c of (h, mi, s, f) \<Rightarrow> h < 24 \<and> mi < 60 \<and> s < 60)"

text \<open>The time of day in microseconds with its offset.\<close>

definition parse_time :: "string \<Rightarrow> (int \<times> int option) option" where
  "parse_time s =
     (case tz_position s of
        None \<Rightarrow> (case parse_clock s of None \<Rightarrow> None
                 | Some c \<Rightarrow> if valid_clock c then Some (clock_usec c, None) else None)
      | Some k \<Rightarrow>
          (case parse_clock (take k s) of None \<Rightarrow> None | Some c \<Rightarrow>
             if \<not> valid_clock c then None
             else if s ! k = CHR ''Z'' \<and> k + 1 = length s then Some (clock_usec c, Some 0)
             else let z = drop (k + 1) s in
               if length z = 0 \<or> length z = 1 \<or> length z = 3 then None
               else (case parse_clock z of None \<Rightarrow> None | Some t \<Rightarrow>
                 (let off = clock_usec t in
                  if usec_of_day \<le> off then None
                  else Some (clock_usec c, Some (if s ! k = CHR ''-'' then - off else off))))))"

definition parse_iso :: "string \<Rightarrow> datetime option" where
  "parse_iso s =
     (if length s < 7 then None
      else case find_separator s of None \<Rightarrow> None | Some k \<Rightarrow>
        (case parse_date (take k s) of None \<Rightarrow> None | Some (y, m, d) \<Rightarrow>
           if \<not> valid_date y m d then None
           else let base = (ymd2ord y m d - 1) * usec_of_day; t = drop (k + 1) s in
             if t = [] then Some (base, None)
             else (case parse_time t of None \<Rightarrow> None | Some (u, off) \<Rightarrow> Some (base + u, off))))"

definition fromisoformat :: "string \<Rightarrow> exn + datetime" where
  "fromisoformat s = (case parse_iso s of
     Some dt \<Rightarrow> Inr dt | None \<Rightarrow> Inl (ValueError (''Invalid isoformat string: '' @ s)))"

text \<open>\<open>datetime.fromisoformat(v)\<close> of any value: a value that is not a string is a TypeError.\<close>

fun fromisoformat_val :: "pyval \<Rightarrow> exn + datetime" where
  "fromisoformat_val (PStr s) = fromisoformat s"
| "fromisoformat_val v = Inl (TypeError ''fromisoformat: argument must be str'')"

definition is_aware :: "datetime \<Rightarrow> bool" where
  "is_aware dt = (snd dt \<noteq> None)"

text \<open>The instant of an aware timestamp; ordering a naive one against an aware one raises.\<close>

definition utc_of :: "datetime \<Rightarrow> exn + instant" where
  "utc_of dt = (case snd dt of
     None \<Rightarrow> Inl (TypeError ''can't compare offset-naive and offset-aware datetimes'')
   | Some off \<Rightarrow> Inr (fst dt - off))"

text \<open>
  \<open>a < b\<close>, \<open>a <= b\<close> of timestamps: two aware ones by instant, two naive ones by local
  time, and a mixed pair raises.
\<close>

definition dt_cmp :: "(int \<Rightarrow> int \<Rightarrow> bool) \<Rightarrow> datetime \<Rightarrow> datetime \<Rightarrow> exn + bool" where
  "dt_cmp rel a b = (case (snd a, snd b) of
     (Some x, Some y) \<Rightarrow> Inr (rel (fst a - x) (fst b - y))
   | (None, None) \<Rightarrow> Inr (rel (fst a) (fst b))
   | _ \<Rightarrow> Inl (TypeError ''can't compare offset-naive and offset-aware datetimes''))"

definition dt_lt :: "datetime \<Rightarrow> datetime \<Rightarrow> exn + bool" where
  "dt_lt = dt_cmp (<)"

definition dt_le :: "datetime \<Rightarrow> datetime \<Rightarrow> exn + bool" where
  "dt_le = dt_cmp (\<le>)"

text \<open>An aware UTC timestamp, as \<open>datetime.now(timezone.utc)\<close> returns it.\<close>

definition utc_dt :: "instant \<Rightarrow> datetime" where
  "utc_dt t = (t, Some 0)"

definition seconds :: "int \<Rightarrow> int" where
  "seconds n = n * 1000000"

text \<open>\<open>datetime + timedelta(seconds=n)\<close> of an aware UTC time: past year 1 or 9999 it raises.\<close>

definition max_instant :: instant where
  "max_instant = 3652059 * usec_of_day"

definition add_seconds :: "instant \<Rightarrow> int \<Rightarrow> exn + instant" where
  "add_seconds t n =
     (if 0 \<le> t + seconds n \<and> t + seconds n < max_instant then Inr (t + seconds n)
      else Inl (OverflowError ''date value out of range''))"

end
