(* ===== verification/Security.thy ===== *)
theory Security
  imports Py_Value
begin

text \<open>
  \<^verbatim>\<open>sean_os/security.py\<close>: the secret scan every durable input passes through, and
  the bounded text the runtime persists. The regular expressions are a small datatype
  with a list-of-successes matcher; a position is the previous character (for \<open>\b\<close>)
  and the remaining text.
\<close>

section \<open>Regular expressions\<close>

datatype rx =
    Cls "char \<Rightarrow> bool"
  | Lit string
  | LitNoCase string
  | Seq rx rx
  | Alt rx rx
  | Reps "char \<Rightarrow> bool" nat "nat option"
  | WordB

type_synonym rpos = "char option \<times> string"

definition word_at :: "char option \<Rightarrow> bool" where
  "word_at c = (case c of None \<Rightarrow> False | Some x \<Rightarrow> is_word x)"

definition next_char :: "string \<Rightarrow> char option" where
  "next_char s = (case s of [] \<Rightarrow> None | c # _ \<Rightarrow> Some c)"

text \<open>The positions after 0, 1, 2, ... characters of a class.\<close>

fun run_class :: "(char \<Rightarrow> bool) \<Rightarrow> char option \<Rightarrow> string \<Rightarrow> rpos list" where
  "run_class p c [] = [(c, [])]"
| "run_class p c (x # s) = (c, x # s) # (if p x then run_class p (Some x) s else [])"

definition after :: "string \<Rightarrow> rpos \<Rightarrow> rpos" where
  "after l q = (if l = [] then q else (Some (last l), drop (length l) (snd q)))"

fun rx_match :: "rx \<Rightarrow> rpos \<Rightarrow> rpos list" where
  "rx_match (Cls p) (c, s) = (case s of [] \<Rightarrow> [] | x # t \<Rightarrow> if p x then [(Some x, t)] else [])"
| "rx_match (Lit l) (c, s) = (if starts_with s l then [after l (c, s)] else [])"
| "rx_match (LitNoCase l) (c, s) =
     (if length l \<le> length s \<and> lower (take (length l) s) = lower l
      then [after (take (length l) s) (c, s)] else [])"
| "rx_match (Seq a b) q = concat (map (rx_match b) (rx_match a q))"
| "rx_match (Alt a b) q = rx_match a q @ rx_match b q"
| "rx_match (Reps p lo hi) (c, s) =
     (let ps = drop lo (run_class p c s)
      in case hi of None \<Rightarrow> ps | Some h \<Rightarrow> take (h + 1 - lo) ps)"
| "rx_match WordB (c, s) = (if word_at c \<noteq> word_at (next_char s) then [(c, s)] else [])"

text \<open>\<open>pattern.search(s)\<close> and \<open>pattern.fullmatch(s)\<close>.\<close>

fun rx_search_from :: "rx \<Rightarrow> char option \<Rightarrow> string \<Rightarrow> bool" where
  "rx_search_from r c [] = (rx_match r (c, []) \<noteq> [])"
| "rx_search_from r c (x # s) = (rx_match r (c, x # s) \<noteq> [] \<or> rx_search_from r (Some x) s)"

definition rx_search :: "rx \<Rightarrow> string \<Rightarrow> bool" where
  "rx_search r s = rx_search_from r None s"

definition rx_fullmatch :: "rx \<Rightarrow> string \<Rightarrow> bool" where
  "rx_fullmatch r s = list_ex (\<lambda>q. snd q = []) (rx_match r (None, s))"

definition alnum :: "char \<Rightarrow> bool" where
  "alnum c = (is_digit c \<or> is_upper c \<or> is_lower c)"

definition one_of :: "string \<Rightarrow> char \<Rightarrow> bool" where
  "one_of cs c = List.member cs c"

section \<open>The scan\<close>

definition SENSITIVE_KEYS :: "string list" where
  "SENSITIVE_KEYS = [
     ''password'', ''passphrase'', ''secret'', ''client_secret'', ''api_key'', ''access_token'',
     ''refresh_token'', ''recovery_code'', ''recovery_codes'', ''private_key'', ''account_number'',
     ''routing_number'', ''credential'', ''credentials'']"

definition SECRET_PATTERNS :: "(string \<times> rx) list" where
  "SECRET_PATTERNS = [
     (''private_key_block'',
        Seq (Lit ''-----BEGIN '') (Seq (Reps (\<lambda>c. is_upper c \<or> c = CHR '' '') 0 None)
          (Lit ''PRIVATE KEY-----''))),
     (''openai_style_key'',
        Seq WordB (Seq (Lit ''sk-'')
          (Seq (Reps (\<lambda>c. alnum c \<or> one_of ''_-'' c) 20 None) WordB))),
     (''aws_access_key'',
        Seq WordB (Seq (Lit ''AKIA'')
          (Seq (Reps (\<lambda>c. is_upper c \<or> is_digit c) 16 (Some 16)) WordB))),
     (''bearer_token'',
        Seq WordB (Seq (LitNoCase ''Bearer'') (Seq (Reps is_space 1 None)
          (Seq (Reps (\<lambda>c. alnum c \<or> one_of ''._~+/-'' c) 20 None)
            (Seq (Reps (\<lambda>c. c = CHR ''='') 0 (Some 2)) WordB)))))]"

datatype finding = Finding (f_path: string) (f_type: string)

definition normalized_key :: "string \<Rightarrow> string" where
  "normalized_key k = replace_char (CHR '' '') (CHR ''_'')
     (replace_char (CHR ''-'') (CHR ''_'') (lower (strip k)))"

definition scan_text :: "string \<Rightarrow> string \<Rightarrow> finding list" where
  "scan_text s path = map (\<lambda>p. Finding path (fst p)) (filter (\<lambda>p. rx_search (snd p) s) SECRET_PATTERNS)"

lemma enumerate_member: "(i, v) \<in> set (enumerate n xs) \<Longrightarrow> v \<in> set xs"
  by (metis image_eqI list.set_map map_snd_enumerate snd_conv)

lemma size_enumerate [termination_simp]:
  "(i, v) \<in> set (enumerate n xs) \<Longrightarrow> size v < Suc (size_list size xs)"
  by (meson enumerate_member le_imp_less_Suc order_refl size_list_estimation')

fun secret_findings_at :: "pyval \<Rightarrow> string \<Rightarrow> finding list" where
  "secret_findings_at (PDict d) path =
     concat (map (\<lambda>(k, v). let child = path @ ''.'' @ k in
       (if List.member SENSITIVE_KEYS (normalized_key k) then [Finding child ''sensitive_key''] else []) @
       secret_findings_at v child) d)"
| "secret_findings_at (PList xs) path =
     concat (map (\<lambda>(i, v). secret_findings_at v (path @ ''['' @ dec i @ '']'')) (enumerate 0 xs))"
| "secret_findings_at (PStr s) path = scan_text s path"
| "secret_findings_at v path = []"

definition secret_findings :: "pyval \<Rightarrow> finding list" where
  "secret_findings v = secret_findings_at v ''$''"

text \<open>\<open>safe_persisted_text(value)\<close> with its default fallback and length.\<close>

definition persisted_text :: "string \<Rightarrow> nat \<Rightarrow> string \<Rightarrow> string" where
  "persisted_text fallback max_length value =
     (let text = strip (join '' '' (split_ws value))
      in if text = [] \<or> secret_findings (PStr text) \<noteq> [] then fallback
         else take max_length text)"

definition safe_persisted_text :: "string \<Rightarrow> string" where
  "safe_persisted_text value = persisted_text ''Sensitive detail redacted'' 500 value"

definition safe_exception_summary :: "string \<Rightarrow> string \<Rightarrow> string" where
  "safe_exception_summary type_name context_text =
     persisted_text ''Runtime operation failed'' 500 (type_name @ '': '' @ context_text)"

section \<open>What a clean scan means\<close>

text \<open>
  The specification of the scan: a value is clean when no dict key at any depth
  normalises to a sensitive key and no string at any depth matches a secret pattern.
\<close>

fun clean_value :: "pyval \<Rightarrow> bool" where
  "clean_value (PDict d) =
     list_all (\<lambda>(k, v). \<not> List.member SENSITIVE_KEYS (normalized_key k) \<and> clean_value v) d"
| "clean_value (PList xs) = list_all clean_value xs"
| "clean_value (PStr s) = list_all (\<lambda>p. \<not> rx_search (snd p) s) SECRET_PATTERNS"
| "clean_value v = True"

lemma scan_text_empty_iff: "scan_text s path = [] \<longleftrightarrow> clean_value (PStr s)"
  by (auto simp: scan_text_def filter_empty_conv list_all_iff)

lemma secret_findings_at_empty_iff: "secret_findings_at v path = [] \<longleftrightarrow> clean_value v"
proof (induction v arbitrary: path rule: clean_value.induct)
  case (1 d)
  have "secret_findings_at (PDict d) path = [] \<longleftrightarrow>
      (\<forall>(k, v)\<in>set d. \<not> List.member SENSITIVE_KEYS (normalized_key k) \<and>
         secret_findings_at v (path @ ''.'' @ k) = [])"
    by (auto simp: Let_def split: if_splits)
  also have "\<dots> \<longleftrightarrow> clean_value (PDict d)"
    using 1 by (fastforce simp: list_all_iff)
  finally show ?case .
next
  case (2 xs)
  have "secret_findings_at (PList xs) path = [] \<longleftrightarrow>
      (\<forall>(i, v)\<in>set (enumerate 0 xs). secret_findings_at v (path @ ''['' @ dec i @ '']'') = [])"
    by auto
  also have "\<dots> \<longleftrightarrow> (\<forall>(i, v)\<in>set (enumerate 0 xs). clean_value v)"
    using 2 by (fastforce dest: enumerate_member)
  also have "\<dots> \<longleftrightarrow> (\<forall>v\<in>snd ` set (enumerate 0 xs). clean_value v)" by auto
  also have "snd ` set (enumerate 0 xs) = set xs"
    by (metis list.set_map map_snd_enumerate)
  finally show ?case by (simp add: list_all_iff)
next
  case (3 s)
  then show ?case by (simp only: secret_findings_at.simps scan_text_empty_iff)
qed auto

lemma secret_findings_empty_iff: "secret_findings v = [] \<longleftrightarrow> clean_value v"
  by (simp add: secret_findings_def secret_findings_at_empty_iff)

lemma clean_value_canon: "clean_value (canon v) = clean_value v"
proof (induction v rule: clean_value.induct)
  case (1 d)
  have "clean_value (canon (PDict d)) =
      (\<forall>(k, v)\<in>set d. \<not> List.member SENSITIVE_KEYS (normalized_key k) \<and> clean_value (canon v))"
    by (auto simp: list_all_iff)
  also have "\<dots> = clean_value (PDict d)"
    using 1 by (fastforce simp: list_all_iff)
  finally show ?case .
qed (auto simp: list_all_iff)

lemma clean_json: "clean_value (PDict (canon_dict d)) \<longleftrightarrow> clean_value (PDict d)"
  using clean_value_canon [of "PDict d"] by (simp only: canon_PDict)

end
