(* ===== verification/Store_State.thy ===== *)
theory Store_State
  imports Py_Time Security
begin

text \<open>
  The state of \<open>SeanOSStore\<close>: one SQLite connection. A table of
  \<^verbatim>\<open>sean_os/schema.sql\<close> is a list of row records in insertion order; a TEXT column
  that holds JSON is the value it encodes (in canonical key order), a REAL column is a
  float, a nullable column an option. Columns whose CHECK constraint lists the values the
  code writes are datatypes.

  The world also holds the committed database, whether a transaction is open (Python's
  sqlite3 opens one implicitly before a write), the open scope profile, and the sources
  the code reads: the clock, \<open>uuid4\<close> and SHA-256. Every call of \<open>now()\<close> or
  \<open>uuid4()\<close> takes the next element of its source. An insert tests the PRIMARY KEY and
  UNIQUE columns of its table; the audit log alone takes its event ids to be fresh.
\<close>

section \<open>Rows\<close>

record rec_row =
  rec_id :: string
  rec_type :: string
  rec_scope :: string
  rec_confidentiality :: string
  rec_portable :: bool
  rec_source :: string
  rec_locator :: "string option"
  rec_created_by :: string
  rec_created_at :: string
  rec_updated_at :: string
  rec_effective_at :: string
  rec_expires_at :: "string option"
  rec_confidence :: pyfloat
  rec_principals :: "string list"
  rec_retention :: string
  rec_payload :: pyval
  rec_version :: int

record rel_row =
  rel_id :: string
  rel_from :: string
  rel_type :: string
  rel_to :: string
  rel_created_at :: string

datatype project_status = PROJ_ACTIVE | PROJ_INCUBATOR | PROJ_PAUSED | PROJ_KILLED

record project_row =
  prj_id :: string
  prj_state :: project_status
  prj_reason :: string
  prj_review_at :: "string option"
  prj_reopen :: "string option"
  prj_changed_at :: string

datatype approval_status = AP_PENDING | AP_APPROVED | AP_DENIED | AP_EXPIRED | AP_CONSUMED

record approval_row =
  ap_id :: string
  ap_action :: string
  ap_target :: string
  ap_scope :: string
  ap_impact :: string
  ap_conditions :: pyval
  ap_approver :: string
  ap_status :: approval_status
  ap_expires_at :: string
  ap_reusable :: bool

datatype audit_result = AU_ALLOWED | AU_DENIED | AU_FAILED

record audit_row =
  au_event :: string
  au_at :: string
  au_actor :: string
  au_action :: string
  au_result :: audit_result
  au_reason :: string
  au_record :: "string option"
  au_correlation :: string
  au_details :: pyval

datatype work_status = WK_QUEUED | WK_RUNNING | WK_SUCCEEDED | WK_FAILED | WK_DEAD_LETTER
  | WK_BUDGET_BLOCKED | WK_APPROVAL_BLOCKED | WK_POLICY_BLOCKED

record work_row =
  wk_id :: string
  wk_type :: string
  wk_scope :: string
  wk_payload :: pyval
  wk_status :: work_status
  wk_priority :: int
  wk_attempts :: int
  wk_max :: int
  wk_available_at :: string
  wk_owner :: "string option"
  wk_lease :: "string option"
  wk_error :: "string option"
  wk_created_at :: string
  wk_updated_at :: string

record runtime_row =
  rt_key :: string
  rt_value :: string
  rt_updated_at :: string

record budget_row =
  bg_scope :: string
  bg_period :: string
  bg_limit :: pyfloat
  bg_used :: pyfloat
  bg_reserved :: pyfloat
  bg_updated_at :: string

record reservation_row =
  rs_work :: string
  rs_scope :: string
  rs_period :: string
  rs_units :: pyfloat
  rs_created_at :: string

record usage_row =
  us_id :: string
  us_work :: string
  us_scope :: string
  us_period :: string
  us_units :: pyfloat
  us_at :: string

record heartbeat_row =
  hb_worker :: string
  hb_scope :: string
  hb_status :: string
  hb_work :: "string option"
  hb_seen_at :: string
  hb_details :: pyval

record dispatch_row =
  sd_name :: string
  sd_period :: string
  sd_work :: string
  sd_at :: string

record execution_row =
  ex_work :: string
  ex_type :: string
  ex_result :: pyval
  ex_at :: string

record command_row =
  cq_id :: string
  cq_external :: string
  cq_sha256 :: string
  cq_by :: string
  cq_scope :: string
  cq_type :: string
  cq_work :: string
  cq_at :: string

record coding_request_row =
  cd_external :: "string option"
  cd_sha256 :: string
  cd_work :: string
  cd_at :: string

text \<open>The gates of the connectors, and what imports, deliveries and reports leave.\<close>

record connector_row =
  cn_name :: string
  cn_enabled :: bool
  cn_mode :: string
  cn_updated_at :: string
  cn_updated_by :: string

record import_row =
  im_connector :: string
  im_external :: string
  im_sha256 :: string
  im_record :: string
  im_at :: string

record coding_row =
  cg_delivery :: string
  cg_external :: string
  cg_sha256 :: string
  cg_project :: string
  cg_task :: string
  cg_repository :: string
  cg_base :: string
  cg_branch :: string
  cg_review :: string
  cg_record :: string
  cg_status :: string
  cg_activity :: int
  cg_cost :: pyfloat
  cg_at :: string

record report_row =
  rp_id :: string
  rp_cadence :: string
  rp_period :: string
  rp_scope :: string
  rp_record :: string
  rp_at :: string

record activation_row =
  ac_plan :: string
  ac_sha256 :: string
  ac_format :: string
  ac_commit :: string
  ac_mode :: string
  ac_backup_sha256 :: string
  ac_backup_bytes :: int
  ac_payload :: pyval
  ac_network :: bool
  ac_key :: bool
  ac_secret :: bool
  ac_upload :: bool
  ac_restore :: bool
  ac_real :: bool
  ac_at :: string

record observation_row =
  ob_plan :: string
  ob_scope :: string
  ob_route :: string
  ob_payload :: pyval
  ob_first_at :: string
  ob_last_at :: string
  ob_count :: int
  ob_ack :: "pyval option"
  ob_ack_at :: "string option"
  ob_ack_by :: "string option"

datatype incident_status = INC_ACTIVE | INC_RESOLVED

record incident_row =
  ic_id :: string
  ic_scope :: string
  ic_route :: string
  ic_code :: string
  ic_severity :: string
  ic_summary :: string
  ic_status :: incident_status
  ic_first_at :: string
  ic_last_at :: string
  ic_count :: int
  ic_reopens :: int
  ic_resolved_at :: "string option"
  ic_resolved_by :: "string option"
  ic_resolution :: "string option"

text \<open>
  The three outboxes share the columns of an approval-gated, leased item.
\<close>

datatype outbox_status = OB_STAGED | OB_PREFLIGHT | OB_AUTHORIZED | OB_DONE | OB_FAILED
  | OB_RECONCILE

record outbox_row =
  bx_id :: string
  bx_scope :: string
  bx_status :: outbox_status
  bx_approval :: "string option"
  bx_attempts :: int
  bx_max :: int
  bx_available_at :: string
  bx_owner :: "string option"
  bx_lease :: "string option"
  bx_error :: "string option"
  bx_receipt :: "pyval option"
  bx_created_at :: string
  bx_updated_at :: string
  bx_done_at :: "string option"

record delivery_row = outbox_row +
  dl_plan :: string
  dl_incident :: string
  dl_generation :: int
  dl_route :: string
  dl_kind :: string
  dl_destination :: string
  dl_alert :: pyval
  dl_sha256 :: string

record transfer_row = outbox_row +
  tr_target :: string
  tr_proposal :: string
  tr_plan :: pydict
  tr_preflight :: "pyval option"

record restore_row = outbox_row +
  rr_target :: string
  rr_upload_plan :: string
  rr_upload_receipt :: string
  rr_key_proposal :: string
  rr_plan :: pydict
  rr_preflight :: "pyval option"

section \<open>The database and the world\<close>

record db =
  db_records :: "rec_row list"
  db_links :: "rel_row list"
  db_projects :: "project_row list"
  db_approvals :: "approval_row list"
  db_audit :: "audit_row list"
  db_work :: "work_row list"
  db_runtime :: "runtime_row list"
  db_budgets :: "budget_row list"
  db_reservations :: "reservation_row list"
  db_usage :: "usage_row list"
  db_heartbeats :: "heartbeat_row list"
  db_dispatches :: "dispatch_row list"
  db_executions :: "execution_row list"
  db_commands :: "command_row list"
  db_coding_requests :: "coding_request_row list"
  db_observations :: "observation_row list"
  db_incidents :: "incident_row list"
  db_deliveries :: "delivery_row list"
  db_transfers :: "transfer_row list"
  db_restores :: "restore_row list"
  db_connectors :: "connector_row list"
  db_imports :: "import_row list"
  db_codings :: "coding_row list"
  db_reports :: "report_row list"
  db_activations :: "activation_row list"

record world =
  w_db :: db
  w_committed :: db
  w_in_tx :: bool
  w_profile :: string
  w_clock :: "nat \<Rightarrow> instant"
  w_tick :: nat
  w_uuid :: "nat \<Rightarrow> string"
  w_fresh :: nat
  w_sha256 :: "string \<Rightarrow> string"

type_synonym 'a py = "(world, 'a) act"

text \<open>A database just created by \<open>schema.sql\<close>: the two runtime_state rows and the disabled connectors.\<close>

definition initial_runtime :: "runtime_row list" where
  "initial_runtime = [
     \<lparr>rt_key = ''kill_switch'', rt_value = ''OFF'', rt_updated_at = ''1970-01-01T00:00:00+00:00''\<rparr>,
     \<lparr>rt_key = ''scope_profile'', rt_value = ''UNBOUND'', rt_updated_at = ''1970-01-01T00:00:00+00:00''\<rparr>]"

definition initial_connector :: "string \<Rightarrow> string \<Rightarrow> connector_row" where
  "initial_connector name mode = \<lparr>cn_name = name, cn_enabled = False, cn_mode = mode,
     cn_updated_at = ''1970-01-01T00:00:00+00:00'', cn_updated_by = ''system''\<rparr>"

definition initial_connectors :: "connector_row list" where
  "initial_connectors = initial_connector ''CLAUDE_IMPORT'' ''SYNTHETIC_ONLY'' #
     map (\<lambda>n. initial_connector n ''LIVE'')
       [''EMAIL'', ''CALENDAR'', ''SHOPVOX'', ''QUICKBOOKS_ONLINE'', ''QNAP'', ''RBC_READ_ONLY'']"

definition empty_db :: db where
  "empty_db = \<lparr>db_records = [], db_links = [], db_projects = [], db_approvals = [], db_audit = [],
     db_work = [], db_runtime = initial_runtime, db_budgets = [], db_reservations = [],
     db_usage = [], db_heartbeats = [], db_dispatches = [], db_executions = [],
     db_commands = [], db_coding_requests = [], db_observations = [], db_incidents = [],
     db_deliveries = [], db_transfers = [], db_restores = [], db_connectors = initial_connectors,
     db_imports = [], db_codings = [], db_reports = [], db_activations = []\<rparr>"

section \<open>Statements\<close>

definition table :: "(db \<Rightarrow> 'a) \<Rightarrow> 'a py" where
  "table sel = reads (\<lambda>w. sel (w_db w))"

definition put_db :: "(db \<Rightarrow> db) \<Rightarrow> world \<Rightarrow> world" where
  "put_db f w = w\<lparr>w_in_tx := True, w_db := f (w_db w)\<rparr>"

definition dml :: "(db \<Rightarrow> db) \<Rightarrow> unit py" where
  "dml f = modify (put_db f)"

text \<open>A statement that a constraint rejects opens the transaction and changes nothing.\<close>

definition reject :: "string \<Rightarrow> 'a py" where
  "reject m = seq (dml id) (raise (IntegrityError m))"

definition sql_insert :: "(('r list \<Rightarrow> 'r list) \<Rightarrow> db \<Rightarrow> db) \<Rightarrow> 'r \<Rightarrow> unit py" where
  "sql_insert put r = dml (put (\<lambda>rows. rows @ [r]))"

text \<open>An \<open>INSERT\<close> into a table whose PRIMARY KEY or UNIQUE columns are \<open>key\<close>.\<close>

definition sql_insert_new ::
  "(db \<Rightarrow> 'r list) \<Rightarrow> (('r list \<Rightarrow> 'r list) \<Rightarrow> db \<Rightarrow> db) \<Rightarrow> ('r \<Rightarrow> 'k) \<Rightarrow> 'r \<Rightarrow> unit py" where
  "sql_insert_new sel put key r =
     bind (table sel) (\<lambda>rows.
       if list_ex (\<lambda>x. key x = key r) rows then reject ''UNIQUE constraint failed''
       else sql_insert put r)"

text \<open>\<open>UPDATE ... WHERE\<close>, returning \<open>cursor.rowcount\<close>.\<close>

definition sql_update ::
  "(db \<Rightarrow> 'r list) \<Rightarrow> (('r list \<Rightarrow> 'r list) \<Rightarrow> db \<Rightarrow> db) \<Rightarrow> ('r \<Rightarrow> bool) \<Rightarrow> ('r \<Rightarrow> 'r) \<Rightarrow> nat py" where
  "sql_update sel put p f =
     bind (reads (\<lambda>w. count_where p (sel (w_db w))))
       (\<lambda>n. seq (dml (put (update_where p f))) (ret n))"

definition begin_world :: "world \<Rightarrow> world" where
  "begin_world w = w\<lparr>w_in_tx := True\<rparr>"

definition commit_world :: "world \<Rightarrow> world" where
  "commit_world w = w\<lparr>w_committed := w_db w, w_in_tx := False\<rparr>"

definition rollback_world :: "world \<Rightarrow> world" where
  "rollback_world w = w\<lparr>w_db := w_committed w, w_in_tx := False\<rparr>"

definition commit :: "unit py" where
  "commit = modify commit_world"

definition rollback :: "unit py" where
  "rollback = modify rollback_world"

definition begin_immediate :: "unit py" where
  "begin_immediate = bind (reads w_in_tx) (\<lambda>busy.
     if busy then raise (OperationalError ''cannot start a transaction within a transaction'')
     else modify begin_world)"

definition tick_world :: "world \<Rightarrow> world" where
  "tick_world w = w\<lparr>w_tick := Suc (w_tick w)\<rparr>"

definition fresh_world :: "world \<Rightarrow> world" where
  "fresh_world w = w\<lparr>w_fresh := Suc (w_fresh w)\<rparr>"

text \<open>\<open>datetime.now(timezone.utc)\<close>, \<open>now()\<close>, \<open>current_period()\<close> and \<open>str(uuid.uuid4())\<close>.\<close>

definition now_instant :: "instant py" where
  "now_instant = bind (reads (\<lambda>w. w_clock w (w_tick w))) (\<lambda>t. seq (modify tick_world) (ret t))"

definition now :: "string py" where
  "now = bind now_instant (\<lambda>t. ret (iso_utc t))"

definition current_period :: "string py" where
  "current_period = bind now_instant (\<lambda>t. ret (year_month t))"

definition uuid4 :: "string py" where
  "uuid4 = bind (reads (\<lambda>w. w_uuid w (w_fresh w))) (\<lambda>u. seq (modify fresh_world) (ret u))"

text \<open>\<open>hashlib.sha256(text.encode("utf-8")).hexdigest()\<close>.\<close>

definition sha256 :: "string \<Rightarrow> string py" where
  "sha256 s = reads (\<lambda>w. w_sha256 w s)"

section \<open>Stepping through statements\<close>

lemma wp_table [py_wp]: "wp (table sel) Q E w = Q (sel (w_db w)) w"
  by (simp add: table_def py_wp)

lemma wp_dml [py_wp]: "wp (dml f) Q E w = Q () (put_db f w)"
  by (simp add: dml_def py_wp)

lemma wp_reject [py_wp]: "wp (reject m) Q E w = E (IntegrityError m) (put_db id w)"
  by (simp add: reject_def py_wp)

lemma wp_sql_insert [py_wp]:
  "wp (sql_insert put r) Q E w = Q () (put_db (put (\<lambda>rows. rows @ [r])) w)"
  by (simp add: sql_insert_def py_wp)

lemma wp_sql_insert_new [py_wp]:
  "wp (sql_insert_new sel put key r) Q E w =
     (if list_ex (\<lambda>x. key x = key r) (sel (w_db w))
      then E (IntegrityError ''UNIQUE constraint failed'') (put_db id w)
      else Q () (put_db (put (\<lambda>rows. rows @ [r])) w))"
  by (simp add: sql_insert_new_def py_wp)

lemma wp_sql_update [py_wp]:
  "wp (sql_update sel put p f) Q E w =
     Q (count_where p (sel (w_db w))) (put_db (put (update_where p f)) w)"
  by (simp add: sql_update_def py_wp)

lemma wp_commit [py_wp]: "wp commit Q E w = Q () (commit_world w)"
  by (simp add: commit_def py_wp)

lemma wp_rollback [py_wp]: "wp rollback Q E w = Q () (rollback_world w)"
  by (simp add: rollback_def py_wp)

lemma wp_begin_immediate [py_wp]:
  "wp begin_immediate Q E w =
     (if w_in_tx w then E (OperationalError ''cannot start a transaction within a transaction'') w
      else Q () (begin_world w))"
  by (simp add: begin_immediate_def py_wp)

lemma wp_now_instant [py_wp]: "wp now_instant Q E w = Q (w_clock w (w_tick w)) (tick_world w)"
  by (simp add: now_instant_def py_wp)

lemma wp_now [py_wp]: "wp now Q E w = Q (iso_utc (w_clock w (w_tick w))) (tick_world w)"
  by (simp add: now_def py_wp)

lemma wp_current_period [py_wp]:
  "wp current_period Q E w = Q (year_month (w_clock w (w_tick w))) (tick_world w)"
  by (simp add: current_period_def py_wp)

lemma wp_uuid4 [py_wp]: "wp uuid4 Q E w = Q (w_uuid w (w_fresh w)) (fresh_world w)"
  by (simp add: uuid4_def py_wp)

lemma wp_sha256 [py_wp]: "wp (sha256 s) Q E w = Q (w_sha256 w s) w"
  by (simp add: sha256_def py_wp)

lemma world_simps [simp]:
  "w_db (put_db f w) = f (w_db w)" "w_committed (put_db f w) = w_committed w"
  "w_in_tx (put_db f w)" "w_profile (put_db f w) = w_profile w"
  "w_db (begin_world w) = w_db w" "w_committed (begin_world w) = w_committed w"
  "w_in_tx (begin_world w)" "w_profile (begin_world w) = w_profile w"
  "w_db (commit_world w) = w_db w" "w_committed (commit_world w) = w_db w"
  "\<not> w_in_tx (commit_world w)" "w_profile (commit_world w) = w_profile w"
  "w_db (rollback_world w) = w_committed w" "w_committed (rollback_world w) = w_committed w"
  "\<not> w_in_tx (rollback_world w)" "w_profile (rollback_world w) = w_profile w"
  "w_db (tick_world w) = w_db w" "w_committed (tick_world w) = w_committed w"
  "w_in_tx (tick_world w) = w_in_tx w" "w_profile (tick_world w) = w_profile w"
  "w_db (fresh_world w) = w_db w" "w_committed (fresh_world w) = w_committed w"
  "w_in_tx (fresh_world w) = w_in_tx w" "w_profile (fresh_world w) = w_profile w"
  by (simp_all add: put_db_def begin_world_def commit_world_def rollback_world_def
      tick_world_def fresh_world_def)

lemma source_simps [simp]:
  "w_clock (put_db f w) = w_clock w" "w_clock (begin_world w) = w_clock w"
  "w_clock (commit_world w) = w_clock w" "w_clock (rollback_world w) = w_clock w"
  "w_clock (tick_world w) = w_clock w" "w_clock (fresh_world w) = w_clock w"
  "w_uuid (put_db f w) = w_uuid w" "w_uuid (begin_world w) = w_uuid w"
  "w_uuid (commit_world w) = w_uuid w" "w_uuid (rollback_world w) = w_uuid w"
  "w_uuid (tick_world w) = w_uuid w" "w_uuid (fresh_world w) = w_uuid w"
  "w_sha256 (put_db f w) = w_sha256 w" "w_sha256 (begin_world w) = w_sha256 w"
  "w_sha256 (commit_world w) = w_sha256 w" "w_sha256 (rollback_world w) = w_sha256 w"
  "w_sha256 (tick_world w) = w_sha256 w" "w_sha256 (fresh_world w) = w_sha256 w"
  "w_tick (put_db f w) = w_tick w" "w_tick (begin_world w) = w_tick w"
  "w_tick (commit_world w) = w_tick w" "w_tick (rollback_world w) = w_tick w"
  "w_tick (tick_world w) = Suc (w_tick w)" "w_tick (fresh_world w) = w_tick w"
  "w_fresh (put_db f w) = w_fresh w" "w_fresh (begin_world w) = w_fresh w"
  "w_fresh (commit_world w) = w_fresh w" "w_fresh (rollback_world w) = w_fresh w"
  "w_fresh (tick_world w) = w_fresh w" "w_fresh (fresh_world w) = Suc (w_fresh w)"
  by (simp_all add: put_db_def begin_world_def commit_world_def rollback_world_def
      tick_world_def fresh_world_def)

section \<open>Readers\<close>

text \<open>A reader may fail or consume a clock tick, but leaves both databases as they are.\<close>

definition reader :: "'a py \<Rightarrow> bool" where
  "reader m \<longleftrightarrow> (\<forall>w. w_db (snd (m w)) = w_db w \<and> w_committed (snd (m w)) = w_committed w \<and>
     w_profile (snd (m w)) = w_profile w)"

lemma reader_ret: "reader (ret x)"
  by (simp add: reader_def ret_def)

lemma reader_raise: "reader (raise e)"
  by (simp add: reader_def raise_def)

lemma reader_raise_if: "reader (raise_if c e)"
  by (simp add: reader_def raise_if_def raise_def ret_def)

lemma reader_reads: "reader (reads f)"
  by (simp add: reader_def reads_def)

lemma reader_table: "reader (table sel)"
  unfolding table_def by (rule reader_reads)

lemma reader_lift_result: "reader (lift_result r)"
  by (simp add: reader_def lift_result_def)

lemma reader_bind: "reader m \<Longrightarrow> (\<And>x. reader (f x)) \<Longrightarrow> reader (bind m f)"
  unfolding reader_def bind_def
  by (smt (verit) prod.case_eq_if snd_conv sum.case_eq_if prod.collapse)

lemma reader_seq: "reader m \<Longrightarrow> reader n \<Longrightarrow> reader (seq m n)"
  unfolding seq_def by (rule reader_bind)

lemma reader_try: "reader m \<Longrightarrow> (\<And>e. reader (h e)) \<Longrightarrow> reader (try_except m h)"
  unfolding reader_def try_except_def
  by (smt (verit) prod.case_eq_if snd_conv sum.case_eq_if prod.collapse)

lemma reader_if:
  "(c \<Longrightarrow> reader m) \<Longrightarrow> (\<not> c \<Longrightarrow> reader n) \<Longrightarrow> reader (if c then m else n)"
  by simp

lemma reader_option:
  "reader m \<Longrightarrow> (\<And>y. reader (f y)) \<Longrightarrow> reader (case x of None \<Rightarrow> m | Some y \<Rightarrow> f y)"
  by (cases x) auto

lemma reader_prod: "(\<And>a b. reader (f a b)) \<Longrightarrow> reader (case p of (a, b) \<Rightarrow> f a b)"
  by (cases p) auto

lemma reader_let: "reader (f t) \<Longrightarrow> reader (let x = t in f x)"
  by simp

lemma reader_begin_immediate: "reader begin_immediate"
  by (simp add: reader_def begin_immediate_def bind_def reads_def raise_def modify_def)

lemma reader_now_instant: "reader now_instant"
  by (simp add: reader_def now_instant_def bind_def seq_def reads_def ret_def modify_def)

lemma reader_now: "reader now"
  unfolding now_def by (intro reader_bind reader_now_instant reader_ret)

lemma reader_current_period: "reader current_period"
  unfolding current_period_def by (intro reader_bind reader_now_instant reader_ret)

lemma reader_uuid4: "reader uuid4"
  by (simp add: reader_def uuid4_def bind_def seq_def reads_def ret_def modify_def)

lemma reader_sha256: "reader (sha256 s)"
  unfolding sha256_def by (rule reader_reads)

lemma reader_collect: "(\<And>x. reader (f x)) \<Longrightarrow> reader (collect xs f)"
  by (induction xs) (auto intro: reader_ret reader_bind)

lemmas reader_intros =
  reader_ret reader_raise reader_raise_if reader_reads reader_table reader_lift_result
  reader_bind reader_seq reader_try reader_if reader_option reader_prod reader_let
  reader_begin_immediate reader_now_instant reader_now reader_current_period reader_uuid4
  reader_sha256 reader_collect

section \<open>Histories\<close>

text \<open>
  The interface for "a table only ever changes this way". A view of the database and a
  preorder on it: as long as the uncommitted database extends the committed one, an action
  that writes along the preorder extends both, whatever it commits or rolls back.
\<close>

locale history =
  fixes view :: "db \<Rightarrow> 'v" and le :: "'v \<Rightarrow> 'v \<Rightarrow> bool"
  assumes le_refl: "le v v"
    and le_trans: "le u v \<Longrightarrow> le v w \<Longrightarrow> le u w"
begin

definition coherent :: "world \<Rightarrow> bool" where
  "coherent w \<longleftrightarrow> le (view (w_committed w)) (view (w_db w))"

definition evolves :: "world \<Rightarrow> world \<Rightarrow> bool" where
  "evolves w w' \<longleftrightarrow> w_profile w' = w_profile w \<and> (coherent w \<longrightarrow>
     coherent w' \<and> le (view (w_committed w)) (view (w_committed w')))"

lemma evolves_refl: "evolves w w"
  by (simp add: evolves_def le_refl)

lemma evolves_trans: "evolves u v \<Longrightarrow> evolves v w \<Longrightarrow> evolves u w"
  unfolding evolves_def using le_trans by metis

lemma evolves_put_db_at: "le (view (w_db w)) (view (f (w_db w))) \<Longrightarrow> evolves w (put_db f w)"
  unfolding evolves_def coherent_def using le_trans le_refl by (metis world_simps(1,2,4))

lemma evolves_put_db: "(\<And>d. le (view d) (view (f d))) \<Longrightarrow> evolves w (put_db f w)"
  by (rule evolves_put_db_at)

lemma evolves_commit: "evolves w (commit_world w)"
  by (simp add: evolves_def coherent_def le_refl)

lemma evolves_rollback: "evolves w (rollback_world w)"
  by (simp add: evolves_def coherent_def le_refl)

lemma evolves_other:
  "evolves w (begin_world w)" "evolves w (tick_world w)" "evolves w (fresh_world w)"
  by (simp_all add: evolves_def coherent_def le_refl)

end

sublocale history \<subseteq> frame: frame_relation evolves
  by unfold_locales (fact evolves_refl, rule evolves_trans)

context history
begin

text \<open>
  The proof rules of a history follow the statements of an action. \<open>lawful prof P m\<close>:
  run with the scope profile \<open>prof\<close> on a database that satisfies P, the action
  evolves the world. What a SELECT returned stays known until the next write.
\<close>

definition lawful :: "string \<Rightarrow> (db \<Rightarrow> bool) \<Rightarrow> 'a py \<Rightarrow> bool" where
  "lawful prof P m \<longleftrightarrow> (\<forall>w. w_profile w = prof \<longrightarrow> P (w_db w) \<longrightarrow> evolves w (snd (m w)))"

abbreviation legal :: "string \<Rightarrow> 'a py \<Rightarrow> bool" where
  "legal prof m \<equiv> lawful prof (\<lambda>_. True) m"

lemma lawful_mono: "legal prof m \<Longrightarrow> lawful prof P m"
  by (simp add: lawful_def)

lemma lawful_ret: "lawful prof P (ret x)"
  by (simp add: lawful_def ret_def evolves_refl)

lemma lawful_raise: "lawful prof P (raise e)"
  by (simp add: lawful_def raise_def evolves_refl)

lemma lawful_reader: "reader m \<Longrightarrow> lawful prof P m"
  by (simp add: lawful_def reader_def evolves_def coherent_def le_refl)

lemma lawful_bind_reader:
  "reader m \<Longrightarrow> (\<And>x. lawful prof P (f x)) \<Longrightarrow> lawful prof P (bind m f)"
  unfolding lawful_def
proof (intro allI impI)
  fix w :: world
  assume r: "reader m" and f: "\<And>x. \<forall>w. w_profile w = prof \<longrightarrow> P (w_db w) \<longrightarrow> evolves w (snd (f x w))"
    and w: "w_profile w = prof" "P (w_db w)"
  obtain a v where m: "m w = (a, v)" by (cases "m w")
  have v: "w_db v = w_db w" "w_profile v = w_profile w" "evolves w v"
    using r m unfolding reader_def evolves_def coherent_def using le_refl by (metis snd_conv)+
  show "evolves w (snd (bind m f w))"
    using m v w f by (auto simp: bind_def split: sum.split intro: evolves_trans)
qed

lemma lawful_seq_reader: "reader m \<Longrightarrow> lawful prof P n \<Longrightarrow> lawful prof P (seq m n)"
  unfolding seq_def by (rule lawful_bind_reader)

lemma lawful_table:
  "(\<And>x. lawful prof (\<lambda>d. P d \<and> sel d = x) (f x)) \<Longrightarrow> lawful prof P (bind (table sel) f)"
  by (simp add: lawful_def bind_def table_def reads_def)

lemma lawful_raise_if: "(\<not> c \<Longrightarrow> lawful prof P n) \<Longrightarrow> lawful prof P (seq (raise_if c e) n)"
  by (simp add: lawful_def seq_def bind_def raise_if_def raise_def ret_def evolves_refl)

lemma lawful_lift:
  "(\<And>x. r = Inr x \<Longrightarrow> lawful prof P (f x)) \<Longrightarrow> lawful prof P (bind (lift_result r) f)"
  by (cases r) (simp_all add: lawful_def bind_def lift_result_def evolves_refl)

lemma lawful_bind:
  assumes "lawful prof P m" and "\<And>x. legal prof (f x)"
  shows "lawful prof P (bind m f)"
  unfolding lawful_def
proof (intro allI impI)
  fix w :: world
  assume w: "w_profile w = prof" "P (w_db w)"
  obtain a v where m: "m w = (a, v)" by (cases "m w")
  have v: "evolves w v" using assms(1) w m unfolding lawful_def by (metis snd_conv)
  then have "w_profile v = prof" using w by (simp add: evolves_def)
  then show "evolves w (snd (bind m f w))"
    using assms(2) m v by (auto simp: bind_def lawful_def split: sum.split intro: evolves_trans)
qed

text \<open>As \<open>lawful_bind\<close>, keeping what the first action establishes.\<close>

lemma lawful_bind_post:
  assumes "lawful prof P m"
    and "\<And>w x w'. w_profile w = prof \<Longrightarrow> P (w_db w) \<Longrightarrow> m w = (Inr x, w') \<Longrightarrow> C x (w_db w')"
    and "\<And>x. lawful prof (C x) (f x)"
  shows "lawful prof P (bind m f)"
  unfolding lawful_def
proof (intro allI impI)
  fix w :: world
  assume w: "w_profile w = prof" "P (w_db w)"
  obtain a v where m: "m w = (a, v)" by (cases "m w")
  have v: "evolves w v" using assms(1) w m unfolding lawful_def by (metis snd_conv)
  then have "w_profile v = prof" using w by (simp add: evolves_def)
  then show "evolves w (snd (bind m f w))"
    using assms(2) [OF w] assms(3) m v
    by (cases a) (auto simp: bind_def lawful_def intro: evolves_trans)
qed

lemma lawful_bind_result:
  assumes "lawful prof P m"
    and "\<And>w x w'. w_profile w = prof \<Longrightarrow> P (w_db w) \<Longrightarrow> m w = (Inr x, w') \<Longrightarrow> C x"
    and "\<And>x. C x \<Longrightarrow> legal prof (f x)"
  shows "lawful prof P (bind m f)"
  by (rule lawful_bind_post [where C = "\<lambda>x d. C x", OF assms(1)])
    (use assms(2,3) in \<open>auto simp: lawful_def\<close>)

lemma lawful_cong: "(\<And>d. P d \<Longrightarrow> Q d) \<Longrightarrow> lawful prof Q m \<Longrightarrow> lawful prof P m"
  by (simp add: lawful_def)

lemma lawful_seq: "lawful prof P m \<Longrightarrow> legal prof n \<Longrightarrow> lawful prof P (seq m n)"
  unfolding seq_def by (rule lawful_bind)

lemma lawful_try:
  assumes "lawful prof P m" and "\<And>e. legal prof (h e)"
  shows "lawful prof P (try_except m h)"
  unfolding lawful_def
proof (intro allI impI)
  fix w :: world
  assume w: "w_profile w = prof" "P (w_db w)"
  obtain a v where m: "m w = (a, v)" by (cases "m w")
  have v: "evolves w v" using assms(1) w m unfolding lawful_def by (metis snd_conv)
  then have "w_profile v = prof" using w by (simp add: evolves_def)
  then show "evolves w (snd (try_except m h w))"
    using assms(2) m v by (auto simp: try_except_def lawful_def split: sum.split intro: evolves_trans)
qed

lemma lawful_if:
  "(c \<Longrightarrow> lawful prof P m) \<Longrightarrow> (\<not> c \<Longrightarrow> lawful prof P n) \<Longrightarrow> lawful prof P (if c then m else n)"
  by simp

lemma lawful_option:
  "(x = None \<Longrightarrow> lawful prof P m) \<Longrightarrow> (\<And>y. x = Some y \<Longrightarrow> lawful prof P (f y)) \<Longrightarrow>
   lawful prof P (case x of None \<Rightarrow> m | Some y \<Rightarrow> f y)"
  by (cases x) auto

lemma lawful_prod:
  "(\<And>a b. p = (a, b) \<Longrightarrow> lawful prof P (f a b)) \<Longrightarrow> lawful prof P (case p of (a, b) \<Rightarrow> f a b)"
  by (cases p) auto

lemma lawful_list:
  "(xs = [] \<Longrightarrow> lawful prof P m) \<Longrightarrow> (\<And>y ys. xs = y # ys \<Longrightarrow> lawful prof P (f y ys)) \<Longrightarrow>
   lawful prof P (case xs of [] \<Rightarrow> m | y # ys \<Rightarrow> f y ys)"
  by (cases xs) auto

lemma lawful_let: "(\<And>x. x = t \<Longrightarrow> lawful prof P (f x)) \<Longrightarrow> lawful prof P (let x = t in f x)"
  by simp

lemma lawful_for_each: "(\<And>x. x \<in> set xs \<Longrightarrow> legal prof (f x)) \<Longrightarrow> lawful prof P (for_each xs f)"
  by (rule lawful_mono, induction xs) (auto intro: lawful_ret lawful_seq)

lemma lawful_collect: "(\<And>x. x \<in> set xs \<Longrightarrow> legal prof (f x)) \<Longrightarrow> lawful prof P (collect xs f)"
  by (rule lawful_mono, induction xs) (auto intro!: lawful_ret lawful_bind)

lemma lawful_dml: "(\<And>d. P d \<Longrightarrow> le (view d) (view (f d))) \<Longrightarrow> lawful prof P (dml f)"
  unfolding lawful_def dml_def modify_def by (simp add: evolves_put_db_at)

lemma lawful_reject: "lawful prof P (reject m)"
  by (simp add: lawful_def reject_def seq_def bind_def raise_def dml_def modify_def
      evolves_put_db_at le_refl)

lemma lawful_insert:
  "(\<And>d. P d \<Longrightarrow> le (view d) (view (put (\<lambda>rows. rows @ [r]) d))) \<Longrightarrow> lawful prof P (sql_insert put r)"
  unfolding sql_insert_def by (rule lawful_dml)

lemma lawful_insert_new:
  "(\<And>d. P d \<Longrightarrow> key r \<notin> key ` set (sel d) \<Longrightarrow> le (view d) (view (put (\<lambda>rows. rows @ [r]) d))) \<Longrightarrow>
   lawful prof P (sql_insert_new sel put key r)"
  unfolding sql_insert_new_def
  by (intro lawful_table lawful_if lawful_reject lawful_insert) (force simp: list_ex_iff)

lemma lawful_update:
  "(\<And>d. P d \<Longrightarrow> le (view d) (view (put (update_where p f) d))) \<Longrightarrow>
   lawful prof P (sql_update sel put p f)"
  unfolding sql_update_def
  by (intro lawful_bind_reader lawful_seq lawful_dml lawful_ret) (auto simp: reader_def reads_def)

lemma lawful_commit: "lawful prof P commit"
  by (simp add: lawful_def commit_def modify_def evolves_commit)

lemma lawful_rollback: "lawful prof P rollback"
  by (simp add: lawful_def rollback_def modify_def evolves_rollback)

text \<open>
  The rules in the order they are tried: reads and guards keep what is known of the
  database, any other statement forgets it.
\<close>

lemmas lawful_sources =
  lawful_bind_reader [OF reader_now] lawful_bind_reader [OF reader_now_instant]
  lawful_bind_reader [OF reader_current_period] lawful_bind_reader [OF reader_uuid4]
  lawful_bind_reader [OF reader_sha256] lawful_bind_reader [OF reader_reads]
  lawful_seq_reader [OF reader_begin_immediate] lawful_bind_reader [OF reader_ret]

lemmas lawful_values =
  lawful_reader [OF reader_now] lawful_reader [OF reader_uuid4] lawful_reader [OF reader_sha256]
  lawful_reader [OF reader_table] lawful_reader [OF reader_raise_if]
  lawful_reader [OF reader_lift_result] lawful_reader [OF reader_now_instant]
  lawful_reader [OF reader_current_period] lawful_reader [OF reader_reads]
  lawful_reader [OF reader_begin_immediate]

lemmas legal_rules =
  lawful_table lawful_raise_if lawful_lift lawful_sources lawful_values
  lawful_ret lawful_raise lawful_if lawful_option lawful_prod
  lawful_list lawful_let lawful_for_each lawful_collect lawful_reject lawful_commit lawful_rollback

lemmas legal_steps = lawful_bind lawful_seq lawful_try

end

end
