(* ===== verification/Store_Laws.thy ===== *)
theory Store_Laws
  imports Store_State
begin

text \<open>
  What the schema and the operations of the store promise of each table: a condition on
  every stored row, and a preorder \<open>r \<rightarrow> r'\<close> that says how one row may change. A table
  may grow at its end and change its rows along the preorder; it never loses a row
  (\<open>cost_reservations\<close> and the upserted status tables are outside this theory).

  The locale \<open>table_law\<close> is that contract for one table; it is interpreted for the
  tables of the store, and \<open>store_le\<close> joins them. The theories of the operations show
  that every operation is \<open>legal\<close> for the resulting history of the store.
\<close>

named_theorems legal_ops \<open>the operations shown to respect the laws of the store\<close>

section \<open>Tables that only grow\<close>

definition table_ok :: "('r \<Rightarrow> 'k) \<Rightarrow> ('r \<Rightarrow> bool) \<Rightarrow> 'r list \<Rightarrow> bool" where
  "table_ok key P rows = (distinct (map key rows) \<and> list_all P rows)"

definition table_evo :: "('r \<Rightarrow> 'r \<Rightarrow> bool) \<Rightarrow> 'r list \<Rightarrow> 'r list \<Rightarrow> bool" where
  "table_evo R rows rows' =
     (length rows \<le> length rows' \<and> list_all2 R rows (take (length rows) rows'))"

definition table_step ::
  "('r \<Rightarrow> 'k) \<Rightarrow> ('r \<Rightarrow> bool) \<Rightarrow> ('r \<Rightarrow> 'r \<Rightarrow> bool) \<Rightarrow> 'r list \<Rightarrow> 'r list \<Rightarrow> bool" where
  "table_step key P R rows rows' \<longleftrightarrow>
     (table_ok key P rows \<longrightarrow> table_ok key P rows' \<and> table_evo R rows rows')"

lemma table_ok_unique:
  assumes "table_ok key P rows" and "row_by key k rows = Some r" and "x \<in> set rows" and "key x = k"
  shows "x = r"
  using assms row_by_unique [of key rows x] by (simp add: table_ok_def)

lemma table_okD: "table_ok key P rows \<Longrightarrow> row_by key k rows = Some r \<Longrightarrow> P r"
  by (auto simp: table_ok_def list_all_iff dest: row_by_SomeD)

locale table_law =
  fixes key :: "'r \<Rightarrow> 'k" and P :: "'r \<Rightarrow> bool" and R :: "'r \<Rightarrow> 'r \<Rightarrow> bool"
  assumes R_refl: "R r r"
    and R_trans: "R r s \<Longrightarrow> R s t \<Longrightarrow> R r t"
    and R_key: "R r s \<Longrightarrow> key s = key r"
begin

lemma evo_refl: "table_evo R rows rows"
  by (simp add: table_evo_def list_all2_refl R_refl)

lemma evo_trans: "table_evo R xs ys \<Longrightarrow> table_evo R ys zs \<Longrightarrow> table_evo R xs zs"
proof -
  assume a: "table_evo R xs ys" and b: "table_evo R ys zs"
  then have len: "length xs \<le> length ys" "length ys \<le> length zs"
    by (simp_all add: table_evo_def)
  have "list_all2 R (take (length xs) ys) (take (length xs) (take (length ys) zs))"
    using b unfolding table_evo_def by (blast intro: list_all2_takeI)
  moreover have "take (length xs) (take (length ys) zs) = take (length xs) zs"
    using len by (simp add: min_def)
  ultimately have "list_all2 R xs (take (length xs) zs)"
    using a list_all2_trans [of R R R] R_trans by (metis table_evo_def)
  then show ?thesis using len by (simp add: table_evo_def)
qed

lemma step_refl: "table_step key P R rows rows"
  by (simp add: table_step_def evo_refl)

lemma step_trans:
  "table_step key P R xs ys \<Longrightarrow> table_step key P R ys zs \<Longrightarrow> table_step key P R xs zs"
  unfolding table_step_def using evo_trans by blast

lemma step_insert:
  "key r \<notin> key ` set rows \<Longrightarrow> P r \<Longrightarrow> table_step key P R rows (rows @ [r])"
  by (auto simp: table_step_def table_ok_def table_evo_def list_all2_refl R_refl)

lemma step_update:
  assumes "\<And>r. r \<in> set rows \<Longrightarrow> p r \<Longrightarrow> P r \<Longrightarrow> table_ok key P rows \<Longrightarrow> P (f r) \<and> R r (f r)"
  shows "table_step key P R rows (update_where p f rows)"
  unfolding table_step_def
proof (intro impI conjI)
  assume ok: "table_ok key P rows"
  then have P: "\<And>r. r \<in> set rows \<Longrightarrow> P r" by (simp add: table_ok_def list_all_iff)
  have step: "P (if p r then f r else r) \<and> R r (if p r then f r else r)" if "r \<in> set rows" for r
    using assms P ok that R_refl by auto
  have "map key (update_where p f rows) = map key rows"
    using step R_key by (auto simp: update_where_def)
  then show "table_ok key P (update_where p f rows)"
    using ok step unfolding table_ok_def list_all_iff set_update_where by (simp only:) blast
  have "list_all2 R rows (update_where p f rows)"
    using step by (simp add: update_where_def list.rel_map list_all2_same)
  then show "table_evo R rows (update_where p f rows)"
    by (simp add: table_evo_def)
qed

text \<open>An update that names the key of one row of the table changes that row only.\<close>

lemma step_update_row:
  assumes r: "r \<in> set rows" and step: "q r \<Longrightarrow> P r \<Longrightarrow> P (f r) \<and> R r (f r)"
  shows "table_step key P R rows (update_where (\<lambda>x. key x = key r \<and> q x) f rows)"
proof (rule step_update)
  fix x
  assume x: "x \<in> set rows" "key x = key r \<and> q x" "P x" and ok: "table_ok key P rows"
  from ok r have "row_by key (key r) rows = Some r"
    by (intro row_by_unique) (simp_all add: table_ok_def)
  then have "x = r" using table_ok_unique [OF ok _ x(1)] x(2) by simp
  then show "P (f x) \<and> R x (f x)" using step x by simp
qed

lemma step_update_key:
  "r \<in> set rows \<Longrightarrow> (P r \<Longrightarrow> P (f r) \<and> R r (f r)) \<Longrightarrow>
   table_step key P R rows (update_where (\<lambda>x. key x = key r) f rows)"
  using step_update_row [of r rows "\<lambda>_. True" f] by simp

text \<open>A row of the table stays in it, changed along the preorder.\<close>

lemma evo_row_by:
  assumes "table_evo R rows rows'" and "row_by key k rows = Some r"
  shows "\<exists>r'. row_by key k rows' = Some r' \<and> R r r'"
proof -
  have "\<exists>r'. row_by key k old = Some r' \<and> R r r'"
    if "list_all2 R rows old" "row_by key k rows = Some r" for old
    using that
  proof (induction rows old)
    case Nil
    then show ?case by (simp add: table_simps)
  next
    case (Cons x xs y ys)
    then show ?case using R_key by (auto simp: table_simps split: if_splits)
  qed
  with assms obtain r' where "row_by key k (take (length rows) rows') = Some r'" "R r r'"
    by (auto simp: table_evo_def)
  then show ?thesis
    by (metis append_take_drop_id row_by_append option.simps(5))
qed

end

section \<open>Rows of the store\<close>

definition SCOPES :: "string list" where
  "SCOPES = [''PERSONAL'', ''IAC'', ''SHARED'']"

definition ENTITY_TYPES :: "string list" where
  "ENTITY_TYPES = [''GOAL'', ''IDEA'', ''PROJECT'', ''TASK'', ''DECISION'', ''KNOWLEDGE'',
     ''AGENT'', ''APPROVAL'']"

definition RETENTION_RULES :: "string list" where
  "RETENTION_RULES = [''retain'', ''until_expired'', ''legal_hold'']"

definition allowed_scopes :: "string \<Rightarrow> string list" where
  "allowed_scopes profile =
     (if profile = ''DEVELOPMENT'' then SCOPES
      else if profile = ''IAC'' then [''IAC'']
      else if profile = ''PERSONAL'' then [''PERSONAL'', ''SHARED'']
      else [])"

text \<open>
  \<open>aware_span\<close>: the validity period of a record parses, has time zones, and ends after
  it begins. An empty \<open>expires_at\<close> is the same as none.
\<close>

definition aware_span :: "string \<Rightarrow> string option \<Rightarrow> bool" where
  "aware_span from until =
     (case parse_iso from of Some (a, Some za) \<Rightarrow>
        (case until of None \<Rightarrow> True | Some u \<Rightarrow> u = [] \<or>
           (case parse_iso u of Some (b, Some zb) \<Rightarrow> a - za < b - zb | _ \<Rightarrow> False))
      | _ \<Rightarrow> False)"

definition record_ok :: "string \<Rightarrow> rec_row \<Rightarrow> bool" where
  "record_ok prof r \<longleftrightarrow>
     rec_scope r \<in> set SCOPES \<and> rec_scope r \<in> set (allowed_scopes prof) \<and>
     rec_type r \<in> set ENTITY_TYPES \<and>
     (rec_scope r = ''PERSONAL'' \<longrightarrow> \<not> rec_portable r) \<and>
     (rec_scope r = ''SHARED'' \<longrightarrow> rec_principals r \<noteq> [] \<and>
        rec_confidentiality r \<in> {''PRIVATE'', ''CONFIDENTIAL''}) \<and>
     rec_retention r \<in> set RETENTION_RULES \<and>
     fle (Fin 0) (rec_confidence r) \<and> fle (rec_confidence r) (Fin 1) \<and>
     clean_value (rec_payload r) \<and> aware_span (rec_effective_at r) (rec_expires_at r)"

definition record_step :: "rec_row \<Rightarrow> rec_row \<Rightarrow> bool" where
  "record_step r r' \<longleftrightarrow> r' = r \<or> (rec_version r < rec_version r' \<and>
     r' = r\<lparr>rec_payload := rec_payload r', rec_updated_at := rec_updated_at r',
            rec_version := rec_version r'\<rparr>)"

definition approval_ok :: "string \<Rightarrow> approval_row \<Rightarrow> bool" where
  "approval_ok prof r \<longleftrightarrow> ap_scope r \<in> set SCOPES \<and> ap_scope r \<in> set (allowed_scopes prof) \<and>
     clean_value (PStr (ap_action r)) \<and> clean_value (PStr (ap_target r)) \<and>
     clean_value (PStr (ap_impact r)) \<and> clean_value (ap_conditions r)"

text \<open>PENDING may be decided or expire, APPROVED may be consumed, the rest is final.\<close>

definition approval_path :: "approval_status \<Rightarrow> approval_status \<Rightarrow> bool" where
  "approval_path s t \<longleftrightarrow> s = t \<or> s = AP_PENDING \<or> (s = AP_APPROVED \<and> t = AP_CONSUMED)"

definition approval_step :: "approval_row \<Rightarrow> approval_row \<Rightarrow> bool" where
  "approval_step r r' \<longleftrightarrow>
     approval_path (ap_status r) (ap_status r') \<and> r' = r\<lparr>ap_status := ap_status r'\<rparr>"

definition audit_ok :: "audit_row \<Rightarrow> bool" where
  "audit_ok r \<longleftrightarrow> clean_value (PStr (au_reason r)) \<and> clean_value (au_details r)"

definition work_open :: "work_status \<Rightarrow> bool" where
  "work_open s \<longleftrightarrow> s = WK_QUEUED \<or> s = WK_RUNNING"

definition work_ok :: "string \<Rightarrow> work_row \<Rightarrow> bool" where
  "work_ok prof r \<longleftrightarrow> wk_scope r \<in> set SCOPES \<and> wk_scope r \<in> set (allowed_scopes prof) \<and>
     clean_value (wk_payload r) \<and> 1 \<le> wk_max r \<and> wk_max r \<le> 10 \<and> 0 \<le> wk_attempts r \<and>
     (wk_status r = WK_RUNNING \<longrightarrow> wk_owner r \<noteq> None \<and> wk_lease r \<noteq> None)"

definition work_step :: "work_row \<Rightarrow> work_row \<Rightarrow> bool" where
  "work_step r r' \<longleftrightarrow>
     wk_id r' = wk_id r \<and> wk_type r' = wk_type r \<and> wk_scope r' = wk_scope r \<and>
     wk_priority r' = wk_priority r \<and> wk_max r' = wk_max r \<and> wk_created_at r' = wk_created_at r \<and>
     wk_attempts r \<le> wk_attempts r' \<and>
     (wk_payload r' = wk_payload r \<or> wk_status r' = WK_SUCCEEDED) \<and>
     (\<not> work_open (wk_status r) \<longrightarrow> r' = r)"

definition execution_ok :: "execution_row \<Rightarrow> bool" where
  "execution_ok r \<longleftrightarrow> clean_value (ex_result r)"

definition project_step :: "project_row \<Rightarrow> project_row \<Rightarrow> bool" where
  "project_step r r' \<longleftrightarrow> prj_id r' = prj_id r"

definition project_ok :: "project_row \<Rightarrow> bool" where
  "project_ok r \<longleftrightarrow> (prj_state r = PROJ_KILLED \<longrightarrow>
     \<not> blank (prj_reason r) \<and> (\<exists>t. prj_reopen r = Some t \<and> \<not> blank t))"

text \<open>
  An outbox item moves forward only: staged, validated, authorized, then one of the three
  final states. An authorized item names the approval it consumed, only a finished item has
  a receipt, only an authorized one a lease, and it is never attempted more often than allowed.
\<close>

fun outbox_rank :: "outbox_status \<Rightarrow> nat" where
  "outbox_rank OB_STAGED = 0"
| "outbox_rank OB_PREFLIGHT = 1"
| "outbox_rank OB_AUTHORIZED = 2"
| "outbox_rank OB_DONE = 3"
| "outbox_rank OB_FAILED = 3"
| "outbox_rank OB_RECONCILE = 3"

definition outbox_final :: "outbox_status \<Rightarrow> bool" where
  "outbox_final s \<longleftrightarrow> outbox_rank s = 3"

definition outbox_ok :: "string \<Rightarrow> 'a outbox_row_scheme \<Rightarrow> bool" where
  "outbox_ok prof r \<longleftrightarrow> bx_scope r \<in> set (allowed_scopes prof) \<and>
     (2 \<le> outbox_rank (bx_status r) \<longleftrightarrow> bx_approval r \<noteq> None) \<and>
     (bx_receipt r \<noteq> None \<longleftrightarrow> bx_status r = OB_DONE) \<and>
     (bx_owner r \<noteq> None \<longrightarrow> bx_status r = OB_AUTHORIZED \<and> bx_lease r \<noteq> None) \<and>
     0 \<le> bx_attempts r \<and> bx_attempts r \<le> bx_max r"

definition outbox_step :: "'a outbox_row_scheme \<Rightarrow> 'a outbox_row_scheme \<Rightarrow> bool" where
  "outbox_step r r' \<longleftrightarrow>
     bx_id r' = bx_id r \<and> bx_scope r' = bx_scope r \<and> bx_max r' = bx_max r \<and>
     bx_created_at r' = bx_created_at r \<and> bx_attempts r \<le> bx_attempts r' \<and>
     outbox_rank (bx_status r) \<le> outbox_rank (bx_status r') \<and>
     (bx_approval r \<noteq> None \<longrightarrow> bx_approval r' = bx_approval r) \<and>
     (outbox_final (bx_status r) \<longrightarrow> r' = r)"

definition transfer_step :: "transfer_row \<Rightarrow> transfer_row \<Rightarrow> bool" where
  "transfer_step r r' \<longleftrightarrow> outbox_step r r' \<and> tr_target r' = tr_target r \<and>
     tr_proposal r' = tr_proposal r \<and> tr_plan r' = tr_plan r \<and>
     (tr_preflight r \<noteq> None \<longrightarrow> tr_preflight r' = tr_preflight r)"

definition transfer_ok :: "string \<Rightarrow> transfer_row \<Rightarrow> bool" where
  "transfer_ok prof r \<longleftrightarrow> outbox_ok prof r \<and>
     (tr_preflight r = None \<longleftrightarrow> bx_status r = OB_STAGED)"

definition restore_step :: "restore_row \<Rightarrow> restore_row \<Rightarrow> bool" where
  "restore_step r r' \<longleftrightarrow> outbox_step r r' \<and> rr_target r' = rr_target r \<and>
     rr_upload_plan r' = rr_upload_plan r \<and> rr_upload_receipt r' = rr_upload_receipt r \<and>
     rr_key_proposal r' = rr_key_proposal r \<and> rr_plan r' = rr_plan r \<and>
     (rr_preflight r \<noteq> None \<longrightarrow> rr_preflight r' = rr_preflight r)"

definition restore_ok :: "string \<Rightarrow> restore_row \<Rightarrow> bool" where
  "restore_ok prof r \<longleftrightarrow> outbox_ok prof r \<and>
     (rr_preflight r = None \<longleftrightarrow> bx_status r = OB_STAGED)"

text \<open>
  An alert delivery may also go back from FAILED to STAGED, which forgets its approval;
  a delivered one is final. The synthetic path counts one attempt more.
\<close>

definition delivery_ok :: "string \<Rightarrow> delivery_row \<Rightarrow> bool" where
  "delivery_ok prof r \<longleftrightarrow> bx_scope r \<in> set (allowed_scopes prof) \<and>
     bx_status r \<in> {OB_STAGED, OB_AUTHORIZED, OB_DONE, OB_FAILED} \<and>
     (bx_status r = OB_AUTHORIZED \<or> bx_status r = OB_DONE \<longrightarrow> bx_approval r \<noteq> None) \<and>
     (bx_receipt r \<noteq> None \<longleftrightarrow> bx_status r = OB_DONE) \<and> 0 \<le> bx_attempts r \<and>
     bx_attempts r \<le> bx_max r + (if bx_status r = OB_DONE then 1 else 0)"

definition delivery_step :: "delivery_row \<Rightarrow> delivery_row \<Rightarrow> bool" where
  "delivery_step r r' \<longleftrightarrow>
     bx_id r' = bx_id r \<and> bx_scope r' = bx_scope r \<and> bx_max r' = bx_max r \<and>
     bx_created_at r' = bx_created_at r \<and> dl_plan r' = dl_plan r \<and>
     dl_incident r' = dl_incident r \<and> dl_generation r' = dl_generation r \<and>
     dl_route r' = dl_route r \<and> dl_kind r' = dl_kind r \<and> dl_destination r' = dl_destination r \<and>
     dl_alert r' = dl_alert r \<and> dl_sha256 r' = dl_sha256 r \<and>
     (bx_status r = OB_DONE \<longrightarrow> r' = r)"

definition observation_ok :: "string \<Rightarrow> observation_row \<Rightarrow> bool" where
  "observation_ok prof r \<longleftrightarrow> ob_scope r \<in> {''PERSONAL'', ''IAC''} \<and>
     ob_scope r \<in> set (allowed_scopes prof) \<and> clean_value (ob_payload r) \<and> 1 \<le> ob_count r"

definition observation_step :: "observation_row \<Rightarrow> observation_row \<Rightarrow> bool" where
  "observation_step r r' \<longleftrightarrow>
     ob_plan r' = ob_plan r \<and> ob_scope r' = ob_scope r \<and> ob_route r' = ob_route r \<and>
     ob_payload r' = ob_payload r \<and> ob_first_at r' = ob_first_at r \<and> ob_count r \<le> ob_count r' \<and>
     (ob_ack r \<noteq> None \<longrightarrow> ob_ack r' = ob_ack r)"

definition incident_ok :: "string \<Rightarrow> incident_row \<Rightarrow> bool" where
  "incident_ok prof r \<longleftrightarrow> ic_scope r \<in> {''PERSONAL'', ''IAC''} \<and>
     ic_scope r \<in> set (allowed_scopes prof) \<and> 0 \<le> ic_reopens r \<and> ic_reopens r < ic_count r \<and>
     (ic_status r = INC_RESOLVED \<longrightarrow>
        ic_resolved_at r \<noteq> None \<and> ic_resolved_by r \<noteq> None \<and> ic_resolution r \<noteq> None)"

definition incident_step :: "incident_row \<Rightarrow> incident_row \<Rightarrow> bool" where
  "incident_step r r' \<longleftrightarrow>
     ic_id r' = ic_id r \<and> ic_scope r' = ic_scope r \<and> ic_route r' = ic_route r \<and>
     ic_code r' = ic_code r \<and> ic_first_at r' = ic_first_at r \<and> ic_count r \<le> ic_count r' \<and>
     ic_reopens r \<le> ic_reopens r'"

section \<open>The laws of the tables\<close>

lemmas step_defs =
  record_step_def approval_step_def approval_path_def work_step_def project_step_def
  outbox_step_def transfer_step_def restore_step_def delivery_step_def observation_step_def
  incident_step_def

lemma outbox_step_trans: "outbox_step r s \<Longrightarrow> outbox_step s t \<Longrightarrow> outbox_step r t"
  by (auto simp: outbox_step_def)

lemma record_step_iff:
  "record_step r r' \<longleftrightarrow> r' = r \<or> (\<exists>p u v. rec_version r < v \<and>
     r' = r\<lparr>rec_payload := p, rec_updated_at := u, rec_version := v\<rparr>)"
  by (cases r; cases r') (auto simp: record_step_def)

lemma approval_step_iff:
  "approval_step r r' \<longleftrightarrow> (\<exists>s. approval_path (ap_status r) s \<and> r' = r\<lparr>ap_status := s\<rparr>)"
  by (cases r; cases r') (auto simp: approval_step_def)

interpretation records: table_law rec_id "record_ok prof" record_step for prof
proof (unfold_locales, goal_cases)
  case (2 r s t)
  consider "s = r" | "t = s"
    | v p' u' v' where "rec_version r < v" "v < v'"
        "t = r\<lparr>rec_payload := p', rec_updated_at := u', rec_version := v'\<rparr>"
    using 2 by (fastforce simp: record_step_iff)
  then show ?case
  proof cases
    case (3 v p' u' v')
    then have "rec_version r < v'" by simp
    with 3(3) show ?thesis unfolding record_step_iff by blast
  qed (use 2 in simp_all)
qed (auto simp: record_step_iff)

interpretation approvals: table_law ap_id "approval_ok prof" approval_step for prof
proof (unfold_locales, goal_cases)
  case (2 r s t)
  then show ?case by (auto simp: approval_step_iff approval_path_def)
qed (auto simp: approval_step_iff approval_path_def)

interpretation links: table_law "\<lambda>r. (rel_from r, rel_type r, rel_to r)" "\<lambda>r. True" "(=)"
  by unfold_locales auto

interpretation projects: table_law prj_id project_ok project_step
  by unfold_locales (auto simp: project_step_def)

interpretation work: table_law wk_id "work_ok prof" work_step for prof
proof (unfold_locales, goal_cases)
  case (2 r s t)
  then show ?case
    by (cases "work_open (wk_status r)"; cases "work_open (wk_status s)")
      (auto simp: work_step_def work_open_def)
qed (auto simp: work_step_def)

interpretation executions: table_law ex_work execution_ok "(=)"
  by unfold_locales auto

interpretation transfers: table_law bx_id "transfer_ok prof" transfer_step for prof
proof (unfold_locales, goal_cases)
  case (2 r s t)
  then show ?case unfolding transfer_step_def by (auto intro: outbox_step_trans)
qed (auto simp: transfer_step_def outbox_step_def)

interpretation restores: table_law bx_id "restore_ok prof" restore_step for prof
proof (unfold_locales, goal_cases)
  case (2 r s t)
  then show ?case unfolding restore_step_def by (auto intro: outbox_step_trans)
qed (auto simp: restore_step_def outbox_step_def)

interpretation deliveries: table_law bx_id "delivery_ok prof" delivery_step for prof
  by unfold_locales (auto simp: delivery_step_def)

interpretation observations: table_law ob_plan "observation_ok prof" observation_step for prof
  by unfold_locales (auto simp: observation_step_def)

interpretation incidents: table_law ic_id "incident_ok prof" incident_step for prof
  by unfold_locales (auto simp: incident_step_def)

text \<open>Schedule dispatches and interface requests are written once.\<close>

definition dispatch_key :: "dispatch_row \<Rightarrow> string \<times> string" where
  "dispatch_key r = (sd_name r, sd_period r)"

interpretation dispatches: table_law dispatch_key "\<lambda>_. True" "(=)"
  by unfold_locales auto

interpretation commands: table_law cq_external "\<lambda>_. True" "(=)"
  by unfold_locales auto

interpretation coding_requests: table_law cd_work "\<lambda>_. True" "(=)"
  by unfold_locales auto

text \<open>
  No connector but the synthetic import is ever enabled. Imports, coding deliveries, reports and
  activation evidence are written once.
\<close>

definition connector_ok :: "connector_row \<Rightarrow> bool" where
  "connector_ok r \<longleftrightarrow> (cn_enabled r \<longrightarrow> cn_name r = ''CLAUDE_IMPORT'' \<and> cn_mode r = ''SYNTHETIC_ONLY'')"

definition connector_step :: "connector_row \<Rightarrow> connector_row \<Rightarrow> bool" where
  "connector_step r r' \<longleftrightarrow> cn_name r' = cn_name r"

definition import_key :: "import_row \<Rightarrow> string \<times> string" where
  "import_key r = (im_connector r, im_external r)"

definition coding_ok :: "coding_row \<Rightarrow> bool" where
  "coding_ok r \<longleftrightarrow> cg_status r = ''DELIVERED'' \<and> 0 < cg_activity r \<and> flt (Fin 0) (cg_cost r)"

definition report_key :: "report_row \<Rightarrow> string \<times> string \<times> string" where
  "report_key r = (rp_cadence r, rp_period r, rp_scope r)"

definition activation_ok :: "activation_row \<Rightarrow> bool" where
  "activation_ok r \<longleftrightarrow> \<not> ac_network r \<and> \<not> ac_key r \<and> \<not> ac_secret r \<and> \<not> ac_upload r \<and> \<not> ac_restore r \<and> \<not> ac_real r"

interpretation connectors: table_law cn_name connector_ok connector_step
  by unfold_locales (auto simp: connector_step_def)

interpretation artifacts: table_law import_key "\<lambda>_. True" "(=)"
  by unfold_locales auto

interpretation codings: table_law cg_external coding_ok "(=)"
  by unfold_locales auto

interpretation reports: table_law report_key "\<lambda>_. True" "(=)"
  by unfold_locales auto

interpretation activations: table_law ac_plan activation_ok "(=)"
  by unfold_locales auto

section \<open>The history of the store\<close>

definition audit_step :: "audit_row list \<Rightarrow> audit_row list \<Rightarrow> bool" where
  "audit_step rows rows' \<longleftrightarrow>
     prefix rows rows' \<and> (list_all audit_ok rows \<longrightarrow> list_all audit_ok rows')"

definition store_le :: "string \<Rightarrow> db \<Rightarrow> db \<Rightarrow> bool" where
  "store_le prof d d' \<longleftrightarrow>
     table_step rec_id (record_ok prof) record_step (db_records d) (db_records d') \<and>
     table_step (\<lambda>r. (rel_from r, rel_type r, rel_to r)) (\<lambda>_. True) (=) (db_links d) (db_links d') \<and>
     table_step prj_id project_ok project_step (db_projects d) (db_projects d') \<and>
     table_step ap_id (approval_ok prof) approval_step (db_approvals d) (db_approvals d') \<and>
     audit_step (db_audit d) (db_audit d') \<and>
     table_step wk_id (work_ok prof) work_step (db_work d) (db_work d') \<and>
     table_step ex_work execution_ok (=) (db_executions d) (db_executions d') \<and>
     table_step bx_id (transfer_ok prof) transfer_step (db_transfers d) (db_transfers d') \<and>
     table_step bx_id (restore_ok prof) restore_step (db_restores d) (db_restores d') \<and>
     table_step bx_id (delivery_ok prof) delivery_step (db_deliveries d) (db_deliveries d') \<and>
     table_step ob_plan (observation_ok prof) observation_step (db_observations d) (db_observations d') \<and>
     table_step ic_id (incident_ok prof) incident_step (db_incidents d) (db_incidents d') \<and>
     table_step dispatch_key (\<lambda>_. True) (=) (db_dispatches d) (db_dispatches d') \<and>
     table_step cq_external (\<lambda>_. True) (=) (db_commands d) (db_commands d') \<and>
     table_step cd_work (\<lambda>_. True) (=) (db_coding_requests d) (db_coding_requests d') \<and>
     table_step cn_name connector_ok connector_step (db_connectors d) (db_connectors d') \<and>
     table_step import_key (\<lambda>_. True) (=) (db_imports d) (db_imports d') \<and>
     table_step cg_external coding_ok (=) (db_codings d) (db_codings d') \<and>
     table_step report_key (\<lambda>_. True) (=) (db_reports d) (db_reports d') \<and>
     table_step ac_plan activation_ok (=) (db_activations d) (db_activations d')"

lemma audit_step_refl: "audit_step rows rows"
  by (simp add: audit_step_def)

lemma audit_step_trans: "audit_step xs ys \<Longrightarrow> audit_step ys zs \<Longrightarrow> audit_step xs zs"
  by (auto simp: audit_step_def)

lemma audit_step_append: "audit_ok r \<Longrightarrow> audit_step rows (rows @ [r])"
  by (simp add: audit_step_def)

lemmas table_refls =
  records.step_refl links.step_refl projects.step_refl approvals.step_refl audit_step_refl
  work.step_refl executions.step_refl transfers.step_refl restores.step_refl
  deliveries.step_refl observations.step_refl incidents.step_refl
  dispatches.step_refl commands.step_refl coding_requests.step_refl connectors.step_refl
  artifacts.step_refl codings.step_refl reports.step_refl activations.step_refl

lemma store_le_refl: "store_le prof d d"
  by (simp add: store_le_def table_refls)

lemma store_le_trans: "store_le prof d e \<Longrightarrow> store_le prof e f \<Longrightarrow> store_le prof d f"
  unfolding store_le_def
  by (elim conjE, intro conjI)
    (rule records.step_trans links.step_trans projects.step_trans approvals.step_trans
      audit_step_trans work.step_trans executions.step_trans transfers.step_trans
      restores.step_trans deliveries.step_trans observations.step_trans incidents.step_trans
      dispatches.step_trans commands.step_trans coding_requests.step_trans connectors.step_trans
      artifacts.step_trans codings.step_trans reports.step_trans activations.step_trans;
     assumption)+

interpretation store: history "\<lambda>d. d" "store_le prof" for prof
  by unfold_locales (rule store_le_refl, rule store_le_trans)

abbreviation lawful :: "string \<Rightarrow> (db \<Rightarrow> bool) \<Rightarrow> 'a py \<Rightarrow> bool" where
  "lawful prof P m \<equiv> store.lawful prof prof P m"

text \<open>A write to one table has to respect the law of that table only.\<close>

lemma store_le_table [simp]:
  "store_le prof d (db_records_update f1 d) \<longleftrightarrow>
     table_step rec_id (record_ok prof) record_step (db_records d) (f1 (db_records d))"
  "store_le prof d (db_links_update f2 d) \<longleftrightarrow>
     table_step (\<lambda>r. (rel_from r, rel_type r, rel_to r)) (\<lambda>_. True) (=) (db_links d) (f2 (db_links d))"
  "store_le prof d (db_projects_update f3 d) \<longleftrightarrow>
     table_step prj_id project_ok project_step (db_projects d) (f3 (db_projects d))"
  "store_le prof d (db_approvals_update f4 d) \<longleftrightarrow>
     table_step ap_id (approval_ok prof) approval_step (db_approvals d) (f4 (db_approvals d))"
  "store_le prof d (db_audit_update f5 d) \<longleftrightarrow> audit_step (db_audit d) (f5 (db_audit d))"
  "store_le prof d (db_work_update f6 d) \<longleftrightarrow>
     table_step wk_id (work_ok prof) work_step (db_work d) (f6 (db_work d))"
  "store_le prof d (db_executions_update f7 d) \<longleftrightarrow>
     table_step ex_work execution_ok (=) (db_executions d) (f7 (db_executions d))"
  "store_le prof d (db_transfers_update f8 d) \<longleftrightarrow>
     table_step bx_id (transfer_ok prof) transfer_step (db_transfers d) (f8 (db_transfers d))"
  "store_le prof d (db_restores_update f9 d) \<longleftrightarrow>
     table_step bx_id (restore_ok prof) restore_step (db_restores d) (f9 (db_restores d))"
  "store_le prof d (db_deliveries_update f10 d) \<longleftrightarrow>
     table_step bx_id (delivery_ok prof) delivery_step (db_deliveries d) (f10 (db_deliveries d))"
  "store_le prof d (db_observations_update f11 d) \<longleftrightarrow>
     table_step ob_plan (observation_ok prof) observation_step (db_observations d) (f11 (db_observations d))"
  "store_le prof d (db_incidents_update f12 d) \<longleftrightarrow>
     table_step ic_id (incident_ok prof) incident_step (db_incidents d) (f12 (db_incidents d))"
  "store_le prof d (db_dispatches_update f13 d) \<longleftrightarrow>
     table_step dispatch_key (\<lambda>_. True) (=) (db_dispatches d) (f13 (db_dispatches d))"
  "store_le prof d (db_commands_update f14 d) \<longleftrightarrow>
     table_step cq_external (\<lambda>_. True) (=) (db_commands d) (f14 (db_commands d))"
  "store_le prof d (db_coding_requests_update f15 d) \<longleftrightarrow>
     table_step cd_work (\<lambda>_. True) (=) (db_coding_requests d) (f15 (db_coding_requests d))"
  "store_le prof d (db_connectors_update f16 d) \<longleftrightarrow>
     table_step cn_name connector_ok connector_step (db_connectors d) (f16 (db_connectors d))"
  "store_le prof d (db_imports_update f17 d) \<longleftrightarrow>
     table_step import_key (\<lambda>_. True) (=) (db_imports d) (f17 (db_imports d))"
  "store_le prof d (db_codings_update f18 d) \<longleftrightarrow>
     table_step cg_external coding_ok (=) (db_codings d) (f18 (db_codings d))"
  "store_le prof d (db_reports_update f19 d) \<longleftrightarrow>
     table_step report_key (\<lambda>_. True) (=) (db_reports d) (f19 (db_reports d))"
  "store_le prof d (db_activations_update f20 d) \<longleftrightarrow>
     table_step ac_plan activation_ok (=) (db_activations d) (f20 (db_activations d))"
  by (simp_all add: store_le_def table_refls)

lemma store_le_unwatched [simp]:
  "store_le prof d (db_runtime_update g1 d)" "store_le prof d (db_budgets_update g2 d)"
  "store_le prof d (db_reservations_update g3 d)" "store_le prof d (db_usage_update g4 d)"
  "store_le prof d (db_heartbeats_update g5 d)" "store_le prof d (id d)"
  by (simp_all add: store_le_def table_refls)

end
