(* ===== verification/Store_Records.thy ===== *)
theory Store_Records
  imports Store_Laws
begin

text \<open>
  \<^verbatim>\<open>sean_os/store.py\<close>: opening a database, the audit log, authorization, and the
  operations on records, links and projects. Keyword arguments with defaults are the fields
  of \<open>new_record\<close>. A record read by \<open>get_record\<close> is its row with its currentness.
\<close>

section \<open>Actors and scopes\<close>

record actor =
  actor_id :: string
  actor_scopes :: "string list"
  actor_is_sean :: bool

definition sean :: actor where
  "sean = \<lparr>actor_id = ''sean'', actor_scopes = SCOPES, actor_is_sean = True\<rparr>"

definition open_store :: "string \<Rightarrow> unit py" where
  "open_store scope_profile =
     (let profile = upper scope_profile in
      seq (raise_if (profile \<notin> set [''DEVELOPMENT'', ''IAC'', ''PERSONAL''])
            (ValidationError ''Unknown database scope profile''))
     (bind (table db_runtime) (\<lambda>rows.
        case row_by rt_key ''scope_profile'' rows of
          None \<Rightarrow> raise (TypeError ''NoneType object is not subscriptable'')
        | Some row \<Rightarrow>
            bind (if rt_value row = ''UNBOUND'' then
                    bind now (\<lambda>t.
                    seq (sql_update db_runtime db_runtime_update (\<lambda>r. rt_key r = ''scope_profile'')
                           (\<lambda>r. r\<lparr>rt_value := profile, rt_updated_at := t\<rparr>))
                   (seq commit (ret profile)))
                  else ret (rt_value row)) (\<lambda>stored.
            if stored \<noteq> profile then
              raise (AuthorizationError (''Database is bound to '' @ stored @
                '' profile and cannot open as '' @ profile))
            else modify (\<lambda>w. w\<lparr>w_profile := profile\<rparr>)))))"

definition authorize :: "actor \<Rightarrow> string \<Rightarrow> string list \<Rightarrow> string \<Rightarrow> unit py" where
  "authorize actor scope principals action =
     bind (reads w_profile) (\<lambda>profile.
       if \<not> List.member SCOPES scope then raise (ValidationError (''Unknown scope: '' @ scope))
       else if \<not> List.member (allowed_scopes profile) scope then
         raise (AuthorizationError (scope @ '' is outside the database's '' @ profile @ '' scope profile''))
       else if actor_is_sean actor then ret ()
       else if \<not> List.member (actor_scopes actor) scope then
         raise (AuthorizationError (actor_id actor @ '' has no '' @ scope @ '' scope''))
       else if scope = ''SHARED'' \<and> \<not> List.member principals (actor_id actor) then
         raise (AuthorizationError (actor_id actor @ '' is not explicitly permitted for SHARED record''))
       else if action = ''write'' \<and> scope = ''PERSONAL'' \<and> actor_id actor \<noteq> ''sean'' then
         raise (AuthorizationError ''Only Sean may write PERSONAL records in v0.1'')
       else ret ())"

section \<open>The audit log\<close>

fun result_str :: "audit_result \<Rightarrow> string" where
  "result_str AU_ALLOWED = ''ALLOWED''"
| "result_str AU_DENIED = ''DENIED''"
| "result_str AU_FAILED = ''FAILED''"

definition finding_types :: "finding list \<Rightarrow> pyval" where
  "finding_types fs = PList (map PStr (sort (remdups (map f_type fs))))"

definition finding_paths :: "finding list \<Rightarrow> pyval" where
  "finding_paths fs = PList (map (\<lambda>f. PStr (f_path f)) fs)"

definition audit_evidence :: "audit_result \<Rightarrow> string \<Rightarrow> pydict \<Rightarrow> string \<times> pydict" where
  "audit_evidence result reason details =
     (let envelope = dupdate [(''evidence'', PList []), (''model'', PNone), (''tool'', PNone),
            (''cost_units'', PInt 0), (''outcome'', PStr (result_str result)),
            (''rollback_status'', PStr ''NOT_APPLICABLE'')] details;
          findings = secret_findings (PDict [(''reason'', PStr reason), (''details'', PDict envelope)])
      in if findings \<noteq> [] then
           (''Sensitive audit detail redacted'',
            [(''evidence'', PList []), (''model'', PNone), (''tool'', PNone), (''cost_units'', PInt 0),
             (''outcome'', PStr (result_str result)), (''rollback_status'', PStr ''NOT_APPLICABLE''),
             (''sensitive_detail_redacted'', PBool True),
             (''finding_count'', PInt (int (length findings))),
             (''finding_types'', finding_types findings)])
         else (reason, envelope))"

definition audit_with ::
  "actor \<Rightarrow> string \<Rightarrow> audit_result \<Rightarrow> string \<Rightarrow> string option \<Rightarrow> pydict \<Rightarrow> string option \<Rightarrow> bool \<Rightarrow> unit py"
where
  "audit_with actor action result reason record_id details correlation_id do_commit =
     (let (text, envelope) = audit_evidence result reason details in
      bind uuid4 (\<lambda>event. bind now (\<lambda>stamp.
      bind (case correlation_id of None \<Rightarrow> uuid4 | Some c \<Rightarrow> if c = [] then uuid4 else ret c) (\<lambda>corr.
      seq (sql_insert db_audit_update
             \<lparr>au_event = event, au_at = stamp, au_actor = actor_id actor, au_action = action,
              au_result = result, au_reason = text, au_record = record_id,
              au_correlation = corr, au_details = PDict (canon_dict envelope)\<rparr>)
          (if do_commit then commit else ret ())))))"

definition audit ::
  "actor \<Rightarrow> string \<Rightarrow> audit_result \<Rightarrow> string \<Rightarrow> string option \<Rightarrow> pydict \<Rightarrow> unit py" where
  "audit actor action result reason record_id details =
     audit_with actor action result reason record_id details None True"

section \<open>Creating and reading records\<close>

record new_record =
  nr_confidentiality :: "string option"
  nr_portable :: "bool option"
  nr_source :: string
  nr_locator :: "string option"
  nr_principals :: "string list"
  nr_confidence :: "pyfloat option"
  nr_correlation :: "string option"
  nr_effective_at :: "string option"
  nr_expires_at :: "string option"
  nr_retention :: string

definition defaults :: new_record where
  "defaults = \<lparr>nr_confidentiality = None, nr_portable = None, nr_source = ''user'', nr_locator = None,
     nr_principals = [], nr_confidence = None, nr_correlation = None, nr_effective_at = None,
     nr_expires_at = None, nr_retention = ''retain''\<rparr>"

text \<open>\<open>x or y\<close> of an optional string.\<close>

definition text_or :: "string option \<Rightarrow> string \<Rightarrow> string" where
  "text_or x y = (case x of None \<Rightarrow> y | Some s \<Rightarrow> if s = [] then y else s)"

definition given :: "string option \<Rightarrow> string option" where
  "given x = (case x of None \<Rightarrow> None | Some s \<Rightarrow> if s = [] then None else Some s)"

definition at_or_now :: "string option \<Rightarrow> string py" where
  "at_or_now x = (case given x of None \<Rightarrow> now | Some t \<Rightarrow> ret t)"

definition default_confidentiality :: "string \<Rightarrow> string" where
  "default_confidentiality scope =
     (if scope = ''PERSONAL'' then ''PRIVATE'' else if scope = ''IAC'' then ''EXECUTIVE''
      else ''CONFIDENTIAL'')"

text \<open>The CHECK constraints of \<open>records\<close> the guards do not already imply.\<close>

definition confidentiality_allowed :: "string \<Rightarrow> string \<Rightarrow> bool" where
  "confidentiality_allowed scope c =
     (List.member [''PRIVATE'', ''CONFIDENTIAL'', ''EXECUTIVE'', ''MANAGEMENT'', ''GENERAL''] c \<and>
      (scope \<noteq> ''SHARED'' \<or> List.member [''PRIVATE'', ''CONFIDENTIAL''] c))"

definition parse_validity :: "string \<Rightarrow> string option \<Rightarrow> exn + (datetime \<times> datetime option)" where
  "parse_validity from until =
     (let bad = ValidationError ''effective_at/expires_at must be ISO-8601 timestamps'' in
      case fromisoformat from of Inl _ \<Rightarrow> Inl bad | Inr a \<Rightarrow>
        (case given until of None \<Rightarrow> Inr (a, None) | Some u \<Rightarrow>
           (case fromisoformat u of Inl _ \<Rightarrow> Inl bad | Inr b \<Rightarrow> Inr (a, Some b))))"

text \<open>The zone and order tests on the parsed pair.\<close>

definition validity_ok :: "datetime \<times> datetime option \<Rightarrow> exn + unit" where
  "validity_ok p = (case p of (a, until) \<Rightarrow>
     if \<not> is_aware a \<or> (case until of None \<Rightarrow> False | Some b \<Rightarrow> \<not> is_aware b) then
       Inl (ValidationError ''effective_at/expires_at must include a timezone'')
     else (case until of None \<Rightarrow> Inr () | Some b \<Rightarrow>
       (case dt_le b a of Inl e \<Rightarrow> Inl e | Inr late \<Rightarrow>
          if late then Inl (ValidationError ''expires_at must be after effective_at'') else Inr ())))"

definition handled :: "exn \<Rightarrow> bool" where
  "handled e = (is_authorization e \<or> is_validation e \<or> is_sqlite e)"

definition create_record_body ::
  "actor \<Rightarrow> string \<Rightarrow> string \<Rightarrow> string list \<Rightarrow> string \<Rightarrow> pydict \<Rightarrow> new_record \<Rightarrow> string py" where
  "create_record_body actor entity_type scope principals record_id payload nr =
     seq (raise_if (\<not> List.member ENTITY_TYPES entity_type)
            (ValidationError (''Unknown entity type: '' @ entity_type)))
    (let findings = secret_findings (PDict payload) in
     seq (raise_if (findings \<noteq> []) (ValidationError
            (''Secret-like material is prohibited in canonical record payloads: '' @
             join '', '' (map f_path findings))))
    (seq (authorize actor scope principals ''write'')
    (seq (raise_if (scope = ''SHARED'' \<and> principals = [])
            (ValidationError ''SHARED records require explicit permitted principals''))
    (seq (raise_if (scope = ''SHARED'' \<and> nr_portable nr = None)
            (ValidationError ''SHARED portability must be explicit''))
    (let portable = (case nr_portable nr of None \<Rightarrow> scope = ''IAC'' | Some b \<Rightarrow> b) in
     seq (raise_if (scope = ''PERSONAL'' \<and> portable)
            (ValidationError ''PERSONAL records cannot be portable on IAC sale''))
    (seq (raise_if (\<not> List.member RETENTION_RULES (nr_retention nr))
            (ValidationError ''Unknown retention rule''))
    (let confidence = (case nr_confidence nr of
            None \<Rightarrow> if nr_source nr = ''user'' then Fin 1 else Fin (1/2) | Some x \<Rightarrow> x) in
     seq (raise_if (\<not> (fle (Fin 0) confidence \<and> fle confidence (Fin 1)))
            (ValidationError ''Confidence must be between 0 and 1''))
    (let confidentiality = text_or (nr_confidentiality nr) (default_confidentiality scope) in
     bind now (\<lambda>stamp.
     let effective_at = text_or (nr_effective_at nr) stamp in
     bind (lift_result (parse_validity effective_at (nr_expires_at nr))) (\<lambda>span.
     bind (lift_result (validity_ok span)) (\<lambda>_.
     seq (if confidentiality_allowed scope confidentiality then
            sql_insert_new db_records db_records_update rec_id
              \<lparr>rec_id = record_id, rec_type = entity_type, rec_scope = scope,
               rec_confidentiality = confidentiality, rec_portable = portable,
               rec_source = nr_source nr, rec_locator = nr_locator nr,
               rec_created_by = actor_id actor, rec_created_at = stamp, rec_updated_at = stamp,
               rec_effective_at = effective_at, rec_expires_at = nr_expires_at nr,
               rec_confidence = confidence, rec_principals = principals,
               rec_retention = nr_retention nr, rec_payload = PDict (canon_dict payload),
               rec_version = 1\<rparr>
          else reject ''CHECK constraint failed: records'')
    (seq (if entity_type = ''PROJECT'' then
            sql_insert_new db_projects db_projects_update prj_id
              \<lparr>prj_id = record_id, prj_state = PROJ_INCUBATOR, prj_reason = ''Created'',
               prj_review_at = None, prj_reopen = None, prj_changed_at = stamp\<rparr>
          else ret ())
    (seq commit
    (seq (audit_with actor ''CREATE_RECORD'' AU_ALLOWED ''Authorized scoped write'' (Some record_id)
            [(''entity_type'', PStr entity_type), (''scope'', PStr scope)] (nr_correlation nr) True)
     (ret record_id)))))))))))))))"

definition create_record ::
  "actor \<Rightarrow> string \<Rightarrow> string \<Rightarrow> pydict \<Rightarrow> new_record \<Rightarrow> string py" where
  "create_record actor entity_type0 scope0 payload nr =
     (let entity_type = upper entity_type0; scope = upper scope0;
          principals = sort (remdups (nr_principals nr)) in
      bind uuid4 (\<lambda>record_id.
      try_except (create_record_body actor entity_type scope principals record_id payload nr)
        (\<lambda>e. if handled e then
                seq rollback
               (seq (audit_with actor ''CREATE_RECORD'' AU_DENIED (exn_str e) (Some record_id)
                      [(''entity_type'', PStr entity_type), (''scope'', PStr scope)]
                      (nr_correlation nr) True)
                (raise e))
              else raise e)))"

datatype currentness = FUTURE | EXPIRED | CURRENT

definition currentness_of :: "instant \<Rightarrow> rec_row \<Rightarrow> exn + currentness" where
  "currentness_of point row =
     (case fromisoformat (rec_effective_at row) of Inl e \<Rightarrow> Inl e | Inr effective \<Rightarrow>
     (case (case given (rec_expires_at row) of None \<Rightarrow> Inr None
            | Some u \<Rightarrow> (case fromisoformat u of Inl e \<Rightarrow> Inl e | Inr x \<Rightarrow> Inr (Some x))) of
        Inl e \<Rightarrow> Inl e | Inr expires \<Rightarrow>
     (case dt_lt (utc_dt point) effective of Inl e \<Rightarrow> Inl e | Inr True \<Rightarrow> Inr FUTURE | Inr False \<Rightarrow>
     (case expires of None \<Rightarrow> Inr CURRENT | Some x \<Rightarrow>
     (case dt_le x (utc_dt point) of Inl e \<Rightarrow> Inl e | Inr True \<Rightarrow> Inr EXPIRED
      | Inr False \<Rightarrow> Inr CURRENT)))))"

definition get_record :: "actor \<Rightarrow> string \<Rightarrow> (rec_row \<times> currentness) py" where
  "get_record actor record_id =
     bind (table db_records) (\<lambda>rows.
     case row_by rec_id record_id rows of
       None \<Rightarrow> seq (audit actor ''READ_RECORD'' AU_DENIED ''Record not found'' (Some record_id) [])
                 (raise (KeyError record_id))
     | Some row \<Rightarrow>
         seq (try_except (authorize actor (rec_scope row) (rec_principals row) ''read'')
               (\<lambda>e. if is_authorization e then
                      seq (audit actor ''READ_RECORD'' AU_DENIED (exn_str e) (Some record_id) []) (raise e)
                    else raise e))
        (seq (audit actor ''READ_RECORD'' AU_ALLOWED ''Authorized scoped read'' (Some record_id) [])
        (bind now_instant (\<lambda>point.
         bind (lift_result (currentness_of point row)) (\<lambda>c. ret (row, c))))))"

definition list_records :: "actor \<Rightarrow> string option \<Rightarrow> (rec_row \<times> currentness) list py" where
  "list_records actor entity_type0 =
     (let entity_type = map_option upper entity_type0 in
      seq (case entity_type of None \<Rightarrow> ret ()
           | Some t \<Rightarrow> raise_if (\<not> List.member ENTITY_TYPES t)
                         (ValidationError (''Unknown entity type: '' @ t)))
     (bind (table db_records) (\<lambda>rows.
      bind (collect (order_by rec_created_at (order_by rec_id
                (filter (\<lambda>r. case entity_type of None \<Rightarrow> True | Some t \<Rightarrow> rec_type r = t) rows)))
              (\<lambda>row. try_except (bind (get_record actor (rec_id row)) (\<lambda>r. ret (Some r)))
                 (\<lambda>e. if is_authorization e then ret None else raise e))) (\<lambda>found.
      let visible = List.map_filter id found in
      seq (audit actor ''LIST_RECORDS'' AU_ALLOWED ''Returned authorized records only'' None
             [(''entity_type'', case entity_type of None \<Rightarrow> PNone | Some t \<Rightarrow> PStr t),
              (''record_count'', PInt (int (length visible)))])
          (ret visible)))))"

section \<open>Changing records\<close>

definition update_record ::
  "actor \<Rightarrow> string \<Rightarrow> pydict \<Rightarrow> int \<Rightarrow> string option \<Rightarrow> int py" where
  "update_record actor record_id payload expected_version correlation_id =
     (let findings = secret_findings (PDict payload) in
      if findings \<noteq> [] then
        seq (audit actor ''UPDATE_RECORD'' AU_DENIED ''Secret-like material is prohibited'' (Some record_id)
              [(''finding_paths'', finding_paths findings)])
            (raise (ValidationError ''Secret-like material is prohibited in canonical record payloads''))
      else
        bind (get_record actor record_id) (\<lambda>(current, _).
        seq (authorize actor (rec_scope current) (rec_principals current) ''write'')
       (bind now (\<lambda>stamp.
        bind (sql_update db_records db_records_update
                (\<lambda>r. rec_id r = record_id \<and> rec_version r = expected_version)
                (\<lambda>r. r\<lparr>rec_payload := PDict (canon_dict payload), rec_updated_at := stamp,
                       rec_version := rec_version r + 1\<rparr>)) (\<lambda>rowcount.
        if rowcount \<noteq> 1 then
          seq rollback
         (seq (audit_with actor ''UPDATE_RECORD'' AU_DENIED ''Version conflict'' (Some record_id)
                [(''expected_version'', PInt expected_version)] correlation_id True)
          (raise (ValidationError ''Version conflict: reload the record before updating'')))
        else
          seq commit
         (seq (audit_with actor ''UPDATE_RECORD'' AU_ALLOWED ''Authorized versioned update'' (Some record_id)
                [(''version'', PInt (expected_version + 1))] correlation_id True)
          (ret (expected_version + 1))))))))"

definition link_records :: "actor \<Rightarrow> string \<Rightarrow> string \<Rightarrow> string \<Rightarrow> string py" where
  "link_records actor from_id relationship_type to_id =
     bind (get_record actor from_id) (\<lambda>(source, _).
     bind (get_record actor to_id) (\<lambda>(target, _).
     seq (authorize actor (rec_scope source) (rec_principals source) ''write'')
    (if rec_scope source \<noteq> rec_scope target \<and> rec_scope source \<noteq> ''SHARED'' \<and> rec_scope target \<noteq> ''SHARED''
     then seq (audit actor ''LINK_RECORDS'' AU_DENIED ''Direct PERSONAL-IAC links are prohibited''
                 (Some from_id) [(''to_record_id'', PStr to_id)])
              (raise (AuthorizationError
                 ''Direct PERSONAL-IAC links are prohibited; use a SHARED gateway record''))
     else
       bind uuid4 (\<lambda>relationship_id. bind now (\<lambda>stamp.
       seq (sql_insert_new db_links db_links_update (\<lambda>r. (rel_from r, rel_type r, rel_to r))
              \<lparr>rel_id = relationship_id, rel_from = from_id, rel_type = upper relationship_type,
               rel_to = to_id, rel_created_at = stamp\<rparr>)
      (seq commit
      (seq (audit actor ''LINK_RECORDS'' AU_ALLOWED ''Authorized relationship'' (Some from_id)
             [(''relationship_id'', PStr relationship_id), (''to_record_id'', PStr to_id),
              (''relationship_type'', PStr (upper relationship_type))])
       (ret relationship_id))))))))"

definition project_state :: "string \<Rightarrow> project_status option" where
  "project_state s =
     (if s = ''ACTIVE'' then Some PROJ_ACTIVE else if s = ''INCUBATOR'' then Some PROJ_INCUBATOR
      else if s = ''PAUSED'' then Some PROJ_PAUSED else if s = ''KILLED'' then Some PROJ_KILLED
      else None)"

definition transition_project ::
  "actor \<Rightarrow> string \<Rightarrow> string \<Rightarrow> string \<Rightarrow> string option \<Rightarrow> string option \<Rightarrow> unit py" where
  "transition_project actor record_id state0 reason reopen_trigger review_at =
     bind (get_record actor record_id) (\<lambda>(record, _).
     let state = upper state0 in
     seq (raise_if (rec_type record \<noteq> ''PROJECT'')
            (ValidationError ''Only PROJECT records have lifecycle state''))
    (case project_state state of
       None \<Rightarrow> raise (ValidationError (''Unknown project state: '' @ state))
     | Some status \<Rightarrow>
         seq (raise_if (blank reason) (ValidationError ''Lifecycle changes require a reason''))
        (seq (raise_if (status = PROJ_KILLED \<and> blank (text_or reopen_trigger []))
               (ValidationError ''KILLED projects require a reopen trigger''))
        (bind now (\<lambda>stamp.
         seq (sql_update db_projects db_projects_update (\<lambda>r. prj_id r = record_id)
               (\<lambda>r. r\<lparr>prj_state := status, prj_reason := reason, prj_review_at := review_at,
                      prj_reopen := reopen_trigger, prj_changed_at := stamp\<rparr>))
        (seq commit
         (audit actor ''TRANSITION_PROJECT'' AU_ALLOWED reason (Some record_id)
            [(''state'', PStr state)])))))))"

section \<open>The sale export\<close>

definition opt_str :: "string option \<Rightarrow> pyval" where
  "opt_str x = (case x of None \<Rightarrow> PNone | Some s \<Rightarrow> PStr s)"

text \<open>\<open>dict(row)\<close> with the JSON columns decoded.\<close>

definition record_dict :: "rec_row \<Rightarrow> pydict" where
  "record_dict r = [
     (''id'', PStr (rec_id r)), (''entity_type'', PStr (rec_type r)),
     (''owner_scope'', PStr (rec_scope r)), (''confidentiality'', PStr (rec_confidentiality r)),
     (''portable_on_sale'', PInt (if rec_portable r then 1 else 0)),
     (''source'', PStr (rec_source r)), (''source_locator'', opt_str (rec_locator r)),
     (''created_by'', PStr (rec_created_by r)), (''created_at'', PStr (rec_created_at r)),
     (''updated_at'', PStr (rec_updated_at r)), (''effective_at'', PStr (rec_effective_at r)),
     (''expires_at'', opt_str (rec_expires_at r)), (''confidence'', PFloat (rec_confidence r)),
     (''permitted_principals'', PList (map PStr (rec_principals r))),
     (''retention_rule'', PStr (rec_retention r)), (''payload'', rec_payload r),
     (''version'', PInt (rec_version r))]"

definition for_sale :: "rec_row \<Rightarrow> bool" where
  "for_sale r = ((rec_scope r = ''IAC'' \<and> rec_portable r) \<or> (rec_scope r = ''SHARED'' \<and> rec_portable r))"

definition sale_export :: "actor \<Rightarrow> rec_row list py" where
  "sale_export actor =
     (if \<not> actor_is_sean actor \<and> \<not> List.member (actor_scopes actor) ''IAC'' then
        seq (audit actor ''SALE_EXPORT'' AU_DENIED ''IAC scope required'' None [])
            (raise (AuthorizationError ''IAC scope required for sale export''))
      else
        bind (table db_records) (\<lambda>rows.
        let output = order_by rec_created_at (order_by rec_id (filter for_sale rows));
            findings = secret_findings (PList (map (\<lambda>r. PDict (record_dict r)) output)) in
        if findings \<noteq> [] then
          seq (audit actor ''SALE_EXPORT'' AU_DENIED ''Secret scan blocked export'' None
                [(''finding_paths'', finding_paths findings)])
              (raise (AuthorizationError ''Sale export blocked by secret scan''))
        else
          seq (audit actor ''SALE_EXPORT'' AU_ALLOWED ''Portable IAC/explicit SHARED only'' None
                [(''record_count'', PInt (int (length output))), (''secret_scan_passed'', PBool True)])
              (ret output)))"

definition sale_export_package :: "actor \<Rightarrow> pydict py" where
  "sale_export_package actor =
     bind (sale_export actor) (\<lambda>records.
     let dicts = PList (map (\<lambda>r. PDict (record_dict r)) records) in
     bind now (\<lambda>stamp.
     bind (sha256 (dumps dicts)) (\<lambda>digest.
     ret [(''format'', PStr ''sean-os-iac-sale-export/v1''), (''generated_at'', PStr stamp),
          (''record_count'', PInt (int (length records))), (''sha256'', PStr digest),
          (''secret_scan_passed'', PBool True), (''secret_finding_count'', PInt 0),
          (''records'', dicts)])))"

section \<open>The operations keep the laws of the store\<close>

lemma reader_authorize: "reader (authorize actor scope principals action)"
  unfolding authorize_def by (intro reader_intros)

lemma authorize_scopes:
  "authorize actor scope principals action w = (Inr x, w') \<Longrightarrow>
     scope \<in> set SCOPES \<and> scope \<in> set (allowed_scopes (w_profile w))"
  by (auto simp: authorize_def bind_def reads_def raise_def split: if_splits)

lemma lawful_authorize:
  assumes "scope \<in> set SCOPES \<Longrightarrow> scope \<in> set (allowed_scopes prof) \<Longrightarrow> lawful prof P n"
  shows "lawful prof P (seq (authorize actor scope principals action) n)"
  unfolding store.lawful_def
proof (intro allI impI)
  fix w :: world
  assume w: "w_profile w = prof" "P (w_db w)"
  obtain r v where m: "authorize actor scope principals action w = (r, v)"
    by (cases "authorize actor scope principals action w")
  have same: "w_db v = w_db w" "w_committed v = w_committed w" "w_profile v = w_profile w"
    using reader_authorize [of actor scope principals action] m unfolding reader_def
    by (metis snd_conv)+
  then have ev: "store.evolves prof w v"
    by (simp add: store.evolves_def store.coherent_def store_le_refl)
  show "store.evolves prof w (snd (seq (authorize actor scope principals action) n w))"
  proof (cases r)
    case (Inl e)
    then show ?thesis using m ev by (simp add: seq_def bind_def)
  next
    case (Inr x)
    then have "lawful prof P n" using assms authorize_scopes m w by metis
    then have "store.evolves prof v (snd (n v))"
      using same w by (simp add: store.lawful_def)
    then show ?thesis using m Inr ev store.evolves_trans by (simp add: seq_def bind_def)
  qed
qed

text \<open>Whatever the caller passes, the stored audit entry is free of secret-like material.\<close>

definition FINDING_TYPES :: "string list" where
  "FINDING_TYPES = [''sensitive_key'', ''private_key_block'', ''openai_style_key'',
     ''aws_access_key'', ''bearer_token'']"

lemma finding_type_known:
  "f \<in> set (secret_findings_at v path) \<Longrightarrow> f_type f \<in> set FINDING_TYPES"
proof (induction v path arbitrary: f rule: secret_findings_at.induct)
  case (1 d path)
  then show ?case by (fastforce simp: FINDING_TYPES_def Let_def split: if_splits)
next
  case (2 xs path)
  then show ?case by fastforce
next
  case (3 s path)
  then have "f_type f \<in> set (map fst SECRET_PATTERNS)" by (force simp: scan_text_def)
  moreover have "set (map fst SECRET_PATTERNS) \<subseteq> set FINDING_TYPES"
    by (simp add: SECRET_PATTERNS_def FINDING_TYPES_def)
  ultimately show ?case by blast
qed auto

lemma clean_finding_types: "list_all (\<lambda>s. clean_value (PStr s)) FINDING_TYPES"
  by code_simp

lemma clean_redacted_text: "clean_value (PStr ''Sensitive audit detail redacted'')"
  by code_simp

lemma clean_redacted:
  "clean_value (PDict [(''evidence'', PList []), (''model'', PNone), (''tool'', PNone),
     (''cost_units'', PInt 0), (''outcome'', PStr (result_str result)),
     (''rollback_status'', PStr ''NOT_APPLICABLE''), (''sensitive_detail_redacted'', PBool True),
     (''finding_count'', PInt 0)])"
  by (cases result; simp only: result_str.simps; code_simp)

lemma clean_evidence:
  assumes "audit_evidence result reason details = (text, envelope)"
  shows "clean_value (PStr text) \<and> clean_value (PDict envelope)"
proof -
  define env where "env = dupdate [(''evidence'', PList []), (''model'', PNone), (''tool'', PNone),
            (''cost_units'', PInt 0), (''outcome'', PStr (result_str result)),
            (''rollback_status'', PStr ''NOT_APPLICABLE'')] details"
  define fs where "fs = secret_findings (PDict [(''reason'', PStr reason), (''details'', PDict env)])"
  show ?thesis
  proof (cases "fs = []")
    case True
    then have "clean_value (PDict [(''reason'', PStr reason), (''details'', PDict env)])"
      by (simp only: fs_def secret_findings_empty_iff)
    moreover have "text = reason" "envelope = env"
      using assms True by (simp_all add: audit_evidence_def Let_def env_def fs_def)
    ultimately show ?thesis by simp
  next
    case False
    have "clean_value (finding_types fs)"
      using clean_finding_types finding_type_known
      unfolding finding_types_def fs_def secret_findings_def
      by (simp only: clean_value.simps list_all_iff set_map set_sort set_remdups ball_simps) blast
    moreover have "\<not> List.member SENSITIVE_KEYS (normalized_key ''finding_types'')" by code_simp
    ultimately show ?thesis
      using assms False clean_redacted_text clean_redacted [of result]
      unfolding audit_evidence_def Let_def env_def [symmetric] fs_def [symmetric]
      by (auto simp del: clean_value.simps(3))
  qed
qed

lemma lawful_audit_with [legal_ops]:
  "lawful prof P (audit_with actor action result reason record_id details correlation_id do_commit)"
proof -
  obtain msg envelope where e: "audit_evidence result reason details = (msg, envelope)"
    by (cases "audit_evidence result reason details")
  have ok: "audit_ok \<lparr>au_event = a, au_at = b, au_actor = c, au_action = d, au_result = result,
      au_reason = msg, au_record = g, au_correlation = h, au_details = PDict (canon_dict envelope)\<rparr>"
    for a b c d g h
    using clean_evidence [OF e] clean_value_canon [of "PDict envelope"]
    by (simp add: audit_ok_def canon_PDict del: clean_value.simps canon.simps)
  show ?thesis
    unfolding audit_with_def e Let_def prod.case
    by (intro store.legal_rules store.lawful_insert store.legal_steps)
      (auto intro: audit_step_append ok)
qed

lemma lawful_audit [legal_ops]: "lawful prof P (audit actor action result reason record_id details)"
  unfolding audit_def by (rule lawful_audit_with)

lemma validity_aware:
  assumes "parse_validity from until = Inr p" and "validity_ok p = Inr x"
  shows "aware_span from until"
  using assms
  by (auto simp: parse_validity_def validity_ok_def aware_span_def given_def fromisoformat_def
      is_aware_def dt_le_def dt_cmp_def Let_def split: option.splits sum.splits if_splits)

lemma lawful_authorize_value [legal_ops]:
  "lawful prof P (authorize actor scope principals action)"
  by (rule store.lawful_reader) (rule reader_authorize)

text \<open>Each operation's proof follows its statements; what is left is the row it writes.\<close>

lemma reader_at_or_now: "reader (at_or_now x)"
  unfolding at_or_now_def by (intro reader_intros)

lemmas op_rules =
  lawful_authorize store.lawful_bind_reader [OF reader_at_or_now] store.legal_rules store.legal_steps
  store.lawful_insert_new store.lawful_insert store.lawful_update

lemma lawful_create_record_body [legal_ops]:
  "lawful prof P (create_record_body actor entity_type scope principals record_id payload nr)"
  unfolding create_record_body_def
proof (intro op_rules legal_ops, goal_cases)
  case 1
  then show ?case
    using clean_value_canon [of "PDict payload"] validity_aware
    by (simp only: store_le_table, intro records.step_insert)
      (simp_all add: record_ok_def confidentiality_allowed_def secret_findings_empty_iff canon_PDict
        del: clean_value.simps canon.simps)
next
  case 2
  then show ?case
    by (simp only: store_le_table, intro projects.step_insert) (simp_all add: project_ok_def)
qed

lemma lawful_create_record [legal_ops]:
  "lawful prof P (create_record actor entity_type scope payload nr)"
  unfolding create_record_def by (intro op_rules legal_ops)

lemma lawful_get_record [legal_ops]: "lawful prof P (get_record actor record_id)"
  unfolding get_record_def by (intro op_rules legal_ops)

lemma lawful_list_records [legal_ops]: "lawful prof P (list_records actor entity_type)"
  unfolding list_records_def by (intro op_rules legal_ops)

lemma lawful_update_record [legal_ops]:
  "lawful prof P (update_record actor record_id payload expected_version correlation_id)"
  unfolding update_record_def
proof (intro op_rules legal_ops, goal_cases)
  case 1
  then have "clean_value (PDict (canon_dict payload))"
    using clean_value_canon [of "PDict payload"]
    by (simp add: secret_findings_empty_iff canon_PDict del: clean_value.simps canon.simps)
  then show ?case
    unfolding store_le_table
    by (intro records.step_update)
      (auto simp: record_ok_def record_step_def simp del: clean_value.simps)
qed

lemma lawful_link_records [legal_ops]:
  "lawful prof P (link_records actor from_id relationship_type to_id)"
  unfolding link_records_def
  by (intro op_rules legal_ops) (simp only: store_le_table, intro links.step_insert, simp_all)

lemma lawful_transition_project [legal_ops]:
  "lawful prof P (transition_project actor record_id state reason reopen_trigger review_at)"
  unfolding transition_project_def
proof (intro op_rules legal_ops, goal_cases)
  case 1
  then show ?case
    unfolding store_le_table
    by (intro projects.step_update)
      (auto simp: project_ok_def project_step_def text_or_def blank_def strip_def lstrip_def
        split: option.splits if_splits)
qed

lemma lawful_sale_export [legal_ops]: "lawful prof P (sale_export actor)"
  unfolding sale_export_def by (intro op_rules legal_ops)

lemma lawful_sale_export_package [legal_ops]: "lawful prof P (sale_export_package actor)"
  unfolding sale_export_package_def by (intro op_rules legal_ops)

section \<open>Running the audit log\<close>

text \<open>What an audited event adds, and the world it leaves.\<close>

definition audit_event ::
  "actor \<Rightarrow> string \<Rightarrow> audit_result \<Rightarrow> string \<Rightarrow> string option \<Rightarrow> pydict \<Rightarrow> string option \<Rightarrow> world \<Rightarrow> audit_row"
where
  "audit_event actor action result reason record_id details correlation_id w =
     (let (text, envelope) = audit_evidence result reason details in
      \<lparr>au_event = w_uuid w (w_fresh w), au_at = iso_utc (w_clock w (w_tick w)), au_actor = actor_id actor,
       au_action = action, au_result = result, au_reason = text, au_record = record_id,
       au_correlation = text_or correlation_id (w_uuid w (Suc (w_fresh w))),
       au_details = PDict (canon_dict envelope)\<rparr>)"

definition audited ::
  "actor \<Rightarrow> string \<Rightarrow> audit_result \<Rightarrow> string \<Rightarrow> string option \<Rightarrow> pydict \<Rightarrow> string option \<Rightarrow> bool \<Rightarrow>
   world \<Rightarrow> world"
where
  "audited actor action result reason record_id details correlation_id do_commit w =
     (let w1 = put_db (db_audit_update (\<lambda>rows. rows @
            [audit_event actor action result reason record_id details correlation_id w]))
          ((if given correlation_id = None then fresh_world else id) (tick_world (fresh_world w)))
      in if do_commit then commit_world w1 else w1)"

lemma run_audit_with:
  "audit_with actor action result reason record_id details correlation_id do_commit w =
     (Inr (), audited actor action result reason record_id details correlation_id do_commit w)"
  by (cases "audit_evidence result reason details"; cases correlation_id)
    (simp_all add: audit_with_def audited_def audit_event_def uuid4_def now_def now_instant_def
      sql_insert_def dml_def commit_def py_run given_def text_or_def Let_def)

lemma wp_audit_with [py_wp]:
  "wp (audit_with actor action result reason record_id details correlation_id do_commit) Q E w =
     Q () (audited actor action result reason record_id details correlation_id do_commit w)"
  by (simp add: wp_def run_audit_with)

lemma wp_audit [py_wp]:
  "wp (audit actor action result reason record_id details) Q E w =
     Q () (audited actor action result reason record_id details None True w)"
  by (simp add: audit_def wp_audit_with)

lemma run_audit [py_run]:
  "audit actor action result reason record_id details w =
     (Inr (), audited actor action result reason record_id details None True w)"
  by (simp add: audit_def run_audit_with)

lemma audited_simps [simp]:
  "w_db (audited actor action result reason record_id details correlation_id do_commit w) =
     db_audit_update (\<lambda>rows. rows @
       [audit_event actor action result reason record_id details correlation_id w]) (w_db w)"
  "w_committed (audited actor action result reason record_id details correlation_id True w) =
     w_db (audited actor action result reason record_id details correlation_id True w)"
  "w_committed (audited actor action result reason record_id details correlation_id False w) = w_committed w"
  "w_in_tx (audited actor action result reason record_id details correlation_id do_commit w) = (\<not> do_commit)"
  "w_profile (audited actor action result reason record_id details correlation_id do_commit w) = w_profile w"
  "w_clock (audited actor action result reason record_id details correlation_id do_commit w) = w_clock w"
  "w_uuid (audited actor action result reason record_id details correlation_id do_commit w) = w_uuid w"
  "w_sha256 (audited actor action result reason record_id details correlation_id do_commit w) = w_sha256 w"
  "w_tick (audited actor action result reason record_id details correlation_id do_commit w) = Suc (w_tick w)"
  by (simp_all add: audited_def Let_def)

lemma audit_event_ok: "audit_ok (audit_event actor action result reason record_id details correlation_id w)"
  by (cases "audit_evidence result reason details")
    (use clean_evidence in \<open>force simp: audit_ok_def audit_event_def clean_json simp del: clean_value.simps\<close>)

end
