(* ===== verification/Store_Rules.thy ===== *)
theory Store_Rules
  imports Store_Records
begin

text \<open>
  Reasoning about what an operation does: authorization as a value, databases that differ in
  the audit log only, and one introduction rule of the weakest-precondition calculus per form
  of statement. With them the behaviour of an operation on every branch is one walk through
  its text.
\<close>

section \<open>Authorization as a value\<close>

text \<open>The exception \<open>authorize\<close> raises, if any.\<close>

definition denial :: "string \<Rightarrow> actor \<Rightarrow> string \<Rightarrow> string list \<Rightarrow> string \<Rightarrow> exn option" where
  "denial profile actor scope principals action =
     (if \<not> List.member SCOPES scope then Some (ValidationError (''Unknown scope: '' @ scope))
      else if \<not> List.member (allowed_scopes profile) scope then
        Some (AuthorizationError (scope @ '' is outside the database's '' @ profile @ '' scope profile''))
      else if actor_is_sean actor then None
      else if \<not> List.member (actor_scopes actor) scope then
        Some (AuthorizationError (actor_id actor @ '' has no '' @ scope @ '' scope''))
      else if scope = ''SHARED'' \<and> \<not> List.member principals (actor_id actor) then
        Some (AuthorizationError (actor_id actor @ '' is not explicitly permitted for SHARED record''))
      else if action = ''write'' \<and> scope = ''PERSONAL'' \<and> actor_id actor \<noteq> ''sean'' then
        Some (AuthorizationError ''Only Sean may write PERSONAL records in v0.1'')
      else None)"

lemma run_authorize [py_run]:
  "authorize actor scope principals action w =
     (case denial (w_profile w) actor scope principals action of None \<Rightarrow> Inr () | Some e \<Rightarrow> Inl e, w)"
  by (simp add: authorize_def denial_def py_run)

lemma wp_authorize [py_wp]:
  "wp (authorize actor scope principals action) Q E w =
     (case denial (w_profile w) actor scope principals action of None \<Rightarrow> Q () w | Some e \<Rightarrow> E e w)"
  by (simp add: wp_def run_authorize split: option.splits)

text \<open>Two databases that differ in their audit log only.\<close>

definition audited_only :: "db \<Rightarrow> db \<Rightarrow> bool" where
  "audited_only d d' \<longleftrightarrow> d' = d\<lparr>db_audit := db_audit d'\<rparr>"

lemma audited_only_audit [simp]: "audited_only d (db_audit_update f d)"
  by (cases d) (simp add: audited_only_def)

lemma audited_only_refl [simp]: "audited_only d d"
  by (simp add: audited_only_def)

lemma audited_only_same:
  assumes "audited_only d d'"
  shows "db_records d' = db_records d" "db_approvals d' = db_approvals d" "db_work d' = db_work d"
    "db_projects d' = db_projects d" "db_links d' = db_links d" "db_runtime d' = db_runtime d"
    "db_budgets d' = db_budgets d" "db_reservations d' = db_reservations d"
    "db_transfers d' = db_transfers d" "db_restores d' = db_restores d" "db_deliveries d' = db_deliveries d"
  by (subst assms [unfolded audited_only_def], simp)+

lemma wp_get_record:
  assumes Q: "\<And>r c v. row_by rec_id i (db_records (w_db w)) = Some r \<Longrightarrow>
      denial (w_profile w) actor (rec_scope r) (rec_principals r) ''read'' = None \<Longrightarrow>
      audited_only (w_db w) (w_db v) \<Longrightarrow> w_profile v = w_profile w \<Longrightarrow>
      w_committed v = w_db v \<Longrightarrow> \<not> w_in_tx v \<Longrightarrow> Q (r, c) v"
    and E: "\<And>e v. audited_only (w_db w) (w_db v) \<Longrightarrow>
      w_committed v = w_committed w \<or> w_committed v = w_db v \<Longrightarrow> E e v"
  shows "wp (get_record actor i) Q E w"
proof (cases "row_by rec_id i (db_records (w_db w))")
  case None
  then show ?thesis by (simp add: get_record_def py_wp E)
next
  case (Some r)
  show ?thesis
  proof (cases "denial (w_profile w) actor (rec_scope r) (rec_principals r) ''read''")
    case None
    with Some show ?thesis
      by (auto simp: get_record_def py_wp split: sum.splits intro: Q E)
  next
    case (Some e)
    with \<open>row_by rec_id i (db_records (w_db w)) = _\<close> show ?thesis
      by (simp add: get_record_def py_wp E)
  qed
qed

section \<open>Rules that follow the statements\<close>

text \<open>
  The equations \<open>py_wp\<close> as introduction rules, one per statement form: they walk through an
  operation and leave the conditions at its exits.
\<close>

lemma wp_step_guard:
  "(c \<Longrightarrow> E e w) \<Longrightarrow> (\<not> c \<Longrightarrow> wp n Q E w) \<Longrightarrow> wp (seq (raise_if c e) n) Q E w"
  by (simp add: py_wp)

lemma wp_step_lift:
  "(\<And>e. r = Inl e \<Longrightarrow> E e w) \<Longrightarrow> (\<And>x. r = Inr x \<Longrightarrow> wp (f x) Q E w) \<Longrightarrow> wp (bind (lift_result r) f) Q E w"
  by (cases r) (simp_all add: py_wp)

lemma wp_step_authorize:
  "(\<And>e. denial (w_profile w) actor scope principals action = Some e \<Longrightarrow> E e w) \<Longrightarrow>
   (denial (w_profile w) actor scope principals action = None \<Longrightarrow> wp n Q E w) \<Longrightarrow>
   wp (seq (authorize actor scope principals action) n) Q E w"
  by (simp add: py_wp split: option.splits)

lemma wp_step_table: "wp (f (sel (w_db w))) Q E w \<Longrightarrow> wp (bind (table sel) f) Q E w"
  by (simp add: py_wp)

lemma wp_step_reads: "wp (f (g w)) Q E w \<Longrightarrow> wp (bind (reads g) f) Q E w"
  by (simp add: py_wp)

lemma wp_step_now: "wp (f (iso_utc (w_clock w (w_tick w)))) Q E (tick_world w) \<Longrightarrow> wp (bind now f) Q E w"
  by (simp add: py_wp)

lemma wp_step_instant: "wp (f (w_clock w (w_tick w))) Q E (tick_world w) \<Longrightarrow> wp (bind now_instant f) Q E w"
  by (simp add: py_wp)

lemma wp_step_seq_if:
  "(c \<Longrightarrow> wp (seq a n) Q E w) \<Longrightarrow> (\<not> c \<Longrightarrow> wp (seq b n) Q E w) \<Longrightarrow> wp (seq (if c then a else b) n) Q E w"
  by simp

lemma wp_step_if: "(c \<Longrightarrow> wp m Q E w) \<Longrightarrow> (\<not> c \<Longrightarrow> wp n Q E w) \<Longrightarrow> wp (if c then m else n) Q E w"
  by simp

lemma wp_step_option:
  "(x = None \<Longrightarrow> wp m Q E w) \<Longrightarrow> (\<And>y. x = Some y \<Longrightarrow> wp (f y) Q E w) \<Longrightarrow>
   wp (case x of None \<Rightarrow> m | Some y \<Rightarrow> f y) Q E w"
  by (cases x) simp_all

lemma wp_step_let: "(\<And>x. x = t \<Longrightarrow> wp (f x) Q E w) \<Longrightarrow> wp (let x = t in f x) Q E w"
  by simp

lemma wp_step_ret: "Q x w \<Longrightarrow> wp (ret x) Q E w"
  by (simp add: py_wp)

lemma wp_step_raise: "E e w \<Longrightarrow> wp (raise e) Q E w"
  by (simp add: py_wp)

lemma wp_step_skip: "wp n Q E w \<Longrightarrow> wp (seq (ret x) n) Q E w"
  by (simp add: py_wp)

lemma wp_step_commit: "wp n Q E (commit_world w) \<Longrightarrow> wp (seq commit n) Q E w"
  by (simp add: py_wp)

lemma wp_step_rollback: "wp n Q E (rollback_world w) \<Longrightarrow> wp (seq rollback n) Q E w"
  by (simp add: py_wp)

lemma wp_step_begin:
  "(w_in_tx w \<Longrightarrow> E (OperationalError ''cannot start a transaction within a transaction'') w) \<Longrightarrow>
   (\<not> w_in_tx w \<Longrightarrow> wp n Q E (begin_world w)) \<Longrightarrow> wp (seq begin_immediate n) Q E w"
  by (simp add: py_wp)

lemma wp_step_audit:
  "wp n Q E (audited actor action result reason record_id details None True w) \<Longrightarrow>
   wp (seq (audit actor action result reason record_id details) n) Q E w"
  by (simp add: py_wp)

lemma wp_step_audit_with:
  "wp n Q E (audited actor action result reason record_id details correlation do_commit w) \<Longrightarrow>
   wp (seq (audit_with actor action result reason record_id details correlation do_commit) n) Q E w"
  by (simp add: py_wp)

lemma wp_step_insert_new:
  "(list_ex (\<lambda>x. key x = key r) (sel (w_db w)) \<Longrightarrow>
      E (IntegrityError ''UNIQUE constraint failed'') (put_db id w)) \<Longrightarrow>
   (\<not> list_ex (\<lambda>x. key x = key r) (sel (w_db w)) \<Longrightarrow>
      wp n Q E (put_db (put (\<lambda>rows. rows @ [r])) w)) \<Longrightarrow>
   wp (seq (sql_insert_new sel put key r) n) Q E w"
  by (simp add: py_wp)

lemma wp_step_reject: "E (IntegrityError m) (put_db id w) \<Longrightarrow> wp (seq (reject m) n) Q E w"
  by (simp add: py_wp)

lemma wp_step_update:
  "wp (f (count_where p (sel (w_db w)))) Q E (put_db (put (update_where p g)) w) \<Longrightarrow>
   wp (bind (sql_update sel put p g) f) Q E w"
  by (simp add: py_wp)

lemma wp_step_update_seq:
  "wp n Q E (put_db (put (update_where p g)) w) \<Longrightarrow> wp (seq (sql_update sel put p g) n) Q E w"
  by (simp add: py_wp)

lemma wp_step_prod: "(\<And>a b. p = (a, b) \<Longrightarrow> wp (f a b) Q E w) \<Longrightarrow> wp (case p of (a, b) \<Rightarrow> f a b) Q E w"
  by (cases p) simp

lemma wp_step_sha256: "wp (f (w_sha256 w s)) Q E w \<Longrightarrow> wp (bind (sha256 s) f) Q E w"
  by (simp add: py_wp)

lemma wp_step_uuid4: "wp (f (w_uuid w (w_fresh w))) Q E (fresh_world w) \<Longrightarrow> wp (bind uuid4 f) Q E w"
  by (simp add: py_wp)

lemma wp_step_seq_bind: "wp (bind m (\<lambda>x. seq (f x) n)) Q E w \<Longrightarrow> wp (seq (bind m f) n) Q E w"
  by (simp add: wp_def bind_def seq_def split: prod.splits sum.splits)

lemma wp_step_seq_assoc: "wp (seq a (seq b n)) Q E w \<Longrightarrow> wp (seq (seq a b) n) Q E w"
  by (simp add: wp_def bind_def seq_def split: prod.splits sum.splits)

text \<open>Steps whose effect does not matter.\<close>

lemma wp_step_any:
  "(\<And>x v. wp (f x) Q E v) \<Longrightarrow> (\<And>e v. E e v) \<Longrightarrow> wp (bind m f) Q E w"
proof (cases "m w")
  case (Pair r v)
  then show "(\<And>x v. wp (f x) Q E v) \<Longrightarrow> (\<And>e v. E e v) \<Longrightarrow> ?thesis"
    by (cases r) (auto simp: wp_def bind_def)
qed

lemma wp_step_seq_any:
  "(\<And>v. wp n Q E v) \<Longrightarrow> (\<And>e v. E e v) \<Longrightarrow> wp (seq m n) Q E w"
  unfolding seq_def by (rule wp_step_any)

lemmas wp_steps =
  wp_step_guard wp_step_lift wp_step_authorize wp_step_table wp_step_reads wp_step_now
  wp_step_instant wp_step_seq_if wp_step_if wp_step_option wp_step_let wp_step_ret wp_step_raise
  wp_step_skip wp_step_commit wp_step_rollback wp_step_begin wp_step_audit wp_step_audit_with
  wp_step_insert_new wp_step_reject wp_step_update wp_step_update_seq

section \<open>Versioned updates\<close>

lemma wp_update_record:
  assumes "distinct (map rec_id (db_records (w_db w)))"
  shows "wp (update_record actor i payload version correlation)
    (\<lambda>n v. n = version + 1 \<and> w_committed v = w_db v \<and>
       (\<exists>r stamp. row_by rec_id i (db_records (w_db w)) = Some r \<and> rec_version r = version \<and>
          denial (w_profile w) actor (rec_scope r) (rec_principals r) ''write'' = None \<and>
          row_by rec_id i (db_records (w_db v)) = Some (r\<lparr>rec_payload := PDict (canon_dict payload),
            rec_updated_at := stamp, rec_version := version + 1\<rparr>)))
    (\<lambda>e v. db_records (w_db v) = db_records (w_db w)) w"
proof (cases "secret_findings (PDict payload) = []")
  case False
  then show ?thesis by (simp add: update_record_def py_wp Let_def)
next
  case True
  show ?thesis
    unfolding update_record_def Let_def
    apply (simp add: py_wp True)
    apply (rule wp_get_record)
    subgoal for r c v
      using assms
      by (auto simp: py_wp audited_only_same count_where_key row_by_update_where dest: row_by_SomeD split: option.splits)
    subgoal by (simp add: audited_only_same)
    done
qed

section \<open>Creating a record\<close>

lemma validity_error: "validity_ok p = Inl e \<Longrightarrow> handled e"
  by (cases p) (auto simp: validity_ok_def handled_def is_aware_def dt_le_def dt_cmp_def
      split: if_splits option.splits sum.splits)

lemma parse_error: "parse_validity a b = Inl e \<Longrightarrow> handled e"
  by (auto simp: parse_validity_def handled_def Let_def split: option.splits sum.splits)

lemma handled_simps [simp]: "handled (ValidationError m)" "handled (IntegrityError m)"
  by (simp_all add: handled_def)

lemma denial_handled: "denial profile actor scope principals action = Some e \<Longrightarrow> handled e"
  by (auto simp: denial_def handled_def split: if_splits)

definition new_row_of :: "actor \<Rightarrow> string \<Rightarrow> string \<Rightarrow> string \<Rightarrow> pydict \<Rightarrow> rec_row \<Rightarrow> bool" where
  "new_row_of actor entity_type scope i payload r \<longleftrightarrow> rec_id r = i \<and> rec_type r = entity_type \<and>
     rec_scope r = scope \<and> rec_payload r = PDict (canon_dict payload) \<and> rec_version r = 1 \<and>
     rec_created_by r = actor_id actor"

lemma wp_create_record_body:
  "wp (create_record_body actor entity_type scope principals i payload nr)
    (\<lambda>n v. n = i \<and> w_committed v = w_db v \<and>
       denial (w_profile w) actor scope principals ''write'' = None \<and>
       (\<exists>r. db_records (w_db v) = db_records (w_db w) @ [r] \<and> new_row_of actor entity_type scope i payload r))
    (\<lambda>e v. handled e \<and> w_committed v = w_committed w) w"
  unfolding create_record_body_def
  by (intro wp_steps)
    (auto simp: handled_simps new_row_of_def intro: validity_error parse_error denial_handled)

text \<open>The exception handler rolls back, records the refusal and raises again.\<close>

lemma wp_create_record:
  "wp (create_record actor entity_type scope payload nr)
    (\<lambda>n v. n = w_uuid w (w_fresh w) \<and> w_committed v = w_db v \<and>
       denial (w_profile w) actor (upper scope) (sort (remdups (nr_principals nr))) ''write'' = None \<and>
       (\<exists>r. db_records (w_db v) = db_records (w_db w) @ [r] \<and>
          new_row_of actor (upper entity_type) (upper scope) n payload r))
    (\<lambda>e v. db_records (w_db v) = db_records (w_committed w) \<and> w_committed v = w_db v) w"
  unfolding create_record_def Let_def wp_bind wp_uuid4 wp_try_except
  by (rule wp_mono [OF wp_create_record_body]) (auto simp: py_wp)

end
