(* ===== verification/Store_Approvals.thy ===== *)
theory Store_Approvals
  imports Store_Rules
begin

text \<open>
  \<^verbatim>\<open>sean_os/store.py\<close>: the approval queue. An approval is a record of type
  APPROVAL with a row in \<open>approvals\<close>; it is created APPROVED by Sean or requested as
  PENDING and decided later, and \<open>consume_approval\<close> is the gate every approval-bound
  operation passes.
\<close>

section \<open>Operations\<close>

definition approval_secrets :: "string \<Rightarrow> string \<Rightarrow> string \<Rightarrow> pydict \<Rightarrow> finding list" where
  "approval_secrets action_type target max_impact conditions =
     secret_findings (PDict [(''action_type'', PStr action_type), (''target'', PStr target),
       (''max_impact'', PStr max_impact), (''conditions'', PDict conditions)])"

definition create_approval ::
  "actor \<Rightarrow> string \<Rightarrow> string \<Rightarrow> string \<Rightarrow> string \<Rightarrow> string \<Rightarrow> string \<Rightarrow> pydict \<Rightarrow> bool \<Rightarrow> string py" where
  "create_approval actor action_type target scope max_impact approver expires_at conditions reusable =
     seq (raise_if (\<not> actor_is_sean actor)
            (AuthorizationError ''Only Sean may create approvals in v0.1''))
    (seq (raise_if (approval_secrets action_type target max_impact conditions \<noteq> [])
            (ValidationError ''Secret-like material is prohibited in approval records''))
    (bind (create_record actor ''APPROVAL'' scope
             [(''action_type'', PStr action_type), (''target'', PStr target)]
             (defaults\<lparr>nr_source := ''approval-queue'', nr_portable := Some (scope = ''IAC''),
                nr_principals := (if scope = ''SHARED'' then [approver] else []),
                nr_expires_at := Some expires_at, nr_retention := ''until_expired''\<rparr>)) (\<lambda>approval_id.
     seq (if List.member SCOPES scope then
            sql_insert_new db_approvals db_approvals_update ap_id
              \<lparr>ap_id = approval_id, ap_action = action_type, ap_target = target, ap_scope = scope,
               ap_impact = max_impact, ap_conditions = PDict (canon_dict conditions),
               ap_approver = approver, ap_status = AP_APPROVED, ap_expires_at = expires_at,
               ap_reusable = reusable\<rparr>
          else reject ''CHECK constraint failed: approvals'')
    (seq commit
    (seq (audit actor ''CREATE_APPROVAL'' AU_ALLOWED ''Explicit approval recorded'' (Some approval_id)
            [(''action_type'', PStr action_type), (''target'', PStr target), (''reusable'', PBool reusable)])
     (ret approval_id))))))"

definition request_approval ::
  "actor \<Rightarrow> string \<Rightarrow> string \<Rightarrow> string \<Rightarrow> string \<Rightarrow> string \<Rightarrow> pydict \<Rightarrow> string py" where
  "request_approval actor action_type target scope max_impact expires_at conditions =
     seq (raise_if (approval_secrets action_type target max_impact conditions \<noteq> [])
            (ValidationError ''Secret-like material is prohibited in approval records''))
    (seq (authorize actor scope [] ''write'')
    (bind (create_record actor ''APPROVAL'' scope
             [(''action_type'', PStr action_type), (''target'', PStr target)]
             (defaults\<lparr>nr_source := ''approval-request'', nr_portable := Some (scope = ''IAC''),
                nr_expires_at := Some expires_at, nr_retention := ''until_expired''\<rparr>)) (\<lambda>approval_id.
     seq (sql_insert_new db_approvals db_approvals_update ap_id
            \<lparr>ap_id = approval_id, ap_action = action_type, ap_target = target, ap_scope = scope,
             ap_impact = max_impact, ap_conditions = PDict (canon_dict conditions),
             ap_approver = ''sean'', ap_status = AP_PENDING, ap_expires_at = expires_at,
             ap_reusable = False\<rparr>)
    (seq commit
    (seq (audit actor ''REQUEST_APPROVAL'' AU_ALLOWED ''Bounded approval requested'' (Some approval_id)
            [(''action_type'', PStr action_type), (''target'', PStr target),
             (''max_impact'', PStr max_impact)])
     (ret approval_id))))))"

definition set_approval :: "string \<Rightarrow> approval_status \<Rightarrow> nat py" where
  "set_approval approval_id status =
     sql_update db_approvals db_approvals_update (\<lambda>r. ap_id r = approval_id)
       (\<lambda>r. r\<lparr>ap_status := status\<rparr>)"

definition decide_approval :: "actor \<Rightarrow> string \<Rightarrow> bool \<Rightarrow> string \<Rightarrow> approval_status py" where
  "decide_approval actor approval_id approve reason =
     seq (raise_if (\<not> actor_is_sean actor)
            (AuthorizationError ''Only Sean may decide approval requests''))
    (seq (raise_if (blank reason) (ValidationError ''Approval decisions require a reason''))
    (seq (raise_if (secret_findings (PDict [(''reason'', PStr reason)]) \<noteq> [])
            (ValidationError ''Secret-like material is prohibited in approval evidence''))
    (bind (table db_approvals) (\<lambda>rows.
     case row_by ap_id approval_id rows of
       None \<Rightarrow> raise (ValidationError ''Approval not found'')
     | Some row \<Rightarrow>
         seq (authorize actor (ap_scope row) [] ''write'')
        (seq (raise_if (ap_status row \<noteq> AP_PENDING) (ValidationError ''Approval is not pending''))
        (bind (lift_result (fromisoformat (ap_expires_at row))) (\<lambda>expires.
         bind now_instant (\<lambda>t.
         bind (lift_result (dt_le expires (utc_dt t))) (\<lambda>expired.
         if expired then
           seq (set_approval approval_id AP_EXPIRED)
          (seq commit
          (seq (audit actor ''DECIDE_APPROVAL'' AU_DENIED ''Approval request expired''
                  (Some approval_id) [(''status'', PStr ''EXPIRED'')])
           (raise (ValidationError ''Approval request expired''))))
         else
           (let status = (if approve then AP_APPROVED else AP_DENIED) in
            bind (sql_update db_approvals db_approvals_update
                    (\<lambda>r. ap_id r = approval_id \<and> ap_status r = AP_PENDING)
                    (\<lambda>r. r\<lparr>ap_status := status\<rparr>)) (\<lambda>rowcount.
            if rowcount \<noteq> 1 then seq rollback (raise (ValidationError ''Approval is not pending''))
            else
              seq commit
             (seq (audit actor ''DECIDE_APPROVAL'' AU_ALLOWED reason (Some approval_id)
                     [(''status'', PStr (if approve then ''APPROVED'' else ''DENIED''))])
              (ret status)))))))))))))"

fun approval_status_str :: "approval_status \<Rightarrow> string" where
  "approval_status_str AP_PENDING = ''PENDING''"
| "approval_status_str AP_APPROVED = ''APPROVED''"
| "approval_status_str AP_DENIED = ''DENIED''"
| "approval_status_str AP_EXPIRED = ''EXPIRED''"
| "approval_status_str AP_CONSUMED = ''CONSUMED''"

text \<open>The chain of tests of \<open>consume_approval\<close>; the last one compares texts.\<close>

definition refusal ::
  "string \<Rightarrow> actor \<Rightarrow> approval_row option \<Rightarrow> string \<Rightarrow> string \<Rightarrow> string \<Rightarrow> string option \<Rightarrow>
   pydict option \<Rightarrow> string option" where
  "refusal profile actor row action_type target timestamp scope conditions =
     (case row of None \<Rightarrow> Some ''Approval not found''
      | Some r \<Rightarrow>
          if \<not> List.member (allowed_scopes profile) (ap_scope r) \<or> \<not> List.member (actor_scopes actor) (ap_scope r)
          then Some ''Approval scope is not authorized for this actor or database''
          else if (case scope of None \<Rightarrow> False | Some s \<Rightarrow> ap_scope r \<noteq> s)
          then Some ''Approval scope does not match the action scope''
          else if ap_status r \<noteq> AP_APPROVED
          then Some (''Approval status is '' @ approval_status_str (ap_status r))
          else if ap_action r \<noteq> action_type \<or> ap_target r \<noteq> target
          then Some ''Approval does not match exact action and target''
          else if (case conditions of None \<Rightarrow> False | Some c \<Rightarrow> \<not> py_eq (ap_conditions r) (PDict c))
          then Some ''Approval conditions do not match the exact action plan''
          else if ap_expires_at r \<le> timestamp then Some ''Approval expired''
          else None)"

definition consume_approval ::
  "actor \<Rightarrow> string \<Rightarrow> string \<Rightarrow> string \<Rightarrow> string option \<Rightarrow> string option \<Rightarrow> pydict option \<Rightarrow> bool \<Rightarrow> unit py"
where
  "consume_approval actor approval_id action_type target at_time scope conditions do_commit =
     seq (raise_if (case conditions of None \<Rightarrow> False | Some c \<Rightarrow> secret_findings (PDict c) \<noteq> [])
            (ValidationError ''Secret-like material is prohibited in approval conditions''))
    (bind (table db_approvals) (\<lambda>rows.
     let row = row_by ap_id approval_id rows in
     bind (at_or_now at_time) (\<lambda>timestamp.
     bind (reads w_profile) (\<lambda>profile.
     case refusal profile actor row action_type target timestamp scope conditions of
       Some reason \<Rightarrow>
         seq (audit actor ''CONSUME_APPROVAL'' AU_DENIED reason (Some approval_id)
               [(''action_type'', PStr action_type), (''target'', PStr target)])
             (raise (AuthorizationError reason))
     | None \<Rightarrow>
         seq (case row of None \<Rightarrow> ret 0
              | Some r \<Rightarrow> if ap_reusable r then ret 0 else set_approval approval_id AP_CONSUMED)
          (audit_with actor ''CONSUME_APPROVAL'' AU_ALLOWED ''Exact active approval matched''
             (Some approval_id) [(''action_type'', PStr action_type), (''target'', PStr target)]
             None do_commit)))))"

section \<open>The laws\<close>

lemma create_record_scope:
  assumes "create_record actor entity_type scope payload nr w = (Inr x, w')"
  shows "upper scope \<in> set (allowed_scopes (w_profile w))"
proof -
  obtain R where body: "create_record_body actor (upper entity_type) (upper scope)
       (sort (remdups (nr_principals nr))) (w_uuid w (w_fresh w)) payload nr =
     seq (raise_if (\<not> List.member ENTITY_TYPES (upper entity_type))
            (ValidationError (''Unknown entity type: '' @ upper entity_type)))
    (seq (raise_if (secret_findings (PDict payload) \<noteq> []) (ValidationError
            (''Secret-like material is prohibited in canonical record payloads: '' @
             join '', '' (map f_path (secret_findings (PDict payload))))))
    (seq (authorize actor (upper scope) (sort (remdups (nr_principals nr))) ''write'') R))"
    unfolding create_record_body_def Let_def by blast
  have fails: "fst (seq rollback (seq (audit_with actor a r m i d c b) (raise e)) v) \<noteq> Inr y"
    for a r m i d c b e v y
    by (auto simp: py_run split: sum.splits prod.splits)
  from assms obtain y where
    "create_record_body actor (upper entity_type) (upper scope)
       (sort (remdups (nr_principals nr))) (w_uuid w (w_fresh w)) payload nr (fresh_world w) = (Inr x, y)"
    using fails
    by (auto simp: create_record_def Let_def run_bind run_try_except uuid4_def run_reads run_seq
        run_modify run_ret run_raise split: sum.splits prod.splits if_splits)
  then show ?thesis
    unfolding body
    by (auto simp: run_seq run_raise_if split: sum.splits prod.splits if_splits
        dest!: authorize_scopes)
qed

lemma SCOPES_upper: "s \<in> set SCOPES \<Longrightarrow> upper s = s"
  by (auto simp: SCOPES_def) code_simp+

lemma approval_secrets_clean:
  "approval_secrets a t m c = [] \<longleftrightarrow> clean_value (PStr a) \<and> clean_value (PStr t) \<and>
     clean_value (PStr m) \<and> clean_value (PDict (canon_dict c))"
proof -
  have "clean_value (PDict [(''action_type'', PStr a), (''target'', PStr t),
       (''max_impact'', PStr m), (''conditions'', PDict c)]) \<longleftrightarrow>
     clean_value (PStr a) \<and> clean_value (PStr t) \<and> clean_value (PStr m) \<and> clean_value (PDict c)"
  proof -
    have "list_all (\<lambda>k. \<not> List.member SENSITIVE_KEYS (normalized_key k))
        [''action_type'', ''target'', ''max_impact'', ''conditions'']" by code_simp
    then show ?thesis by (simp del: clean_value.simps(3))
  qed
  then show ?thesis
    using clean_value_canon [of "PDict c"]
    by (simp only: approval_secrets_def secret_findings_empty_iff canon_PDict)
qed

lemma lawful_create_approval [legal_ops]:
  "lawful prof P (create_approval actor action_type target scope max_impact approver expires_at
     conditions reusable)"
  unfolding create_approval_def
proof (intro op_rules(1,3,4),
    rule store.lawful_bind_result [where C = "\<lambda>_. upper scope \<in> set (allowed_scopes prof)"],
    rule lawful_create_record, goal_cases)
  case (1 w x w')
  then show ?case by (metis create_record_scope)
next
  case (2 x)
  then show ?case
  proof (intro op_rules legal_ops, goal_cases)
    case 1
    then show ?case
      unfolding store_le_table
      by (intro approvals.step_insert)
        (simp_all add: approval_ok_def approval_secrets_clean SCOPES_upper del: clean_value.simps)
  qed
qed

lemma lawful_request_approval [legal_ops]:
  "lawful prof P (request_approval actor action_type target scope max_impact expires_at conditions)"
  unfolding request_approval_def
proof (intro op_rules legal_ops, goal_cases)
  case 1
  then show ?case
    unfolding store_le_table
    by (intro approvals.step_insert)
      (simp_all add: approval_ok_def approval_secrets_clean del: clean_value.simps)
qed

text \<open>The status write of an id whose row was just read as PENDING or APPROVED.\<close>

lemma set_approval_step:
  assumes "row_by ap_id i (db_approvals d) = Some r" and "approval_path (ap_status r) s"
  shows "store_le prof d (db_approvals_update
           (update_where (\<lambda>r. ap_id r = i) (\<lambda>r. r\<lparr>ap_status := s\<rparr>)) d)"
  unfolding store_le_table
proof (rule approvals.step_update)
  fix x
  assume x: "x \<in> set (db_approvals d)" "ap_id x = i" "approval_ok prof x"
    and ok: "table_ok ap_id (approval_ok prof) (db_approvals d)"
  have "x = r" by (rule table_ok_unique [OF ok assms(1) x(1,2)])
  with x show "approval_ok prof (x\<lparr>ap_status := s\<rparr>) \<and> approval_step x (x\<lparr>ap_status := s\<rparr>)"
    using assms(2) by (simp add: approval_ok_def approval_step_def)
qed

lemma lawful_set_approval:
  assumes "\<And>d. P d \<Longrightarrow> \<exists>r. row_by ap_id i (db_approvals d) = Some r \<and> approval_path (ap_status r) s"
  shows "lawful prof P (set_approval i s)"
  unfolding set_approval_def
proof (rule store.lawful_update)
  fix d
  assume "P d"
  then obtain r where "row_by ap_id i (db_approvals d) = Some r" "approval_path (ap_status r) s"
    using assms by blast
  then show "store_le prof d (db_approvals_update
      (update_where (\<lambda>r. ap_id r = i) (\<lambda>r. r\<lparr>ap_status := s\<rparr>)) d)"
    by (rule set_approval_step)
qed

lemma lawful_decide_approval [legal_ops]:
  "lawful prof P (decide_approval actor approval_id approve reason)"
  unfolding decide_approval_def
proof (intro op_rules legal_ops lawful_set_approval, goal_cases)
  case 1
  then show ?case by (auto simp: approval_path_def)
next
  case (2 rows row expires t expired status d)
  then show ?case
    unfolding store_le_table
    by (intro approvals.step_update) (auto simp: approval_ok_def approval_step_def approval_path_def)
qed

lemma refusal_NoneD:
  "refusal profile actor row action_type target timestamp scope conditions = None \<Longrightarrow>
     \<exists>r. row = Some r \<and> ap_status r = AP_APPROVED \<and> ap_action r = action_type \<and>
       ap_target r = target \<and> ap_scope r \<in> set (allowed_scopes profile) \<and>
       ap_scope r \<in> set (actor_scopes actor) \<and> timestamp < ap_expires_at r"
  by (auto simp: refusal_def split: option.splits if_splits)

lemma lawful_consume_approval [legal_ops]:
  "lawful prof P (consume_approval actor approval_id action_type target at_time scope conditions do_commit)"
  unfolding consume_approval_def
proof (intro op_rules legal_ops lawful_set_approval, goal_cases)
  case 1
  then show ?case by (auto simp: approval_path_def dest: refusal_NoneD)
qed

section \<open>The gate\<close>

text \<open>What an approval must satisfy to be consumed at a time.\<close>

definition grants ::
  "string \<Rightarrow> actor \<Rightarrow> string \<Rightarrow> string \<Rightarrow> string \<Rightarrow> string option \<Rightarrow> pydict option \<Rightarrow> approval_row \<Rightarrow> bool"
where
  "grants profile actor action_type target timestamp scope conditions r \<longleftrightarrow>
     ap_status r = AP_APPROVED \<and> ap_action r = action_type \<and> ap_target r = target \<and>
     ap_scope r \<in> set (allowed_scopes profile) \<and> ap_scope r \<in> set (actor_scopes actor) \<and>
     (scope = None \<or> scope = Some (ap_scope r)) \<and> timestamp < ap_expires_at r \<and>
     (case conditions of None \<Rightarrow> True | Some c \<Rightarrow> clean_value (PDict c) \<and> py_eq (ap_conditions r) (PDict c))"

lemma refusal_None_iff:
  "refusal profile actor row action_type target timestamp scope conditions = None \<longleftrightarrow>
     (\<exists>r. row = Some r \<and> ap_status r = AP_APPROVED \<and> ap_action r = action_type \<and> ap_target r = target \<and>
     ap_scope r \<in> set (allowed_scopes profile) \<and> ap_scope r \<in> set (actor_scopes actor) \<and>
     (scope = None \<or> scope = Some (ap_scope r)) \<and> timestamp < ap_expires_at r \<and>
     (case conditions of None \<Rightarrow> True | Some c \<Rightarrow> py_eq (ap_conditions r) (PDict c)))"
  by (auto simp: refusal_def split: option.splits)

definition gate_time :: "string option \<Rightarrow> world \<Rightarrow> string" where
  "gate_time at_time w = text_or at_time (iso_utc (w_clock w (w_tick w)))"

lemma wp_at_or_now [py_wp]:
  "wp (at_or_now at_time) Q E w = Q (gate_time at_time w) (if given at_time = None then tick_world w else w)"
  by (auto simp: at_or_now_def gate_time_def text_or_def given_def py_wp split: option.splits)

text \<open>Consuming either raises, and changes the audit log only, or marks the approval.\<close>

lemma wp_consume_approval:
  "wp (consume_approval actor i action_type target at_time scope conditions do_commit)
     (\<lambda>_ v. (\<exists>r. row_by ap_id i (db_approvals (w_db w)) = Some r \<and>
          grants (w_profile w) actor action_type target (gate_time at_time w) scope conditions r \<and>
          db_approvals (w_db v) = (if ap_reusable r then db_approvals (w_db w)
            else update_where (\<lambda>a. ap_id a = i) (\<lambda>a. a\<lparr>ap_status := AP_CONSUMED\<rparr>) (db_approvals (w_db w)))) \<and>
        (do_commit \<longrightarrow> w_committed v = w_db v))
     (\<lambda>_ v. \<not> (\<exists>r. row_by ap_id i (db_approvals (w_db w)) = Some r \<and>
          grants (w_profile w) actor action_type target (gate_time at_time w) scope conditions r) \<and>
        db_approvals (w_db v) = db_approvals (w_db w)) w"
proof (cases "\<exists>c. conditions = Some c \<and> secret_findings (PDict c) \<noteq> []")
  case True
  then show ?thesis
    by (auto simp: consume_approval_def py_wp grants_def secret_findings_empty_iff)
next
  case False
  then have clean: "case conditions of None \<Rightarrow> True | Some c \<Rightarrow> secret_findings (PDict c) = []"
    by (auto split: option.splits)
  let ?row = "row_by ap_id i (db_approvals (w_db w))"
  show ?thesis
  proof (cases "refusal (w_profile w) actor ?row action_type target (gate_time at_time w) scope conditions")
    case None
    then obtain r where r: "?row = Some r"
        "grants (w_profile w) actor action_type target (gate_time at_time w) scope conditions r"
      using clean unfolding refusal_None_iff grants_def
      by (auto simp: secret_findings_empty_iff split: option.splits)
    show ?thesis
      using None r clean
      by (cases conditions; cases do_commit)
        (auto simp: consume_approval_def set_approval_def py_wp Let_def)
  next
    case (Some reason)
    then have no: "\<not> (\<exists>r. ?row = Some r \<and>
        grants (w_profile w) actor action_type target (gate_time at_time w) scope conditions r)"
      using clean refusal_None_iff [of "w_profile w" actor ?row action_type target "gate_time at_time w" scope conditions]
      by (auto simp: grants_def split: option.splits)
    show ?thesis
      using Some no clean by (cases conditions) (auto simp: consume_approval_def py_wp Let_def)
  qed
qed

lemma consume_approval_iff:
  "fst (consume_approval actor i action_type target at_time scope conditions do_commit w) = Inr () \<longleftrightarrow>
     (\<exists>r. row_by ap_id i (db_approvals (w_db w)) = Some r \<and>
       grants (w_profile w) actor action_type target (gate_time at_time w) scope conditions r)"
  using wp_consume_approval [of actor i action_type target at_time scope conditions do_commit w]
  unfolding wp_def by (cases "consume_approval actor i action_type target at_time scope conditions do_commit w")
    (auto split: sum.splits)

text \<open>
  C2. An approval is consumed exactly if its row exists, is APPROVED, names this action and
  target, its scope is one of the database and of the actor (and the requested one), it has not
  expired as a text, and the requested conditions are free of secrets and equal to the stored ones.
\<close>

theorem consume_approval_gate:
  "fst (consume_approval actor i action_type target at_time scope conditions do_commit w) = Inr () \<longleftrightarrow>
     (\<exists>r. row_by ap_id i (db_approvals (w_db w)) = Some r \<and>
       grants (w_profile w) actor action_type target (gate_time at_time w) scope conditions r)"
  by (rule consume_approval_iff)

end
