(* ===== verification/Store_Work.thy ===== *)
theory Store_Work
  imports Store_Approvals
begin

text \<open>
  \<^verbatim>\<open>sean_os/store.py\<close>: the kill switch, the monthly budgets, heartbeats and health,
  and the durable work queue with its leases, cost reservations and receipts, and the
  reading of the audit log.
\<close>

section \<open>Kill switch and budgets\<close>

definition set_kill_switch :: "actor \<Rightarrow> bool \<Rightarrow> unit py" where
  "set_kill_switch actor enabled =
     (if \<not> actor_is_sean actor then
        seq (audit actor ''SET_KILL_SWITCH'' AU_DENIED ''Only Sean controls the kill switch'' None [])
            (raise (AuthorizationError ''Only Sean controls the kill switch''))
      else
        (let v = (if enabled then ''ON'' else ''OFF'') in
         bind now (\<lambda>stamp.
         seq (sql_update db_runtime db_runtime_update (\<lambda>r. rt_key r = ''kill_switch'')
                (\<lambda>r. r\<lparr>rt_value := v, rt_updated_at := stamp\<rparr>))
        (seq commit
         (audit actor ''SET_KILL_SWITCH'' AU_ALLOWED (''Kill switch '' @ v) None [])))))"

definition kill_switch_enabled :: "bool py" where
  "kill_switch_enabled =
     bind (table db_runtime) (\<lambda>rows. case row_by rt_key ''kill_switch'' rows of
       None \<Rightarrow> raise (TypeError ''NoneType object is not subscriptable'')
     | Some row \<Rightarrow> ret (rt_value row = ''ON''))"

definition budget_key :: "budget_row \<Rightarrow> string \<times> string" where
  "budget_key b = (bg_scope b, bg_period b)"

text \<open>NOT NULL and CHECK of the three REAL columns; SQLite stores a NaN as NULL.\<close>

definition real_ok :: "pyfloat \<Rightarrow> bool" where
  "real_ok x = fle (Fin 0) x"

definition budget_ok :: "budget_row \<Rightarrow> bool" where
  "budget_ok b = (real_ok (bg_limit b) \<and> real_ok (bg_used b) \<and> real_ok (bg_reserved b))"

definition update_budget :: "string \<Rightarrow> string \<Rightarrow> (budget_row \<Rightarrow> budget_row) \<Rightarrow> unit py" where
  "update_budget scope period f =
     bind (table db_budgets) (\<lambda>rows.
       if list_all (\<lambda>b. budget_key b = (scope, period) \<longrightarrow> budget_ok (f b)) rows
       then dml (db_budgets_update (update_where (\<lambda>b. budget_key b = (scope, period)) f))
       else reject ''CHECK constraint failed: budgets'')"

definition period_or_now :: "string option \<Rightarrow> string py" where
  "period_or_now x = (case given x of None \<Rightarrow> current_period | Some p \<Rightarrow> ret p)"

definition configure_budget :: "actor \<Rightarrow> string \<Rightarrow> pyfloat \<Rightarrow> string option \<Rightarrow> unit py" where
  "configure_budget actor scope limit_units period_key =
     (if \<not> actor_is_sean actor then
        seq (audit actor ''CONFIGURE_BUDGET'' AU_DENIED ''Only Sean configures budgets'' None [])
            (raise (AuthorizationError ''Only Sean configures budgets''))
      else
        seq (raise_if (\<not> List.member SCOPES scope \<or> flt limit_units (Fin 0))
               (ValidationError ''Valid scope and non-negative limit required''))
       (bind (period_or_now period_key) (\<lambda>period.
        bind now (\<lambda>stamp.
        bind (table db_budgets) (\<lambda>rows.
        seq (if \<not> real_ok limit_units then reject ''NOT NULL constraint failed: budgets.limit_units''
             else if row_by budget_key (scope, period) rows = None then
               sql_insert db_budgets_update
                 \<lparr>bg_scope = scope, bg_period = period, bg_limit = limit_units, bg_used = Fin 0,
                  bg_reserved = Fin 0, bg_updated_at = stamp\<rparr>
             else update_budget scope period (\<lambda>b. b\<lparr>bg_limit := limit_units, bg_updated_at := stamp\<rparr>))
       (seq commit
        (audit actor ''CONFIGURE_BUDGET'' AU_ALLOWED ''Budget limit configured'' None
           [(''scope'', PStr scope), (''period'', PStr period), (''limit_units'', PFloat limit_units)])))))))"

definition available_units :: "budget_row \<Rightarrow> pyfloat" where
  "available_units b =
     (let x = fsub (fsub (bg_limit b) (bg_used b)) (bg_reserved b)
      in if flt (Fin 0) x then x else Fin 0)"

definition budget_status :: "string \<Rightarrow> string option \<Rightarrow> (budget_row \<times> pyfloat) option py" where
  "budget_status scope period_key =
     bind (period_or_now period_key) (\<lambda>period.
     bind (table db_budgets) (\<lambda>rows.
     ret (map_option (\<lambda>b. (b, available_units b)) (row_by budget_key (scope, period) rows))))"

definition WORKER_STATUSES :: "string list" where
  "WORKER_STATUSES = [''STARTING'', ''IDLE'', ''WORKING'', ''STOPPING'', ''STOPPED'', ''ERROR'']"

definition heartbeat :: "string \<Rightarrow> string \<Rightarrow> string \<Rightarrow> string option \<Rightarrow> pydict \<Rightarrow> unit py" where
  "heartbeat worker_id scope status current_work_id details =
     (let findings = secret_findings (PDict details);
          safe_details = (if findings = [] then details
            else [(''sensitive_detail_redacted'', PBool True),
                  (''finding_count'', PInt (int (length findings))),
                  (''finding_types'', finding_types findings)]) in
      bind now (\<lambda>stamp.
      bind (table db_heartbeats) (\<lambda>rows.
      let row = \<lparr>hb_worker = worker_id, hb_scope = scope, hb_status = status,
                 hb_work = current_work_id, hb_seen_at = stamp,
                 hb_details = PDict (canon_dict safe_details)\<rparr> in
      seq (if \<not> List.member WORKER_STATUSES status then reject ''CHECK constraint failed: worker_heartbeats''
           else if row_by hb_worker worker_id rows = None then sql_insert db_heartbeats_update row
           else dml (db_heartbeats_update (update_where (\<lambda>r. hb_worker r = worker_id) (\<lambda>_. row))))
       commit)))"

section \<open>Health\<close>

fun work_status_str :: "work_status \<Rightarrow> string" where
  "work_status_str WK_QUEUED = ''QUEUED''"
| "work_status_str WK_RUNNING = ''RUNNING''"
| "work_status_str WK_SUCCEEDED = ''SUCCEEDED''"
| "work_status_str WK_FAILED = ''FAILED''"
| "work_status_str WK_DEAD_LETTER = ''DEAD_LETTER''"
| "work_status_str WK_BUDGET_BLOCKED = ''BUDGET_BLOCKED''"
| "work_status_str WK_APPROVAL_BLOCKED = ''APPROVAL_BLOCKED''"
| "work_status_str WK_POLICY_BLOCKED = ''POLICY_BLOCKED''"

text \<open>\<open>SELECT status, COUNT(*) ... GROUP BY status\<close> as the list of its pairs.\<close>

definition group_counts :: "('r \<Rightarrow> 'k) \<Rightarrow> 'r list \<Rightarrow> ('k \<times> nat) list" where
  "group_counts key rows = map (\<lambda>k. (k, count_where (\<lambda>r. key r = k) rows)) (remdups (map key rows))"

definition count_of :: "('k \<times> nat) list \<Rightarrow> 'k \<Rightarrow> nat" where
  "count_of counts k = (case map_of counts k of None \<Rightarrow> 0 | Some n \<Rightarrow> n)"

record health =
  he_healthy :: bool
  he_kill_switch :: bool
  he_queue :: "(work_status \<times> nat) list"
  he_workers :: "(heartbeat_row \<times> bool) list"
  he_deliveries :: "(outbox_status \<times> nat) list"
  he_transfers :: "(outbox_status \<times> nat) list"
  he_restores :: "(outbox_status \<times> nat) list"
  he_budgets :: "(budget_row \<times> pyfloat) list"
  he_attention :: nat
  he_active :: nat

definition stale_worker :: "string \<Rightarrow> heartbeat_row \<Rightarrow> bool" where
  "stale_worker cutoff w = (hb_status w \<noteq> ''STOPPED'' \<and> hb_seen_at w < cutoff)"

text \<open>\<open>integrity_ok\<close> is the verdict of SQLite's own \<open>integrity_check\<close>.\<close>

definition runtime_health :: "bool \<Rightarrow> int \<Rightarrow> bool \<Rightarrow> string option \<Rightarrow> health py" where
  "runtime_health integrity_ok stale_after require_active scope0 =
     (let scope = map_option upper scope0;
          in_scope = (\<lambda>s. case scope of None \<Rightarrow> True | Some x \<Rightarrow> s = x) in
      bind (reads w_profile) (\<lambda>profile.
      seq (case scope of None \<Rightarrow> ret () | Some s \<Rightarrow>
             seq (raise_if (\<not> List.member SCOPES s) (ValidationError ''Runtime health scope is invalid''))
                 (raise_if (\<not> List.member (allowed_scopes profile) s) (AuthorizationError
                    (s @ '' is outside the database's '' @ profile @ '' scope profile''))))
     (bind now_instant (\<lambda>t.
      bind (lift_result (add_seconds t (- stale_after))) (\<lambda>c.
      let cutoff = iso_utc c in
      bind (table db_heartbeats) (\<lambda>beats.
      bind (table db_work) (\<lambda>items.
      bind (table db_deliveries) (\<lambda>ds.
      bind (table db_transfers) (\<lambda>ts.
      bind (table db_restores) (\<lambda>rs.
      let workers = map (\<lambda>w. (w, stale_worker cutoff w))
            (order_by hb_worker (filter (\<lambda>w. in_scope (hb_scope w)) beats));
          counts = group_counts wk_status (filter (\<lambda>r. in_scope (wk_scope r)) items);
          deliveries = group_counts bx_status (filter (\<lambda>r. in_scope (bx_scope r)) ds);
          iac = (scope = None \<or> scope = Some ''IAC'');
          transfers = (if iac then group_counts bx_status ts else []);
          restores = (if iac then group_counts bx_status rs else []);
          scopes = (case scope of Some s \<Rightarrow> [s] | None \<Rightarrow> sort (allowed_scopes profile)) in
      bind (collect scopes (\<lambda>s. budget_status s None)) (\<lambda>budgets.
      let active = filter (\<lambda>(w, stale). hb_status w \<noteq> ''STOPPED'' \<and> \<not> stale) workers in
      bind kill_switch_enabled (\<lambda>kill.
      let blocked = count_of deliveries OB_FAILED + count_of transfers OB_FAILED +
            count_of transfers OB_RECONCILE + count_of restores OB_FAILED + count_of restores OB_RECONCILE;
          healthy = (integrity_ok \<and> \<not> kill \<and> \<not> list_ex snd workers \<and>
            count_of counts WK_DEAD_LETTER = 0 \<and> count_of counts WK_POLICY_BLOCKED = 0 \<and>
            blocked = 0 \<and> (\<not> require_active \<or> active \<noteq> [])) in
      ret \<lparr>he_healthy = healthy, he_kill_switch = kill, he_queue = counts, he_workers = workers,
           he_deliveries = deliveries, he_transfers = transfers, he_restores = restores,
           he_budgets = List.map_filter id budgets,
           he_attention = count_of counts WK_APPROVAL_BLOCKED + count_of counts WK_BUDGET_BLOCKED +
             count_of counts WK_POLICY_BLOCKED + count_of counts WK_DEAD_LETTER + blocked,
           he_active = length active\<rparr>))))))))))))"

section \<open>Cost reservations\<close>

text \<open>\<open>payload.get(k, 0)\<close> of a decoded payload, and \<open>float\<close> of it.\<close>

definition estimated_cost :: "pyval \<Rightarrow> exn + pyfloat" where
  "estimated_cost payload = (case payload of
     PDict d \<Rightarrow> py_float (dget_or d ''estimated_cost_units'' (PInt 0))
   | _ \<Rightarrow> Inl (AttributeError ''object has no attribute get''))"

definition reserve_cost :: "work_row \<Rightarrow> bool py" where
  "reserve_cost row =
     bind (lift_result (estimated_cost (wk_payload row))) (\<lambda>units.
     if fle units (Fin 0) then ret True else
     bind (table db_reservations) (\<lambda>held.
     if row_by rs_work (wk_id row) held \<noteq> None then ret True else
     bind current_period (\<lambda>period.
     bind (table db_budgets) (\<lambda>rows.
     case (case row_by budget_key (wk_scope row, period) rows of None \<Rightarrow> None
           | Some b \<Rightarrow> if flt (bg_limit b) (fadd (fadd (bg_used b) (bg_reserved b)) units)
                         then None else Some b) of
       None \<Rightarrow>
         bind now (\<lambda>stamp.
         seq (sql_update db_work db_work_update (\<lambda>r. wk_id r = wk_id row)
                (\<lambda>r. r\<lparr>wk_status := WK_BUDGET_BLOCKED,
                       wk_error := Some ''No configured budget or insufficient available units'',
                       wk_updated_at := stamp\<rparr>))
          (ret False))
     | Some b \<Rightarrow>
         bind now (\<lambda>stamp.
         seq (update_budget (wk_scope row) period
                (\<lambda>b. b\<lparr>bg_reserved := fadd (bg_reserved b) units, bg_updated_at := stamp\<rparr>))
        (bind now (\<lambda>stamp2.
         seq (sql_insert db_reservations_update
                \<lparr>rs_work = wk_id row, rs_scope = wk_scope row, rs_period = period, rs_units = units,
                 rs_created_at = stamp2\<rparr>)
          (ret True))))))))"

definition settle_cost :: "string \<Rightarrow> bool \<Rightarrow> unit py" where
  "settle_cost work_id consume =
     bind (table db_reservations) (\<lambda>held.
     case row_by rs_work work_id held of None \<Rightarrow> ret () | Some r \<Rightarrow>
       seq (if consume then
              bind now (\<lambda>stamp.
              seq (update_budget (rs_scope r) (rs_period r)
                     (\<lambda>b. b\<lparr>bg_reserved := fsub (bg_reserved b) (rs_units r),
                            bg_used := fadd (bg_used b) (rs_units r), bg_updated_at := stamp\<rparr>))
             (bind uuid4 (\<lambda>event. bind now (\<lambda>at2.
              sql_insert db_usage_update
                \<lparr>us_id = event, us_work = work_id, us_scope = rs_scope r, us_period = rs_period r,
                 us_units = rs_units r, us_at = at2\<rparr>))))
            else
              bind now (\<lambda>stamp.
              update_budget (rs_scope r) (rs_period r)
                (\<lambda>b. b\<lparr>bg_reserved := fsub (bg_reserved b) (rs_units r), bg_updated_at := stamp\<rparr>)))
        (dml (db_reservations_update (filter (\<lambda>x. rs_work x \<noteq> work_id)))))"

section \<open>The queue\<close>

definition enqueue_work ::
  "actor \<Rightarrow> string \<Rightarrow> string \<Rightarrow> pydict \<Rightarrow> int \<Rightarrow> int \<Rightarrow> string option \<Rightarrow> string py" where
  "enqueue_work actor task_type scope payload priority max_attempts available_at =
     seq (authorize actor scope [] ''write'')
    (let findings = secret_findings (PDict payload) in
     if findings \<noteq> [] then
       seq (audit actor ''ENQUEUE_WORK'' AU_DENIED
              ''Secret-like material is prohibited in durable work payloads'' None
              [(''finding_paths'', finding_paths findings)])
           (raise (ValidationError ''Secret-like material is prohibited in durable work payloads''))
     else
       seq (raise_if (max_attempts < 1 \<or> 10 < max_attempts)
              (ValidationError ''max_attempts must be between 1 and 10''))
      (bind uuid4 (\<lambda>work_id. bind now (\<lambda>stamp.
       seq (sql_insert_new db_work db_work_update wk_id
              \<lparr>wk_id = work_id, wk_type = task_type, wk_scope = scope,
               wk_payload = PDict (canon_dict payload), wk_status = WK_QUEUED,
               wk_priority = priority, wk_attempts = 0, wk_max = max_attempts,
               wk_available_at = text_or available_at stamp, wk_owner = None, wk_lease = None,
               wk_error = None, wk_created_at = stamp, wk_updated_at = stamp\<rparr>)
      (seq commit
      (seq (audit actor ''ENQUEUE_WORK'' AU_ALLOWED ''Authorized durable work item'' (Some work_id)
              [(''task_type'', PStr task_type), (''scope'', PStr scope)])
       (ret work_id)))))))"

text \<open>A NULL lease compares as unknown, so a row without one is not taken over.\<close>

definition lease_expired :: "string option \<Rightarrow> string \<Rightarrow> bool" where
  "lease_expired lease stamp = (case lease of None \<Rightarrow> False | Some t \<Rightarrow> t \<le> stamp)"

definition claimable :: "string \<Rightarrow> string list \<Rightarrow> work_row \<Rightarrow> bool" where
  "claimable stamp scopes r =
     (((wk_status r = WK_QUEUED \<and> wk_available_at r \<le> stamp) \<or>
       (wk_status r = WK_RUNNING \<and> lease_expired (wk_lease r) stamp)) \<and> List.member scopes (wk_scope r))"

definition next_work :: "string \<Rightarrow> string list \<Rightarrow> work_row list \<Rightarrow> work_row option" where
  "next_work stamp scopes rows =
     (case order_by wk_priority (order_by wk_created_at (filter (claimable stamp scopes) rows)) of
        [] \<Rightarrow> None | r # _ \<Rightarrow> Some r)"

definition claim_scopes :: "actor \<Rightarrow> string list" where
  "claim_scopes actor = sort (if actor_is_sean actor then SCOPES
     else filter (\<lambda>s. List.member (actor_scopes actor) s) SCOPES)"

text \<open>The second half of a claim: reserve the cost of the selected row and lease it.\<close>

definition lease_row :: "actor \<Rightarrow> string \<Rightarrow> instant \<Rightarrow> string \<Rightarrow> work_row \<Rightarrow> work_row option py" where
  "lease_row actor worker_id until stamp row =
     bind (reserve_cost row) (\<lambda>reserved.
     if \<not> reserved then
       seq commit
      (seq (audit actor ''CLAIM_WORK'' AU_DENIED ''Budget unavailable'' (Some (wk_id row)) [])
       (ret None))
     else
       seq (sql_update db_work db_work_update (\<lambda>r. wk_id r = wk_id row)
              (\<lambda>r. r\<lparr>wk_status := WK_RUNNING, wk_owner := Some worker_id,
                     wk_lease := Some (iso_utc until), wk_attempts := wk_attempts r + 1,
                     wk_updated_at := stamp\<rparr>))
      (seq commit
      (bind (table db_work) (\<lambda>rows.
       case row_by wk_id (wk_id row) rows of
         None \<Rightarrow> raise (TypeError ''NoneType object is not iterable'')
       | Some claimed \<Rightarrow>
           seq (audit actor ''CLAIM_WORK'' AU_ALLOWED ''Durable lease acquired'' (Some (wk_id row))
                  [(''worker_id'', PStr worker_id), (''attempt'', PInt (wk_attempts claimed))])
            (ret (Some claimed))))))"

definition claim_work :: "actor \<Rightarrow> string \<Rightarrow> int \<Rightarrow> work_row option py" where
  "claim_work actor worker_id lease_seconds =
     bind kill_switch_enabled (\<lambda>kill.
     if kill then seq (audit actor ''CLAIM_WORK'' AU_DENIED ''Kill switch is ON'' None []) (ret None)
     else
       bind now (\<lambda>stamp. bind now_instant (\<lambda>t.
       bind (lift_result (add_seconds t lease_seconds)) (\<lambda>until.
       seq begin_immediate
      (let scopes = claim_scopes actor in
       if scopes = [] then
         seq commit
        (seq (audit actor ''CLAIM_WORK'' AU_DENIED ''Worker has no authorized scopes'' None []) (ret None))
       else
         bind (table db_work) (\<lambda>rows.
         case next_work stamp scopes rows of
           None \<Rightarrow> seq commit (ret None)
         | Some row \<Rightarrow> lease_row actor worker_id until stamp row))))))"

definition held_by :: "string \<Rightarrow> string \<Rightarrow> work_row \<Rightarrow> bool" where
  "held_by work_id worker_id r =
     (wk_id r = work_id \<and> wk_status r = WK_RUNNING \<and> wk_owner r = Some worker_id)"

definition no_lease :: exn where
  "no_lease = AuthorizationError ''Worker does not hold the active lease''"

definition block_work :: "actor \<Rightarrow> string \<Rightarrow> string \<Rightarrow> string \<Rightarrow> bool \<Rightarrow> work_status py" where
  "block_work actor work_id worker_id reason0 approval_required =
     (let status = (if approval_required then WK_APPROVAL_BLOCKED else WK_POLICY_BLOCKED);
          reason = safe_persisted_text reason0 in
      bind now (\<lambda>stamp.
      bind (sql_update db_work db_work_update (held_by work_id worker_id)
              (\<lambda>r. r\<lparr>wk_status := status, wk_owner := None, wk_lease := None,
                     wk_error := Some reason, wk_updated_at := stamp\<rparr>)) (\<lambda>rowcount.
      if rowcount \<noteq> 1 then seq rollback (raise no_lease)
      else
        seq (settle_cost work_id False)
       (seq commit
       (seq (audit actor ''BLOCK_WORK'' AU_DENIED reason (Some work_id)
               [(''worker_id'', PStr worker_id), (''next_status'', PStr (work_status_str status))])
        (ret status))))))"

definition record_policy_decision ::
  "actor \<Rightarrow> string option \<Rightarrow> bool \<Rightarrow> string \<Rightarrow> pydict \<Rightarrow> unit py" where
  "record_policy_decision actor work_id ok reason details =
     audit actor ''POLICY_DECISION'' (if ok then AU_ALLOWED else AU_DENIED) reason work_id details"

definition completed_action_result :: "string \<Rightarrow> string \<Rightarrow> pyval option py" where
  "completed_action_result work_id task_type =
     bind (table db_executions) (\<lambda>rows.
     case row_by ex_work work_id rows of None \<Rightarrow> ret None | Some row \<Rightarrow>
       seq (raise_if (ex_type row \<noteq> task_type)
              (ValidationError ''Work ID was previously executed as a different action type''))
        (ret (Some (ex_result row))))"

definition record_action_result :: "actor \<Rightarrow> string \<Rightarrow> string \<Rightarrow> pydict \<Rightarrow> unit py" where
  "record_action_result actor work_id task_type result =
     (let findings = secret_findings (PDict result) in
      if findings \<noteq> [] then
        seq (audit actor ''RECORD_ACTION_RESULT'' AU_DENIED
               ''Secret-like material is prohibited in durable action results'' (Some work_id)
               [(''finding_paths'', finding_paths findings)])
            (raise (ValidationError ''Secret-like material is prohibited in durable action results''))
      else
        bind (table db_work) (\<lambda>works.
        let item = row_by wk_id work_id works;
            payload = (case item of None \<Rightarrow> PDict [] | Some r \<Rightarrow> wk_payload r) in
        bind (lift_result (case payload of
                PDict d \<Rightarrow> map_sum id PFloat (estimated_cost payload) | _ \<Rightarrow> Inr (PInt 0))) (\<lambda>cost.
        bind now (\<lambda>stamp.
        bind (table db_executions) (\<lambda>rows.
        seq (if row_by ex_work work_id rows \<noteq> None then dml id
             else if item = None then reject ''FOREIGN KEY constraint failed''
             else sql_insert_new db_executions db_executions_update ex_work
                    \<lparr>ex_work = work_id, ex_type = task_type, ex_result = PDict (canon_dict result),
                     ex_at = stamp\<rparr>)
       (seq commit
        (audit actor ''RECORD_ACTION_RESULT'' AU_ALLOWED ''Durable execution receipt stored'' (Some work_id)
           [(''task_type'', PStr task_type), (''tool'', PStr ''registered_handler''),
            (''cost_units'', cost), (''outcome'', PStr ''SUCCEEDED''),
            (''rollback_status'', PStr ''AVAILABLE'')])))))))"

definition complete_work :: "actor \<Rightarrow> string \<Rightarrow> string \<Rightarrow> pydict \<Rightarrow> unit py" where
  "complete_work actor work_id worker_id result =
     (let findings = secret_findings (PDict result) in
      if findings \<noteq> [] then
        seq (audit actor ''COMPLETE_WORK'' AU_DENIED
               ''Secret-like material is prohibited in completed work'' (Some work_id)
               [(''finding_paths'', finding_paths findings)])
            (raise (ValidationError ''Secret-like material is prohibited in completed work''))
      else
        bind (table db_reservations) (\<lambda>held.
        let cost = (case row_by rs_work work_id held of None \<Rightarrow> PInt 0 | Some r \<Rightarrow> PFloat (rs_units r)) in
        bind now (\<lambda>stamp.
        bind (sql_update db_work db_work_update (held_by work_id worker_id)
                (\<lambda>r. r\<lparr>wk_status := WK_SUCCEEDED, wk_payload := PDict (canon_dict result),
                       wk_owner := None, wk_lease := None, wk_updated_at := stamp\<rparr>)) (\<lambda>rowcount.
        if rowcount \<noteq> 1 then seq rollback (raise no_lease)
        else
          seq (settle_cost work_id True)
         (seq commit
          (audit actor ''COMPLETE_WORK'' AU_ALLOWED ''Work succeeded'' (Some work_id)
             [(''worker_id'', PStr worker_id), (''cost_units'', cost),
              (''outcome'', PStr ''SUCCEEDED''), (''rollback_status'', PStr ''AVAILABLE'')]))))))"

definition fail_work :: "actor \<Rightarrow> string \<Rightarrow> string \<Rightarrow> string \<Rightarrow> int \<Rightarrow> work_status py" where
  "fail_work actor work_id worker_id error0 retry_seconds =
     (let error = safe_persisted_text error0 in
      bind (table db_work) (\<lambda>rows.
      case find (held_by work_id worker_id) rows of
        None \<Rightarrow> raise no_lease
      | Some row \<Rightarrow>
          (let status = (if wk_max row \<le> wk_attempts row then WK_DEAD_LETTER else WK_QUEUED) in
           bind now_instant (\<lambda>t.
           bind (lift_result (add_seconds t retry_seconds)) (\<lambda>available.
           bind now (\<lambda>stamp.
           seq (sql_update db_work db_work_update (\<lambda>r. wk_id r = work_id)
                  (\<lambda>r. r\<lparr>wk_status := status, wk_available_at := iso_utc available,
                         wk_owner := None, wk_lease := None, wk_error := Some error,
                         wk_updated_at := stamp\<rparr>))
          (seq (settle_cost work_id False)
          (seq commit
          (seq (audit actor ''FAIL_WORK'' AU_FAILED error (Some work_id)
                  [(''worker_id'', PStr worker_id), (''next_status'', PStr (work_status_str status))])
           (ret status))))))))))"

section \<open>Reading the audit log\<close>

definition audit_events :: "audit_row list py" where
  "audit_events = table db_audit"

definition event_visible :: "actor \<Rightarrow> audit_row \<Rightarrow> bool py" where
  "event_visible actor event =
     (if actor_is_sean actor \<or> au_actor event = actor_id actor then ret True
      else case given (au_record event) of None \<Rightarrow> ret False
      | Some affected \<Rightarrow>
          bind (table db_records) (\<lambda>records.
          case row_by rec_id affected records of
            Some r \<Rightarrow> try_except (seq (authorize actor (rec_scope r) (rec_principals r) ''read'') (ret True))
                        (\<lambda>e. if is_authorization e then ret False else raise e)
          | None \<Rightarrow>
              bind (table db_work) (\<lambda>works.
              case row_by wk_id affected works of
                None \<Rightarrow> ret False
              | Some r \<Rightarrow> ret (List.member (actor_scopes actor) (wk_scope r)))))"

text \<open>The newest \<open>n\<close> visible events of a list given newest first, oldest first.\<close>

fun take_visible :: "actor \<Rightarrow> nat \<Rightarrow> audit_row list \<Rightarrow> audit_row list py" where
  "take_visible actor n [] = ret []"
| "take_visible actor n (e # es) =
     bind (event_visible actor e) (\<lambda>v.
     let m = (if v then n - 1 else n) in
     bind (if m = 0 then ret [] else take_visible actor m es) (\<lambda>older.
     ret (if v then older @ [e] else older)))"

definition scoped_audit_events :: "actor \<Rightarrow> int \<Rightarrow> audit_row list py" where
  "scoped_audit_events actor limit =
     seq (raise_if (limit < 1 \<or> 1000 < limit) (ValidationError ''Audit limit must be between 1 and 1000''))
    (bind audit_events (\<lambda>events. take_visible actor (nat limit) (rev events)))"

section \<open>The laws\<close>

lemma reader_kill_switch_enabled: "reader kill_switch_enabled"
  unfolding kill_switch_enabled_def by (intro reader_intros)

lemma reader_period_or_now: "reader (period_or_now x)"
  unfolding period_or_now_def by (intro reader_intros)

lemma reader_budget_status: "reader (budget_status scope period_key)"
  unfolding budget_status_def by (intro reader_intros reader_period_or_now)

lemma reader_runtime_health: "reader (runtime_health i s a c)"
  unfolding runtime_health_def
  by (intro reader_intros reader_collect reader_budget_status reader_kill_switch_enabled)

lemma reader_event_visible: "reader (event_visible actor event)"
  unfolding event_visible_def by (intro reader_intros reader_authorize)

lemma reader_take_visible: "reader (take_visible actor n events)"
proof (induction actor n events rule: take_visible.induct)
  case (2 actor n e es)
  then show ?case
    unfolding take_visible.simps Let_def by (intro reader_intros reader_event_visible) simp_all
qed (simp add: reader_ret)

lemma reader_scoped_audit_events: "reader (scoped_audit_events actor limit)"
  unfolding scoped_audit_events_def audit_events_def by (intro reader_intros reader_take_visible)

lemma reader_completed_action_result: "reader (completed_action_result work_id task_type)"
  unfolding completed_action_result_def by (intro reader_intros)

lemmas work_readers =
  store.lawful_bind_reader [OF reader_kill_switch_enabled]
  store.lawful_bind_reader [OF reader_period_or_now]
  store.lawful_bind_reader [OF reader_budget_status]

lemma lawful_readers [legal_ops]:
  "lawful prof P kill_switch_enabled" "lawful prof P (budget_status scope period_key)"
  "lawful prof P (runtime_health i s a c)" "lawful prof P (scoped_audit_events actor limit)"
  "lawful prof P (completed_action_result work_id task_type)"
  by (rule store.lawful_reader, intro reader_kill_switch_enabled reader_budget_status
      reader_runtime_health reader_scoped_audit_events reader_completed_action_result)+

lemma lawful_set_kill_switch [legal_ops]: "lawful prof P (set_kill_switch actor enabled)"
  unfolding set_kill_switch_def by (intro op_rules legal_ops) simp

lemma lawful_update_budget [legal_ops]: "lawful prof P (update_budget scope period f)"
  unfolding update_budget_def by (intro op_rules legal_ops store.lawful_dml) simp

lemma lawful_configure_budget [legal_ops]:
  "lawful prof P (configure_budget actor scope limit_units period_key)"
  unfolding configure_budget_def by (intro work_readers op_rules legal_ops) simp_all

lemma lawful_heartbeat [legal_ops]:
  "lawful prof P (heartbeat worker_id scope status current_work_id details)"
  unfolding heartbeat_def by (intro op_rules legal_ops store.lawful_dml) simp_all

lemma lawful_settle_cost [legal_ops]: "lawful prof P (settle_cost work_id consume)"
  unfolding settle_cost_def by (intro op_rules legal_ops store.lawful_dml) simp_all

lemma lawful_record_policy_decision [legal_ops]:
  "lawful prof P (record_policy_decision actor work_id allowed reason details)"
  unfolding record_policy_decision_def by (intro legal_ops)

lemma lawful_enqueue_work [legal_ops]:
  "lawful prof P (enqueue_work actor task_type scope payload priority max_attempts available_at)"
  unfolding enqueue_work_def
proof (intro op_rules legal_ops, goal_cases)
  case 1
  then show ?case
    unfolding store_le_table
    by (intro work.step_insert)
      (simp_all add: work_ok_def secret_findings_empty_iff clean_json del: clean_value.simps)
qed

text \<open>A write to the one row with the id of a row just read.\<close>

lemma work_row_step:
  assumes "r \<in> set (db_work d)"
    and "work_ok prof r \<Longrightarrow> work_ok prof (f r) \<and> work_step r (f r)"
  shows "store_le prof d (db_work_update (update_where (\<lambda>x. wk_id x = wk_id r) f) d)"
  unfolding store_le_table using assms by (rule work.step_update_key)

lemma lawful_reserve_cost [legal_ops]:
  assumes "\<And>d. P d \<Longrightarrow> row \<in> set (db_work d) \<and> work_open (wk_status row)"
  shows "lawful prof P (reserve_cost row)"
  unfolding reserve_cost_def
proof (intro op_rules legal_ops, goal_cases)
  case (1 units held period rows stamp d)
  then have "row \<in> set (db_work d)" "work_open (wk_status row)" using assms by blast+
  then show ?case
    by (intro work_row_step) (auto simp: work_ok_def work_step_def)
qed simp

lemma reserve_cost_work:
  assumes "reserve_cost row w = (Inr True, w')"
  shows "db_work (w_db w') = db_work (w_db w)"
proof -
  have "wp (reserve_cost row) (\<lambda>b v. b \<longrightarrow> db_work (w_db v) = db_work (w_db w)) (\<lambda>_ _. True) w"
    by (simp add: reserve_cost_def update_budget_def py_wp split: sum.splits option.splits)
  from wp_result [OF assms this] show ?thesis by simp
qed

lemma next_work_claimable:
  assumes "next_work stamp scopes rows = Some r"
  shows "r \<in> set rows \<and> claimable stamp scopes r"
proof -
  obtain rest where
    "order_by wk_priority (order_by wk_created_at (filter (claimable stamp scopes) rows)) = r # rest"
    using assms by (auto simp: next_work_def split: list.splits)
  then have "r \<in> set (order_by wk_priority (order_by wk_created_at (filter (claimable stamp scopes) rows)))"
    by (metis list.set_intros(1))
  then show ?thesis by simp
qed

lemma lawful_lease_row [legal_ops]:
  assumes P: "\<And>d. P d \<Longrightarrow> row \<in> set (db_work d) \<and> work_open (wk_status row)"
  shows "lawful prof P (lease_row actor worker_id until stamp row)"
  unfolding lease_row_def
proof (rule store.lawful_bind_post [where
      C = "\<lambda>b d. b \<longrightarrow> row \<in> set (db_work d) \<and> work_open (wk_status row)"], goal_cases)
  case 1
  show ?case using P by (rule lawful_reserve_cost)
next
  case (2 w x w')
  then show ?case using P by (cases x) (simp_all add: reserve_cost_work)
next
  case (3 reserved)
  show ?case
  proof (intro op_rules legal_ops, goal_cases)
    case (1 d)
    then show ?case by (intro work_row_step) (auto simp: work_ok_def work_step_def)
  qed
qed

lemma lawful_claim_work [legal_ops]: "lawful prof P (claim_work actor worker_id lease_seconds)"
  unfolding claim_work_def
  by (intro work_readers op_rules legal_ops)
    (auto dest: next_work_claimable simp: claimable_def work_open_def)

lemma lawful_block_work [legal_ops]:
  "lawful prof P (block_work actor work_id worker_id reason approval_required)"
  unfolding block_work_def
  by (intro op_rules legal_ops)
    (auto intro!: work.step_update simp: held_by_def work_ok_def work_step_def work_open_def)

lemma lawful_record_action_result [legal_ops]:
  "lawful prof P (record_action_result actor work_id task_type result)"
  unfolding record_action_result_def
proof (intro op_rules legal_ops store.lawful_dml, goal_cases)
  case 2
  then show ?case
    unfolding store_le_table
    by (intro executions.step_insert)
      (simp_all add: execution_ok_def secret_findings_empty_iff clean_json del: clean_value.simps)
qed (simp add: store_le_refl)

lemma lawful_complete_work [legal_ops]:
  "lawful prof P (complete_work actor work_id worker_id result)"
  unfolding complete_work_def
proof (intro op_rules legal_ops, goal_cases)
  case 1
  then show ?case
    unfolding store_le_table
    by (intro work.step_update)
      (auto simp: held_by_def work_ok_def work_step_def work_open_def secret_findings_empty_iff
        clean_json simp del: clean_value.simps)
qed

lemma lawful_fail_work [legal_ops]:
  "lawful prof P (fail_work actor work_id worker_id error retry_seconds)"
  unfolding fail_work_def
proof (intro op_rules legal_ops, goal_cases)
  case (1 error rows row status t available stamp d)
  then have "row \<in> set (db_work d)" "held_by work_id worker_id row"
    using find_SomeD [of "held_by work_id worker_id" rows row] by auto
  then have row: "row \<in> set (db_work d)" "wk_status row = WK_RUNNING" and id: "work_id = wk_id row"
    by (simp_all add: held_by_def)
  show ?case
    unfolding id using 1 row
    by (intro work_row_step) (auto simp: work_ok_def work_step_def work_open_def)
qed

end
