(* ===== verification/Backup_Approval.thy ===== *)
theory Backup_Approval
  imports Py_Time Security
begin

text \<open>
  \<^verbatim>\<open>sean_os/backup_approval.py\<close>: the validation of an independent backup drill
  proposal and of the approval package built from it. The functions are pure; SHA-256 is
  the parameter \<open>sha\<close>. The result of a validation is the canonical form of its input.
\<close>

section \<open>Checked values\<close>

text \<open>The payload of a value whose type has been checked.\<close>

fun sval :: "pyval \<Rightarrow> string" where
  "sval (PStr s) = s"
| "sval v = []"

fun ival :: "pyval \<Rightarrow> int" where
  "ival (PInt i) = i"
| "ival v = 0"

fun dval :: "pyval \<Rightarrow> pydict" where
  "dval (PDict d) = d"
| "dval v = []"

text \<open>\<open>v in {"...", ...}\<close>: a list or dict is not hashable.\<close>

fun in_names :: "pyval \<Rightarrow> string list \<Rightarrow> exn + bool" where
  "in_names (PStr s) names = Inr (List.member names s)"
| "in_names (PList xs) names = Inl (TypeError ''unhashable type: list'')"
| "in_names (PDict d) names = Inl (TypeError ''unhashable type: dict'')"
| "in_names v names = Inr False"

text \<open>\<open>any(value.get(field) != expected for field, expected in required.items())\<close>, negated.\<close>

definition matches :: "pydict \<Rightarrow> pydict \<Rightarrow> bool" where
  "matches d required = list_all (\<lambda>(k, v). py_eq (dget d k) v) required"

text \<open>\<open>isinstance(v, int) and not isinstance(v, bool)\<close> within bounds, and a finite cost in [0, 15].\<close>

fun int_between :: "int \<Rightarrow> int option \<Rightarrow> pyval \<Rightarrow> bool" where
  "int_between lo hi (PInt i) = (lo \<le> i \<and> (case hi of None \<Rightarrow> True | Some h \<Rightarrow> i \<le> h))"
| "int_between lo hi v = False"

fun cost_in_range :: "exn \<Rightarrow> pyval \<Rightarrow> exn + pyfloat" where
  "cost_in_range err (PInt i) = ebind (py_float (PInt i)) (\<lambda>x.
     if is_finite x \<and> fle (Fin 0) x \<and> fle x (Fin 15) then Inr x else Inl err)"
| "cost_in_range err (PFloat x) =
     (if is_finite x \<and> fle (Fin 0) x \<and> fle x (Fin 15) then Inr x else Inl err)"
| "cost_in_range err v = Inl err"

lemma cost_in_range_bounds:
  "cost_in_range err v = Inr x \<Longrightarrow> is_finite x \<and> fle (Fin 0) x \<and> fle x (Fin 15)"
  by (cases v) (auto simp: ebind_Inr_iff split: if_splits)

definition instant_of :: "datetime \<Rightarrow> instant" where
  "instant_of dt = fst dt - (case snd dt of None \<Rightarrow> 0 | Some off \<Rightarrow> off)"

section \<open>The proposal\<close>

definition PROPOSAL_FORMAT :: string where
  "PROPOSAL_FORMAT = ''sean-os-independent-backup-drill-proposal/v2''"

definition PACKAGE_FORMAT :: string where
  "PACKAGE_FORMAT = ''sean-os-independent-backup-drill-approval/v2''"

definition DRILL_ACTION :: string where
  "DRILL_ACTION = ''RUN_INDEPENDENT_BACKUP_RESTORE_DRILL''"

definition DATA_REGIONS :: "string list" where
  "DATA_REGIONS = [''US_EAST'', ''US_WEST'', ''EU_CENTRAL'', ''CA_EAST'']"

definition PROPOSAL_FIELDS :: "string list" where
  "PROPOSAL_FIELDS = [''format'', ''owner_scope'', ''project_id'', ''environment_id'', ''service_id'',
     ''primary_volume_id'', ''destination_kind'', ''destination_provider'', ''destination_ref'',
     ''data_region'', ''independent_from_primary'', ''encryption_at_rest'', ''encryption_key_owner'',
     ''access_owner'', ''retention_days'', ''object_lock_enabled'', ''restore_target_ref'',
     ''isolated_restore'', ''overwrite_production'', ''operator'', ''rollback_owner'',
     ''window_start'', ''window_end'', ''max_cost_cad'', ''kill_switch_change_requested'',
     ''live_connectors_enabled'', ''real_data_authorized'']"

definition PACKAGE_FIELDS :: "string list" where
  "PACKAGE_FIELDS = [''format'', ''proposal'', ''proposal_sha256'', ''approval_action_type'',
     ''approval_target'', ''approval_required'', ''execution_authorized'']"

abbreviation approval_error :: "string \<Rightarrow> exn + 'a" where
  "approval_error m \<equiv> Inl (BackupApprovalError m)"

definition control_char :: "char \<Rightarrow> bool" where
  "control_char c = ((of_char c :: nat) < 32)"

definition safe_reference :: "string \<Rightarrow> pyval \<Rightarrow> exn + string" where
  "safe_reference name v = (case v of
     PStr s \<Rightarrow>
       if strip s \<noteq> s \<or> s = [] \<or> 200 < length s
       then approval_error (name @ '' must be a bounded non-empty reference'')
       else if list_ex (\<lambda>c. control_char c \<or> (of_char c :: nat) = 127) s
       then approval_error (name @ '' must be a single printable line'')
       else Inr s
   | _ \<Rightarrow> approval_error (name @ '' must be a bounded non-empty reference''))"

definition approval_instant :: "string \<Rightarrow> pyval \<Rightarrow> exn + datetime" where
  "approval_instant name v = ebind (safe_reference name v) (\<lambda>text.
     case fromisoformat text of
       Inl _ \<Rightarrow> approval_error (name @ '' must be ISO-8601'')
     | Inr dt \<Rightarrow> if is_aware dt then Inr dt else approval_error (name @ '' must include a timezone''))"

definition REFERENCE_FIELDS :: "string list" where
  "REFERENCE_FIELDS = [''project_id'', ''environment_id'', ''service_id'', ''primary_volume_id'',
     ''destination_ref'', ''restore_target_ref'', ''operator'', ''rollback_owner'']"

definition REQUIRED_TRUE :: "string list" where
  "REQUIRED_TRUE = [''independent_from_primary'', ''encryption_at_rest'', ''object_lock_enabled'',
     ''isolated_restore'', ''kill_switch_change_requested'']"

definition REQUIRED_FALSE :: "string list" where
  "REQUIRED_FALSE = [''overwrite_production'', ''live_connectors_enabled'', ''real_data_authorized'']"

definition primary_refs :: "pydict \<Rightarrow> pyval list" where
  "primary_refs d = map (dget d) [''project_id'', ''environment_id'', ''service_id'', ''primary_volume_id'']"

definition validate_independent_backup_proposal :: "pyval \<Rightarrow> exn + pydict" where
  "validate_independent_backup_proposal proposal = (case proposal of PDict d \<Rightarrow>
     if \<not> fields_are d PROPOSAL_FIELDS
     then approval_error ''Backup drill proposal fields are incomplete or unsupported''
     else if secret_findings (PDict d) \<noteq> []
     then approval_error ''Secret-like material is prohibited in backup approval evidence''
     else if \<not> py_eq (dget d ''format'') (PStr PROPOSAL_FORMAT)
     then approval_error ''Backup drill proposal format is unsupported''
     else if \<not> py_eq (dget d ''owner_scope'') (PStr ''IAC'')
     then approval_error ''Backup drill proposal must be IAC-owned''
     else
       ebind (echeck REFERENCE_FIELDS (\<lambda>k. ebind (safe_reference k (dget d k)) (\<lambda>_. Inr ()))) (\<lambda>_.
       ebind (in_names (dget d ''destination_kind'') [''ENCRYPTED_OBJECT_STORAGE'', ''MANAGED_BACKUP_SERVICE'']) (\<lambda>kind.
       if \<not> kind then approval_error ''Backup destination kind is unsupported'' else
       ebind (in_names (dget d ''destination_provider'') [''BACKBLAZE_B2'']) (\<lambda>provider.
       if \<not> provider then approval_error ''Backup destination provider is unsupported'' else
       ebind (in_names (dget d ''data_region'') DATA_REGIONS) (\<lambda>region.
       if \<not> region then approval_error ''Backup data region is unsupported''
       else if \<not> py_eq (dget d ''operator'') (PStr ''sean'') \<or> \<not> py_eq (dget d ''rollback_owner'') (PStr ''sean'')
       then approval_error ''Sean must operate and own rollback for the v0.1 drill''
       else if \<not> py_eq (dget d ''encryption_key_owner'') (PStr ''IAC'') \<or> \<not> py_eq (dget d ''access_owner'') (PStr ''IAC'')
       then approval_error ''Backup encryption and access must remain IAC-owned''
       else if list_ex (\<lambda>k. dget d k \<noteq> PBool True) REQUIRED_TRUE
       then approval_error ''Backup drill safety controls must be explicitly enabled''
       else if list_ex (\<lambda>k. dget d k \<noteq> PBool False) REQUIRED_FALSE
       then approval_error ''Backup drill must exclude overwrite, connectors, and real data''
       else if \<not> int_between 7 (Some 3650) (dget d ''retention_days'')
       then approval_error ''Backup retention must be between 7 and 3650 days''
       else
       ebind (cost_in_range (BackupApprovalError ''Backup drill maximum cost must be finite and at most CAD 15'')
                (dget d ''max_cost_cad'')) (\<lambda>cost.
       let value = dput ''max_cost_cad'' (PFloat cost) d in
       ebind (approval_instant ''window_start'' (dget d ''window_start'')) (\<lambda>start.
       ebind (approval_instant ''window_end'' (dget d ''window_end'')) (\<lambda>end_at.
       let duration = instant_of end_at - instant_of start in
       if duration \<le> 0 \<or> seconds (4 * 60 * 60) < duration
       then approval_error ''Backup drill window must be positive and no longer than four hours''
       else if List.member (primary_refs d) (dget d ''destination_ref'')
       then approval_error ''Backup destination must be independent from primary infrastructure''
       else if List.member (primary_refs d) (dget d ''restore_target_ref'') \<or>
               dget d ''restore_target_ref'' = dget d ''destination_ref''
       then approval_error ''Restore target must be a distinct isolated destination''
       else Inr (canon_dict value))))))))
   | _ \<Rightarrow> approval_error ''Backup drill proposal must be an object'')"

section \<open>The package\<close>

definition build_independent_backup_approval_package ::
  "(string \<Rightarrow> string) \<Rightarrow> pyval \<Rightarrow> exn + pydict" where
  "build_independent_backup_approval_package sha proposal =
     ebind (validate_independent_backup_proposal proposal) (\<lambda>validated.
     let digest = sha (dumps (PDict validated)) in
     Inr [(''format'', PStr PACKAGE_FORMAT), (''proposal'', PDict validated),
          (''proposal_sha256'', PStr digest), (''approval_action_type'', PStr DRILL_ACTION),
          (''approval_target'', PStr (''backup-drill:'' @ digest)),
          (''approval_required'', PBool True), (''execution_authorized'', PBool False)])"

text \<open>
  One field of a package against the rebuilt one; \<open>hmac.compare_digest\<close> rejects text that
  is not ASCII. The source goes through a set of fields: their order only decides which
  exception an invalid package raises.
\<close>

definition compare_field :: "exn \<Rightarrow> pyval \<Rightarrow> pyval \<Rightarrow> exn + unit" where
  "compare_field err a b =
     (if is_str a \<and> is_str b then
        (if list_ex (\<lambda>c. 127 < (of_char c :: nat)) (sval a @ sval b)
         then Inl (TypeError ''comparing strings with non-ASCII characters is not supported'')
         else if a = b then Inr () else Inl err)
      else if py_eq a b then Inr () else Inl err)"

definition verify_independent_backup_approval_package ::
  "(string \<Rightarrow> string) \<Rightarrow> pyval \<Rightarrow> exn + pydict" where
  "verify_independent_backup_approval_package sha package =
     (if \<not> is_dict package \<or> \<not> fields_are (dval package) PACKAGE_FIELDS
      then approval_error ''Backup approval package fields are incomplete or unsupported''
      else
        ebind (build_independent_backup_approval_package sha (dget (dval package) ''proposal'')) (\<lambda>rebuilt.
        if \<not> py_eq (dget (dval package) ''format'') (PStr PACKAGE_FORMAT)
        then approval_error ''Backup approval package format is unsupported''
        else
          ebind (echeck (filter (\<lambda>k. k \<noteq> ''proposal'') PACKAGE_FIELDS) (\<lambda>k.
                   compare_field (BackupApprovalError ''Backup approval package is invalid or has been modified'')
                     (dget (dval package) k) (dget rebuilt k)))
            (\<lambda>_. Inr rebuilt)))"

end
