(* ===== verification/Store_Alerts.thy ===== *)
theory Store_Alerts
  imports Store_Work Backup_Approval
begin

text \<open>
  \<^verbatim>\<open>sean_os/store.py\<close>: alert evidence. An observation is one alert plan and how often
  it was seen; the incident of an observation is identified by the SHA-256 of its scope,
  route and alert code, counts its observations and its reopenings, and is resolved by Sean.
\<close>

section \<open>Columns from dynamic values\<close>

text \<open>
  A value bound to a nullable TEXT column. Lists and dicts cannot be bound; a number is
  stored as its decimal text (of a float, the shortest one).
\<close>

fun text_column :: "pyval \<Rightarrow> exn + string option" where
  "text_column PNone = Inr None"
| "text_column (PStr s) = Inr (Some s)"
| "text_column (PInt i) = Inr (Some (dec_int i))"
| "text_column (PBool b) = Inr (Some (if b then ''1'' else ''0''))"
| "text_column (PFloat x) = Inr (if x = NaN then None else Some (float_repr x))"
| "text_column v = Inl (DatabaseError ''Error binding parameter: type is not supported'')"

text \<open>A binding error is raised after Python opened the implicit transaction.\<close>

definition bind_column :: "pyval \<Rightarrow> string option py" where
  "bind_column v = (case text_column v of Inl e \<Rightarrow> seq (dml id) (raise e) | Inr x \<Rightarrow> ret x)"

section \<open>Observations and incidents\<close>

definition get_alert_incident :: "actor \<Rightarrow> string \<Rightarrow> incident_row py" where
  "get_alert_incident actor incident_id =
     bind (table db_incidents) (\<lambda>rows.
     case row_by ic_id incident_id rows of
       None \<Rightarrow> raise (ValidationError ''Alert incident not found'')
     | Some row \<Rightarrow> seq (authorize actor (ic_scope row) [] ''read'') (ret row))"

definition get_alert_observation :: "actor \<Rightarrow> string \<Rightarrow> observation_row py" where
  "get_alert_observation actor plan_id =
     bind (table db_observations) (\<lambda>rows.
     case row_by ob_plan plan_id rows of
       None \<Rightarrow> raise (ValidationError ''Alert observation not found'')
     | Some row \<Rightarrow> seq (authorize actor (ob_scope row) [] ''read'') (ret row))"

definition incident_identity :: "string \<Rightarrow> string \<Rightarrow> pyval \<Rightarrow> pydict" where
  "incident_identity scope route code =
     [(''owner_scope'', PStr scope), (''route_id'', PStr route), (''alert_code'', code)]"

definition nonblank_str :: "pyval \<Rightarrow> bool" where
  "nonblank_str v = (is_str v \<and> \<not> blank (sval v))"

text \<open>The guards on an alert plan, in the order of the source, up to the identity of the incident.\<close>

definition check_alert_plan :: "pydict \<Rightarrow> exn + unit" where
  "check_alert_plan plan =
     (let plan_id = dget plan ''plan_id''; alert = dget plan ''alert'' in
      if \<not> is_str plan_id \<or> length (sval plan_id) \<noteq> 64
      then Inl (ValidationError ''Alert observation requires deterministic plan_id'')
      else if dget plan ''delivery_authorized'' \<noteq> PBool False
      then Inl (ValidationError ''Only non-delivering alert plans may be recorded'')
      else if secret_findings (PDict plan) \<noteq> []
      then Inl (ValidationError ''Secret-like material is prohibited in alert evidence'')
      else if \<not> nonblank_str (dget plan ''action_target'')
      then Inl (ValidationError ''Alert observation requires a route ID'')
      else if \<not> is_dict alert
      then Inl (ValidationError ''Alert observation requires alert evidence'')
      else if \<not> nonblank_str (dget (dval alert) ''code'') \<or> \<not> nonblank_str (dget (dval alert) ''summary'')
      then Inl (ValidationError ''Alert code and summary are required'')
      else ebind (in_names (dget (dval alert) ''severity'') [''ATTENTION'', ''HIGH'', ''CRITICAL'']) (\<lambda>known.
        if known then Inr () else Inl (ValidationError ''Alert severity is unsupported'')))"

definition upsert_observation :: "string \<Rightarrow> string \<Rightarrow> string \<Rightarrow> pydict \<Rightarrow> string \<Rightarrow> unit py" where
  "upsert_observation plan_id scope route plan stamp =
     bind (table db_observations) (\<lambda>rows.
     if row_by ob_plan plan_id rows = None then
       sql_insert db_observations_update
         \<lparr>ob_plan = plan_id, ob_scope = scope, ob_route = route, ob_payload = PDict (canon_dict plan),
          ob_first_at = stamp, ob_last_at = stamp, ob_count = 1, ob_ack = None, ob_ack_at = None,
          ob_ack_by = None\<rparr>
     else dml (db_observations_update (update_where (\<lambda>r. ob_plan r = plan_id)
            (\<lambda>r. r\<lparr>ob_last_at := stamp, ob_count := ob_count r + 1\<rparr>))))"

definition upsert_incident ::
  "string \<Rightarrow> string \<Rightarrow> string \<Rightarrow> string \<Rightarrow> string \<Rightarrow> string \<Rightarrow> string \<Rightarrow> unit py" where
  "upsert_incident incident_id scope route code severity summary stamp =
     bind (table db_incidents) (\<lambda>rows.
     if row_by ic_id incident_id rows = None then
       (if list_ex (\<lambda>r. (ic_scope r, ic_route r, ic_code r) = (scope, route, code)) rows
        then reject ''UNIQUE constraint failed: alert_incidents''
        else sql_insert db_incidents_update
          \<lparr>ic_id = incident_id, ic_scope = scope, ic_route = route, ic_code = code,
           ic_severity = severity, ic_summary = summary, ic_status = INC_ACTIVE,
           ic_first_at = stamp, ic_last_at = stamp, ic_count = 1, ic_reopens = 0,
           ic_resolved_at = None, ic_resolved_by = None, ic_resolution = None\<rparr>)
     else dml (db_incidents_update (update_where (\<lambda>r. ic_id r = incident_id)
            (\<lambda>r. r\<lparr>ic_severity := severity, ic_summary := summary, ic_status := INC_ACTIVE,
                   ic_last_at := stamp, ic_count := ic_count r + 1,
                   ic_reopens := ic_reopens r + (if ic_status r = INC_RESOLVED then 1 else 0),
                   ic_resolved_at := None, ic_resolved_by := None, ic_resolution := None\<rparr>))))"

definition record_alert_observation :: "actor \<Rightarrow> pydict \<Rightarrow> (observation_row \<times> incident_row) py" where
  "record_alert_observation actor plan =
     bind (lift_result (in_names (dget plan ''owner_scope'') [''PERSONAL'', ''IAC''])) (\<lambda>known.
     let scope = sval (dget plan ''owner_scope''); plan_id = sval (dget plan ''plan_id'');
         route = sval (dget plan ''action_target''); alert = dval (dget plan ''alert'');
         code = sval (dget alert ''code'') in
     seq (raise_if (\<not> known) (ValidationError ''Alert observation requires PERSONAL or IAC scope''))
    (seq (authorize actor scope [] ''write'')
    (bind (lift_result (check_alert_plan plan)) (\<lambda>_.
     bind (sha256 (dumps (PDict (incident_identity scope route (PStr code))))) (\<lambda>incident_id.
     bind (table db_observations) (\<lambda>observations.
     seq (raise_if (case row_by ob_plan plan_id observations of None \<Rightarrow> False
                    | Some r \<Rightarrow> ob_payload r \<noteq> PDict (canon_dict plan))
            (ValidationError ''Alert plan_id collision or payload mutation''))
    (bind now (\<lambda>stamp.
     bind (table db_incidents) (\<lambda>incidents.
     let reopened = (case row_by ic_id incident_id incidents of None \<Rightarrow> False
                     | Some r \<Rightarrow> ic_status r = INC_RESOLVED) in
     seq (upsert_observation plan_id scope route plan stamp)
    (seq (upsert_incident incident_id scope route code (sval (dget alert ''severity''))
            (sval (dget alert ''summary'')) stamp)
    (seq commit
    (seq (audit actor ''RECORD_ALERT_OBSERVATION'' AU_ALLOWED
            ''Scoped non-delivering alert evidence recorded'' (Some plan_id)
            [(''scope'', PStr scope), (''route_id'', PStr route), (''incident_id'', PStr incident_id),
             (''incident_reopened'', PBool reopened)])
    (bind (get_alert_observation actor plan_id) (\<lambda>observation.
     bind (get_alert_incident actor incident_id) (\<lambda>incident.
     ret (observation, incident))))))))))))))))"

definition severity_rank :: "string \<Rightarrow> nat" where
  "severity_rank s = (if s = ''CRITICAL'' then 3 else if s = ''HIGH'' then 2 else 1)"

definition active_alert_incidents :: "actor \<Rightarrow> string \<Rightarrow> incident_row list py" where
  "active_alert_incidents actor scope =
     seq (raise_if (\<not> List.member [''PERSONAL'', ''IAC''] scope)
            (ValidationError ''Alert incidents require PERSONAL or IAC scope''))
    (seq (authorize actor scope [] ''read'')
    (bind (table db_incidents) (\<lambda>rows.
     ret (order_desc (\<lambda>r. severity_rank (ic_severity r)) (order_desc ic_last_at (order_by ic_id
       (filter (\<lambda>r. ic_scope r = scope \<and> ic_status r = INC_ACTIVE) rows)))))))"

definition resolve_alert_incident :: "actor \<Rightarrow> string \<Rightarrow> string \<Rightarrow> incident_row py" where
  "resolve_alert_incident actor incident_id reason =
     seq (raise_if (\<not> actor_is_sean actor)
            (AuthorizationError ''Only Sean may resolve an alert incident in v0.1''))
    (seq (raise_if (blank reason) (ValidationError ''Alert resolution requires a reason''))
    (seq (raise_if (secret_findings (PDict [(''reason'', PStr reason)]) \<noteq> [])
            (ValidationError ''Secret-like material is prohibited in resolution evidence''))
    (bind (table db_incidents) (\<lambda>rows.
     case row_by ic_id incident_id rows of
       None \<Rightarrow> raise (ValidationError ''Alert incident not found'')
     | Some row \<Rightarrow>
         if ic_status row \<noteq> INC_ACTIVE then
           (if ic_resolved_by row = Some (actor_id actor) \<and> ic_resolution row = Some reason then
              seq (audit actor ''RESOLVE_ALERT_INCIDENT'' AU_ALLOWED ''Idempotent resolution replay''
                     (Some incident_id) [(''scope'', PStr (ic_scope row)), (''outcome'', PStr ''ALREADY_RESOLVED'')])
                  (ret row)
            else raise (ValidationError ''Alert incident is already resolved with different evidence''))
         else
           bind now (\<lambda>stamp.
           seq (sql_update db_incidents db_incidents_update (\<lambda>r. ic_id r = incident_id)
                  (\<lambda>r. r\<lparr>ic_status := INC_RESOLVED, ic_resolved_at := Some stamp,
                         ic_resolved_by := Some (actor_id actor), ic_resolution := Some reason\<rparr>))
          (seq commit
          (seq (audit actor ''RESOLVE_ALERT_INCIDENT'' AU_ALLOWED reason (Some incident_id)
                  [(''scope'', PStr (ic_scope row)), (''outcome'', PStr ''RESOLVED'')])
           (get_alert_incident actor incident_id))))))))"

text \<open>
  The lookup by \<open>receipt.get("plan_id")\<close>: only a text can equal a plan id. Stored and new
  acknowledgement are compared as canonical values, which is comparing their JSON texts.
\<close>

definition acknowledge_alert_observation :: "actor \<Rightarrow> pydict \<Rightarrow> observation_row py" where
  "acknowledge_alert_observation actor receipt =
     seq (raise_if (\<not> actor_is_sean actor)
            (AuthorizationError ''Only Sean may acknowledge an escalation in v0.1''))
    (bind (lift_result (text_column (dget receipt ''plan_id''))) (\<lambda>_.
     let plan_id = sval (dget receipt ''plan_id'') in
     bind (table db_observations) (\<lambda>rows.
     case (if is_str (dget receipt ''plan_id'') then row_by ob_plan plan_id rows else None) of
       None \<Rightarrow> raise (ValidationError ''Alert observation not found'')
     | Some row \<Rightarrow>
         seq (raise_if (\<not> py_eq (dget receipt ''owner_scope'') (PStr (ob_scope row)))
                (ValidationError ''Acknowledgement scope mismatch''))
        (seq (raise_if (dget receipt ''delivery_authorized'' \<noteq> PBool False)
                (ValidationError ''Acknowledgement cannot authorize delivery''))
        (let payload = PDict (canon_dict receipt) in
         seq (raise_if (ob_ack row \<noteq> None \<and> ob_ack row \<noteq> Some payload)
                (ValidationError ''Alert observation is already acknowledged''))
        (bind (bind_column (dget receipt ''acknowledged_at'')) (\<lambda>ack_at.
         bind (bind_column (dget receipt ''acknowledged_by'')) (\<lambda>ack_by.
         seq (sql_update db_observations db_observations_update (\<lambda>r. ob_plan r = plan_id)
                (\<lambda>r. r\<lparr>ob_ack := Some payload, ob_ack_at := ack_at, ob_ack_by := ack_by\<rparr>))
        (seq commit
        (seq (audit actor ''ACKNOWLEDGE_ALERT'' AU_ALLOWED ''Immutable local acknowledgement attached''
                (Some plan_id) [(''scope'', PStr (ob_scope row)), (''delivery_authorized'', PBool False)])
         (get_alert_observation actor plan_id)))))))))))"

section \<open>The laws\<close>

lemma reader_get_alert_incident: "reader (get_alert_incident actor incident_id)"
  unfolding get_alert_incident_def by (intro reader_intros reader_authorize)

lemma reader_get_alert_observation: "reader (get_alert_observation actor plan_id)"
  unfolding get_alert_observation_def by (intro reader_intros reader_authorize)

lemma reader_active_alert_incidents: "reader (active_alert_incidents actor scope)"
  unfolding active_alert_incidents_def by (intro reader_intros reader_authorize)

lemma lawful_alert_readers [legal_ops]:
  "lawful prof P (get_alert_incident actor incident_id)"
  "lawful prof P (get_alert_observation actor plan_id)"
  "lawful prof P (active_alert_incidents actor scope)"
  by (rule store.lawful_reader, intro reader_get_alert_incident reader_get_alert_observation
      reader_active_alert_incidents)+

text \<open>Binding a value may open the transaction, but changes no table.\<close>

lemma lawful_bind_column:
  assumes "\<And>x. lawful prof P (f x)"
  shows "lawful prof P (bind (bind_column v) f)"
proof (cases "text_column v")
  case (Inl e)
  have "bind (bind_column v) f = seq (dml id) (raise e)"
    unfolding bind_column_def Inl
    by (auto simp: seq_def bind_def dml_def modify_def raise_def fun_eq_iff)
  then show ?thesis
    by (auto intro!: store.lawful_seq store.lawful_dml store.lawful_raise store_le_refl)
next
  case (Inr x)
  have "bind (bind_column v) f = f x"
    unfolding bind_column_def Inr by (auto simp: bind_def ret_def)
  then show ?thesis using assms by simp
qed

lemmas alert_rules = lawful_bind_column work_readers op_rules

lemma lawful_upsert_observation [legal_ops]:
  assumes "scope \<in> {''PERSONAL'', ''IAC''}" "scope \<in> set (allowed_scopes prof)" "clean_value (PDict plan)"
  shows "lawful prof P (upsert_observation plan_id scope route plan stamp)"
  unfolding upsert_observation_def
proof (intro alert_rules legal_ops store.lawful_dml, goal_cases)
  case 1
  then show ?case
    unfolding store_le_table
    by (intro observations.step_insert)
      (use assms in \<open>auto simp: observation_ok_def row_by_None_iff clean_json simp del: clean_value.simps\<close>)
next
  case 2
  then show ?case
    unfolding store_le_table
    by (intro observations.step_update) (auto simp: observation_ok_def observation_step_def)
qed

lemma lawful_upsert_incident [legal_ops]:
  assumes "scope \<in> {''PERSONAL'', ''IAC''}" "scope \<in> set (allowed_scopes prof)"
  shows "lawful prof P (upsert_incident incident_id scope route code severity summary stamp)"
  unfolding upsert_incident_def
proof (intro alert_rules legal_ops store.lawful_dml, goal_cases)
  case 1
  then show ?case
    unfolding store_le_table
    by (intro incidents.step_insert) (use assms in \<open>auto simp: incident_ok_def row_by_None_iff\<close>)
next
  case 2
  then show ?case
    unfolding store_le_table
    by (intro incidents.step_update) (auto simp: incident_ok_def incident_step_def)
qed

lemma check_alert_plan_clean: "check_alert_plan plan = Inr x \<Longrightarrow> clean_value (PDict plan)"
  by (auto simp: check_alert_plan_def Let_def secret_findings_empty_iff simp del: clean_value.simps
      split: if_splits)

lemma in_names_str: "in_names v names = Inr True \<Longrightarrow> sval v \<in> set names"
  by (cases v) auto

lemma known_name: "in_names v [x, y] = Inr b \<Longrightarrow> b \<Longrightarrow> sval v = x \<or> sval v = y"
  using in_names_str [of v "[x, y]"] by simp

lemma lawful_record_alert_observation [legal_ops]:
  "lawful prof P (record_alert_observation actor plan)"
  unfolding record_alert_observation_def
  by (intro alert_rules legal_ops) (erule check_alert_plan_clean | simp add: known_name)+

lemma lawful_resolve_alert_incident [legal_ops]:
  "lawful prof P (resolve_alert_incident actor incident_id reason)"
  unfolding resolve_alert_incident_def
proof (intro alert_rules legal_ops, goal_cases)
  case 1
  then show ?case
    unfolding store_le_table
    by (intro incidents.step_update) (auto simp: incident_ok_def incident_step_def)
qed

lemma lawful_acknowledge_alert_observation [legal_ops]:
  "lawful prof P (acknowledge_alert_observation actor receipt)"
  unfolding acknowledge_alert_observation_def
proof (intro alert_rules legal_ops, goal_cases)
  case (1 x plan_id rows row payload ack_at ack_by d)
  then have row: "row_by ob_plan plan_id (db_observations d) = Some row"
    by (simp split: if_splits)
  show ?case
    unfolding store_le_table
  proof (rule observations.step_update)
    fix r
    assume r: "r \<in> set (db_observations d)" "ob_plan r = plan_id" "observation_ok prof r"
      and ok: "table_ok ob_plan (observation_ok prof) (db_observations d)"
    have "r = row" by (rule table_ok_unique [OF ok row r(1,2)])
    then show "observation_ok prof (r\<lparr>ob_ack := Some payload, ob_ack_at := ack_at, ob_ack_by := ack_by\<rparr>) \<and>
        observation_step r (r\<lparr>ob_ack := Some payload, ob_ack_at := ack_at, ob_ack_by := ack_by\<rparr>)"
      using 1 r by (auto simp: observation_ok_def observation_step_def)
  qed
qed

end
