(* ===== verification/Backup_Adapter.thy ===== *)
theory Backup_Adapter
  imports Backup_Approval
begin

text \<open>
  \<^verbatim>\<open>sean_os/backup_adapter.py\<close>: the no-network contracts of a backup transfer: the
  path-free plan, the synthetic preflight receipt and the provider's upload receipt. Each is
  a dict with a fixed set of fields, sealed by the SHA-256 of its other fields. What the file
  system and SQLite report of a backup file is the parameter \<open>probe\<close>.
\<close>

section \<open>Constants and references\<close>

definition LATEST_SCHEMA_VERSION :: int where
  "LATEST_SCHEMA_VERSION = 18"

definition TRANSFER_PLAN_FORMAT :: string where
  "TRANSFER_PLAN_FORMAT = ''sean-os-independent-backup-transfer-plan/v3''"

definition SYNTHETIC_RECEIPT_FORMAT :: string where
  "SYNTHETIC_RECEIPT_FORMAT = ''sean-os-synthetic-backup-adapter-receipt/v1''"

definition UPLOAD_RECEIPT_FORMAT :: string where
  "UPLOAD_RECEIPT_FORMAT = ''sean-os-independent-backup-upload-receipt/v3''"

definition PROVIDER_INTERFACE :: string where
  "PROVIDER_INTERFACE = ''S3_COMPATIBLE_OBJECT_STORAGE_V1''"

definition REGION_ENDPOINT_PREFIX :: "(string \<times> string) list" where
  "REGION_ENDPOINT_PREFIX = [(''US_EAST'', ''s3.us-east-''), (''US_WEST'', ''s3.us-west-''),
     (''EU_CENTRAL'', ''s3.eu-central-''), (''CA_EAST'', ''s3.ca-east-'')]"

definition MANIFEST_FIELDS :: "string list" where
  "MANIFEST_FIELDS = [''path'', ''sha256'', ''bytes'', ''schema_version'', ''integrity_ok'']"

definition TRANSFER_PLAN_FIELDS :: "string list" where
  "TRANSFER_PLAN_FIELDS = [''format'', ''owner_scope'', ''approval_target'', ''proposal_sha256'',
     ''destination_kind'', ''provider'', ''destination_ref'', ''data_region'', ''provider_endpoint'',
     ''provider_writer_identity_ref'', ''client_encryption_key_ref'', ''provider_interface'',
     ''object_ref'', ''backup_sha256'', ''backup_bytes'', ''schema_version'', ''retention_mode'',
     ''retention_days'', ''window_start'', ''window_end'', ''max_cost_cad'',
     ''provider_encryption_required'', ''client_encryption_required'', ''object_lock_required'',
     ''credentials_included'', ''network_enabled'', ''execution_authorized'', ''plan_sha256'']"

definition SYNTHETIC_RECEIPT_FIELDS :: "string list" where
  "SYNTHETIC_RECEIPT_FIELDS = [''format'', ''plan_sha256'', ''adapter'', ''validated'',
     ''artifact_encrypted'', ''uploaded'', ''network_performed'', ''execution_authorized'',
     ''provider_receipt_included'', ''status'', ''receipt_sha256'']"

definition UPLOAD_RECEIPT_FIELDS :: "string list" where
  "UPLOAD_RECEIPT_FIELDS = [''format'', ''evidence_mode'', ''provider'', ''provider_region'',
     ''provider_endpoint'', ''provider_writer_identity_ref'', ''plan_sha256'', ''destination_ref'',
     ''object_ref'', ''backup_sha256'', ''backup_bytes'', ''ciphertext_sha256'', ''ciphertext_bytes'',
     ''client_encryption_algorithm'', ''client_encryption_key_ref'', ''provider_request_ref'',
     ''provider_version_ref'', ''encryption_mode'', ''encryption_verified'', ''object_lock_mode'',
     ''object_lock_verified'', ''retention_days'', ''uploaded_at'', ''retain_until'',
     ''network_performed'', ''uploaded'', ''overwrite_performed'', ''restore_authorized'',
     ''credentials_persisted'', ''source_path_included'', ''receipt_sha256'']"

abbreviation adapter_error :: "string \<Rightarrow> exn + 'a" where
  "adapter_error m \<equiv> Inl (BackupAdapterError m)"

definition hex_char :: "char \<Rightarrow> bool" where
  "hex_char c = (is_digit c \<or> (CHR ''a'' \<le> c \<and> c \<le> CHR ''f''))"

definition SHA256_RX :: rx where
  "SHA256_RX = Reps hex_char 64 (Some 64)"

definition OBJECT_REF_RX :: rx where
  "OBJECT_REF_RX = Seq (Cls alnum) (Reps (\<lambda>c. alnum c \<or> one_of ''._:/-'' c) 0 (Some 199))"

definition ENDPOINT_RX :: rx where
  "ENDPOINT_RX = Seq (Lit ''s3.'')
     (Seq (Alt (Lit ''us-east'') (Alt (Lit ''us-west'') (Alt (Lit ''eu-central'') (Lit ''ca-east''))))
     (Seq (Lit ''-'') (Seq (Reps (\<lambda>c. is_lower c \<or> is_digit c \<or> c = CHR ''-'') 1 None)
       (Lit ''.backblazeb2.com''))))"

text \<open>\<open>isinstance(v, str) and _SHA256.fullmatch(v)\<close>.\<close>

definition is_sha256 :: "pyval \<Rightarrow> bool" where
  "is_sha256 v = (is_str v \<and> rx_fullmatch SHA256_RX (sval v))"

text \<open>The seal: the SHA-256 of the canonical JSON of all fields but the digest itself.\<close>

definition digest_envelope :: "(string \<Rightarrow> string) \<Rightarrow> pydict \<Rightarrow> string \<Rightarrow> string" where
  "digest_envelope sha d digest_field = sha (dumps (PDict (filter (\<lambda>(k, v). k \<noteq> digest_field) d)))"

definition safe_provider_ref :: "string \<Rightarrow> pyval \<Rightarrow> exn + string" where
  "safe_provider_ref name v = (case v of
     PStr s \<Rightarrow>
       if s = [] \<or> strip s \<noteq> s \<or> 200 < length s \<or> list_ex control_char s
       then adapter_error (name @ '' must be a bounded non-secret reference'')
       else if secret_findings (PStr s) \<noteq> []
       then adapter_error (name @ '' must not contain secret-like material'')
       else Inr s
   | _ \<Rightarrow> adapter_error (name @ '' must be a bounded non-secret reference''))"

definition validate_object_ref :: "pyval \<Rightarrow> exn + string" where
  "validate_object_ref v =
     (if \<not> is_str v \<or> \<not> rx_fullmatch OBJECT_REF_RX (sval v)
      then adapter_error ''Backup object reference must be one bounded opaque identifier''
      else if starts_with (sval v) ''/'' \<or> str_contains (sval v) ''..'' \<or>
              str_contains (sval v) [CHR 0x5C] \<or> secret_findings v \<noteq> []
      then adapter_error ''Backup object reference is unsafe''
      else Inr (sval v))"

definition verify_backblaze_endpoint :: "pyval \<Rightarrow> string \<Rightarrow> exn + string" where
  "verify_backblaze_endpoint v region =
     ebind (safe_provider_ref ''provider_endpoint'' v) (\<lambda>endpoint.
     case map_of REGION_ENDPOINT_PREFIX region of
       None \<Rightarrow> adapter_error ''Backblaze endpoint does not match the approved data region''
     | Some pre \<Rightarrow>
         if \<not> rx_fullmatch ENDPOINT_RX endpoint \<or> \<not> starts_with endpoint pre
         then adapter_error ''Backblaze endpoint does not match the approved data region''
         else Inr endpoint)"

definition adapter_instant :: "string \<Rightarrow> pyval \<Rightarrow> exn + datetime" where
  "adapter_instant name v =
     (if \<not> is_str v \<or> sval v = [] \<or> 100 < length (sval v)
      then adapter_error (name @ '' must be a bounded ISO-8601 timestamp'')
      else (case fromisoformat (sval v) of
        Inl _ \<Rightarrow> adapter_error (name @ '' must be ISO-8601'')
      | Inr dt \<Rightarrow> if is_aware dt then Inr dt else adapter_error (name @ '' must include a timezone'')))"

section \<open>The local backup file\<close>

text \<open>
  What is observed of a path: whether it is a regular file and no symbolic link, its size and
  SHA-256, and what SQLite answers (None when opening or querying it raises).
\<close>

record file_probe =
  fp_regular :: bool
  fp_bytes :: int
  fp_sha256 :: string
  fp_database :: "(pyval \<times> bool \<times> pyval \<times> pyval) option"

definition verify_local_iac_backup_manifest ::
  "(string \<Rightarrow> file_probe) \<Rightarrow> pyval \<Rightarrow> exn + pydict" where
  "verify_local_iac_backup_manifest probe manifest =
     (let d = dval manifest in
      if \<not> is_dict manifest \<or> \<not> fields_are d MANIFEST_FIELDS
      then adapter_error ''Backup manifest fields are incomplete or unsupported''
      else if secret_findings manifest \<noteq> []
      then adapter_error ''Secret-like material is prohibited in backup evidence''
      else if dget d ''integrity_ok'' \<noteq> PBool True
      then adapter_error ''Backup manifest must record successful integrity checks''
      else if \<not> py_eq (dget d ''schema_version'') (PInt LATEST_SCHEMA_VERSION)
      then adapter_error ''Backup schema version is unsupported''
      else if \<not> int_between 1 None (dget d ''bytes'')
      then adapter_error ''Backup size must be a positive integer''
      else if \<not> is_sha256 (dget d ''sha256'')
      then adapter_error ''Backup SHA-256 is malformed''
      else if \<not> is_str (dget d ''path'') \<or> sval (dget d ''path'') = [] \<or> 4096 < length (sval (dget d ''path''))
      then adapter_error ''Backup path is invalid''
      else
        (let p = probe (sval (dget d ''path'')) in
         if \<not> fp_regular p then adapter_error ''Backup must be a regular, non-symlink file''
         else if fp_bytes p \<noteq> ival (dget d ''bytes'') \<or> fp_sha256 p \<noteq> sval (dget d ''sha256'')
         then adapter_error ''Backup file does not match its manifest''
         else (case fp_database p of
           None \<Rightarrow> adapter_error ''Backup database verification failed''
         | Some (integrity, violations, version, profile) \<Rightarrow>
             if \<not> py_eq integrity (PStr ''ok'') \<or> violations \<or> \<not> py_eq version (PInt LATEST_SCHEMA_VERSION)
             then adapter_error ''Backup database integrity or schema verification failed''
             else if \<not> py_eq profile (PStr ''IAC'')
             then adapter_error ''Independent backup transfer is restricted to an IAC database''
             else Inr [(''owner_scope'', PStr ''IAC''), (''backup_sha256'', dget d ''sha256''),
                       (''backup_bytes'', dget d ''bytes''), (''schema_version'', version)])))"

section \<open>The transfer plan\<close>

definition PLAN_SAFETY :: pydict where
  "PLAN_SAFETY = [
     (''format'', PStr TRANSFER_PLAN_FORMAT), (''owner_scope'', PStr ''IAC''),
     (''destination_kind'', PStr ''ENCRYPTED_OBJECT_STORAGE''), (''provider'', PStr ''BACKBLAZE_B2''),
     (''provider_interface'', PStr PROVIDER_INTERFACE), (''retention_mode'', PStr ''COMPLIANCE''),
     (''provider_encryption_required'', PStr ''AES256''),
     (''client_encryption_required'', PStr ''IAC_MANAGED_AUTHENTICATED_ENCRYPTION''),
     (''object_lock_required'', PBool True), (''credentials_included'', PBool False),
     (''network_enabled'', PBool False), (''execution_authorized'', PBool False)]"

definition build_backup_transfer_plan ::
  "(string \<Rightarrow> string) \<Rightarrow> (string \<Rightarrow> file_probe) \<Rightarrow> pyval \<Rightarrow> pyval \<Rightarrow> pyval \<Rightarrow> pyval \<Rightarrow> pyval \<Rightarrow> pyval \<Rightarrow>
   exn + pydict" where
  "build_backup_transfer_plan sha probe approval_package manifest object_ref provider_endpoint
     writer_identity_ref client_encryption_key_ref =
     ebind (verify_independent_backup_approval_package sha approval_package) (\<lambda>package.
     let proposal = dval (dget package ''proposal'') in
     if \<not> py_eq (dget proposal ''destination_kind'') (PStr ''ENCRYPTED_OBJECT_STORAGE'')
     then adapter_error ''This adapter contract requires encrypted object storage''
     else
       ebind (verify_local_iac_backup_manifest probe manifest) (\<lambda>evidence.
       ebind (verify_backblaze_endpoint provider_endpoint (sval (dget proposal ''data_region''))) (\<lambda>endpoint.
       ebind (safe_provider_ref ''provider_writer_identity_ref'' writer_identity_ref) (\<lambda>writer.
       ebind (safe_provider_ref ''client_encryption_key_ref'' client_encryption_key_ref) (\<lambda>key_ref.
       ebind (validate_object_ref object_ref) (\<lambda>object.
       let plan = [
         (''format'', PStr TRANSFER_PLAN_FORMAT), (''owner_scope'', PStr ''IAC''),
         (''approval_target'', dget package ''approval_target''),
         (''proposal_sha256'', dget package ''proposal_sha256''),
         (''destination_kind'', dget proposal ''destination_kind''),
         (''provider'', dget proposal ''destination_provider''),
         (''destination_ref'', dget proposal ''destination_ref''),
         (''data_region'', dget proposal ''data_region''),
         (''provider_endpoint'', PStr endpoint), (''provider_writer_identity_ref'', PStr writer),
         (''client_encryption_key_ref'', PStr key_ref), (''provider_interface'', PStr PROVIDER_INTERFACE),
         (''object_ref'', PStr object), (''backup_sha256'', dget evidence ''backup_sha256''),
         (''backup_bytes'', dget evidence ''backup_bytes''),
         (''schema_version'', dget evidence ''schema_version''), (''retention_mode'', PStr ''COMPLIANCE''),
         (''retention_days'', dget proposal ''retention_days''),
         (''window_start'', dget proposal ''window_start''), (''window_end'', dget proposal ''window_end''),
         (''max_cost_cad'', dget proposal ''max_cost_cad''),
         (''provider_encryption_required'', PStr ''AES256''),
         (''client_encryption_required'', PStr ''IAC_MANAGED_AUTHENTICATED_ENCRYPTION''),
         (''object_lock_required'', PBool True), (''credentials_included'', PBool False),
         (''network_enabled'', PBool False), (''execution_authorized'', PBool False)] in
       Inr (plan @ [(''plan_sha256'', PStr (digest_envelope sha plan ''plan_sha256''))])))))))"

definition verify_stored_backup_transfer_plan :: "(string \<Rightarrow> string) \<Rightarrow> pyval \<Rightarrow> exn + pydict" where
  "verify_stored_backup_transfer_plan sha plan =
     (let d = dval plan in
      if \<not> is_dict plan \<or> \<not> fields_are d TRANSFER_PLAN_FIELDS
      then adapter_error ''Stored backup transfer plan is invalid''
      else if secret_findings plan \<noteq> [] \<or> \<not> matches d PLAN_SAFETY
      then adapter_error ''Stored backup transfer plan violates the safety contract''
      else
        ebind (in_names (dget d ''data_region'') DATA_REGIONS) (\<lambda>region.
        if \<not> region then adapter_error ''Stored backup transfer data region is unsupported'' else
        ebind (safe_provider_ref ''destination_ref'' (dget d ''destination_ref'')) (\<lambda>_.
        ebind (verify_backblaze_endpoint (dget d ''provider_endpoint'') (sval (dget d ''data_region''))) (\<lambda>_.
        ebind (safe_provider_ref ''provider_writer_identity_ref'' (dget d ''provider_writer_identity_ref'')) (\<lambda>_.
        ebind (safe_provider_ref ''client_encryption_key_ref'' (dget d ''client_encryption_key_ref'')) (\<lambda>_.
        ebind (validate_object_ref (dget d ''object_ref'')) (\<lambda>_.
        if list_ex (\<lambda>k. \<not> is_str (dget d k) \<or> sval (dget d k) = [])
             [''approval_target'', ''proposal_sha256'', ''backup_sha256'', ''plan_sha256'']
        then adapter_error ''Stored backup transfer identity is incomplete''
        else if list_ex (\<lambda>k. \<not> is_sha256 (dget d k)) [''proposal_sha256'', ''backup_sha256'', ''plan_sha256'']
        then adapter_error ''Stored backup transfer hash is malformed''
        else if \<not> int_between 1 None (dget d ''backup_bytes'')
        then adapter_error ''Stored backup transfer size is invalid''
        else if \<not> py_eq (dget d ''schema_version'') (PInt LATEST_SCHEMA_VERSION)
        then adapter_error ''Stored backup transfer schema version is unsupported''
        else if \<not> int_between 7 (Some 3650) (dget d ''retention_days'')
        then adapter_error ''Stored backup transfer retention is invalid''
        else
          ebind (adapter_instant ''window_start'' (dget d ''window_start'')) (\<lambda>start.
          ebind (adapter_instant ''window_end'' (dget d ''window_end'')) (\<lambda>end_at.
          if instant_of end_at \<le> instant_of start \<or>
             seconds (4 * 60 * 60) < instant_of end_at - instant_of start
          then adapter_error ''Stored backup transfer execution window is invalid''
          else
            ebind (cost_in_range (BackupAdapterError ''Stored backup transfer cost ceiling is invalid'')
                     (dget d ''max_cost_cad'')) (\<lambda>cost.
            let value = dput ''max_cost_cad'' (PFloat cost) d in
            if dget d ''plan_sha256'' \<noteq> PStr (digest_envelope sha value ''plan_sha256'')
            then adapter_error ''Stored backup transfer plan is invalid or modified''
            else Inr (canon_dict value)))))))))))"

definition verify_backup_transfer_plan :: "(string \<Rightarrow> string) \<Rightarrow> pyval \<Rightarrow> pyval \<Rightarrow> exn + pydict" where
  "verify_backup_transfer_plan sha plan approval_package =
     ebind (verify_stored_backup_transfer_plan sha plan) (\<lambda>d.
     ebind (verify_independent_backup_approval_package sha approval_package) (\<lambda>package.
     let proposal = dval (dget package ''proposal'');
         required = [
           (''format'', PStr TRANSFER_PLAN_FORMAT), (''owner_scope'', PStr ''IAC''),
           (''approval_target'', dget package ''approval_target''),
           (''proposal_sha256'', dget package ''proposal_sha256''),
           (''destination_kind'', PStr ''ENCRYPTED_OBJECT_STORAGE''),
           (''provider'', dget proposal ''destination_provider''),
           (''destination_ref'', dget proposal ''destination_ref''),
           (''data_region'', dget proposal ''data_region''),
           (''provider_interface'', PStr PROVIDER_INTERFACE), (''retention_mode'', PStr ''COMPLIANCE''),
           (''retention_days'', dget proposal ''retention_days''),
           (''window_start'', dget proposal ''window_start''), (''window_end'', dget proposal ''window_end''),
           (''max_cost_cad'', dget proposal ''max_cost_cad''),
           (''provider_encryption_required'', PStr ''AES256''),
           (''client_encryption_required'', PStr ''IAC_MANAGED_AUTHENTICATED_ENCRYPTION''),
           (''object_lock_required'', PBool True), (''credentials_included'', PBool False),
           (''network_enabled'', PBool False), (''execution_authorized'', PBool False)] in
     if \<not> matches d required
     then adapter_error ''Backup transfer plan violates its approval or safety contract''
     else
       ebind (validate_object_ref (dget d ''object_ref'')) (\<lambda>_.
       if \<not> is_sha256 (dget d ''backup_sha256'') then adapter_error ''Backup transfer SHA-256 is malformed''
       else if \<not> int_between 1 None (dget d ''backup_bytes'')
       then adapter_error ''Backup transfer size is invalid''
       else if \<not> py_eq (dget d ''schema_version'') (PInt LATEST_SCHEMA_VERSION)
       then adapter_error ''Backup transfer schema version is unsupported''
       else if dget d ''plan_sha256'' \<noteq> PStr (digest_envelope sha d ''plan_sha256'')
       then adapter_error ''Backup transfer plan is invalid or has been modified''
       else Inr (canon_dict d))))"

section \<open>Receipts\<close>

definition SYNTHETIC_SAFETY :: pydict where
  "SYNTHETIC_SAFETY = [
     (''format'', PStr SYNTHETIC_RECEIPT_FORMAT), (''adapter'', PStr ''SYNTHETIC_NO_NETWORK''),
     (''validated'', PBool True), (''artifact_encrypted'', PBool False), (''uploaded'', PBool False),
     (''network_performed'', PBool False), (''execution_authorized'', PBool False),
     (''provider_receipt_included'', PBool False),
     (''status'', PStr ''READY_FOR_ENCRYPTION_AND_EXACT_APPROVAL'')]"

definition synthetic_backup_adapter_receipt :: "(string \<Rightarrow> string) \<Rightarrow> pyval \<Rightarrow> pyval \<Rightarrow> exn + pydict" where
  "synthetic_backup_adapter_receipt sha plan approval_package =
     ebind (verify_backup_transfer_plan sha plan approval_package) (\<lambda>validated.
     let receipt = [
       (''format'', PStr SYNTHETIC_RECEIPT_FORMAT), (''plan_sha256'', dget validated ''plan_sha256''),
       (''adapter'', PStr ''SYNTHETIC_NO_NETWORK''), (''validated'', PBool True),
       (''artifact_encrypted'', PBool False), (''uploaded'', PBool False),
       (''network_performed'', PBool False), (''execution_authorized'', PBool False),
       (''provider_receipt_included'', PBool False),
       (''status'', PStr ''READY_FOR_ENCRYPTION_AND_EXACT_APPROVAL'')] in
     Inr (receipt @ [(''receipt_sha256'', PStr (digest_envelope sha receipt ''receipt_sha256''))]))"

definition verify_synthetic_backup_adapter_receipt :: "(string \<Rightarrow> string) \<Rightarrow> pyval \<Rightarrow> exn + pydict" where
  "verify_synthetic_backup_adapter_receipt sha receipt =
     (let d = dval receipt in
      if \<not> is_dict receipt \<or> \<not> fields_are d SYNTHETIC_RECEIPT_FIELDS
      then adapter_error ''Synthetic backup receipt fields are incomplete or unsupported''
      else if secret_findings receipt \<noteq> [] \<or> \<not> matches d SYNTHETIC_SAFETY
      then adapter_error ''Synthetic backup receipt violates its no-network contract''
      else if \<not> is_sha256 (dget d ''plan_sha256'')
      then adapter_error ''Synthetic backup receipt plan hash is malformed''
      else if dget d ''receipt_sha256'' \<noteq> PStr (digest_envelope sha d ''receipt_sha256'')
      then adapter_error ''Synthetic backup receipt is invalid or has been modified''
      else Inr (canon_dict d))"

definition upload_requirements :: "pydict \<Rightarrow> pydict" where
  "upload_requirements plan = [
     (''format'', PStr UPLOAD_RECEIPT_FORMAT), (''evidence_mode'', PStr ''PRODUCTION''),
     (''provider'', PStr ''BACKBLAZE_B2''), (''provider_region'', dget plan ''data_region''),
     (''provider_endpoint'', dget plan ''provider_endpoint''),
     (''provider_writer_identity_ref'', dget plan ''provider_writer_identity_ref''),
     (''plan_sha256'', dget plan ''plan_sha256''), (''destination_ref'', dget plan ''destination_ref''),
     (''object_ref'', dget plan ''object_ref''), (''backup_sha256'', dget plan ''backup_sha256''),
     (''backup_bytes'', dget plan ''backup_bytes''),
     (''encryption_mode'', PStr ''IAC_MANAGED_AUTHENTICATED_ENCRYPTION_PLUS_PROVIDER_AES256''),
     (''encryption_verified'', PBool True), (''object_lock_mode'', PStr ''COMPLIANCE''),
     (''object_lock_verified'', PBool True), (''retention_days'', dget plan ''retention_days''),
     (''network_performed'', PBool True), (''uploaded'', PBool True),
     (''overwrite_performed'', PBool False), (''restore_authorized'', PBool False),
     (''credentials_persisted'', PBool False), (''source_path_included'', PBool False)]"

definition verify_backup_upload_receipt :: "(string \<Rightarrow> string) \<Rightarrow> pyval \<Rightarrow> pyval \<Rightarrow> exn + pydict" where
  "verify_backup_upload_receipt sha receipt plan =
     ebind (verify_stored_backup_transfer_plan sha plan) (\<lambda>p.
     let d = dval receipt in
     if \<not> is_dict receipt \<or> \<not> fields_are d UPLOAD_RECEIPT_FIELDS
     then adapter_error ''Backup upload receipt fields are incomplete or unsupported''
     else if secret_findings receipt \<noteq> []
     then adapter_error ''Secret-like material is prohibited in backup upload receipts''
     else if \<not> matches d (upload_requirements p)
     then adapter_error ''Backup upload receipt violates the exact transfer plan''
     else
       ebind (safe_provider_ref ''provider_request_ref'' (dget d ''provider_request_ref'')) (\<lambda>_.
       ebind (safe_provider_ref ''provider_version_ref'' (dget d ''provider_version_ref'')) (\<lambda>_.
       ebind (verify_backblaze_endpoint (dget d ''provider_endpoint'') (sval (dget d ''provider_region''))) (\<lambda>_.
       ebind (safe_provider_ref ''provider_writer_identity_ref'' (dget d ''provider_writer_identity_ref'')) (\<lambda>_.
       if \<not> py_eq (dget d ''client_encryption_key_ref'') (dget p ''client_encryption_key_ref'')
       then adapter_error ''Backup encryption key reference violates the exact transfer plan''
       else if \<not> is_sha256 (dget d ''ciphertext_sha256'')
       then adapter_error ''Encrypted backup SHA-256 is malformed''
       else if \<not> int_between 1 None (dget d ''ciphertext_bytes'')
       then adapter_error ''Encrypted backup size is invalid''
       else
         ebind (in_names (dget d ''client_encryption_algorithm'') [''AES_256_GCM'', ''XCHACHA20_POLY1305'']) (\<lambda>known.
         if \<not> known then adapter_error ''Client encryption algorithm is unsupported'' else
         ebind (adapter_instant ''uploaded_at'' (dget d ''uploaded_at'')) (\<lambda>uploaded.
         ebind (adapter_instant ''retain_until'' (dget d ''retain_until'')) (\<lambda>retain.
         ebind (adapter_instant ''window_start'' (dget p ''window_start'')) (\<lambda>start.
         ebind (if instant_of start \<le> instant_of uploaded
                then ebind (adapter_instant ''window_end'' (dget p ''window_end'')) (\<lambda>e.
                       Inr (instant_of uploaded \<le> instant_of e))
                else Inr False) (\<lambda>in_window.
         if \<not> in_window then adapter_error ''Provider upload occurred outside the approved window''
         else if instant_of retain - instant_of uploaded < seconds (ival (dget p ''retention_days'') * 24 * 60 * 60)
         then adapter_error ''Provider retention evidence is shorter than the approved period''
         else if dget d ''receipt_sha256'' \<noteq> PStr (digest_envelope sha d ''receipt_sha256'')
         then adapter_error ''Backup upload receipt is invalid or has been modified''
         else Inr (canon_dict d)))))))))))"

end
