(* ===== verification/Backup_Restore.thy ===== *)
theory Backup_Restore
  imports Backup_Adapter
begin

text \<open>
  \<^verbatim>\<open>sean_os/backup_restore.py\<close>: the contracts of an isolated restore: the short-lived
  read-only key, the plan that binds one uploaded object version to one restore target and
  window, its no-action preflight and the completion receipt.
\<close>

section \<open>Constants and references\<close>

definition RESTORE_KEY_PROPOSAL_FORMAT :: string where
  "RESTORE_KEY_PROPOSAL_FORMAT = ''sean-os-backblaze-restore-key-proposal/v1''"

definition RESTORE_KEY_PACKAGE_FORMAT :: string where
  "RESTORE_KEY_PACKAGE_FORMAT = ''sean-os-backblaze-restore-key-approval/v1''"

definition RESTORE_PLAN_FORMAT :: string where
  "RESTORE_PLAN_FORMAT = ''sean-os-independent-backup-restore-plan/v1''"

definition RESTORE_PREFLIGHT_FORMAT :: string where
  "RESTORE_PREFLIGHT_FORMAT = ''sean-os-synthetic-backup-restore-preflight/v1''"

definition RESTORE_RECEIPT_FORMAT :: string where
  "RESTORE_RECEIPT_FORMAT = ''sean-os-isolated-backup-restore-receipt/v1''"

definition RESTORE_ACTION_TYPE :: string where
  "RESTORE_ACTION_TYPE = ''RUN_ISOLATED_BACKUP_RESTORE''"

definition RESTORE_CAPABILITIES :: "string list" where
  "RESTORE_CAPABILITIES = [''listAllBucketNames'', ''listBuckets'', ''readBucketEncryption'',
     ''readBucketRetentions'', ''readFileRetentions'', ''readFiles'']"

definition PROHIBITED_RESTORE_CAPABILITIES :: "string list" where
  "PROHIBITED_RESTORE_CAPABILITIES = [''listKeys'', ''writeKeys'', ''deleteKeys'', ''readBuckets'',
     ''writeBuckets'', ''deleteBuckets'', ''writeBucketEncryption'', ''writeBucketRetentions'',
     ''listFiles'', ''writeFiles'', ''deleteFiles'', ''shareFiles'', ''writeFileRetentions'',
     ''bypassGovernance'', ''readFileLegalHolds'', ''writeFileLegalHolds'', ''readBucketReplications'',
     ''writeBucketReplications'', ''readBucketNotifications'', ''writeBucketNotifications'',
     ''readBucketLogging'', ''writeBucketLogging'', ''readBucketLifecycleRules'',
     ''writeBucketLifecycleRules'']"

definition RESTORE_KEY_PROPOSAL_FIELDS :: "string list" where
  "RESTORE_KEY_PROPOSAL_FIELDS = [''format'', ''owner_scope'', ''provider'', ''data_region'',
     ''provider_endpoint'', ''bucket_ref'', ''key_name_ref'', ''file_name_prefix'',
     ''valid_duration_seconds'', ''capabilities'', ''credential_destination_ref'', ''access_owner'',
     ''operator'', ''production_data_authorized'', ''account_admin_authorized'', ''write_authorized'',
     ''approval_required'', ''creation_authorized'']"

definition RESTORE_KEY_PACKAGE_FIELDS :: "string list" where
  "RESTORE_KEY_PACKAGE_FIELDS = [''format'', ''proposal'', ''proposal_sha256'', ''approval_action_type'',
     ''approval_target'', ''approval_required'', ''creation_authorized'']"

definition RESTORE_PLAN_FIELDS :: "string list" where
  "RESTORE_PLAN_FIELDS = [''format'', ''owner_scope'', ''provider'', ''data_region'',
     ''provider_endpoint'', ''destination_ref'', ''object_ref'', ''provider_version_ref'',
     ''provider_writer_identity_ref'', ''provider_restore_identity_ref'', ''client_encryption_key_ref'',
     ''upload_plan_sha256'', ''upload_receipt_sha256'', ''ciphertext_sha256'', ''ciphertext_bytes'',
     ''expected_plaintext_sha256'', ''expected_plaintext_bytes'', ''expected_schema_version'',
     ''restore_target_ref'', ''window_start'', ''window_end'', ''retain_until'', ''max_cost_cad'',
     ''isolated_restore'', ''overwrite_permitted'', ''credentials_included'', ''network_enabled'',
     ''download_authorized'', ''decrypt_authorized'', ''restore_authorized'', ''approval_required'',
     ''approval_action_type'', ''approval_target'', ''restore_key_proposal_sha256'', ''plan_sha256'']"

definition RESTORE_PREFLIGHT_FIELDS :: "string list" where
  "RESTORE_PREFLIGHT_FIELDS = [''format'', ''restore_plan_sha256'', ''upload_receipt_sha256'',
     ''validated'', ''credentials_resolved'', ''network_performed'', ''downloaded'', ''decrypted'',
     ''restored'', ''execution_authorized'', ''status'', ''receipt_sha256'']"

definition RESTORE_RECEIPT_FIELDS :: "string list" where
  "RESTORE_RECEIPT_FIELDS = [''format'', ''evidence_mode'', ''restore_plan_sha256'',
     ''upload_receipt_sha256'', ''provider'', ''provider_region'', ''provider_endpoint'',
     ''provider_restore_identity_ref'', ''object_ref'', ''provider_version_ref'', ''ciphertext_sha256'',
     ''ciphertext_bytes'', ''client_encryption_key_ref'', ''plaintext_sha256'', ''plaintext_bytes'',
     ''schema_version'', ''restore_target_ref'', ''object_lock_mode'', ''object_lock_verified'',
     ''retain_until'', ''client_encryption_authenticated'', ''database_integrity_ok'',
     ''foreign_key_violations'', ''scope_profile'', ''network_performed'', ''downloaded'',
     ''decrypted'', ''restored'', ''isolated_restore'', ''overwrite_performed'',
     ''credentials_persisted'', ''source_path_included'', ''restored_at'', ''receipt_sha256'']"

abbreviation restore_error :: "string \<Rightarrow> exn + 'a" where
  "restore_error m \<equiv> Inl (BackupRestoreError m)"

definition BUCKET_RX :: rx where
  "BUCKET_RX = Seq (Cls (\<lambda>c. is_lower c \<or> is_digit c))
     (Reps (\<lambda>c. is_lower c \<or> is_digit c \<or> c = CHR ''-'') 4 (Some 62))"

definition safe_ref :: "string \<Rightarrow> pyval \<Rightarrow> exn + string" where
  "safe_ref name v =
     (if \<not> is_str v \<or> \<not> rx_fullmatch OBJECT_REF_RX (sval v) \<or> starts_with (sval v) ''/'' \<or>
         str_contains (sval v) ''..'' \<or> str_contains (sval v) [CHR 0x5C] \<or> secret_findings v \<noteq> []
      then restore_error (name @ '' must be one bounded non-secret reference'')
      else Inr (sval v))"

definition sha256_ref :: "string \<Rightarrow> pyval \<Rightarrow> exn + string" where
  "sha256_ref name v =
     (if is_sha256 v then Inr (sval v) else restore_error (name @ '' must be one SHA-256 digest''))"

definition aware :: "string \<Rightarrow> pyval \<Rightarrow> exn + datetime" where
  "aware name v =
     (if \<not> is_str v \<or> sval v = [] \<or> 100 < length (sval v)
      then restore_error (name @ '' must be one bounded ISO-8601 timestamp'')
      else (case fromisoformat (sval v) of
        Inl _ \<Rightarrow> restore_error (name @ '' must be ISO-8601'')
      | Inr dt \<Rightarrow> if is_aware dt then Inr dt else restore_error (name @ '' must include a timezone'')))"

text \<open>\<open>try: verify_backblaze_endpoint(...) except ValueError as exc: raise BackupRestoreError(str(exc))\<close>.\<close>

definition restore_endpoint :: "pyval \<Rightarrow> pyval \<Rightarrow> exn + string" where
  "restore_endpoint endpoint region =
     map_sum (\<lambda>e. BackupRestoreError (exn_str e)) id (verify_backblaze_endpoint endpoint (sval region))"

section \<open>The restore key\<close>

definition KEY_SAFETY :: pydict where
  "KEY_SAFETY = [
     (''format'', PStr RESTORE_KEY_PROPOSAL_FORMAT), (''owner_scope'', PStr ''IAC''),
     (''provider'', PStr ''BACKBLAZE_B2''), (''data_region'', PStr ''CA_EAST''),
     (''file_name_prefix'', PStr ''backups/''), (''access_owner'', PStr ''IAC''),
     (''operator'', PStr ''sean''), (''production_data_authorized'', PBool False),
     (''account_admin_authorized'', PBool False), (''write_authorized'', PBool False),
     (''approval_required'', PBool True), (''creation_authorized'', PBool False)]"

definition validate_backup_restore_key_proposal :: "pyval \<Rightarrow> exn + pydict" where
  "validate_backup_restore_key_proposal proposal =
     (let d = dval proposal in
      if \<not> is_dict proposal \<or> \<not> fields_are d RESTORE_KEY_PROPOSAL_FIELDS
      then restore_error ''Backup restore key proposal fields are incomplete''
      else if secret_findings proposal \<noteq> []
      then restore_error ''Secret-like material is prohibited in restore key proposals''
      else if \<not> matches d KEY_SAFETY
      then restore_error ''Backup restore key proposal violates the isolated boundary''
      else
        ebind (restore_endpoint (dget d ''provider_endpoint'') (dget d ''data_region'')) (\<lambda>_.
        if \<not> is_str (dget d ''bucket_ref'') \<or> \<not> rx_fullmatch BUCKET_RX (sval (dget d ''bucket_ref''))
        then restore_error ''Backup restore key must be restricted to one valid bucket''
        else
          ebind (safe_ref ''key_name_ref'' (dget d ''key_name_ref'')) (\<lambda>_.
          ebind (safe_ref ''credential_destination_ref'' (dget d ''credential_destination_ref'')) (\<lambda>_.
          if \<not> int_between 300 (Some 14400) (dget d ''valid_duration_seconds'')
          then restore_error ''Restore key duration must be between 5 minutes and 4 hours''
          else if dget d ''capabilities'' \<noteq> PList (map PStr RESTORE_CAPABILITIES)
          then restore_error ''Backup restore capabilities must match the exact allowlist''
          else if list_ex (\<lambda>c. List.member PROHIBITED_RESTORE_CAPABILITIES c) RESTORE_CAPABILITIES
          then restore_error ''Backup restore proposal includes prohibited authority''
          else Inr (canon_dict d)))))"

definition build_backup_restore_key_approval_package :: "(string \<Rightarrow> string) \<Rightarrow> pyval \<Rightarrow> exn + pydict" where
  "build_backup_restore_key_approval_package sha proposal =
     ebind (validate_backup_restore_key_proposal proposal) (\<lambda>value.
     let digest = sha (dumps (PDict value)) in
     Inr (canon_dict [
       (''format'', PStr RESTORE_KEY_PACKAGE_FORMAT), (''proposal'', PDict value),
       (''proposal_sha256'', PStr digest),
       (''approval_action_type'', PStr ''CREATE_BACKBLAZE_BACKUP_RESTORE_KEY''),
       (''approval_target'', PStr (''BACKBLAZE_B2_RESTORE_KEY:'' @ sval (dget value ''key_name_ref'') @
          '':'' @ take 16 digest)),
       (''approval_required'', PBool True), (''creation_authorized'', PBool False)]))"

definition verify_backup_restore_key_approval_package :: "(string \<Rightarrow> string) \<Rightarrow> pyval \<Rightarrow> exn + pydict" where
  "verify_backup_restore_key_approval_package sha package =
     (if \<not> is_dict package \<or> \<not> fields_are (dval package) RESTORE_KEY_PACKAGE_FIELDS
      then restore_error ''Backup restore key package fields are incomplete''
      else
        ebind (validate_backup_restore_key_proposal (dget (dval package) ''proposal'')) (\<lambda>proposal.
        ebind (build_backup_restore_key_approval_package sha (PDict proposal)) (\<lambda>expected.
        if dumps package \<noteq> dumps (PDict expected)
        then restore_error ''Backup restore key package is invalid or modified''
        else Inr expected)))"

section \<open>The restore plan\<close>

definition restore_identity :: "(string \<Rightarrow> string) \<Rightarrow> pydict \<Rightarrow> string" where
  "restore_identity sha d = ''ISOLATED_BACKUP_RESTORE:'' @
     take 24 (sha (dumps (PDict (filter (\<lambda>(k, v). k \<noteq> ''approval_target'' \<and> k \<noteq> ''plan_sha256'') d))))"

definition build_isolated_backup_restore_plan ::
  "(string \<Rightarrow> string) \<Rightarrow> pyval \<Rightarrow> pyval \<Rightarrow> pyval \<Rightarrow> pyval \<Rightarrow> pyval \<Rightarrow> pyval \<Rightarrow> pyval \<Rightarrow> exn + pydict" where
  "build_isolated_backup_restore_plan sha upload_plan upload_receipt restore_key_package
     restore_target_ref window_start window_end max_cost_cad =
     ebind (verify_stored_backup_transfer_plan sha upload_plan) (\<lambda>transfer.
     ebind (verify_backup_upload_receipt sha upload_receipt (PDict transfer)) (\<lambda>receipt.
     ebind (verify_backup_restore_key_approval_package sha restore_key_package) (\<lambda>key_package.
     let key = dval (dget key_package ''proposal'') in
     if dget transfer ''destination_ref'' \<noteq> PStr (''backblaze-b2-bucket:'' @ sval (dget key ''bucket_ref''))
     then restore_error ''Restore key bucket does not match the uploaded destination''
     else if \<not> py_eq (dget key ''provider_endpoint'') (dget transfer ''provider_endpoint'') \<or>
             \<not> py_eq (dget key ''data_region'') (dget transfer ''data_region'')
     then restore_error ''Restore key endpoint does not match the uploaded object''
     else if py_eq (dget key ''credential_destination_ref'') (dget transfer ''provider_writer_identity_ref'')
     then restore_error ''Restore identity must be distinct from the writer identity''
     else
       ebind (safe_ref ''restore_target_ref'' restore_target_ref) (\<lambda>target.
       if PStr target = dget transfer ''destination_ref'' \<or> PStr target = dget transfer ''object_ref''
       then restore_error ''Restore target must be isolated from the backup destination''
       else
         ebind (aware ''window_start'' window_start) (\<lambda>start.
         ebind (aware ''window_end'' window_end) (\<lambda>end_at.
         if instant_of end_at \<le> instant_of start \<or>
            seconds (ival (dget key ''valid_duration_seconds'')) < instant_of end_at - instant_of start
         then restore_error ''Restore window must be positive and within the key duration''
         else
           ebind (aware ''uploaded_at'' (dget receipt ''uploaded_at'')) (\<lambda>uploaded.
           ebind (aware ''retain_until'' (dget receipt ''retain_until'')) (\<lambda>retained.
           if instant_of start < instant_of uploaded \<or> instant_of retained < instant_of end_at
           then restore_error ''Restore window must follow upload and remain within retention''
           else
             ebind (cost_in_range (BackupRestoreError ''Restore cost ceiling must be between CAD 0 and CAD 15'')
                      max_cost_cad) (\<lambda>cost.
             let plan = [
               (''format'', PStr RESTORE_PLAN_FORMAT), (''owner_scope'', PStr ''IAC''),
               (''provider'', PStr ''BACKBLAZE_B2''), (''data_region'', dget transfer ''data_region''),
               (''provider_endpoint'', dget transfer ''provider_endpoint''),
               (''destination_ref'', dget transfer ''destination_ref''),
               (''object_ref'', dget transfer ''object_ref''),
               (''provider_version_ref'', dget receipt ''provider_version_ref''),
               (''provider_writer_identity_ref'', dget transfer ''provider_writer_identity_ref''),
               (''provider_restore_identity_ref'', dget key ''credential_destination_ref''),
               (''client_encryption_key_ref'', dget receipt ''client_encryption_key_ref''),
               (''upload_plan_sha256'', dget transfer ''plan_sha256''),
               (''upload_receipt_sha256'', dget receipt ''receipt_sha256''),
               (''ciphertext_sha256'', dget receipt ''ciphertext_sha256''),
               (''ciphertext_bytes'', dget receipt ''ciphertext_bytes''),
               (''expected_plaintext_sha256'', dget receipt ''backup_sha256''),
               (''expected_plaintext_bytes'', dget receipt ''backup_bytes''),
               (''expected_schema_version'', dget transfer ''schema_version''),
               (''restore_target_ref'', PStr target), (''window_start'', PStr (isoformat start)),
               (''window_end'', PStr (isoformat end_at)), (''retain_until'', dget receipt ''retain_until''),
               (''max_cost_cad'', PFloat cost), (''isolated_restore'', PBool True),
               (''overwrite_permitted'', PBool False), (''credentials_included'', PBool False),
               (''network_enabled'', PBool False), (''download_authorized'', PBool False),
               (''decrypt_authorized'', PBool False), (''restore_authorized'', PBool False),
               (''approval_required'', PBool True), (''approval_action_type'', PStr RESTORE_ACTION_TYPE),
               (''approval_target'', PStr ''PENDING''),
               (''restore_key_proposal_sha256'', dget key_package ''proposal_sha256'')];
                 bound = dput ''approval_target'' (PStr (restore_identity sha plan)) plan in
             Inr (canon_dict (bound @ [(''plan_sha256'', PStr (digest_envelope sha bound ''plan_sha256''))])))))))))))"

definition RESTORE_PLAN_SAFETY :: pydict where
  "RESTORE_PLAN_SAFETY = [
     (''format'', PStr RESTORE_PLAN_FORMAT), (''owner_scope'', PStr ''IAC''),
     (''provider'', PStr ''BACKBLAZE_B2''), (''data_region'', PStr ''CA_EAST''),
     (''isolated_restore'', PBool True), (''overwrite_permitted'', PBool False),
     (''credentials_included'', PBool False), (''network_enabled'', PBool False),
     (''download_authorized'', PBool False), (''decrypt_authorized'', PBool False),
     (''restore_authorized'', PBool False), (''approval_required'', PBool True),
     (''approval_action_type'', PStr RESTORE_ACTION_TYPE)]"

definition verify_isolated_backup_restore_plan :: "(string \<Rightarrow> string) \<Rightarrow> pyval \<Rightarrow> exn + pydict" where
  "verify_isolated_backup_restore_plan sha plan =
     (let d = dval plan in
      if \<not> is_dict plan \<or> \<not> fields_are d RESTORE_PLAN_FIELDS
      then restore_error ''Isolated backup restore plan fields are incomplete''
      else if secret_findings plan \<noteq> [] \<or> \<not> matches d RESTORE_PLAN_SAFETY
      then restore_error ''Isolated backup restore plan violates the safety boundary''
      else
        ebind (restore_endpoint (dget d ''provider_endpoint'') (dget d ''data_region'')) (\<lambda>_.
        ebind (echeck [''destination_ref'', ''object_ref'', ''provider_version_ref'',
                 ''provider_writer_identity_ref'', ''provider_restore_identity_ref'',
                 ''client_encryption_key_ref'', ''restore_target_ref'', ''approval_target'']
                 (\<lambda>k. ebind (safe_ref k (dget d k)) (\<lambda>_. Inr ()))) (\<lambda>_.
        ebind (echeck [''upload_plan_sha256'', ''upload_receipt_sha256'', ''ciphertext_sha256'',
                 ''expected_plaintext_sha256'', ''restore_key_proposal_sha256'', ''plan_sha256'']
                 (\<lambda>k. ebind (sha256_ref k (dget d k)) (\<lambda>_. Inr ()))) (\<lambda>_.
        ebind (echeck [''ciphertext_bytes'', ''expected_plaintext_bytes'', ''expected_schema_version'']
                 (\<lambda>k. if int_between 1 None (dget d k) then Inr ()
                      else restore_error (k @ '' must be a positive integer''))) (\<lambda>_.
        ebind (aware ''window_start'' (dget d ''window_start'')) (\<lambda>start.
        ebind (aware ''window_end'' (dget d ''window_end'')) (\<lambda>end_at.
        if instant_of end_at \<le> instant_of start \<or> seconds 14400 < instant_of end_at - instant_of start
        then restore_error ''Restore window must be positive and no longer than four hours''
        else
          ebind (aware ''retain_until'' (dget d ''retain_until'')) (\<lambda>retain.
          if instant_of retain < instant_of end_at
          then restore_error ''Restore window exceeds the verified retention period''
          else
            ebind (cost_in_range (BackupRestoreError ''Restore cost ceiling must be between CAD 0 and CAD 15'')
                     (dget d ''max_cost_cad'')) (\<lambda>cost.
            let value = dput ''max_cost_cad'' (PFloat cost) d in
            if dget d ''provider_restore_identity_ref'' = dget d ''provider_writer_identity_ref''
            then restore_error ''Restore identity must be distinct from the writer identity''
            else if dget d ''approval_target'' \<noteq> PStr (restore_identity sha value)
            then restore_error ''Isolated backup restore approval target is invalid''
            else if dget d ''plan_sha256'' \<noteq> PStr (digest_envelope sha value ''plan_sha256'')
            then restore_error ''Isolated backup restore plan is invalid or modified''
            else Inr (canon_dict value))))))))))"

definition verify_isolated_backup_restore_plan_against_evidence ::
  "(string \<Rightarrow> string) \<Rightarrow> pyval \<Rightarrow> pyval \<Rightarrow> pyval \<Rightarrow> pyval \<Rightarrow> exn + pydict" where
  "verify_isolated_backup_restore_plan_against_evidence sha plan upload_plan upload_receipt
     restore_key_package =
     ebind (verify_isolated_backup_restore_plan sha plan) (\<lambda>value.
     ebind (build_isolated_backup_restore_plan sha upload_plan upload_receipt restore_key_package
              (dget value ''restore_target_ref'') (dget value ''window_start'')
              (dget value ''window_end'') (dget value ''max_cost_cad'')) (\<lambda>expected.
     if dumps (PDict value) \<noteq> dumps (PDict expected)
     then restore_error ''Isolated backup restore plan does not match its evidence''
     else Inr expected))"

section \<open>Preflight and completion receipts\<close>

definition PREFLIGHT_SAFETY :: pydict where
  "PREFLIGHT_SAFETY = [
     (''format'', PStr RESTORE_PREFLIGHT_FORMAT), (''validated'', PBool True),
     (''credentials_resolved'', PBool False), (''network_performed'', PBool False),
     (''downloaded'', PBool False), (''decrypted'', PBool False), (''restored'', PBool False),
     (''execution_authorized'', PBool False), (''status'', PStr ''READY_FOR_DISTINCT_RESTORE_APPROVAL'')]"

definition synthetic_backup_restore_preflight :: "(string \<Rightarrow> string) \<Rightarrow> pyval \<Rightarrow> exn + pydict" where
  "synthetic_backup_restore_preflight sha plan =
     ebind (verify_isolated_backup_restore_plan sha plan) (\<lambda>value.
     let receipt = [
       (''format'', PStr RESTORE_PREFLIGHT_FORMAT), (''restore_plan_sha256'', dget value ''plan_sha256''),
       (''upload_receipt_sha256'', dget value ''upload_receipt_sha256''), (''validated'', PBool True),
       (''credentials_resolved'', PBool False), (''network_performed'', PBool False),
       (''downloaded'', PBool False), (''decrypted'', PBool False), (''restored'', PBool False),
       (''execution_authorized'', PBool False), (''status'', PStr ''READY_FOR_DISTINCT_RESTORE_APPROVAL'')] in
     Inr (canon_dict (receipt @ [(''receipt_sha256'', PStr (digest_envelope sha receipt ''receipt_sha256''))])))"

definition verify_synthetic_backup_restore_preflight :: "(string \<Rightarrow> string) \<Rightarrow> pyval \<Rightarrow> exn + pydict" where
  "verify_synthetic_backup_restore_preflight sha receipt =
     (let d = dval receipt in
      if \<not> is_dict receipt \<or> \<not> fields_are d RESTORE_PREFLIGHT_FIELDS
      then restore_error ''Synthetic restore preflight fields are incomplete''
      else if secret_findings receipt \<noteq> [] \<or> \<not> matches d PREFLIGHT_SAFETY
      then restore_error ''Synthetic restore preflight violates its no-action contract''
      else
        ebind (echeck [''restore_plan_sha256'', ''upload_receipt_sha256'', ''receipt_sha256'']
                 (\<lambda>k. ebind (sha256_ref k (dget d k)) (\<lambda>_. Inr ()))) (\<lambda>_.
        if dget d ''receipt_sha256'' \<noteq> PStr (digest_envelope sha d ''receipt_sha256'')
        then restore_error ''Synthetic restore preflight is invalid or modified''
        else Inr (canon_dict d)))"

definition completion_requirements :: "pydict \<Rightarrow> pydict" where
  "completion_requirements plan = [
     (''provider'', dget plan ''provider''), (''provider_region'', dget plan ''data_region''),
     (''provider_endpoint'', dget plan ''provider_endpoint''),
     (''provider_restore_identity_ref'', dget plan ''provider_restore_identity_ref''),
     (''object_ref'', dget plan ''object_ref''),
     (''provider_version_ref'', dget plan ''provider_version_ref''),
     (''ciphertext_sha256'', dget plan ''ciphertext_sha256''),
     (''ciphertext_bytes'', dget plan ''ciphertext_bytes''),
     (''client_encryption_key_ref'', dget plan ''client_encryption_key_ref''),
     (''plaintext_sha256'', dget plan ''expected_plaintext_sha256''),
     (''plaintext_bytes'', dget plan ''expected_plaintext_bytes''),
     (''schema_version'', dget plan ''expected_schema_version''),
     (''restore_target_ref'', dget plan ''restore_target_ref''),
     (''object_lock_mode'', PStr ''COMPLIANCE''), (''object_lock_verified'', PBool True),
     (''retain_until'', dget plan ''retain_until''), (''client_encryption_authenticated'', PBool True),
     (''database_integrity_ok'', PBool True), (''foreign_key_violations'', PInt 0),
     (''scope_profile'', PStr ''IAC''), (''network_performed'', PBool True), (''downloaded'', PBool True),
     (''decrypted'', PBool True), (''restored'', PBool True), (''isolated_restore'', PBool True),
     (''overwrite_performed'', PBool False), (''credentials_persisted'', PBool False),
     (''source_path_included'', PBool False)]"

definition receipt_header :: "pydict \<Rightarrow> pydict" where
  "receipt_header plan = [
     (''format'', PStr RESTORE_RECEIPT_FORMAT), (''evidence_mode'', PStr ''PRODUCTION''),
     (''restore_plan_sha256'', dget plan ''plan_sha256''),
     (''upload_receipt_sha256'', dget plan ''upload_receipt_sha256'')]"

text \<open>\<open>_aware("window_start", ...) <= instant <= _aware("window_end", ...)\<close>.\<close>

definition in_restore_window :: "pydict \<Rightarrow> datetime \<Rightarrow> exn + bool" where
  "in_restore_window plan instant =
     ebind (aware ''window_start'' (dget plan ''window_start'')) (\<lambda>start.
     if instant_of start \<le> instant_of instant
     then ebind (aware ''window_end'' (dget plan ''window_end'')) (\<lambda>e. Inr (instant_of instant \<le> instant_of e))
     else Inr False)"

definition verify_isolated_backup_restore_receipt :: "(string \<Rightarrow> string) \<Rightarrow> pyval \<Rightarrow> pyval \<Rightarrow> exn + pydict" where
  "verify_isolated_backup_restore_receipt sha receipt plan =
     ebind (verify_isolated_backup_restore_plan sha plan) (\<lambda>value.
     let d = dval receipt in
     if \<not> is_dict receipt \<or> \<not> fields_are d RESTORE_RECEIPT_FIELDS
     then restore_error ''Isolated restore receipt fields are incomplete''
     else if secret_findings receipt \<noteq> [] \<or> \<not> matches d (receipt_header value @ completion_requirements value)
     then restore_error ''Isolated restore receipt violates the exact plan''
     else
       ebind (aware ''restored_at'' (dget d ''restored_at'')) (\<lambda>restored.
       ebind (in_restore_window value restored) (\<lambda>inside.
       if \<not> inside then restore_error ''Isolated restore receipt is outside the approved window''
       else
         ebind (sha256_ref ''receipt_sha256'' (dget d ''receipt_sha256'')) (\<lambda>_.
         if dget d ''receipt_sha256'' \<noteq> PStr (digest_envelope sha d ''receipt_sha256'')
         then restore_error ''Isolated restore receipt is invalid or modified''
         else Inr (canon_dict d)))))"

definition build_isolated_backup_restore_receipt ::
  "(string \<Rightarrow> string) \<Rightarrow> pyval \<Rightarrow> pyval \<Rightarrow> pyval \<Rightarrow> exn + pydict" where
  "build_isolated_backup_restore_receipt sha plan evidence restored_at =
     ebind (verify_isolated_backup_restore_plan sha plan) (\<lambda>value.
     if \<not> is_dict evidence then restore_error ''Isolated restore completion evidence is required''
     else if secret_findings evidence \<noteq> [] \<or> \<not> matches (dval evidence) (completion_requirements value) \<or>
             \<not> fields_are (dval evidence) (map fst (completion_requirements value))
     then restore_error ''Isolated restore completion evidence does not match the plan''
     else
       ebind (aware ''restored_at'' restored_at) (\<lambda>instant.
       ebind (in_restore_window value instant) (\<lambda>inside.
       if \<not> inside then restore_error ''Isolated restore completed outside the approved window''
       else
         (let receipt = receipt_header value @ completion_requirements value @
                [(''restored_at'', PStr (isoformat instant))] in
          verify_isolated_backup_restore_receipt sha
            (PDict (receipt @ [(''receipt_sha256'', PStr (digest_envelope sha receipt ''receipt_sha256''))]))
            (PDict value)))))"

end
