(* ===== verification/Store_Transfers.thy ===== *)
theory Store_Transfers
  imports Store_Work Backup_Restore
begin

text \<open>
  \<^verbatim>\<open>sean_os/store.py\<close>: the backup transfer outbox. A verified plan is staged, its
  no-network preflight recorded, an exact approval requested and consumed, and the authorized
  item leased to a worker that completes, fails or holds it. The helpers the three outboxes
  repeat (expiring stale requests, the single pending request) are defined once here.
\<close>

section \<open>Shared steps of the outboxes\<close>

fun outbox_name :: "string \<Rightarrow> outbox_status \<Rightarrow> string" where
  "outbox_name done OB_STAGED = ''STAGED''"
| "outbox_name done OB_PREFLIGHT = ''PREFLIGHT_VALIDATED''"
| "outbox_name done OB_AUTHORIZED = ''AUTHORIZED''"
| "outbox_name done OB_DONE = done"
| "outbox_name done OB_FAILED = ''FAILED''"
| "outbox_name done OB_RECONCILE = ''RECONCILIATION_REQUIRED''"

text \<open>The item a worker holds, and an authorized item no unexpired lease protects.\<close>

definition leased_to :: "string \<Rightarrow> string \<Rightarrow> 'a outbox_row_scheme \<Rightarrow> bool" where
  "leased_to item worker r = (bx_id r = item \<and> bx_status r = OB_AUTHORIZED \<and> bx_owner r = Some worker)"

definition lease_free :: "string \<Rightarrow> 'a outbox_row_scheme \<Rightarrow> bool" where
  "lease_free stamp r =
     (bx_status r = OB_AUTHORIZED \<and> (bx_owner r = None \<or> lease_expired (bx_lease r) stamp))"

text \<open>
  The loop over the pending requests of one target: an expired one is marked, the others are
  returned, and the marks are committed if there were any.
\<close>

primrec expire_loop :: "approval_row list \<Rightarrow> approval_row list py" where
  "expire_loop [] = ret []"
| "expire_loop (a # rest) =
     bind (lift_result (fromisoformat (ap_expires_at a))) (\<lambda>expires.
     bind now_instant (\<lambda>t.
     bind (lift_result (dt_le expires (utc_dt t))) (\<lambda>expired.
     if expired then seq (set_approval (ap_id a) AP_EXPIRED) (expire_loop rest)
     else bind (expire_loop rest) (\<lambda>active. ret (a # active)))))"

definition active_requests :: "string \<Rightarrow> string \<Rightarrow> string \<Rightarrow> approval_row list py" where
  "active_requests action_type target scope =
     bind (table db_approvals) (\<lambda>rows.
     let pending = order_by ap_id (filter (\<lambda>a. ap_action a = action_type \<and> ap_target a = target \<and>
           ap_scope a = scope \<and> ap_status a = AP_PENDING) rows) in
     bind (expire_loop pending) (\<lambda>active.
     seq (if length active \<noteq> length pending then commit else ret ()) (ret active)))"

text \<open>At most one request may be pending, and only the exact same one is returned again.\<close>

definition request_exact ::
  "actor \<Rightarrow> string \<Rightarrow> string \<Rightarrow> string \<Rightarrow> string \<Rightarrow> pydict \<Rightarrow> string \<Rightarrow> string py" where
  "request_exact actor action_type target max_impact expires_at conditions conflict =
     bind (active_requests action_type target ''IAC'') (\<lambda>active.
     let exact = filter (\<lambda>a. py_eq (ap_conditions a) (PDict conditions)) active in
     if active \<noteq> [] then
       (if length active = 1 \<and> length exact = 1 \<and> ap_impact (hd exact) = max_impact \<and>
           ap_expires_at (hd exact) = expires_at
        then ret (ap_id (hd exact))
        else raise (ValidationError conflict))
     else request_approval actor action_type target ''IAC'' max_impact expires_at conditions)"

definition guard_time :: "string \<Rightarrow> string \<Rightarrow> exn + datetime" where
  "guard_time what stamp = (case fromisoformat stamp of
     Inl _ \<Rightarrow> Inl (ValidationError (what @ '' must be ISO-8601''))
   | Inr dt \<Rightarrow> if is_aware dt then Inr dt else Inl (ValidationError (what @ '' must include a timezone'')))"

section \<open>Staging and review\<close>

definition get_backup_transfer :: "actor \<Rightarrow> string \<Rightarrow> transfer_row py" where
  "get_backup_transfer actor plan_sha256 =
     bind (table db_transfers) (\<lambda>rows.
     case row_by bx_id plan_sha256 rows of
       None \<Rightarrow> raise (ValidationError ''Backup transfer plan not found'')
     | Some row \<Rightarrow> seq (authorize actor (bx_scope row) [] ''read'') (ret row))"

definition stage_backup_transfer :: "actor \<Rightarrow> pyval \<Rightarrow> pyval \<Rightarrow> transfer_row py" where
  "stage_backup_transfer actor plan approval_package =
     bind (reads w_profile) (\<lambda>profile.
     seq (raise_if (profile \<noteq> ''IAC'')
            (AuthorizationError ''Backup transfer outbox requires an IAC database profile''))
    (seq (authorize actor ''IAC'' [] ''write'')
    (bind (reads w_sha256) (\<lambda>sha.
     bind (lift_result (verify_backup_transfer_plan sha plan approval_package)) (\<lambda>verified.
     let plan_sha256 = sval (dget verified ''plan_sha256'') in
     bind (table db_transfers) (\<lambda>rows.
     case row_by bx_id plan_sha256 rows of
       Some existing \<Rightarrow>
         if dumps (PDict (tr_plan existing)) \<noteq> dumps (PDict verified)
         then raise (ValidationError ''Backup transfer plan hash is already bound to different evidence'')
         else get_backup_transfer actor plan_sha256
     | None \<Rightarrow>
         bind now (\<lambda>stamp.
         seq (sql_insert_new db_transfers db_transfers_update bx_id
                \<lparr>bx_id = plan_sha256, bx_scope = ''IAC'', bx_status = OB_STAGED, bx_approval = None,
                 bx_attempts = 0, bx_max = 3, bx_available_at = stamp, bx_owner = None, bx_lease = None,
                 bx_error = None, bx_receipt = None, bx_created_at = stamp, bx_updated_at = stamp,
                 bx_done_at = None, tr_target = sval (dget verified ''approval_target''),
                 tr_proposal = sval (dget verified ''proposal_sha256''), tr_plan = verified,
                 tr_preflight = None\<rparr>)
        (seq commit
        (seq (audit actor ''STAGE_BACKUP_TRANSFER'' AU_ALLOWED
                ''Path-free no-network backup transfer plan staged'' None
                [(''scope'', PStr ''IAC''), (''plan_sha256'', PStr plan_sha256),
                 (''network_enabled'', PBool False), (''execution_authorized'', PBool False)])
         (get_backup_transfer actor plan_sha256))))))))))"

definition OUTBOX_NAMES :: "string \<Rightarrow> string list" where
  "OUTBOX_NAMES done = [''STAGED'', ''PREFLIGHT_VALIDATED'', ''AUTHORIZED'', done, ''FAILED'',
     ''RECONCILIATION_REQUIRED'']"

definition list_backup_transfers :: "actor \<Rightarrow> string option \<Rightarrow> transfer_row list py" where
  "list_backup_transfers actor status =
     seq (authorize actor ''IAC'' [] ''read'')
    (seq (raise_if (case status of None \<Rightarrow> False | Some s \<Rightarrow> \<not> List.member (OUTBOX_NAMES ''COMPLETED'') s)
            (ValidationError ''Unknown backup transfer status''))
    (bind (table db_transfers) (\<lambda>rows.
     bind (collect (order_by bx_created_at (order_by bx_id (filter (\<lambda>r. case status of None \<Rightarrow> True
               | Some s \<Rightarrow> outbox_name ''COMPLETED'' (bx_status r) = s) rows)))
             (\<lambda>r. get_backup_transfer actor (bx_id r))) (\<lambda>result.
     seq (audit actor ''LIST_BACKUP_TRANSFERS'' AU_ALLOWED ''Scope-safe backup transfer review returned'' None
            [(''scope'', PStr ''IAC''), (''status'', opt_str status),
             (''result_count'', PInt (int (length result)))])
      (ret result)))))"

definition record_backup_transfer_preflight :: "actor \<Rightarrow> string \<Rightarrow> pyval \<Rightarrow> transfer_row py" where
  "record_backup_transfer_preflight actor plan_sha256 receipt =
     bind (reads w_sha256) (\<lambda>sha.
     bind (lift_result (verify_synthetic_backup_adapter_receipt sha receipt)) (\<lambda>verified.
     seq (raise_if (dget verified ''plan_sha256'' \<noteq> PStr plan_sha256)
            (ValidationError ''Backup preflight receipt does not match the staged plan''))
    (bind (get_backup_transfer actor plan_sha256) (\<lambda>row.
     seq (authorize actor (bx_scope row) [] ''write'')
    (if bx_status row = OB_PREFLIGHT then
       (if (case tr_preflight row of None \<Rightarrow> False | Some p \<Rightarrow> py_eq p (PDict verified)) then ret row
        else raise (ValidationError ''Backup transfer already has different preflight evidence''))
     else
       seq (raise_if (bx_status row \<noteq> OB_STAGED)
              (ValidationError ''Only a staged backup transfer may record preflight evidence''))
      (bind now (\<lambda>stamp.
       seq (sql_update db_transfers db_transfers_update
              (\<lambda>r. bx_id r = plan_sha256 \<and> bx_status r = OB_STAGED)
              (\<lambda>r. r\<lparr>bx_status := OB_PREFLIGHT, tr_preflight := Some (PDict verified),
                     bx_updated_at := stamp\<rparr>))
      (seq commit
      (seq (audit actor ''VALIDATE_BACKUP_TRANSFER_PREFLIGHT'' AU_ALLOWED
              ''Synthetic adapter proved no encryption, upload, or network action'' None
              [(''scope'', PStr ''IAC''), (''plan_sha256'', PStr plan_sha256),
               (''network_performed'', PBool False), (''execution_authorized'', PBool False)])
       (get_backup_transfer actor plan_sha256))))))))))"

section \<open>The worker's side\<close>

definition audit_expired_transfers :: "actor \<Rightarrow> transfer_row list \<Rightarrow> unit py" where
  "audit_expired_transfers actor items = for_each items (\<lambda>item.
     audit actor ''FAIL_BACKUP_TRANSFER'' AU_FAILED ''Lease expired after maximum attempts''
       (Some (bx_id item)) [(''scope'', PStr ''IAC''), (''network_performed'', PBool False),
         (''recovered_from_expired_lease'', PBool True)])"

text \<open>What a claim leases: the oldest authorized item that is due, free and may still be tried.\<close>

definition next_transfer :: "string \<Rightarrow> transfer_row list \<Rightarrow> transfer_row option" where
  "next_transfer stamp rows =
     (case order_by bx_created_at (order_by bx_id (filter (\<lambda>r. lease_free stamp r \<and>
        bx_available_at r \<le> stamp \<and> bx_attempts r < bx_max r) rows)) of
        [] \<Rightarrow> None | r # _ \<Rightarrow> Some r)"

definition lease_item :: "string \<Rightarrow> instant \<Rightarrow> string \<Rightarrow> 'a outbox_row_scheme \<Rightarrow> 'a outbox_row_scheme" where
  "lease_item worker until stamp r =
     r\<lparr>bx_owner := Some worker, bx_lease := Some (iso_utc until), bx_attempts := bx_attempts r + 1,
       bx_updated_at := stamp\<rparr>"

definition claim_authorized_backup_transfer :: "actor \<Rightarrow> string \<Rightarrow> int \<Rightarrow> transfer_row option py" where
  "claim_authorized_backup_transfer actor worker_id lease_seconds =
     bind (reads w_profile) (\<lambda>profile.
     seq (raise_if (profile \<noteq> ''IAC'' \<or> \<not> List.member (actor_scopes actor) ''IAC'')
            (AuthorizationError ''Backup transfer worker requires the IAC database profile''))
    (seq (raise_if (blank worker_id) (ValidationError ''Backup transfer worker ID is required''))
    (seq (raise_if (lease_seconds < 1 \<or> 900 < lease_seconds)
            (ValidationError ''Backup transfer lease must be between 1 and 900 seconds''))
    (bind kill_switch_enabled (\<lambda>kill.
     if kill then seq (audit actor ''CLAIM_BACKUP_TRANSFER'' AU_DENIED ''Kill switch is ON'' None []) (ret None)
     else
       bind now (\<lambda>stamp. bind now_instant (\<lambda>t.
       bind (lift_result (add_seconds t lease_seconds)) (\<lambda>until.
       seq begin_immediate
      (let worn = (\<lambda>r. lease_free stamp r \<and> bx_max r \<le> bx_attempts r) in
       bind (table db_transfers) (\<lambda>rows0.
       let terminal = filter worn rows0 in
       seq (sql_update db_transfers db_transfers_update worn
              (\<lambda>r. r\<lparr>bx_status := OB_FAILED, bx_error := Some ''Lease expired after maximum attempts'',
                     bx_updated_at := stamp, bx_owner := None, bx_lease := None\<rparr>))
      (bind (table db_transfers) (\<lambda>rows.
       case next_transfer stamp rows of
         None \<Rightarrow> seq commit (seq (audit_expired_transfers actor terminal) (ret None))
       | Some row \<Rightarrow>
           bind (sql_update db_transfers db_transfers_update
                   (\<lambda>r. bx_id r = bx_id row \<and> lease_free stamp r) (lease_item worker_id until stamp)) (\<lambda>rowcount.
           if rowcount \<noteq> 1 then seq rollback (ret None)
           else
             seq commit
            (seq (audit_expired_transfers actor terminal)
            (bind (get_backup_transfer actor (bx_id row)) (\<lambda>claimed.
             seq (audit actor ''CLAIM_BACKUP_TRANSFER'' AU_ALLOWED
                    ''Authorized backup transfer lease acquired'' (Some (bx_id row))
                    [(''scope'', PStr ''IAC''), (''worker_id'', PStr worker_id),
                     (''attempt'', PInt (bx_attempts claimed)), (''network_performed'', PBool False)])
              (ret (Some claimed))))))))))))))))))"

definition no_transfer_lease :: exn where
  "no_transfer_lease = AuthorizationError ''Worker does not hold the active backup transfer lease''"

definition fail_claimed_backup_transfer ::
  "actor \<Rightarrow> string \<Rightarrow> string \<Rightarrow> string \<Rightarrow> int \<Rightarrow> outbox_status py" where
  "fail_claimed_backup_transfer actor plan_sha256 worker_id error retry_seconds =
     seq (raise_if (blank error) (ValidationError ''Backup transfer failure requires an error''))
    (seq (raise_if (secret_findings (PDict [(''error'', PStr error)]) \<noteq> [])
            (ValidationError ''Secret-like material is prohibited in backup failures''))
    (seq (raise_if (retry_seconds < 0 \<or> 3600 < retry_seconds)
            (ValidationError ''Backup transfer retry must be between 0 and 3600 seconds''))
    (bind (table db_transfers) (\<lambda>rows.
     case find (leased_to plan_sha256 worker_id) rows of
       None \<Rightarrow> raise no_transfer_lease
     | Some row \<Rightarrow>
         seq (authorize actor ''IAC'' [] ''write'')
        (let status = (if bx_max row \<le> bx_attempts row then OB_FAILED else OB_AUTHORIZED) in
         bind now_instant (\<lambda>t.
         bind (lift_result (add_seconds t retry_seconds)) (\<lambda>available.
         bind now (\<lambda>stamp.
         seq (sql_update db_transfers db_transfers_update (\<lambda>r. bx_id r = plan_sha256)
                (\<lambda>r. r\<lparr>bx_status := status, bx_available_at := iso_utc available, bx_owner := None,
                       bx_lease := None, bx_error := Some error, bx_updated_at := stamp\<rparr>))
        (seq commit
        (seq (audit actor ''FAIL_BACKUP_TRANSFER'' AU_FAILED error (Some plan_sha256)
                [(''scope'', PStr ''IAC''), (''next_status'', PStr (outbox_name ''COMPLETED'' status)),
                 (''network_performed'', PBool False)])
         (ret status)))))))))))"

definition hold_claimed_backup_transfer_for_reconciliation ::
  "actor \<Rightarrow> string \<Rightarrow> string \<Rightarrow> string \<Rightarrow> outbox_status py" where
  "hold_claimed_backup_transfer_for_reconciliation actor plan_sha256 worker_id error =
     seq (raise_if (blank error) (ValidationError ''Backup reconciliation hold requires an error''))
    (seq (raise_if (secret_findings (PDict [(''error'', PStr error)]) \<noteq> [])
            (ValidationError ''Secret-like material is prohibited in backup failures''))
    (bind (table db_transfers) (\<lambda>rows.
     case find (leased_to plan_sha256 worker_id) rows of
       None \<Rightarrow> raise no_transfer_lease
     | Some row \<Rightarrow>
         seq (authorize actor ''IAC'' [] ''write'')
        (bind now (\<lambda>stamp.
         seq (sql_update db_transfers db_transfers_update (leased_to plan_sha256 worker_id)
                (\<lambda>r. r\<lparr>bx_status := OB_RECONCILE, bx_owner := None, bx_lease := None,
                       bx_error := Some error, bx_updated_at := stamp\<rparr>))
        (seq commit
        (seq (audit actor ''HOLD_BACKUP_TRANSFER_FOR_RECONCILIATION'' AU_FAILED error (Some plan_sha256)
                [(''scope'', PStr ''IAC''), (''next_status'', PStr ''RECONCILIATION_REQUIRED''),
                 (''network_result'', PStr ''AMBIGUOUS''), (''automatic_retry_permitted'', PBool False)])
         (ret OB_RECONCILE))))))))"

text \<open>\<open>not row["approval_id"]\<close>, \<open>not row["lease_expires_at"]\<close>: a NULL or empty text.\<close>

definition missing :: "string option \<Rightarrow> bool" where
  "missing x = (given x = None)"

definition assert_backup_transfer_execution_allowed ::
  "actor \<Rightarrow> string \<Rightarrow> string \<Rightarrow> string option \<Rightarrow> transfer_row py" where
  "assert_backup_transfer_execution_allowed actor plan_sha256 worker_id at_time =
     seq (authorize actor ''IAC'' [] ''write'')
    (bind (at_or_now at_time) (\<lambda>stamp.
     bind (lift_result (guard_time ''Backup execution guard time'' stamp)) (\<lambda>checked_at.
     bind (table db_transfers) (\<lambda>rows.
     bind kill_switch_enabled (\<lambda>kill.
     bind (lift_result
       (if kill then Inr (Some ''Kill switch is ON'')
        else case row_by bx_id plan_sha256 rows of
          None \<Rightarrow> Inr (Some ''Backup transfer plan not found'')
        | Some row \<Rightarrow>
            if bx_status row \<noteq> OB_AUTHORIZED \<or> missing (bx_approval row)
            then Inr (Some ''Backup transfer is not authorized'')
            else if bx_owner row \<noteq> Some worker_id \<or> missing (bx_lease row)
            then Inr (Some ''Worker does not hold the backup transfer lease'')
            else ebind (fromisoformat (text_or (bx_lease row) [])) (\<lambda>lease.
              ebind (dt_le lease checked_at) (\<lambda>expired.
              Inr (if expired then Some ''Backup transfer lease expired'' else None))))) (\<lambda>reason.
     case reason of
       Some why \<Rightarrow>
         seq (audit actor ''GUARD_BACKUP_TRANSFER'' AU_DENIED why (Some plan_sha256)
                [(''scope'', PStr ''IAC''), (''worker_id'', PStr worker_id), (''network_performed'', PBool False)])
             (raise (AuthorizationError why))
     | None \<Rightarrow> get_backup_transfer actor plan_sha256))))))"

definition lease_live :: "string \<Rightarrow> 'a outbox_row_scheme \<Rightarrow> bool" where
  "lease_live stamp r = (case bx_lease r of None \<Rightarrow> False | Some t \<Rightarrow> stamp < t)"

definition complete_claimed_backup_transfer :: "actor \<Rightarrow> string \<Rightarrow> string \<Rightarrow> pyval \<Rightarrow> transfer_row py" where
  "complete_claimed_backup_transfer actor plan_sha256 worker_id receipt =
     bind kill_switch_enabled (\<lambda>kill.
     seq (raise_if kill (AuthorizationError ''Kill switch is ON; backup completion denied''))
    (bind now (\<lambda>stamp.
     bind (reads w_sha256) (\<lambda>sha.
     bind (table db_transfers) (\<lambda>rows.
     case find (\<lambda>r. leased_to plan_sha256 worker_id r \<and> lease_live stamp r) rows of
       None \<Rightarrow>
         (case row_by bx_id plan_sha256 rows of
            None \<Rightarrow> raise no_transfer_lease
          | Some existing \<Rightarrow>
              if bx_status existing = OB_DONE then
                bind (lift_result (verify_backup_upload_receipt sha receipt (PDict (tr_plan existing)))) (\<lambda>again.
                if (case bx_receipt existing of None \<Rightarrow> False | Some prior \<Rightarrow> py_eq (PDict again) prior)
                then get_backup_transfer actor plan_sha256 else raise no_transfer_lease)
              else raise no_transfer_lease)
     | Some row \<Rightarrow>
         seq (authorize actor (bx_scope row) [] ''write'')
        (bind (lift_result (verify_backup_upload_receipt sha receipt (PDict (tr_plan row)))) (\<lambda>verified.
         bind (sql_update db_transfers db_transfers_update
                 (\<lambda>r. leased_to plan_sha256 worker_id r \<and> lease_live stamp r)
                 (\<lambda>r. r\<lparr>bx_status := OB_DONE, bx_receipt := Some (PDict verified),
                        bx_done_at := Some (sval (dget verified ''uploaded_at'')), bx_updated_at := stamp,
                        bx_owner := None, bx_lease := None, bx_error := None\<rparr>)) (\<lambda>rowcount.
         if rowcount \<noteq> 1 then
           seq rollback (raise (AuthorizationError ''Backup transfer lease changed before completion''))
         else
           seq commit
          (seq (audit actor ''COMPLETE_BACKUP_TRANSFER'' AU_ALLOWED
                  ''Encrypted retention-locked provider receipt verified'' (Some plan_sha256)
                  [(''scope'', PStr ''IAC''), (''provider'', PStr ''BACKBLAZE_B2''), (''uploaded'', PBool True),
                   (''network_performed'', PBool True), (''object_lock_verified'', PBool True),
                   (''encryption_verified'', PBool True)])
           (get_backup_transfer actor plan_sha256))))))))))"

section \<open>Approval\<close>

definition backup_transfer_approval_conditions :: "transfer_row \<Rightarrow> pydict" where
  "backup_transfer_approval_conditions row =
     [(''plan_sha256'', PStr (bx_id row)), (''proposal_sha256'', PStr (tr_proposal row))] @
     map (\<lambda>k. (k, dget (tr_plan row) k)) [''backup_sha256'', ''provider'', ''destination_ref'',
       ''data_region'', ''provider_endpoint'', ''provider_writer_identity_ref'',
       ''client_encryption_key_ref'', ''object_ref'', ''retention_mode'', ''retention_days'',
       ''window_start'', ''window_end'', ''max_cost_cad'']"

definition request_backup_transfer_approval :: "actor \<Rightarrow> string \<Rightarrow> string \<Rightarrow> string \<Rightarrow> string py" where
  "request_backup_transfer_approval actor plan_sha256 max_impact expires_at =
     bind (get_backup_transfer actor plan_sha256) (\<lambda>row.
     seq (authorize actor (bx_scope row) [] ''write'')
    (seq (raise_if (bx_status row \<noteq> OB_PREFLIGHT)
            (ValidationError ''Backup transfer requires validated no-network preflight evidence''))
     (request_exact actor DRILL_ACTION (tr_target row) max_impact expires_at
        (backup_transfer_approval_conditions row)
        ''A different backup drill approval request is already pending'')))"

definition authorize_backup_transfer :: "actor \<Rightarrow> string \<Rightarrow> string \<Rightarrow> transfer_row py" where
  "authorize_backup_transfer actor plan_sha256 approval_id =
     seq (raise_if (\<not> actor_is_sean actor) (AuthorizationError ''Only Sean may authorize a backup transfer''))
    (bind (get_backup_transfer actor plan_sha256) (\<lambda>row.
     if bx_status row = OB_AUTHORIZED \<and> bx_approval row = Some approval_id then ret row
     else
       seq (raise_if (bx_status row \<noteq> OB_PREFLIGHT)
              (ValidationError ''Backup transfer is not awaiting exact approval''))
      (seq (try_except
              (seq begin_immediate
              (seq (consume_approval actor approval_id DRILL_ACTION (tr_target row) None (Some ''IAC'')
                      (Some (backup_transfer_approval_conditions row)) False)
              (bind now (\<lambda>stamp.
               bind (sql_update db_transfers db_transfers_update
                       (\<lambda>r. bx_id r = plan_sha256 \<and> bx_status r = OB_PREFLIGHT)
                       (\<lambda>r. r\<lparr>bx_status := OB_AUTHORIZED, bx_approval := Some approval_id,
                              bx_updated_at := stamp\<rparr>)) (\<lambda>rowcount.
               seq (raise_if (rowcount \<noteq> 1)
                      (ValidationError ''Backup transfer authorization raced with another update''))
              (seq (audit_with actor ''AUTHORIZE_BACKUP_TRANSFER'' AU_ALLOWED
                      ''Exact single-use backup plan approval consumed'' (Some approval_id)
                      [(''scope'', PStr ''IAC''), (''plan_sha256'', PStr plan_sha256),
                       (''network_performed'', PBool False), (''upload_performed'', PBool False)] None False)
               commit))))))
              (\<lambda>e. seq rollback (raise e)))
       (get_backup_transfer actor plan_sha256))))"

section \<open>The laws\<close>

lemma reader_get_backup_transfer: "reader (get_backup_transfer actor plan_sha256)"
  unfolding get_backup_transfer_def by (intro reader_intros reader_authorize)

text \<open>Marking the requests of a loop as expired: they are all pending until it does.\<close>

definition expirable :: "string set \<Rightarrow> db \<Rightarrow> bool" where
  "expirable ids d \<longleftrightarrow> (distinct (map ap_id (db_approvals d)) \<longrightarrow>
     (\<forall>r\<in>set (db_approvals d). ap_id r \<in> ids \<longrightarrow> approval_path (ap_status r) AP_EXPIRED))"

lemma expirable_set:
  assumes "expirable ids d"
  shows "expirable ids (db_approvals_update
           (update_where (\<lambda>r. ap_id r = i) (\<lambda>r. r\<lparr>ap_status := AP_EXPIRED\<rparr>)) d)"
  using assms by (auto simp: expirable_def map_key_update_where set_update_where approval_path_def)

lemma lawful_expire:
  assumes "i \<in> ids"
  shows "lawful prof (expirable ids) (set_approval i AP_EXPIRED)"
  unfolding set_approval_def
proof (rule store.lawful_update)
  fix d
  assume d: "expirable ids d"
  show "store_le prof d (db_approvals_update
      (update_where (\<lambda>r. ap_id r = i) (\<lambda>r. r\<lparr>ap_status := AP_EXPIRED\<rparr>)) d)"
    unfolding store_le_table
    using d assms
    by (intro approvals.step_update)
      (auto simp: expirable_def table_ok_def approval_ok_def approval_step_def)
qed

lemma lawful_expire_loop:
  "ap_id ` set pend \<subseteq> ids \<Longrightarrow> lawful prof (expirable ids) (expire_loop pend)"
proof (induction pend)
  case Nil
  show ?case by (simp add: store.lawful_ret)
next
  case (Cons a rest)
  have post: "expirable ids (w_db w')"
    if "expirable ids (w_db w)" and m: "set_approval (ap_id a) AP_EXPIRED w = (Inr x, w')" for w w' x
  proof -
    have "wp (set_approval (ap_id a) AP_EXPIRED) (\<lambda>_ v. expirable ids (w_db v)) (\<lambda>_ _. True) w"
      using that(1) by (simp add: set_approval_def py_wp expirable_set)
    from wp_result [OF m this] show ?thesis .
  qed
  have A: "lawful prof (expirable ids) (seq (set_approval (ap_id a) AP_EXPIRED) (expire_loop rest))"
    unfolding seq_def
    by (rule store.lawful_bind_post [where C = "\<lambda>_. expirable ids"])
      (use Cons post in \<open>auto intro: lawful_expire\<close>)
  have B: "lawful prof (expirable ids) (expire_loop rest)" using Cons by simp
  show ?case
    unfolding expire_loop.simps
    by (intro store.lawful_lift store.lawful_sources store.lawful_if A store.lawful_bind [OF B]
        store.lawful_ret)
qed

lemma lawful_active_requests [legal_ops]: "lawful prof P (active_requests action_type target scope)"
  unfolding active_requests_def
proof (intro op_rules, goal_cases)
  case (1 rows pending)
  show ?case
  proof (rule store.lawful_cong [OF _ lawful_expire_loop [where ids = "ap_id ` set pending"]])
    fix d
    assume d: "P d \<and> db_approvals d = rows"
    have "approval_path (ap_status r) AP_EXPIRED"
      if "distinct (map ap_id rows)" "r \<in> set rows" "a \<in> set pending" "ap_id r = ap_id a" for r a
    proof -
      have a: "a \<in> set rows" "ap_status a = AP_PENDING" using that(3) 1 by simp_all
      have "Some r = Some a"
        using row_by_unique [OF that(1,2)] row_by_unique [OF that(1) a(1)] that(4) by metis
      then have "r = a" by simp
      then show ?thesis using a by (simp add: approval_path_def)
    qed
    then show "expirable (ap_id ` set pending) d"
      unfolding expirable_def using d by (metis imageE)
  qed simp
qed

lemma lawful_request_exact [legal_ops]:
  "lawful prof P (request_exact actor action_type target max_impact expires_at conditions conflict)"
  unfolding request_exact_def by (intro op_rules legal_ops)

lemma lawful_get_backup_transfer [legal_ops]: "lawful prof P (get_backup_transfer actor plan_sha256)"
  by (rule store.lawful_reader) (rule reader_get_backup_transfer)

lemmas transfer_rules =
  store.lawful_bind_reader [OF reader_get_backup_transfer] work_readers op_rules

lemmas transfer_laws = transfer_ok_def outbox_ok_def transfer_step_def outbox_step_def outbox_final_def

lemma lawful_stage_backup_transfer [legal_ops]:
  "lawful prof P (stage_backup_transfer actor plan approval_package)"
  unfolding stage_backup_transfer_def
proof (intro transfer_rules legal_ops, goal_cases)
  case 1
  then show ?case
    unfolding store_le_table by (intro transfers.step_insert) (simp_all add: transfer_laws)
qed

lemma lawful_list_backup_transfers [legal_ops]: "lawful prof P (list_backup_transfers actor status)"
  unfolding list_backup_transfers_def by (intro transfer_rules legal_ops)

lemma lawful_record_backup_transfer_preflight [legal_ops]:
  "lawful prof P (record_backup_transfer_preflight actor plan_sha256 receipt)"
  unfolding record_backup_transfer_preflight_def
proof (intro transfer_rules legal_ops, goal_cases)
  case 1
  then show ?case
    unfolding store_le_table by (intro transfers.step_update) (auto simp: transfer_laws)
qed

lemma lawful_audit_expired_transfers [legal_ops]: "lawful prof P (audit_expired_transfers actor items)"
  unfolding audit_expired_transfers_def by (intro op_rules legal_ops)

lemma next_transfer_due:
  assumes "next_transfer stamp rows = Some r"
  shows "r \<in> set rows \<and> lease_free stamp r \<and> bx_available_at r \<le> stamp \<and> bx_attempts r < bx_max r"
proof -
  obtain rest where "order_by bx_created_at (order_by bx_id (filter (\<lambda>r. lease_free stamp r \<and>
      bx_available_at r \<le> stamp \<and> bx_attempts r < bx_max r) rows)) = r # rest"
    using assms by (auto simp: next_transfer_def split: list.splits)
  then have "r \<in> set (order_by bx_created_at (order_by bx_id (filter (\<lambda>r. lease_free stamp r \<and>
      bx_available_at r \<le> stamp \<and> bx_attempts r < bx_max r) rows)))"
    by (metis list.set_intros(1))
  then show ?thesis by simp
qed

lemma lawful_claim_authorized_backup_transfer [legal_ops]:
  "lawful prof P (claim_authorized_backup_transfer actor worker_id lease_seconds)"
  unfolding claim_authorized_backup_transfer_def
proof (intro transfer_rules legal_ops, goal_cases)
  case 1
  then show ?case
    unfolding store_le_table
    by (intro transfers.step_update) (auto simp: transfer_laws lease_free_def)
next
  case 2
  then show ?case
    unfolding store_le_table
    by (intro transfers.step_update_row)
      (auto dest!: next_transfer_due simp: transfer_laws lease_item_def lease_free_def)
qed

lemma lawful_fail_claimed_backup_transfer [legal_ops]:
  "lawful prof P (fail_claimed_backup_transfer actor plan_sha256 worker_id error retry_seconds)"
  unfolding fail_claimed_backup_transfer_def
proof (intro transfer_rules legal_ops, goal_cases)
  case (1 rows row status t available stamp d)
  then have row: "row \<in> set (db_transfers d)" "leased_to plan_sha256 worker_id row"
    using find_SomeD [of "leased_to plan_sha256 worker_id" rows row] by auto
  then have id: "plan_sha256 = bx_id row" by (simp add: leased_to_def)
  show ?case
    unfolding id store_le_table using 1 row
    by (intro transfers.step_update_key) (auto simp: transfer_laws leased_to_def)
qed

lemma lawful_hold_claimed_backup_transfer [legal_ops]:
  "lawful prof P (hold_claimed_backup_transfer_for_reconciliation actor plan_sha256 worker_id error)"
  unfolding hold_claimed_backup_transfer_for_reconciliation_def
proof (intro transfer_rules legal_ops, goal_cases)
  case 1
  then show ?case
    unfolding store_le_table
    by (intro transfers.step_update) (auto simp: transfer_laws leased_to_def)
qed

lemma lawful_assert_backup_transfer_execution_allowed [legal_ops]:
  "lawful prof P (assert_backup_transfer_execution_allowed actor plan_sha256 worker_id at_time)"
  unfolding assert_backup_transfer_execution_allowed_def by (intro transfer_rules legal_ops)

lemma lawful_complete_claimed_backup_transfer [legal_ops]:
  "lawful prof P (complete_claimed_backup_transfer actor plan_sha256 worker_id receipt)"
  unfolding complete_claimed_backup_transfer_def
proof (intro transfer_rules legal_ops, goal_cases)
  case 1
  then show ?case
    unfolding store_le_table
    by (intro transfers.step_update) (auto simp: transfer_laws leased_to_def)
qed

lemma lawful_request_backup_transfer_approval [legal_ops]:
  "lawful prof P (request_backup_transfer_approval actor plan_sha256 max_impact expires_at)"
  unfolding request_backup_transfer_approval_def by (intro transfer_rules legal_ops)

lemma transfer_authorized:
  assumes "transfer_ok prof r" and "bx_status r = OB_PREFLIGHT"
  shows "transfer_ok prof (r\<lparr>bx_status := OB_AUTHORIZED, bx_approval := Some a, bx_updated_at := t\<rparr>) \<and>
    transfer_step r (r\<lparr>bx_status := OB_AUTHORIZED, bx_approval := Some a, bx_updated_at := t\<rparr>)"
proof -
  have "bx_approval r = None" using assms by (simp add: transfer_ok_def outbox_ok_def)
  with assms show ?thesis by (simp add: transfer_laws)
qed

lemma lawful_authorize_backup_transfer [legal_ops]:
  "lawful prof P (authorize_backup_transfer actor plan_sha256 approval_id)"
  unfolding authorize_backup_transfer_def
proof (intro transfer_rules legal_ops, goal_cases)
  case 1
  then show ?case
    unfolding store_le_table by (intro transfers.step_update) (blast intro: transfer_authorized [THEN conjunct1] transfer_authorized [THEN conjunct2])
qed

end
