(* ===== verification/Store_Deliveries.thy ===== *)
theory Store_Deliveries
  imports Store_Alerts Store_Transfers
begin

text \<open>
  \<^verbatim>\<open>sean_os/store.py\<close>: the alert delivery outbox. One delivery is staged per
  incident and reopening; it needs an exact approval, is leased to a worker and completed with
  a synthetic, no-network receipt, or fails and is reset by Sean, which forgets its approval.
\<close>

section \<open>Reading\<close>

text \<open>The row together with the two values \<open>get_alert_delivery\<close> computes.\<close>

record delivery_view =
  dv_row :: delivery_row
  dv_lease_state :: string
  dv_remaining :: int

definition delivery_lease_state :: "delivery_row \<Rightarrow> string py" where
  "delivery_lease_state row =
     (if bx_status row \<noteq> OB_AUTHORIZED then ret ''NONE''
      else if given (bx_owner row) = None then ret ''UNCLAIMED''
      else case given (bx_lease row) of
        None \<Rightarrow> ret ''ACTIVE''
      | Some lease \<Rightarrow>
          bind (lift_result (fromisoformat lease)) (\<lambda>expires.
          bind now_instant (\<lambda>t.
          bind (lift_result (dt_le expires (utc_dt t))) (\<lambda>expired.
          ret (if expired then ''EXPIRED'' else ''ACTIVE'')))))"

definition get_alert_delivery :: "actor \<Rightarrow> string \<Rightarrow> delivery_view py" where
  "get_alert_delivery actor delivery_id =
     bind (table db_deliveries) (\<lambda>rows.
     case row_by bx_id delivery_id rows of
       None \<Rightarrow> raise (ValidationError ''Alert delivery not found'')
     | Some row \<Rightarrow>
         seq (authorize actor (bx_scope row) [] ''read'')
        (bind (delivery_lease_state row) (\<lambda>state.
         ret \<lparr>dv_row = row, dv_lease_state = state,
              dv_remaining = max 0 (bx_max row - bx_attempts row)\<rparr>)))"

definition DELIVERY_NAMES :: "string list" where
  "DELIVERY_NAMES = [''STAGED'', ''AUTHORIZED'', ''SYNTHETIC_DELIVERED'', ''FAILED'']"

definition list_alert_deliveries :: "actor \<Rightarrow> string \<Rightarrow> string option \<Rightarrow> delivery_view list py" where
  "list_alert_deliveries actor scope status =
     seq (raise_if (\<not> List.member [''PERSONAL'', ''IAC''] scope)
            (ValidationError ''Alert deliveries require PERSONAL or IAC scope''))
    (seq (authorize actor scope [] ''read'')
    (seq (raise_if (case status of None \<Rightarrow> False | Some s \<Rightarrow> \<not> List.member DELIVERY_NAMES s)
            (ValidationError ''Unknown alert delivery status''))
    (bind (table db_deliveries) (\<lambda>rows.
     collect (order_desc bx_created_at (order_by bx_id (filter (\<lambda>r. bx_scope r = scope \<and>
                (case status of None \<Rightarrow> True
                 | Some s \<Rightarrow> outbox_name ''SYNTHETIC_DELIVERED'' (bx_status r) = s)) rows)))
       (\<lambda>r. get_alert_delivery actor (bx_id r))))))"

record delivery_diagnostics =
  dd_counts :: "(outbox_status \<times> nat) list"
  dd_backlog :: nat
  dd_active :: nat
  dd_expired :: nat
  dd_failed :: nat
  dd_oldest :: "string option"
  dd_attention :: "delivery_view list"

definition alert_delivery_diagnostics :: "actor \<Rightarrow> string \<Rightarrow> delivery_diagnostics py" where
  "alert_delivery_diagnostics actor scope =
     bind (list_alert_deliveries actor scope None) (\<lambda>deliveries.
     let status = (\<lambda>v. bx_status (dv_row v));
         counts = group_counts status deliveries;
         attention = filter (\<lambda>v. status v = OB_FAILED \<or> dv_lease_state v = ''EXPIRED'') deliveries;
         authorized = filter (\<lambda>v. status v = OB_AUTHORIZED) deliveries;
         created = map (\<lambda>v. bx_created_at (dv_row v)) authorized in
     seq (audit actor ''READ_ALERT_DELIVERY_DIAGNOSTICS'' AU_ALLOWED
            ''Scope-safe delivery diagnostics returned'' None
            [(''scope'', PStr scope), (''attention_count'', PInt (int (length attention)))])
      (ret \<lparr>dd_counts = counts, dd_backlog = length authorized,
           dd_active = count_where (\<lambda>v. dv_lease_state v = ''ACTIVE'') authorized,
           dd_expired = count_where (\<lambda>v. dv_lease_state v = ''EXPIRED'') authorized,
           dd_failed = count_of counts OB_FAILED,
           dd_oldest = (if created = [] then None else Some (Min (set created))),
           dd_attention = attention\<rparr>))"

section \<open>Staging\<close>

text \<open>The guards on the recorded plan, its route and its alert; the alert code and the alert.\<close>

definition check_delivery_plan :: "pydict \<Rightarrow> string \<Rightarrow> exn + pydict \<times> pydict" where
  "check_delivery_plan plan route_id =
     (let route = dget plan ''route''; alert = dget_or plan ''alert'' (PDict []) in
      if dget plan ''delivery_authorized'' \<noteq> PBool False \<or> dget plan ''approval_required'' \<noteq> PBool True
      then Inl (ValidationError ''Only approval-gated non-delivering plans may be staged'')
      else if \<not> is_dict route \<or> dget (dval route) ''route_id'' \<noteq> PStr route_id
      then Inl (ValidationError ''Alert delivery route evidence is invalid'')
      else ebind (in_names (dget (dval route) ''destination_kind'') [''EMAIL'', ''WEBHOOK'']) (\<lambda>known.
        if \<not> known then Inl (ValidationError ''Alert delivery destination kind is invalid'')
        else if \<not> nonblank_str (dget (dval route) ''destination_ref'')
        then Inl (ValidationError ''Alert delivery destination reference is invalid'')
        else if \<not> is_dict alert then Inl (AttributeError ''get'')
        else Inr (dval route, dval alert)))"

definition delivery_identity :: "string \<Rightarrow> int \<Rightarrow> pydict" where
  "delivery_identity incident_id generation =
     [(''incident_id'', PStr incident_id), (''reopen_generation'', PInt generation)]"

text \<open>\<open>INSERT OR IGNORE\<close>: nothing is inserted if the id or the incident's generation exists.\<close>

definition insert_delivery :: "delivery_row \<Rightarrow> unit py" where
  "insert_delivery r =
     bind (table db_deliveries) (\<lambda>rows.
     if list_ex (\<lambda>x. bx_id x = bx_id r \<or>
          (dl_incident x = dl_incident r \<and> dl_generation x = dl_generation r)) rows
     then dml id else sql_insert db_deliveries_update r)"

definition stage_alert_delivery :: "actor \<Rightarrow> string \<Rightarrow> delivery_view py" where
  "stage_alert_delivery actor plan_id =
     bind (get_alert_observation actor plan_id) (\<lambda>observation.
     let plan = dval (ob_payload observation); scope = ob_scope observation;
         route_id = ob_route observation in
     seq (authorize actor scope [] ''write'')
    (bind (lift_result (check_delivery_plan plan route_id)) (\<lambda>(route, alert).
     bind (sha256 (dumps (PDict (incident_identity scope route_id (dget alert ''code''))))) (\<lambda>incident_id.
     bind (get_alert_incident actor incident_id) (\<lambda>incident.
     seq (raise_if (ic_status incident \<noteq> INC_ACTIVE)
            (ValidationError ''Resolved incidents cannot stage alert delivery''))
    (bind (sha256 (dumps (PDict (delivery_identity incident_id (ic_reopens incident))))) (\<lambda>delivery_id.
     seq (raise_if (\<not> dhas plan ''alert'') (KeyError ''alert''))
    (bind (sha256 (dumps (PDict alert))) (\<lambda>payload_sha256.
     bind now (\<lambda>stamp.
     seq (insert_delivery
            \<lparr>bx_id = delivery_id, bx_scope = scope, bx_status = OB_STAGED, bx_approval = None,
             bx_attempts = 0, bx_max = 3, bx_available_at = stamp, bx_owner = None, bx_lease = None,
             bx_error = None, bx_receipt = None, bx_created_at = stamp, bx_updated_at = stamp,
             bx_done_at = None, dl_plan = plan_id, dl_incident = incident_id,
             dl_generation = ic_reopens incident, dl_route = route_id,
             dl_kind = sval (dget route ''destination_kind''),
             dl_destination = sval (dget route ''destination_ref''),
             dl_alert = PDict (canon_dict alert), dl_sha256 = payload_sha256\<rparr>)
    (seq commit
    (bind (get_alert_delivery actor delivery_id) (\<lambda>row.
     seq (raise_if (dl_plan (dv_row row) \<noteq> plan_id \<or> dl_sha256 (dv_row row) \<noteq> payload_sha256)
            (ValidationError ''Alert delivery identity collision or payload mutation''))
    (seq (audit actor ''STAGE_ALERT_DELIVERY'' AU_ALLOWED ''Durable delivery awaiting exact approval''
            (Some delivery_id)
            [(''scope'', PStr scope), (''plan_id'', PStr plan_id), (''delivery_authorized'', PBool False)])
     (ret row)))))))))))))))"

section \<open>Approval and recovery\<close>

definition reset_note :: string where
  "reset_note = ''Recovery reset; fresh approval required''"

definition reset_failed_alert_delivery :: "actor \<Rightarrow> string \<Rightarrow> string \<Rightarrow> delivery_view py" where
  "reset_failed_alert_delivery actor delivery_id reason =
     seq (raise_if (\<not> actor_is_sean actor)
            (AuthorizationError ''Only Sean may reset failed alert delivery''))
    (seq (raise_if (blank reason) (ValidationError ''Alert delivery reset requires a reason''))
    (seq (raise_if (secret_findings (PDict [(''reason'', PStr reason)]) \<noteq> [])
            (ValidationError ''Secret-like material is prohibited in recovery evidence''))
    (bind (table db_deliveries) (\<lambda>rows.
     case row_by bx_id delivery_id rows of
       None \<Rightarrow> raise (ValidationError ''Alert delivery not found'')
     | Some row \<Rightarrow>
         seq (authorize actor (bx_scope row) [] ''write'')
        (if bx_status row = OB_STAGED \<and> bx_approval row = None \<and> bx_attempts row = 0 \<and>
            bx_error row = Some reset_note
         then get_alert_delivery actor delivery_id
         else
           seq (raise_if (bx_status row \<noteq> OB_FAILED)
                  (ValidationError ''Only failed alert delivery may be reset''))
          (bind now (\<lambda>stamp.
           seq (sql_update db_deliveries db_deliveries_update
                  (\<lambda>r. bx_id r = delivery_id \<and> bx_status r = OB_FAILED)
                  (\<lambda>r. r\<lparr>bx_status := OB_STAGED, bx_approval := None, bx_attempts := 0,
                         bx_available_at := stamp, bx_owner := None, bx_lease := None,
                         bx_error := Some reset_note, bx_receipt := None, bx_done_at := None,
                         bx_updated_at := stamp\<rparr>))
          (seq commit
          (seq (audit actor ''RESET_ALERT_DELIVERY'' AU_ALLOWED reason (Some delivery_id)
                  [(''scope'', PStr (bx_scope row)), (''next_status'', PStr ''STAGED''),
                   (''fresh_approval_required'', PBool True),
                   (''manual_execution_authorized'', PBool False)])
           (get_alert_delivery actor delivery_id))))))))))"

definition request_alert_delivery_approval ::
  "actor \<Rightarrow> string \<Rightarrow> string \<Rightarrow> string \<Rightarrow> string py" where
  "request_alert_delivery_approval actor delivery_id max_impact expires_at =
     bind (get_alert_delivery actor delivery_id) (\<lambda>view.
     let delivery = dv_row view in
     seq (authorize actor (bx_scope delivery) [] ''write'')
    (seq (raise_if (bx_status delivery \<noteq> OB_STAGED)
            (ValidationError ''Only staged deliveries may request approval''))
    (seq (raise_if (blank max_impact)
            (ValidationError ''Alert delivery approval requires a bounded impact''))
    (bind (active_requests ''DELIVER_ALERT'' delivery_id (bx_scope delivery)) (\<lambda>active.
     if active \<noteq> [] then
       (if length active = 1 \<and> ap_impact (hd active) = max_impact \<and> ap_expires_at (hd active) = expires_at
        then ret (ap_id (hd active))
        else raise (ValidationError ''A different alert delivery approval request is already pending''))
     else request_approval actor ''DELIVER_ALERT'' delivery_id (bx_scope delivery) max_impact expires_at
       [(''delivery_id'', PStr delivery_id), (''payload_sha256'', PStr (dl_sha256 delivery))])))))"

definition authorize_alert_delivery :: "actor \<Rightarrow> string \<Rightarrow> string \<Rightarrow> delivery_view py" where
  "authorize_alert_delivery actor delivery_id approval_id =
     seq (raise_if (\<not> actor_is_sean actor) (AuthorizationError ''Only Sean may authorize alert delivery''))
    (bind (get_alert_delivery actor delivery_id) (\<lambda>view.
     let row = dv_row view in
     if bx_status row \<noteq> OB_STAGED then
       (if bx_status row = OB_AUTHORIZED \<and> bx_approval row = Some approval_id then ret view
        else raise (ValidationError ''Alert delivery is not awaiting approval''))
     else
       seq (try_except
              (seq begin_immediate
              (seq (consume_approval actor approval_id ''DELIVER_ALERT'' delivery_id None
                      (Some (bx_scope row)) None False)
              (bind now (\<lambda>stamp.
               bind (sql_update db_deliveries db_deliveries_update
                       (\<lambda>r. bx_id r = delivery_id \<and> bx_status r = OB_STAGED)
                       (\<lambda>r. r\<lparr>bx_status := OB_AUTHORIZED, bx_approval := Some approval_id,
                              bx_updated_at := stamp\<rparr>)) (\<lambda>rowcount.
               seq (raise_if (rowcount \<noteq> 1)
                      (ValidationError ''Alert delivery authorization raced with another update''))
              (seq (audit_with actor ''AUTHORIZE_ALERT_DELIVERY'' AU_ALLOWED
                      ''Exact delivery approval consumed'' (Some delivery_id)
                      [(''scope'', PStr (bx_scope row)), (''approval_id'', PStr approval_id)] None False)
               commit))))))
              (\<lambda>e. seq rollback (raise e)))
       (get_alert_delivery actor delivery_id)))"

section \<open>The worker's side\<close>

text \<open>The guards on a synthetic receipt.\<close>

definition check_receipt :: "string \<Rightarrow> string \<Rightarrow> pydict \<Rightarrow> exn + unit" where
  "check_receipt delivery_id payload_sha256 receipt =
     (if dget receipt ''mode'' \<noteq> PStr ''SYNTHETIC'' \<or> dget receipt ''network_used'' \<noteq> PBool False
      then Inl (ValidationError ''Only no-network synthetic delivery receipts are accepted'')
      else if dget receipt ''external_effect'' \<noteq> PBool False
      then Inl (ValidationError ''Synthetic delivery receipt must prove no external effect'')
      else if dget receipt ''delivery_id'' \<noteq> PStr delivery_id \<or>
        dget receipt ''payload_sha256'' \<noteq> PStr payload_sha256
      then Inl (ValidationError ''Synthetic delivery receipt does not match staged payload'')
      else Inr ())"

definition same_receipt :: "pydict \<Rightarrow> delivery_row \<Rightarrow> bool" where
  "same_receipt receipt row =
     (case bx_receipt row of None \<Rightarrow> False | Some prior \<Rightarrow> py_eq prior (PDict receipt))"

definition record_synthetic_alert_delivery :: "actor \<Rightarrow> string \<Rightarrow> pydict \<Rightarrow> delivery_view py" where
  "record_synthetic_alert_delivery actor delivery_id receipt =
     bind (get_alert_delivery actor delivery_id) (\<lambda>view.
     let row = dv_row view in
     seq (authorize actor (bx_scope row) [] ''write'')
    (bind (lift_result (check_receipt delivery_id (dl_sha256 row) receipt)) (\<lambda>_.
     if bx_status row = OB_DONE then
       (if same_receipt receipt row then ret view
        else raise (ValidationError ''Alert delivery already has different receipt evidence''))
     else
       seq (raise_if (bx_status row \<noteq> OB_AUTHORIZED)
              (AuthorizationError ''Alert delivery lacks exact approval''))
      (bind now (\<lambda>stamp.
       seq (sql_update db_deliveries db_deliveries_update
              (\<lambda>r. bx_id r = delivery_id \<and> bx_status r = OB_AUTHORIZED)
              (\<lambda>r. r\<lparr>bx_status := OB_DONE, bx_attempts := bx_attempts r + 1,
                     bx_receipt := Some (PDict (canon_dict receipt)), bx_done_at := Some stamp,
                     bx_updated_at := stamp\<rparr>))
      (seq commit
      (seq (audit actor ''SYNTHETIC_DELIVER_ALERT'' AU_ALLOWED ''No-network synthetic adapter completed''
              (Some delivery_id) [(''scope'', PStr (bx_scope row)), (''network_used'', PBool False)])
       (get_alert_delivery actor delivery_id))))))))"

definition audit_expired_deliveries :: "actor \<Rightarrow> delivery_row list \<Rightarrow> unit py" where
  "audit_expired_deliveries actor items = for_each items (\<lambda>item.
     audit actor ''FAIL_ALERT_DELIVERY'' AU_FAILED ''Lease expired after maximum attempts''
       (Some (bx_id item)) [(''scope'', PStr (bx_scope item)), (''next_status'', PStr ''FAILED''),
         (''network_used'', PBool False), (''recovered_from_expired_lease'', PBool True)])"

text \<open>What a claim leases: the oldest delivery of the scopes that is due, free and may still be tried.\<close>

definition next_delivery :: "string list \<Rightarrow> string \<Rightarrow> delivery_row list \<Rightarrow> delivery_row option" where
  "next_delivery scopes stamp rows =
     (case order_by bx_created_at (order_by bx_id (filter (\<lambda>r. lease_free stamp r \<and>
        bx_available_at r \<le> stamp \<and> bx_attempts r < bx_max r \<and> List.member scopes (bx_scope r)) rows)) of
        [] \<Rightarrow> None | r # _ \<Rightarrow> Some r)"

definition delivery_scopes :: "string \<Rightarrow> actor \<Rightarrow> string list" where
  "delivery_scopes profile actor =
     filter (\<lambda>s. List.member (actor_scopes actor) s \<and> List.member (allowed_scopes profile) s)
       [''IAC'', ''PERSONAL'']"

definition claim_authorized_alert_delivery :: "actor \<Rightarrow> string \<Rightarrow> int \<Rightarrow> delivery_view option py" where
  "claim_authorized_alert_delivery actor worker_id lease_seconds =
     seq (raise_if (blank worker_id) (ValidationError ''Alert delivery worker ID is required''))
    (seq (raise_if (lease_seconds < 1 \<or> 300 < lease_seconds)
            (ValidationError ''Alert delivery lease must be between 1 and 300 seconds''))
    (bind kill_switch_enabled (\<lambda>kill.
     if kill then seq (audit actor ''CLAIM_ALERT_DELIVERY'' AU_DENIED ''Kill switch is ON'' None []) (ret None)
     else
       bind (reads w_profile) (\<lambda>profile.
       let scopes = delivery_scopes profile actor in
       if scopes = [] then
         seq (audit actor ''CLAIM_ALERT_DELIVERY'' AU_DENIED ''Worker has no authorized delivery scope'' None [])
             (ret None)
       else
         bind now (\<lambda>stamp. bind now_instant (\<lambda>t.
         bind (lift_result (add_seconds t lease_seconds)) (\<lambda>until.
         seq begin_immediate
        (let worn = (\<lambda>r. lease_free stamp r \<and> bx_max r \<le> bx_attempts r \<and> List.member scopes (bx_scope r)) in
         bind (table db_deliveries) (\<lambda>rows0.
         let terminal = filter worn rows0 in
         seq (sql_update db_deliveries db_deliveries_update worn
                (\<lambda>r. r\<lparr>bx_status := OB_FAILED, bx_error := Some ''Lease expired after maximum attempts'',
                       bx_updated_at := stamp, bx_owner := None, bx_lease := None\<rparr>))
        (bind (table db_deliveries) (\<lambda>rows.
         case next_delivery scopes stamp rows of
           None \<Rightarrow> seq commit (seq (audit_expired_deliveries actor terminal) (ret None))
         | Some row \<Rightarrow>
             bind (sql_update db_deliveries db_deliveries_update
                     (\<lambda>r. bx_id r = bx_id row \<and> lease_free stamp r) (lease_item worker_id until stamp)) (\<lambda>rowcount.
             if rowcount \<noteq> 1 then seq rollback (ret None)
             else
               seq commit
              (seq (audit_expired_deliveries actor terminal)
              (bind (get_alert_delivery actor (bx_id row)) (\<lambda>claimed.
               seq (audit actor ''CLAIM_ALERT_DELIVERY'' AU_ALLOWED
                      ''Authorized synthetic delivery lease acquired'' (Some (bx_id row))
                      [(''scope'', PStr (bx_scope (dv_row claimed))), (''worker_id'', PStr worker_id),
                       (''attempt'', PInt (bx_attempts (dv_row claimed))), (''network_used'', PBool False)])
                (ret (Some claimed)))))))))))))))))"

definition no_delivery_lease :: exn where
  "no_delivery_lease = AuthorizationError ''Worker does not hold the active alert delivery lease''"

definition complete_claimed_synthetic_alert_delivery ::
  "actor \<Rightarrow> string \<Rightarrow> string \<Rightarrow> pydict \<Rightarrow> delivery_view py" where
  "complete_claimed_synthetic_alert_delivery actor delivery_id worker_id receipt =
     bind kill_switch_enabled (\<lambda>kill.
     seq (raise_if kill (AuthorizationError ''Kill switch is ON; delivery completion denied''))
    (bind (table db_deliveries) (\<lambda>rows.
     case row_by bx_id delivery_id rows of
       None \<Rightarrow> raise (ValidationError ''Alert delivery not found'')
     | Some row \<Rightarrow>
         seq (authorize actor (bx_scope row) [] ''write'')
        (bind (lift_result (check_receipt delivery_id (dl_sha256 row) receipt)) (\<lambda>_.
         seq (raise_if (secret_findings (PDict receipt) \<noteq> [])
                (ValidationError ''Secret-like material is prohibited in delivery receipts''))
        (if bx_status row = OB_DONE then
           (if same_receipt receipt row then get_alert_delivery actor delivery_id
            else raise (ValidationError ''Alert delivery already has different receipt evidence''))
         else
           bind now (\<lambda>stamp.
           bind (bind_column (dget receipt ''delivered_at'')) (\<lambda>delivered_at.
           bind (sql_update db_deliveries db_deliveries_update (leased_to delivery_id worker_id)
                   (\<lambda>r. r\<lparr>bx_status := OB_DONE, bx_receipt := Some (PDict (canon_dict receipt)),
                          bx_done_at := delivered_at, bx_updated_at := stamp, bx_owner := None,
                          bx_lease := None, bx_error := None\<rparr>)) (\<lambda>rowcount.
           if rowcount \<noteq> 1 then seq rollback (raise no_delivery_lease)
           else
             seq commit
            (seq (audit actor ''COMPLETE_ALERT_DELIVERY'' AU_ALLOWED
                    ''Leased no-network synthetic delivery completed'' (Some delivery_id)
                    [(''scope'', PStr (bx_scope row)), (''worker_id'', PStr worker_id),
                     (''network_used'', PBool False), (''external_effect'', PBool False)])
             (get_alert_delivery actor delivery_id)))))))))))"

definition fail_claimed_alert_delivery ::
  "actor \<Rightarrow> string \<Rightarrow> string \<Rightarrow> string \<Rightarrow> int \<Rightarrow> outbox_status py" where
  "fail_claimed_alert_delivery actor delivery_id worker_id error retry_seconds =
     seq (raise_if (blank error) (ValidationError ''Alert delivery failure requires an error''))
    (seq (raise_if (secret_findings (PDict [(''error'', PStr error)]) \<noteq> [])
            (ValidationError ''Secret-like material is prohibited in delivery failures''))
    (seq (raise_if (retry_seconds < 0 \<or> 3600 < retry_seconds)
            (ValidationError ''Alert delivery retry must be between 0 and 3600 seconds''))
    (bind (table db_deliveries) (\<lambda>rows.
     case find (leased_to delivery_id worker_id) rows of
       None \<Rightarrow> raise no_delivery_lease
     | Some row \<Rightarrow>
         seq (authorize actor (bx_scope row) [] ''write'')
        (let status = (if bx_max row \<le> bx_attempts row then OB_FAILED else OB_AUTHORIZED) in
         bind now_instant (\<lambda>t.
         bind (lift_result (add_seconds t retry_seconds)) (\<lambda>available.
         bind now (\<lambda>stamp.
         seq (sql_update db_deliveries db_deliveries_update (\<lambda>r. bx_id r = delivery_id)
                (\<lambda>r. r\<lparr>bx_status := status, bx_available_at := iso_utc available, bx_owner := None,
                       bx_lease := None, bx_error := Some error, bx_updated_at := stamp\<rparr>))
        (seq commit
        (seq (audit actor ''FAIL_ALERT_DELIVERY'' AU_FAILED error (Some delivery_id)
                [(''scope'', PStr (bx_scope row)), (''worker_id'', PStr worker_id),
                 (''next_status'', PStr (outbox_name ''SYNTHETIC_DELIVERED'' status)),
                 (''network_used'', PBool False)])
         (ret status)))))))))))"

section \<open>The laws\<close>

lemma reader_delivery_lease_state: "reader (delivery_lease_state row)"
  unfolding delivery_lease_state_def by (intro reader_intros)

lemma reader_get_alert_delivery: "reader (get_alert_delivery actor delivery_id)"
  unfolding get_alert_delivery_def by (intro reader_intros reader_authorize reader_delivery_lease_state)

lemma reader_list_alert_deliveries: "reader (list_alert_deliveries actor scope status)"
  unfolding list_alert_deliveries_def
  by (intro reader_intros reader_authorize reader_get_alert_delivery)

lemma lawful_delivery_readers [legal_ops]:
  "lawful prof P (get_alert_delivery actor delivery_id)"
  "lawful prof P (list_alert_deliveries actor scope status)"
  by (rule store.lawful_reader, intro reader_get_alert_delivery reader_list_alert_deliveries)+

lemmas delivery_rules =
  lawful_bind_column store.lawful_bind_reader [OF reader_get_alert_delivery]
  store.lawful_bind_reader [OF reader_list_alert_deliveries]
  work_readers op_rules

lemma lawful_alert_delivery_diagnostics [legal_ops]:
  "lawful prof P (alert_delivery_diagnostics actor scope)"
  unfolding alert_delivery_diagnostics_def by (intro delivery_rules legal_ops)

lemma lawful_insert_delivery [legal_ops]:
  assumes "delivery_ok prof r"
  shows "lawful prof P (insert_delivery r)"
  unfolding insert_delivery_def
proof (intro delivery_rules legal_ops store.lawful_dml, goal_cases)
  case 1
  then show ?case by (simp add: store_le_refl)
next
  case 2
  then show ?case
    unfolding store_le_table
    by (intro deliveries.step_insert) (use assms in \<open>auto simp: list_ex_iff\<close>)
qed

lemmas delivery_laws = delivery_ok_def delivery_step_def

lemma lawful_stage_alert_delivery [legal_ops]: "lawful prof P (stage_alert_delivery actor plan_id)"
  unfolding stage_alert_delivery_def
  by (intro delivery_rules legal_ops) (simp add: delivery_laws)

lemma lawful_reset_failed_alert_delivery [legal_ops]:
  "lawful prof P (reset_failed_alert_delivery actor delivery_id reason)"
  unfolding reset_failed_alert_delivery_def
proof (intro delivery_rules legal_ops, goal_cases)
  case 1
  then show ?case
    unfolding store_le_table by (intro deliveries.step_update) (auto simp: delivery_laws)
qed

lemma lawful_request_alert_delivery_approval [legal_ops]:
  "lawful prof P (request_alert_delivery_approval actor delivery_id max_impact expires_at)"
  unfolding request_alert_delivery_approval_def by (intro delivery_rules legal_ops)

lemma lawful_authorize_alert_delivery [legal_ops]:
  "lawful prof P (authorize_alert_delivery actor delivery_id approval_id)"
  unfolding authorize_alert_delivery_def
proof (intro delivery_rules legal_ops, goal_cases)
  case 1
  then show ?case
    unfolding store_le_table by (intro deliveries.step_update) (auto simp: delivery_laws)
qed

lemma lawful_record_synthetic_alert_delivery [legal_ops]:
  "lawful prof P (record_synthetic_alert_delivery actor delivery_id receipt)"
  unfolding record_synthetic_alert_delivery_def
proof (intro delivery_rules legal_ops, goal_cases)
  case 1
  then show ?case
    unfolding store_le_table by (intro deliveries.step_update) (auto simp: delivery_laws)
qed

lemma lawful_audit_expired_deliveries [legal_ops]: "lawful prof P (audit_expired_deliveries actor items)"
  unfolding audit_expired_deliveries_def by (intro op_rules legal_ops)

lemma next_delivery_due:
  assumes "next_delivery scopes stamp rows = Some r"
  shows "r \<in> set rows \<and> lease_free stamp r \<and> bx_available_at r \<le> stamp \<and> bx_attempts r < bx_max r \<and>
    bx_scope r \<in> set scopes"
proof -
  let ?due = "filter (\<lambda>r. lease_free stamp r \<and> bx_available_at r \<le> stamp \<and> bx_attempts r < bx_max r \<and>
    List.member scopes (bx_scope r)) rows"
  obtain rest where "order_by bx_created_at (order_by bx_id ?due) = r # rest"
    using assms by (auto simp: next_delivery_def split: list.splits)
  then have "r \<in> set (order_by bx_created_at (order_by bx_id ?due))"
    by (metis list.set_intros(1))
  then show ?thesis by simp
qed

lemma lawful_claim_authorized_alert_delivery [legal_ops]:
  "lawful prof P (claim_authorized_alert_delivery actor worker_id lease_seconds)"
  unfolding claim_authorized_alert_delivery_def
proof (intro delivery_rules legal_ops, goal_cases)
  case 1
  then show ?case
    unfolding store_le_table
    by (intro deliveries.step_update) (auto simp: delivery_laws lease_free_def)
next
  case 2
  then show ?case
    unfolding store_le_table
    by (intro deliveries.step_update_row)
      (auto dest!: next_delivery_due simp: delivery_laws lease_item_def lease_free_def)
qed

lemma lawful_complete_claimed_synthetic_alert_delivery [legal_ops]:
  "lawful prof P (complete_claimed_synthetic_alert_delivery actor delivery_id worker_id receipt)"
  unfolding complete_claimed_synthetic_alert_delivery_def
proof (intro delivery_rules legal_ops, goal_cases)
  case 1
  then show ?case
    unfolding store_le_table
    by (intro deliveries.step_update) (auto simp: delivery_laws leased_to_def)
qed

lemma lawful_fail_claimed_alert_delivery [legal_ops]:
  "lawful prof P (fail_claimed_alert_delivery actor delivery_id worker_id error retry_seconds)"
  unfolding fail_claimed_alert_delivery_def
proof (intro delivery_rules legal_ops, goal_cases)
  case (1 rows row status t available stamp d)
  then have row: "row \<in> set (db_deliveries d)" "leased_to delivery_id worker_id row"
    using find_SomeD [of "leased_to delivery_id worker_id" rows row] by auto
  then have id: "delivery_id = bx_id row" by (simp add: leased_to_def)
  show ?case
    unfolding id store_le_table using 1 row
    by (intro deliveries.step_update_key) (auto simp: delivery_laws leased_to_def)
qed

end
