(* ===== verification/Store_Restores.thy ===== *)
theory Store_Restores
  imports Store_Transfers
begin

text \<open>
  \<^verbatim>\<open>sean_os/store.py\<close>: the isolated restore outbox. It has the shape of the transfer
  outbox; a restore is moreover bound to the window of its plan, which is verified again
  before each lease, and a lease never outlives the window.
\<close>

section \<open>Staging and review\<close>

definition get_backup_restore :: "actor \<Rightarrow> string \<Rightarrow> restore_row py" where
  "get_backup_restore actor plan_sha256 =
     bind (table db_restores) (\<lambda>rows.
     case row_by bx_id plan_sha256 rows of
       None \<Rightarrow> raise (ValidationError ''Backup restore plan not found'')
     | Some row \<Rightarrow> seq (authorize actor (bx_scope row) [] ''read'') (ret row))"

definition stage_backup_restore :: "actor \<Rightarrow> pyval \<Rightarrow> pyval \<Rightarrow> pyval \<Rightarrow> pyval \<Rightarrow> restore_row py" where
  "stage_backup_restore actor plan upload_plan upload_receipt restore_key_package =
     bind (reads w_profile) (\<lambda>profile.
     seq (raise_if (profile \<noteq> ''IAC'')
            (AuthorizationError ''Backup restore outbox requires an IAC database profile''))
    (seq (authorize actor ''IAC'' [] ''write'')
    (bind (reads w_sha256) (\<lambda>sha.
     bind (lift_result (verify_isolated_backup_restore_plan_against_evidence sha plan upload_plan
             upload_receipt restore_key_package)) (\<lambda>verified.
     let plan_sha256 = sval (dget verified ''plan_sha256'') in
     bind (table db_restores) (\<lambda>rows.
     case row_by bx_id plan_sha256 rows of
       Some existing \<Rightarrow>
         if dumps (PDict (rr_plan existing)) \<noteq> dumps (PDict verified)
         then raise (ValidationError ''Backup restore plan hash is bound to different evidence'')
         else get_backup_restore actor plan_sha256
     | None \<Rightarrow>
         bind now (\<lambda>stamp.
         seq (sql_insert_new db_restores db_restores_update bx_id
                \<lparr>bx_id = plan_sha256, bx_scope = ''IAC'', bx_status = OB_STAGED, bx_approval = None,
                 bx_attempts = 0, bx_max = 3, bx_available_at = stamp, bx_owner = None, bx_lease = None,
                 bx_error = None, bx_receipt = None, bx_created_at = stamp, bx_updated_at = stamp,
                 bx_done_at = None, rr_target = sval (dget verified ''approval_target''),
                 rr_upload_plan = sval (dget verified ''upload_plan_sha256''),
                 rr_upload_receipt = sval (dget verified ''upload_receipt_sha256''),
                 rr_key_proposal = sval (dget verified ''restore_key_proposal_sha256''),
                 rr_plan = verified, rr_preflight = None\<rparr>)
        (seq commit
        (seq (audit actor ''STAGE_BACKUP_RESTORE'' AU_ALLOWED
                ''Exact isolated restore plan staged without execution'' (Some plan_sha256)
                [(''scope'', PStr ''IAC''), (''network_enabled'', PBool False),
                 (''download_authorized'', PBool False), (''decrypt_authorized'', PBool False),
                 (''restore_authorized'', PBool False)])
         (get_backup_restore actor plan_sha256))))))))))"

definition list_backup_restores :: "actor \<Rightarrow> string option \<Rightarrow> restore_row list py" where
  "list_backup_restores actor status =
     seq (authorize actor ''IAC'' [] ''read'')
    (seq (raise_if (case status of None \<Rightarrow> False | Some s \<Rightarrow> \<not> List.member (OUTBOX_NAMES ''RESTORED'') s)
            (ValidationError ''Unknown backup restore status''))
    (bind (table db_restores) (\<lambda>rows.
     bind (collect (order_by bx_created_at (order_by bx_id (filter (\<lambda>r. case status of None \<Rightarrow> True
               | Some s \<Rightarrow> outbox_name ''RESTORED'' (bx_status r) = s) rows)))
             (\<lambda>r. get_backup_restore actor (bx_id r))) (\<lambda>result.
     seq (audit actor ''LIST_BACKUP_RESTORES'' AU_ALLOWED ''Scope-safe isolated restore review returned'' None
            [(''scope'', PStr ''IAC''), (''status'', opt_str status),
             (''result_count'', PInt (int (length result)))])
      (ret result)))))"

definition record_backup_restore_preflight :: "actor \<Rightarrow> string \<Rightarrow> pyval \<Rightarrow> restore_row py" where
  "record_backup_restore_preflight actor plan_sha256 receipt =
     bind (reads w_sha256) (\<lambda>sha.
     bind (lift_result (verify_synthetic_backup_restore_preflight sha receipt)) (\<lambda>verified.
     seq (raise_if (dget verified ''restore_plan_sha256'' \<noteq> PStr plan_sha256)
            (ValidationError ''Backup restore preflight does not match the staged plan''))
    (bind (get_backup_restore actor plan_sha256) (\<lambda>row.
     seq (authorize actor (bx_scope row) [] ''write'')
    (seq (raise_if (dget verified ''upload_receipt_sha256'' \<noteq> PStr (rr_upload_receipt row))
            (ValidationError ''Backup restore preflight does not match upload evidence''))
    (if bx_status row = OB_PREFLIGHT then
       (if (case rr_preflight row of None \<Rightarrow> False | Some p \<Rightarrow> py_eq p (PDict verified)) then ret row
        else raise (ValidationError ''Backup restore already has different preflight evidence''))
     else
       seq (raise_if (bx_status row \<noteq> OB_STAGED)
              (ValidationError ''Only a staged backup restore may record preflight evidence''))
      (bind now (\<lambda>stamp.
       seq (sql_update db_restores db_restores_update
              (\<lambda>r. bx_id r = plan_sha256 \<and> bx_status r = OB_STAGED)
              (\<lambda>r. r\<lparr>bx_status := OB_PREFLIGHT, rr_preflight := Some (PDict verified),
                     bx_updated_at := stamp\<rparr>))
      (seq commit
      (seq (audit actor ''VALIDATE_BACKUP_RESTORE_PREFLIGHT'' AU_ALLOWED
              ''Restore evidence validated without credentials, network, download, or decryption''
              (Some plan_sha256)
              [(''scope'', PStr ''IAC''), (''network_performed'', PBool False),
               (''execution_authorized'', PBool False)])
       (get_backup_restore actor plan_sha256)))))))))))"

section \<open>Approval\<close>

definition backup_restore_approval_conditions :: "restore_row \<Rightarrow> pydict" where
  "backup_restore_approval_conditions row =
     [(''restore_plan_sha256'', PStr (bx_id row)), (''upload_plan_sha256'', PStr (rr_upload_plan row)),
      (''upload_receipt_sha256'', PStr (rr_upload_receipt row)),
      (''restore_key_proposal_sha256'', PStr (rr_key_proposal row))] @
     map (\<lambda>k. (k, dget (rr_plan row) k)) [''provider'', ''data_region'', ''provider_endpoint'',
       ''destination_ref'', ''object_ref'', ''provider_version_ref'', ''provider_restore_identity_ref'',
       ''client_encryption_key_ref'', ''ciphertext_sha256'', ''expected_plaintext_sha256'',
       ''restore_target_ref'', ''window_start'', ''window_end'', ''max_cost_cad''] @
     [(''overwrite_permitted'', PBool False)]"

definition request_backup_restore_approval :: "actor \<Rightarrow> string \<Rightarrow> string \<Rightarrow> string \<Rightarrow> string py" where
  "request_backup_restore_approval actor plan_sha256 max_impact expires_at =
     bind (get_backup_restore actor plan_sha256) (\<lambda>row.
     seq (authorize actor (bx_scope row) [] ''write'')
    (seq (raise_if (bx_status row \<noteq> OB_PREFLIGHT)
            (ValidationError ''Backup restore requires validated no-action preflight evidence''))
    (bind (lift_result (guard_time ''Backup restore approval expiry'' expires_at)) (\<lambda>expiry.
     bind (lift_result (fromisoformat_val (dget (rr_plan row) ''window_end''))) (\<lambda>end_at.
     bind (lift_result (dt_lt end_at expiry)) (\<lambda>outlives.
     seq (raise_if outlives
            (ValidationError ''Backup restore approval cannot outlive the restore window''))
      (request_exact actor RESTORE_ACTION_TYPE (rr_target row) max_impact expires_at
         (backup_restore_approval_conditions row)
         ''A different isolated restore approval is already pending'')))))))"

text \<open>\<open>fromisoformat(plan["window_start"]) <= instant <= fromisoformat(plan["window_end"])\<close>.\<close>

definition inside_window :: "pydict \<Rightarrow> datetime \<Rightarrow> exn + bool" where
  "inside_window plan instant =
     ebind (fromisoformat_val (dget plan ''window_start'')) (\<lambda>start.
     ebind (dt_le start instant) (\<lambda>begun.
     if \<not> begun then Inr False
     else ebind (fromisoformat_val (dget plan ''window_end'')) (\<lambda>end_at. dt_le instant end_at)))"

definition authorize_backup_restore :: "actor \<Rightarrow> string \<Rightarrow> string \<Rightarrow> string option \<Rightarrow> restore_row py" where
  "authorize_backup_restore actor plan_sha256 approval_id at_time =
     seq (raise_if (\<not> actor_is_sean actor)
            (AuthorizationError ''Only Sean may authorize an isolated backup restore''))
    (bind (get_backup_restore actor plan_sha256) (\<lambda>row.
     if bx_status row = OB_AUTHORIZED \<and> bx_approval row = Some approval_id then ret row
     else
       seq (raise_if (bx_status row \<noteq> OB_PREFLIGHT)
              (ValidationError ''Backup restore is not awaiting exact approval''))
      (bind (at_or_now at_time) (\<lambda>stamp.
       bind (lift_result (guard_time ''Backup restore authorization time'' stamp)) (\<lambda>instant.
       bind (lift_result (inside_window (rr_plan row) instant)) (\<lambda>inside.
       seq (raise_if (\<not> inside)
              (ValidationError ''Backup restore authorization is outside the exact window''))
      (seq (try_except
              (seq begin_immediate
              (seq (consume_approval actor approval_id RESTORE_ACTION_TYPE (rr_target row) (Some stamp)
                      (Some ''IAC'') (Some (backup_restore_approval_conditions row)) False)
              (bind (sql_update db_restores db_restores_update
                       (\<lambda>r. bx_id r = plan_sha256 \<and> bx_status r = OB_PREFLIGHT)
                       (\<lambda>r. r\<lparr>bx_status := OB_AUTHORIZED, bx_approval := Some approval_id,
                              bx_updated_at := stamp\<rparr>)) (\<lambda>rowcount.
               seq (raise_if (rowcount \<noteq> 1)
                      (ValidationError ''Backup restore authorization raced with another update''))
              (seq (audit_with actor ''AUTHORIZE_BACKUP_RESTORE'' AU_ALLOWED
                      ''Exact single-use isolated restore approval consumed'' (Some plan_sha256)
                      [(''scope'', PStr ''IAC''), (''network_performed'', PBool False),
                       (''downloaded'', PBool False), (''decrypted'', PBool False),
                       (''restored'', PBool False)] None False)
               commit)))))
              (\<lambda>e. seq rollback (raise e)))
       (get_backup_restore actor plan_sha256))))))))"

section \<open>The worker's side\<close>

text \<open>
  The scan of a claim: exhausted and out-of-window items are collected with their reason, an
  item whose window has not begun is passed over, and the scan stops at the first item that
  can run.
\<close>

fun scan_restores ::
  "(string \<Rightarrow> string) \<Rightarrow> datetime \<Rightarrow> restore_row list \<Rightarrow> exn + (restore_row option \<times> (string \<times> string) list)"
where
  "scan_restores sha instant [] = Inr (None, [])"
| "scan_restores sha instant (row # rows) =
     ebind (verify_isolated_backup_restore_plan sha (PDict (rr_plan row))) (\<lambda>plan.
     if bx_max row \<le> bx_attempts row then
       ebind (scan_restores sha instant rows) (\<lambda>(s, t). Inr (s, (bx_id row, ''maximum attempts'') # t))
     else
       ebind (fromisoformat_val (dget plan ''window_end'')) (\<lambda>end_at.
       ebind (dt_le end_at instant) (\<lambda>over.
       if over then
         ebind (scan_restores sha instant rows) (\<lambda>(s, t). Inr (s, (bx_id row, ''approved window expired'') # t))
       else
         ebind (fromisoformat_val (dget plan ''window_start'')) (\<lambda>start.
         ebind (dt_le start instant) (\<lambda>begun.
         if begun then Inr (Some row, []) else scan_restores sha instant rows)))))"

definition unavailable :: "string \<Rightarrow> string" where
  "unavailable reason = ''Restore lease unavailable: '' @ reason"

definition fail_terminal_restores :: "string \<Rightarrow> (string \<times> string) list \<Rightarrow> unit py" where
  "fail_terminal_restores stamp items = for_each items (\<lambda>(item, reason).
     seq (sql_update db_restores db_restores_update
            (\<lambda>r. bx_id r = item \<and> bx_status r = OB_AUTHORIZED)
            (\<lambda>r. r\<lparr>bx_status := OB_FAILED, bx_error := Some (unavailable reason), bx_updated_at := stamp,
                   bx_owner := None, bx_lease := None\<rparr>))
      (ret ()))"

definition audit_terminal_restores :: "actor \<Rightarrow> (string \<times> string) list \<Rightarrow> unit py" where
  "audit_terminal_restores actor items = for_each items (\<lambda>(item, reason).
     audit actor ''FAIL_BACKUP_RESTORE'' AU_FAILED (unavailable reason) (Some item)
       [(''scope'', PStr ''IAC''), (''network_performed'', PBool False)])"

text \<open>
  \<open>min(instant + timedelta(seconds=n), window_end).isoformat()\<close>: the text keeps the offset
  of the smaller of the two.
\<close>

definition restore_lease :: "datetime \<Rightarrow> int \<Rightarrow> pydict \<Rightarrow> exn + string" where
  "restore_lease instant n plan =
     ebind (add_seconds (fst instant) n) (\<lambda>later.
     ebind (fromisoformat_val (dget plan ''window_end'')) (\<lambda>end_at.
     ebind (dt_lt end_at (later, snd instant)) (\<lambda>capped.
     Inr (isoformat (if capped then end_at else (later, snd instant))))))"

definition lease_restore ::
  "actor \<Rightarrow> string \<Rightarrow> int \<Rightarrow> string \<Rightarrow> datetime \<Rightarrow> (string \<times> string) list \<Rightarrow> restore_row \<Rightarrow> restore_row option py" where
  "lease_restore actor worker_id lease_seconds stamp instant terminal selected =
     bind (reads w_sha256) (\<lambda>sha.
     bind (lift_result (verify_isolated_backup_restore_plan sha (PDict (rr_plan selected)))) (\<lambda>plan.
     bind (lift_result (restore_lease instant lease_seconds plan)) (\<lambda>lease.
     bind (sql_update db_restores db_restores_update
             (\<lambda>r. bx_id r = bx_id selected \<and> lease_free stamp r)
             (\<lambda>r. r\<lparr>bx_owner := Some worker_id, bx_lease := Some lease, bx_attempts := bx_attempts r + 1,
                    bx_updated_at := stamp\<rparr>)) (\<lambda>rowcount.
     if rowcount \<noteq> 1 then seq rollback (ret None)
     else
       seq commit
      (seq (audit_terminal_restores actor terminal)
      (bind (get_backup_restore actor (bx_id selected)) (\<lambda>claimed.
       seq (audit actor ''CLAIM_BACKUP_RESTORE'' AU_ALLOWED ''Authorized isolated restore lease acquired''
              (Some (bx_id selected))
              [(''scope'', PStr ''IAC''), (''worker_id'', PStr worker_id),
               (''attempt'', PInt (bx_attempts claimed)), (''network_performed'', PBool False)])
        (ret (Some claimed)))))))))"

text \<open>What a claim does with the outcome of its scan.\<close>

definition finish_restore_claim ::
  "actor \<Rightarrow> string \<Rightarrow> int \<Rightarrow> string \<Rightarrow> datetime \<Rightarrow> (string \<times> string) list \<Rightarrow> restore_row option \<Rightarrow>
   restore_row option py" where
  "finish_restore_claim actor worker_id lease_seconds stamp instant terminal selected =
     seq (fail_terminal_restores stamp terminal)
    (case selected of
       None \<Rightarrow> seq commit (seq (audit_terminal_restores actor terminal) (ret None))
     | Some row \<Rightarrow> lease_restore actor worker_id lease_seconds stamp instant terminal row)"

definition claim_authorized_backup_restore ::
  "actor \<Rightarrow> string \<Rightarrow> int \<Rightarrow> string option \<Rightarrow> restore_row option py" where
  "claim_authorized_backup_restore actor worker_id lease_seconds at_time =
     bind (reads w_profile) (\<lambda>profile.
     seq (raise_if (profile \<noteq> ''IAC'' \<or> \<not> List.member (actor_scopes actor) ''IAC'')
            (AuthorizationError ''Backup restore worker requires the IAC database profile''))
    (seq (raise_if (blank worker_id) (ValidationError ''Backup restore worker ID is required''))
    (seq (raise_if (lease_seconds < 1 \<or> 900 < lease_seconds)
            (ValidationError ''Backup restore lease must be between 1 and 900 seconds''))
    (bind (at_or_now at_time) (\<lambda>stamp.
     bind (lift_result (guard_time ''Backup restore claim time'' stamp)) (\<lambda>instant.
     bind kill_switch_enabled (\<lambda>kill.
     if kill then seq (audit actor ''CLAIM_BACKUP_RESTORE'' AU_DENIED ''Kill switch is ON'' None []) (ret None)
     else
       seq begin_immediate
      (bind (reads w_sha256) (\<lambda>sha.
       bind (table db_restores) (\<lambda>rows.
       bind (lift_result (scan_restores sha instant
               (order_by bx_created_at (order_by bx_id
                 (filter (\<lambda>r. lease_free stamp r \<and> bx_available_at r \<le> stamp) rows))))) (\<lambda>(selected, terminal).
       finish_restore_claim actor worker_id lease_seconds stamp instant terminal selected)))))))))))"

definition no_restore_lease :: exn where
  "no_restore_lease = AuthorizationError ''Worker does not hold the active backup restore lease''"

definition assert_backup_restore_execution_allowed ::
  "actor \<Rightarrow> string \<Rightarrow> string \<Rightarrow> string option \<Rightarrow> restore_row py" where
  "assert_backup_restore_execution_allowed actor plan_sha256 worker_id at_time =
     seq (authorize actor ''IAC'' [] ''write'')
    (bind (at_or_now at_time) (\<lambda>stamp.
     bind (lift_result (guard_time ''Backup restore guard time'' stamp)) (\<lambda>instant.
     bind (reads w_sha256) (\<lambda>sha.
     bind (table db_restores) (\<lambda>rows.
     bind kill_switch_enabled (\<lambda>kill.
     bind (lift_result
       (if kill then Inr (Some ''Kill switch is ON'')
        else case row_by bx_id plan_sha256 rows of
          None \<Rightarrow> Inr (Some ''Backup restore plan not found'')
        | Some row \<Rightarrow>
            if bx_status row \<noteq> OB_AUTHORIZED \<or> missing (bx_approval row)
            then Inr (Some ''Backup restore is not authorized'')
            else if bx_owner row \<noteq> Some worker_id \<or> missing (bx_lease row)
            then Inr (Some ''Worker does not hold the backup restore lease'')
            else ebind (fromisoformat (text_or (bx_lease row) [])) (\<lambda>lease.
              ebind (dt_le lease instant) (\<lambda>expired.
              if expired then Inr (Some ''Backup restore lease expired'')
              else ebind (verify_isolated_backup_restore_plan sha (PDict (rr_plan row))) (\<lambda>plan.
                ebind (inside_window plan instant) (\<lambda>inside.
                Inr (if inside then None else Some ''Backup restore is outside the exact approved window''))))))) (\<lambda>reason.
     case reason of
       Some why \<Rightarrow>
         seq (audit actor ''GUARD_BACKUP_RESTORE'' AU_DENIED why (Some plan_sha256)
                [(''scope'', PStr ''IAC''), (''worker_id'', PStr worker_id), (''network_performed'', PBool False)])
             (raise (AuthorizationError why))
     | None \<Rightarrow> get_backup_restore actor plan_sha256)))))))"

definition fail_claimed_backup_restore ::
  "actor \<Rightarrow> string \<Rightarrow> string \<Rightarrow> string \<Rightarrow> int \<Rightarrow> outbox_status py" where
  "fail_claimed_backup_restore actor plan_sha256 worker_id error retry_seconds =
     seq (raise_if (blank error) (ValidationError ''Backup restore failure requires an error''))
    (seq (raise_if (secret_findings (PDict [(''error'', PStr error)]) \<noteq> [])
            (ValidationError ''Secret-like material is prohibited in restore failures''))
    (seq (raise_if (retry_seconds < 0 \<or> 3600 < retry_seconds)
            (ValidationError ''Backup restore retry must be between 0 and 3600 seconds''))
    (bind (table db_restores) (\<lambda>rows.
     case find (leased_to plan_sha256 worker_id) rows of
       None \<Rightarrow> raise no_restore_lease
     | Some row \<Rightarrow>
         seq (authorize actor ''IAC'' [] ''write'')
        (let status = (if bx_max row \<le> bx_attempts row then OB_FAILED else OB_AUTHORIZED) in
         bind now_instant (\<lambda>t.
         bind (lift_result (add_seconds t retry_seconds)) (\<lambda>available.
         bind now (\<lambda>stamp.
         seq (sql_update db_restores db_restores_update (\<lambda>r. bx_id r = plan_sha256)
                (\<lambda>r. r\<lparr>bx_status := status, bx_available_at := iso_utc available, bx_owner := None,
                       bx_lease := None, bx_error := Some error, bx_updated_at := stamp\<rparr>))
        (seq commit
        (seq (audit actor ''FAIL_BACKUP_RESTORE'' AU_FAILED error (Some plan_sha256)
                [(''scope'', PStr ''IAC''), (''next_status'', PStr (outbox_name ''RESTORED'' status)),
                 (''network_performed'', PBool False)])
         (ret status)))))))))))"

definition complete_claimed_backup_restore ::
  "actor \<Rightarrow> string \<Rightarrow> string \<Rightarrow> pyval \<Rightarrow> string option \<Rightarrow> restore_row py" where
  "complete_claimed_backup_restore actor plan_sha256 worker_id receipt at_time =
     bind kill_switch_enabled (\<lambda>kill.
     seq (raise_if kill (AuthorizationError ''Kill switch is ON; backup restore completion denied''))
    (bind (at_or_now at_time) (\<lambda>stamp.
     bind (reads w_sha256) (\<lambda>sha.
     bind (table db_restores) (\<lambda>rows.
     case find (\<lambda>r. leased_to plan_sha256 worker_id r \<and> lease_live stamp r) rows of
       None \<Rightarrow>
         (case row_by bx_id plan_sha256 rows of
            None \<Rightarrow> raise no_restore_lease
          | Some existing \<Rightarrow>
              if bx_status existing = OB_DONE then
                bind (lift_result (verify_isolated_backup_restore_receipt sha receipt (PDict (rr_plan existing)))) (\<lambda>again.
                if (case bx_receipt existing of None \<Rightarrow> False | Some prior \<Rightarrow> py_eq (PDict again) prior)
                then get_backup_restore actor plan_sha256 else raise no_restore_lease)
              else raise no_restore_lease)
     | Some row \<Rightarrow>
         seq (authorize actor (bx_scope row) [] ''write'')
        (bind (lift_result (verify_isolated_backup_restore_receipt sha receipt (PDict (rr_plan row)))) (\<lambda>verified.
         bind (sql_update db_restores db_restores_update
                 (\<lambda>r. leased_to plan_sha256 worker_id r \<and> lease_live stamp r)
                 (\<lambda>r. r\<lparr>bx_status := OB_DONE, bx_receipt := Some (PDict verified),
                        bx_done_at := Some (sval (dget verified ''restored_at'')), bx_updated_at := stamp,
                        bx_owner := None, bx_lease := None, bx_error := None\<rparr>)) (\<lambda>rowcount.
         if rowcount \<noteq> 1 then
           seq rollback (raise (AuthorizationError ''Backup restore lease changed before completion''))
         else
           seq commit
          (seq (audit actor ''COMPLETE_BACKUP_RESTORE'' AU_ALLOWED
                  ''Authenticated isolated restore and database integrity evidence verified'' (Some plan_sha256)
                  [(''scope'', PStr ''IAC''), (''provider'', PStr ''BACKBLAZE_B2''), (''downloaded'', PBool True),
                   (''decrypted'', PBool True), (''restored'', PBool True),
                   (''isolated_restore'', PBool True), (''overwrite_performed'', PBool False)])
           (get_backup_restore actor plan_sha256))))))))))"

definition hold_claimed_backup_restore_for_reconciliation ::
  "actor \<Rightarrow> string \<Rightarrow> string \<Rightarrow> string \<Rightarrow> outbox_status py" where
  "hold_claimed_backup_restore_for_reconciliation actor plan_sha256 worker_id error =
     seq (raise_if (blank error) (ValidationError ''Backup restore reconciliation requires an error''))
    (seq (raise_if (secret_findings (PDict [(''error'', PStr error)]) \<noteq> [])
            (ValidationError ''Secret-like material is prohibited in restore failures''))
    (bind (table db_restores) (\<lambda>rows.
     case find (leased_to plan_sha256 worker_id) rows of
       None \<Rightarrow> raise no_restore_lease
     | Some row \<Rightarrow>
         seq (authorize actor ''IAC'' [] ''write'')
        (bind now (\<lambda>stamp.
         seq (sql_update db_restores db_restores_update (leased_to plan_sha256 worker_id)
                (\<lambda>r. r\<lparr>bx_status := OB_RECONCILE, bx_owner := None, bx_lease := None,
                       bx_error := Some error, bx_updated_at := stamp\<rparr>))
        (seq commit
        (seq (audit actor ''HOLD_BACKUP_RESTORE_FOR_RECONCILIATION'' AU_FAILED error (Some plan_sha256)
                [(''scope'', PStr ''IAC''), (''next_status'', PStr ''RECONCILIATION_REQUIRED''),
                 (''automatic_retry_permitted'', PBool False)])
         (ret OB_RECONCILE))))))))"

section \<open>The laws\<close>

lemma reader_get_backup_restore: "reader (get_backup_restore actor plan_sha256)"
  unfolding get_backup_restore_def by (intro reader_intros reader_authorize)

lemma lawful_get_backup_restore [legal_ops]: "lawful prof P (get_backup_restore actor plan_sha256)"
  by (rule store.lawful_reader) (rule reader_get_backup_restore)

lemmas restore_rules =
  store.lawful_bind_reader [OF reader_get_backup_restore] work_readers op_rules

lemmas restore_laws = restore_ok_def outbox_ok_def restore_step_def outbox_step_def outbox_final_def

lemma lawful_stage_backup_restore [legal_ops]:
  "lawful prof P (stage_backup_restore actor plan upload_plan upload_receipt restore_key_package)"
  unfolding stage_backup_restore_def
proof (intro restore_rules legal_ops, goal_cases)
  case 1
  then show ?case
    unfolding store_le_table by (intro restores.step_insert) (simp_all add: restore_laws)
qed

lemma lawful_list_backup_restores [legal_ops]: "lawful prof P (list_backup_restores actor status)"
  unfolding list_backup_restores_def by (intro restore_rules legal_ops)

lemma lawful_record_backup_restore_preflight [legal_ops]:
  "lawful prof P (record_backup_restore_preflight actor plan_sha256 receipt)"
  unfolding record_backup_restore_preflight_def
proof (intro restore_rules legal_ops, goal_cases)
  case 1
  then show ?case
    unfolding store_le_table by (intro restores.step_update) (auto simp: restore_laws)
qed

lemma lawful_request_backup_restore_approval [legal_ops]:
  "lawful prof P (request_backup_restore_approval actor plan_sha256 max_impact expires_at)"
  unfolding request_backup_restore_approval_def by (intro restore_rules legal_ops)

lemma restore_authorized:
  assumes "restore_ok prof r" and "bx_status r = OB_PREFLIGHT"
  shows "restore_ok prof (r\<lparr>bx_status := OB_AUTHORIZED, bx_approval := Some a, bx_updated_at := t\<rparr>) \<and>
    restore_step r (r\<lparr>bx_status := OB_AUTHORIZED, bx_approval := Some a, bx_updated_at := t\<rparr>)"
proof -
  have "bx_approval r = None" using assms by (simp add: restore_ok_def outbox_ok_def)
  with assms show ?thesis by (simp add: restore_laws)
qed

lemma lawful_authorize_backup_restore [legal_ops]:
  "lawful prof P (authorize_backup_restore actor plan_sha256 approval_id at_time)"
  unfolding authorize_backup_restore_def
proof (intro restore_rules legal_ops, goal_cases)
  case 1
  then show ?case
    unfolding store_le_table
    by (intro restores.step_update)
      (blast intro: restore_authorized [THEN conjunct1] restore_authorized [THEN conjunct2])
qed

text \<open>The item a scan selects may still be tried, also after the failures of the scan.\<close>

definition tryable :: "string \<Rightarrow> db \<Rightarrow> bool" where
  "tryable i d \<longleftrightarrow> (distinct (map bx_id (db_restores d)) \<longrightarrow>
     (\<forall>r\<in>set (db_restores d). bx_id r = i \<longrightarrow> bx_attempts r < bx_max r))"

lemma scan_selects:
  "scan_restores sha instant rows = Inr (Some r, t) \<Longrightarrow> r \<in> set rows \<and> bx_attempts r < bx_max r"
proof (induction rows arbitrary: t)
  case Nil
  then show ?case by simp
next
  case (Cons row rows)
  from Cons.prems have "row = r \<and> bx_attempts r < bx_max r \<or>
      (\<exists>t'. scan_restores sha instant rows = Inr (Some r, t'))"
    by (auto simp: ebind_Inr_iff split: if_splits)
  then show ?case using Cons.IH by auto
qed

lemma tryable_selected:
  assumes "r \<in> set (db_restores d)" and "bx_attempts r < bx_max r"
  shows "tryable (bx_id r) d"
  unfolding tryable_def
proof (intro impI ballI)
  fix x
  assume "distinct (map bx_id (db_restores d))" "x \<in> set (db_restores d)" "bx_id x = bx_id r"
  then have "Some x = Some r" using assms(1) row_by_unique by metis
  then show "bx_attempts x < bx_max x" using assms(2) by simp
qed

lemma tryable_after_failures:
  assumes "tryable i (w_db w)"
  shows "wp (fail_terminal_restores stamp items) (\<lambda>_ v. tryable i (w_db v)) (\<lambda>_ _. True) w"
  unfolding fail_terminal_restores_def
proof (rule wp_for_each_invariant [where I = "\<lambda>v. tryable i (w_db v)"], rule assms)
  fix p and v :: world
  assume "tryable i (w_db v)"
  then show "wp (case p of (item, reason) \<Rightarrow>
      seq (sql_update db_restores db_restores_update
            (\<lambda>r. bx_id r = item \<and> bx_status r = OB_AUTHORIZED)
            (\<lambda>r. r\<lparr>bx_status := OB_FAILED, bx_error := Some (unavailable reason), bx_updated_at := stamp,
                   bx_owner := None, bx_lease := None\<rparr>))
      (ret ())) (\<lambda>_ v. tryable i (w_db v)) (\<lambda>_ _. True) v"
    by (cases p) (auto simp: py_wp tryable_def map_key_update_where set_update_where)
qed

lemma lawful_fail_terminal_restores [legal_ops]:
  "lawful prof P (fail_terminal_restores stamp items)"
  unfolding fail_terminal_restores_def
proof (intro restore_rules legal_ops, goal_cases)
  case 1
  then show ?case
    unfolding store_le_table by (intro restores.step_update) (auto simp: restore_laws)
qed

lemma lawful_audit_terminal_restores [legal_ops]:
  "lawful prof P (audit_terminal_restores actor items)"
  unfolding audit_terminal_restores_def by (intro restore_rules legal_ops)

lemma lawful_lease_restore:
  "lawful prof (tryable (bx_id row)) (lease_restore actor worker_id n stamp instant terminal row)"
  unfolding lease_restore_def
proof (intro restore_rules legal_ops, goal_cases)
  case (1 sha plan lease d)
  then show ?case
    unfolding store_le_table
    by (intro restores.step_update)
      (auto simp: tryable_def table_ok_def restore_laws lease_free_def)
qed

lemma lawful_finish_restore_claim:
  assumes "\<And>d row. P d \<Longrightarrow> selected = Some row \<Longrightarrow> tryable (bx_id row) d"
  shows "lawful prof P (finish_restore_claim actor worker_id n stamp instant terminal selected)"
proof (cases selected)
  case None
  then show ?thesis unfolding finish_restore_claim_def by (auto intro!: restore_rules legal_ops)
next
  case (Some row)
  have "lawful prof P (bind (fail_terminal_restores stamp terminal)
      (\<lambda>_. lease_restore actor worker_id n stamp instant terminal row))"
  proof (rule store.lawful_bind_post [where C = "\<lambda>_. tryable (bx_id row)"])
    fix w x w'
    assume "P (w_db w)" and m: "fail_terminal_restores stamp terminal w = (Inr x, w')"
    then have "tryable (bx_id row) (w_db w)" using assms Some by blast
    from wp_result [OF m tryable_after_failures [OF this]] show "tryable (bx_id row) (w_db w')" .
  qed (rule lawful_fail_terminal_restores lawful_lease_restore)+
  then show ?thesis unfolding finish_restore_claim_def Some by (simp add: seq_def)
qed

lemma lawful_claim_authorized_backup_restore [legal_ops]:
  "lawful prof P (claim_authorized_backup_restore actor worker_id lease_seconds at_time)"
  unfolding claim_authorized_backup_restore_def
  by (intro restore_rules legal_ops lawful_finish_restore_claim)
    (auto dest!: scan_selects intro: tryable_selected)

lemma lawful_assert_backup_restore_execution_allowed [legal_ops]:
  "lawful prof P (assert_backup_restore_execution_allowed actor plan_sha256 worker_id at_time)"
  unfolding assert_backup_restore_execution_allowed_def by (intro restore_rules legal_ops)

lemma lawful_fail_claimed_backup_restore [legal_ops]:
  "lawful prof P (fail_claimed_backup_restore actor plan_sha256 worker_id error retry_seconds)"
  unfolding fail_claimed_backup_restore_def
proof (intro restore_rules legal_ops, goal_cases)
  case (1 rows row status t available stamp d)
  then have row: "row \<in> set (db_restores d)" "leased_to plan_sha256 worker_id row"
    using find_SomeD [of "leased_to plan_sha256 worker_id" rows row] by auto
  then have id: "plan_sha256 = bx_id row" by (simp add: leased_to_def)
  show ?case
    unfolding id store_le_table using 1 row
    by (intro restores.step_update_key) (auto simp: restore_laws leased_to_def)
qed

lemma lawful_complete_claimed_backup_restore [legal_ops]:
  "lawful prof P (complete_claimed_backup_restore actor plan_sha256 worker_id receipt at_time)"
  unfolding complete_claimed_backup_restore_def
proof (intro restore_rules legal_ops, goal_cases)
  case 1
  then show ?case
    unfolding store_le_table
    by (intro restores.step_update) (auto simp: restore_laws leased_to_def)
qed

lemma lawful_hold_claimed_backup_restore [legal_ops]:
  "lawful prof P (hold_claimed_backup_restore_for_reconciliation actor plan_sha256 worker_id error)"
  unfolding hold_claimed_backup_restore_for_reconciliation_def
proof (intro restore_rules legal_ops, goal_cases)
  case 1
  then show ?case
    unfolding store_le_table
    by (intro restores.step_update) (auto simp: restore_laws leased_to_def)
qed

end
