(* ===== verification/Work_Behaviour.thy ===== *)
theory Work_Behaviour
  imports Store_Work Store_Deliveries Store_Restores
begin

text \<open>
  What the operations of the work queue do: the kill switch stops every claim, a claim leases
  the next due item or none, and only the holder of a lease finishes its item.
\<close>

section \<open>The kill switch\<close>

definition switch_on :: "db \<Rightarrow> bool" where
  "switch_on d = (case row_by rt_key ''kill_switch'' (db_runtime d) of None \<Rightarrow> False
     | Some row \<Rightarrow> rt_value row = ''ON'')"

lemma wp_switch_on: "switch_on (w_db w) \<Longrightarrow> wp kill_switch_enabled Q E w = Q True w"
  by (auto simp: kill_switch_enabled_def switch_on_def py_wp split: option.splits)

text \<open>An operation stopped by the kill switch: nothing but the audit log changes.\<close>

definition refuses :: "world \<Rightarrow> 'a option py \<Rightarrow> bool" where
  "refuses w m \<longleftrightarrow> (\<forall>x. fst (m w) \<noteq> Inr (Some x)) \<and> audited_only (w_db w) (w_db (snd (m w)))"

lemma refusesI:
  "wp m (\<lambda>x v. x = None \<and> audited_only (w_db w) (w_db v)) (\<lambda>e v. audited_only (w_db w) (w_db v)) w \<Longrightarrow> refuses w m"
  by (auto simp: refuses_def wp_def split: prod.splits sum.splits)

lemma wp_step_switch:
  "switch_on (w_db w) \<Longrightarrow> wp (f True) Q E w \<Longrightarrow> wp (bind kill_switch_enabled f) Q E w"
  by (simp add: wp_bind wp_switch_on)

lemma wp_step_at_or_now:
  "wp (f (gate_time at_time w)) Q E (if given at_time = None then tick_world w else w) \<Longrightarrow>
   wp (bind (at_or_now at_time) f) Q E w"
  by (simp add: py_wp)

lemma stopped_claims:
  assumes on: "switch_on (w_db w)"
  shows "refuses w (claim_work actor worker n)"
    "refuses w (claim_authorized_alert_delivery actor worker n)"
    "refuses w (claim_authorized_backup_transfer actor worker n)"
    "refuses w (claim_authorized_backup_restore actor worker n at_time)"
  unfolding claim_work_def claim_authorized_alert_delivery_def claim_authorized_backup_transfer_def
    claim_authorized_backup_restore_def
  by (rule refusesI; intro wp_step_switch wp_step_at_or_now wp_steps; simp add: on)+

section \<open>Claiming work\<close>

definition budget_blocked :: "string \<Rightarrow> work_row \<Rightarrow> work_row" where
  "budget_blocked stamp r = r\<lparr>wk_status := WK_BUDGET_BLOCKED,
     wk_error := Some ''No configured budget or insufficient available units'', wk_updated_at := stamp\<rparr>"

definition leased :: "string \<Rightarrow> instant \<Rightarrow> string \<Rightarrow> work_row \<Rightarrow> work_row" where
  "leased worker until stamp r = r\<lparr>wk_status := WK_RUNNING, wk_owner := Some worker,
     wk_lease := Some (iso_utc until), wk_attempts := wk_attempts r + 1, wk_updated_at := stamp\<rparr>"

lemma wp_update_budget [py_wp]:
  "wp (update_budget scope period f) Q E w =
     (if list_all (\<lambda>b. budget_key b = (scope, period) \<longrightarrow> budget_ok (f b)) (db_budgets (w_db w))
      then Q () (put_db (db_budgets_update (update_where (\<lambda>b. budget_key b = (scope, period)) f)) w)
      else E (IntegrityError ''CHECK constraint failed: budgets'') (put_db id w))"
  by (simp add: update_budget_def py_wp)

lemma wp_reserve_cost:
  "wp (reserve_cost row)
    (\<lambda>b v. w_committed v = w_committed w \<and> (if b then db_work (w_db v) = db_work (w_db w)
       else \<exists>stamp. db_work (w_db v) =
         update_where (\<lambda>r. wk_id r = wk_id row) (budget_blocked stamp) (db_work (w_db w))))
    (\<lambda>e v. db_work (w_db v) = db_work (w_db w) \<and> w_committed v = w_committed w) w"
  unfolding reserve_cost_def budget_blocked_def [abs_def]
  by (intro wp_steps) (auto simp: py_wp split: option.splits sum.splits)

lemma wp_lease_row:
  assumes row: "row_by wk_id (wk_id row) (db_work (w_db w)) = Some row"
  shows "wp (lease_row actor worker until stamp row)
    (\<lambda>x v. w_committed v = w_db v \<and> (case x of
       None \<Rightarrow> \<exists>s. db_work (w_db v) = update_where (\<lambda>r. wk_id r = wk_id row) (budget_blocked s) (db_work (w_db w))
     | Some c \<Rightarrow> c = leased worker until stamp row \<and>
         db_work (w_db v) = update_where (\<lambda>r. wk_id r = wk_id row) (leased worker until stamp) (db_work (w_db w))))
    (\<lambda>e v. db_work (w_db v) = db_work (w_db w) \<and> w_committed v = w_committed w) w"
proof -
  have upd: "row_by wk_id (wk_id row) (update_where (\<lambda>r. wk_id r = wk_id row) (leased worker until stamp) (db_work (w_db w)))
      = Some (leased worker until stamp row)"
    using row by (subst row_by_update_where) (auto simp: leased_def)
  show ?thesis
    unfolding lease_row_def wp_bind leased_def [symmetric, abs_def]
    by (rule wp_mono [OF wp_reserve_cost]) (use upd in \<open>auto simp: py_wp\<close>)
qed

lemma run_switch_off:
  "wp kill_switch_enabled Q E w \<longleftrightarrow> (case row_by rt_key ''kill_switch'' (db_runtime (w_db w)) of
     None \<Rightarrow> E (TypeError ''NoneType object is not subscriptable'') w
   | Some row \<Rightarrow> Q (rt_value row = ''ON'') w)"
  by (simp add: kill_switch_enabled_def py_wp split: option.splits)

lemma wp_step_kill:
  assumes "\<And>b. b = switch_on (w_db w) \<Longrightarrow> wp (f b) Q E w"
    and "E (TypeError ''NoneType object is not subscriptable'') w"
  shows "wp (bind kill_switch_enabled f) Q E w"
  using assms by (auto simp: wp_bind run_switch_off switch_on_def split: option.splits)

lemma wp_lease_next:
  assumes ids: "distinct (map wk_id (db_work (w_db w)))"
    and r: "next_work stamp scopes (db_work (w_db w)) = Some r"
  shows "wp (lease_row actor worker until stamp r)
    (\<lambda>x v. w_committed v = w_db v \<and> (case x of
       None \<Rightarrow> map wk_owner (db_work (w_db v)) = map wk_owner (db_work (w_db w))
     | Some c \<Rightarrow> c = leased worker until stamp r \<and> row_by wk_id (wk_id r) (db_work (w_db v)) = Some c))
    (\<lambda>e v. db_work (w_db v) = db_work (w_db w) \<and> w_committed v = w_committed w) w"
proof -
  let ?rows = "db_work (w_db w)"
  have "r \<in> set ?rows" using r next_work_claimable by blast
  then have row: "row_by wk_id (wk_id r) ?rows = Some r" by (intro row_by_unique) (simp_all add: ids)
  have owner: "map wk_owner (update_where p (budget_blocked s) rows) = map wk_owner rows" for p s rows
    by (simp add: update_where_def budget_blocked_def)
  have new: "row_by wk_id (wk_id r) (update_where (\<lambda>x. wk_id x = wk_id r) (leased worker until stamp) ?rows)
      = Some (leased worker until stamp r)"
    using row by (subst row_by_update_where) (auto simp: leased_def)
  show ?thesis
    by (rule wp_mono [OF wp_lease_row [OF row]]) (use new owner in \<open>auto split: option.splits\<close>)
qed

lemma wp_claim_work:
  assumes ids: "distinct (map wk_id (db_work (w_db w)))"
  shows "wp (claim_work actor worker n)
    (\<lambda>x v. w_committed v = w_db v \<and> (case x of
       None \<Rightarrow> map wk_owner (db_work (w_db v)) = map wk_owner (db_work (w_db w))
     | Some c \<Rightarrow> \<not> switch_on (w_db w) \<and> (\<exists>r.
         next_work (iso_utc (w_clock w (w_tick w))) (claim_scopes actor) (db_work (w_db w)) = Some r \<and>
         c = leased worker (w_clock w (Suc (w_tick w)) + seconds n) (iso_utc (w_clock w (w_tick w))) r \<and>
         row_by wk_id (wk_id r) (db_work (w_db v)) = Some c)))
    (\<lambda>e v. db_work (w_db v) = db_work (w_db w) \<and> w_committed v = w_committed w) w"
  unfolding claim_work_def
  by (intro wp_step_kill wp_steps)
    (auto simp: py_wp ids add_seconds_def split: option.splits if_splits
      intro!: wp_mono [OF wp_lease_next])

section \<open>Finishing work\<close>

lemma wp_settle_cost:
  "wp (settle_cost i consume)
    (\<lambda>_ v. db_work (w_db v) = db_work (w_db w) \<and> w_committed v = w_committed w)
    (\<lambda>e v. w_committed v = w_committed w) w"
  unfolding settle_cost_def
  by (intro wp_steps) (auto simp: py_wp)

lemma wp_step_settle:
  assumes "\<And>v. db_work (w_db v) = db_work (w_db w) \<Longrightarrow> w_committed v = w_committed w \<Longrightarrow> wp n Q E v"
    and "\<And>e v. w_committed v = w_committed w \<Longrightarrow> E e v"
  shows "wp (seq (settle_cost i consume) n) Q E w"
  unfolding wp_seq by (rule wp_mono [OF wp_settle_cost]) (use assms in auto)

lemma find_held:
  assumes "distinct (map wk_id rows)" and "find (held_by i worker) rows = Some r"
  shows "row_by wk_id i rows = Some r \<and> held_by i worker r"
  using assms row_by_unique [of wk_id rows r] find_SomeD [of "held_by i worker" rows r]
  by (auto simp: held_by_def)

definition failed :: "work_row \<Rightarrow> string \<Rightarrow> string \<Rightarrow> string \<Rightarrow> work_row" where
  "failed r error available stamp =
     r\<lparr>wk_status := (if wk_max r \<le> wk_attempts r then WK_DEAD_LETTER else WK_QUEUED),
       wk_available_at := available, wk_owner := None, wk_lease := None, wk_error := Some error,
       wk_updated_at := stamp\<rparr>"

lemma wp_fail_work:
  assumes ids: "distinct (map wk_id (db_work (w_db w)))"
  shows "wp (fail_work actor i worker error n)
    (\<lambda>s v. w_committed v = w_db v \<and> (\<exists>r available stamp.
       row_by wk_id i (db_work (w_db w)) = Some r \<and> held_by i worker r \<and>
       row_by wk_id i (db_work (w_db v)) = Some (failed r (safe_persisted_text error) available stamp) \<and>
       s = wk_status (failed r (safe_persisted_text error) available stamp)))
    (\<lambda>e v. w_committed v = w_committed w) w"
proof -
  have step: "row_by wk_id i (update_where (\<lambda>x. wk_id x = i)
      (\<lambda>x. x\<lparr>wk_status := s, wk_available_at := a, wk_owner := None, wk_lease := None, wk_error := Some e,
        wk_updated_at := t\<rparr>) rows) =
      Some (r\<lparr>wk_status := s, wk_available_at := a, wk_owner := None, wk_lease := None, wk_error := Some e,
        wk_updated_at := t\<rparr>)"
    if "row_by wk_id i rows = Some r" for rows r s a e t
    using that by (subst row_by_update_where) (auto dest: row_by_SomeD)
  show ?thesis
    unfolding fail_work_def
    by (intro wp_step_settle wp_steps)
      (auto dest!: find_held [OF ids] simp: step failed_def, blast+)
qed

lemma wp_complete_work:
  assumes ids: "distinct (map wk_id (db_work (w_db w)))"
  shows "wp (complete_work actor i worker result)
    (\<lambda>_ v. w_committed v = w_db v \<and> (\<exists>r stamp.
       row_by wk_id i (db_work (w_db w)) = Some r \<and> held_by i worker r \<and>
       row_by wk_id i (db_work (w_db v)) = Some (r\<lparr>wk_status := WK_SUCCEEDED,
         wk_payload := PDict (canon_dict result), wk_owner := None, wk_lease := None, wk_updated_at := stamp\<rparr>)))
    (\<lambda>e v. db_work (w_committed v) = db_work (w_committed w) \<or> w_committed v = w_db v \<and> db_work (w_db v) = db_work (w_db w)) w"
proof -
  have held: "\<exists>r. row_by wk_id i (db_work (w_db w)) = Some r \<and> held_by i worker r"
    if "count_where (held_by i worker) (db_work (w_db w)) = Suc 0"
  proof -
    from that have "\<exists>r \<in> set (db_work (w_db w)). held_by i worker r"
      using count_where_zero_iff [of "held_by i worker" "db_work (w_db w)"] by auto
    then show ?thesis using row_by_unique [OF ids] by (auto simp: held_by_def)
  qed
  have step: "row_by wk_id i (update_where (held_by i worker)
      (\<lambda>x. x\<lparr>wk_status := s, wk_payload := p, wk_owner := None, wk_lease := None, wk_updated_at := t\<rparr>) rows) =
      Some (r\<lparr>wk_status := s, wk_payload := p, wk_owner := None, wk_lease := None, wk_updated_at := t\<rparr>)"
    if "row_by wk_id i rows = Some r" "held_by i worker r" for rows r s p t
    using that by (subst row_by_update_where) auto
  show ?thesis
    unfolding complete_work_def
    by (intro wp_step_settle wp_steps)
      (auto simp: wp_audit step dest!: held)
qed

end
