(* ===== verification/Calendar.thy ===== *)
theory Calendar
  imports Py_Time
begin

text \<open>
  The calendar and the timestamp texts are right: days and dates correspond one to one in
  order, a printed timestamp is read back as the instant it was printed from, and timestamps
  printed in UTC are ordered as texts the way their instants are ordered in time. The queries
  of the store that compare timestamp columns as texts rely on the last fact.
\<close>

section \<open>Days and dates\<close>

lemma multiple_iff:
  fixes v k u :: int
  assumes "0 < v" "v \<le> k"
  shows "(k * u + v) mod k = 0 \<longleftrightarrow> v = k"
  using assms by (cases "v = k") auto

lemma div_pred:
  fixes k y :: int
  assumes "0 < k"
  shows "y div k - (y - 1) div k = (if y mod k = 0 then 1 else 0)"
proof -
  define u v where "u = y div k" and "v = y mod k"
  have y: "y = k * u + v" "0 \<le> v" "v < k" using assms by (auto simp: u_def v_def)
  show ?thesis
  proof (cases "v = 0")
    case True
    then have "y - 1 = k * (u - 1) + (k - 1)" using y by (simp add: algebra_simps)
    then have "(y - 1) div k = u - 1" using assms by (intro int_div_pos_eq [of _ _ _ "k - 1"]) simp_all
    then show ?thesis using True u_def v_def by simp
  next
    case False
    then have "y - 1 = k * u + (v - 1)" using y by simp
    then have "(y - 1) div k = u" using assms y False by (intro int_div_pos_eq [of _ _ _ "v - 1"]) auto
    then show ?thesis using False unfolding u_def v_def by simp
  qed
qed

lemma days_in_cycles:
  fixes q h f g :: int
  assumes "0 \<le> h" "h \<le> 3" "0 \<le> f" "f \<le> 24" "0 \<le> g" "g \<le> 3"
  shows "days_before_year (400 * q + 100 * h + 4 * f + g + 1) = 146097 * q + 36524 * h + 1461 * f + 365 * g"
    and "is_leap (400 * q + 100 * h + 4 * f + g + 1) \<longleftrightarrow> g = 3 \<and> (f \<noteq> 24 \<or> h = 3)"
proof -
  let ?y = "400 * q + 100 * h + 4 * f + g"
  have d4: "?y div 4 = 100 * q + 25 * h + f" using assms by linarith
  have d100: "?y div 100 = 4 * q + h" using assms by linarith
  have d400: "?y div 400 = q" using assms by linarith
  show "days_before_year (?y + 1) = 146097 * q + 36524 * h + 1461 * f + 365 * g"
    unfolding days_before_year_def Let_def by (simp add: d4 d100 d400)
  have "?y + 1 = 4 * (100 * q + 25 * h + f) + (g + 1)" by simp
  then have m4: "(?y + 1) mod 4 = 0 \<longleftrightarrow> g + 1 = 4"
    using assms multiple_iff [of "g + 1" 4 "100 * q + 25 * h + f"] by (simp only:)
  have "?y + 1 = 100 * (4 * q + h) + (4 * f + g + 1)" by simp
  then have m100: "(?y + 1) mod 100 = 0 \<longleftrightarrow> 4 * f + g + 1 = 100"
    using assms multiple_iff [of "4 * f + g + 1" 100 "4 * q + h"] by (simp only:)
  have "?y + 1 = 400 * q + (100 * h + 4 * f + g + 1)" by simp
  then have m400: "(?y + 1) mod 400 = 0 \<longleftrightarrow> 100 * h + 4 * f + g + 1 = 400"
    using assms multiple_iff [of "100 * h + 4 * f + g + 1" 400 q] by (simp only:)
  show "is_leap (?y + 1) \<longleftrightarrow> g = 3 \<and> (f \<noteq> 24 \<or> h = 3)"
    unfolding is_leap_def m4 m100 m400 using assms by (cases "g = 3"; cases "f = 24") auto
qed

definition year_days :: "bool \<Rightarrow> int" where
  "year_days leap = (if leap then 366 else 365)"

lemma month_cases:
  fixes m :: int
  assumes "1 \<le> m" "m \<le> 12"
  obtains "m = 1" | "m = 2" | "m = 3" | "m = 4" | "m = 5" | "m = 6" | "m = 7" | "m = 8" | "m = 9"
    | "m = 10" | "m = 11" | "m = 12"
proof -
  have "m \<in> {1..12}" using assms by simp
  also have "{1..12} = {1, 2, 3, 4, 5, 6, 7, 8, 9, 10, 11, 12 :: int}" by (simp add: simp_from_to)
  finally show ?thesis using that by blast
qed

lemma month_day:
  assumes n: "0 \<le> n" "n < year_days leap" and md: "month_day leap n = (m, d)"
  shows "1 \<le> m" "m \<le> 12" "1 \<le> d" "d \<le> month_days leap m" "before_month leap m + d = n + 1"
proof -
  define k where "k = (n + 50) div 32"
  have k: "32 * k \<le> n + 50" "n + 50 < 32 * k + 32" by (auto simp: k_def)
  have "1 \<le> k" "k \<le> 12" using k n by (auto simp: year_days_def split: if_splits)
  then have "1 \<le> m \<and> m \<le> 12 \<and> 1 \<le> d \<and> d \<le> month_days leap m"
    using md k n unfolding month_day_def k_def [symmetric] Let_def
    by (cases rule: month_cases)
      (auto simp: before_month_def month_days_def year_days_def split: if_splits)
  then show "1 \<le> m" "m \<le> 12" "1 \<le> d" "d \<le> month_days leap m" by auto
  show "before_month leap m + d = n + 1"
    using md by (auto simp: month_day_def Let_def)
qed

lemma before_next_month:
  assumes "1 \<le> m" "m < m'" "m' \<le> 12"
  shows "before_month leap m + month_days leap m \<le> before_month leap m'"
proof -
  have "1 \<le> m'" "m \<le> 12" using assms by auto
  from assms(1) this(2) show ?thesis
  proof (cases rule: month_cases)
  qed (use \<open>1 \<le> m'\<close> assms in \<open>auto simp: before_month_def month_days_def\<close>)
qed

lemma before_end_of_year: "1 \<le> m \<Longrightarrow> m \<le> 12 \<Longrightarrow> before_month leap m + month_days leap m \<le> year_days leap"
  by (auto simp: before_month_def month_days_def year_days_def)

lemma leap_arith:
  "(q \<Longrightarrow> h) \<Longrightarrow> (h \<Longrightarrow> f) \<Longrightarrow> 365 + (if f then 1 else 0) - (if h then 1 else 0) + (if q then 1 else 0) =
     (if f \<and> (\<not> h \<or> q) then 366 else 365 :: int)"
  by (cases q; cases h; cases f; simp)

lemma next_year: "days_before_year (y + 1) = days_before_year y + year_days (is_leap y)"
proof -
  have d: "400 dvd y \<Longrightarrow> 100 dvd y" "100 dvd y \<Longrightarrow> 4 dvd y"
    by (auto intro: dvd_trans [of 100 400 y] dvd_trans [of 4 100 y])
  have "days_before_year (y + 1) - days_before_year y =
      365 + (y div 4 - (y - 1) div 4) - (y div 100 - (y - 1) div 100) + (y div 400 - (y - 1) div 400)"
    by (simp add: days_before_year_def Let_def)
  also have "\<dots> = 365 + (if 4 dvd y then 1 else 0) - (if 100 dvd y then 1 else 0) + (if 400 dvd y then 1 else 0)"
    by (simp add: div_pred dvd_eq_mod_eq_0)
  also have "\<dots> = year_days (is_leap y)"
    unfolding year_days_def is_leap_def dvd_eq_mod_eq_0 by (rule leap_arith) (use d in presburger)+
  finally show ?thesis by simp
qed

lemma days_before_year_mono: "y \<le> y' \<Longrightarrow> days_before_year y \<le> days_before_year y'"
  by (induction y' rule: int_ge_induct) (auto simp: next_year year_days_def)

lemma ord2ymd_parts:
  obtains y r where "0 \<le> r" "r < year_days (is_leap y)" "ord = days_before_year y + r + 1"
    "ord2ymd ord = (y, month_day (is_leap y) r)"
proof -
  define n q a h b f c g r where "n = ord - 1" and "q = n div 146097" and "a = n mod 146097"
    and "h = a div 36524" and "b = a mod 36524" and "f = b div 1461" and "c = b mod 1461"
    and "g = c div 365" and "r = c mod 365"
  note defs = n_def q_def a_def h_def b_def f_def c_def g_def r_def
  have n: "n = 146097 * q + a" "0 \<le> a" "a < 146097" by (auto simp: q_def a_def)
  have a: "a = 36524 * h + b" "0 \<le> b" "b < 36524" by (auto simp: h_def b_def)
  have b: "b = 1461 * f + c" "0 \<le> c" "c < 1461" by (auto simp: f_def c_def)
  have c: "c = 365 * g + r" "0 \<le> r" "r < 365" by (auto simp: g_def r_def)
  have h: "0 \<le> h" "h \<le> 4" and f: "0 \<le> f" "f \<le> 24" and g: "0 \<le> g" "g \<le> 4"
    using n a b c by linarith+
  have ymd: "ord2ymd ord = (if g = 4 \<or> h = 4 then (400 * q + 100 * h + 4 * f + g, 12, 31)
     else (400 * q + 100 * h + 4 * f + g + 1, month_day (g = 3 \<and> (f \<noteq> 24 \<or> h = 3)) r))"
    unfolding ord2ymd_def Let_def defs by (simp add: algebra_simps)
  have last_day: "month_day True 365 = (12, 31)" by code_simp
  show ?thesis
  proof (cases "g = 4 \<or> h = 4")
    case True
    then consider "h = 4" "b = 0" "f = 0" "c = 0" "g = 0" "r = 0" | "h \<le> 3" "g = 4" "r = 0" "f \<le> 23"
      using n a b c h f g by linarith
    then show ?thesis
    proof cases
      case 1
      have "days_before_year (400 * q + 400) = 146097 * q + 36524 * 3 + 1461 * 24 + 365 * 3"
        "is_leap (400 * q + 400)"
        using days_in_cycles [of 3 24 3 q] by (simp_all add: add.commute)
      then show ?thesis
        using 1 n a b c n_def ymd last_day
        by (intro that [of 365 "400 * q + 400"]) (auto simp: year_days_def)
    next
      case 2
      have "days_before_year (400 * q + 100 * h + 4 * f + 4) = 146097 * q + 36524 * h + 1461 * f + 365 * 3"
        "is_leap (400 * q + 100 * h + 4 * f + 4)"
        using days_in_cycles [of h f 3 q] 2 h f by (simp_all add: ac_simps)
      then show ?thesis
        using 2 n a b c n_def ymd last_day
        by (intro that [of 365 "400 * q + 100 * h + 4 * f + 4"]) (auto simp: year_days_def)
    qed
  next
    case False
    let ?y = "400 * q + 100 * h + 4 * f + g + 1"
    from False have hg: "h \<le> 3" "g \<le> 3" using h g by auto
    note y = days_in_cycles [OF h(1) hg(1) f g(1) hg(2), of q]
    show ?thesis
    proof (rule that [of r ?y])
      show "0 \<le> r" by (rule c)
      show "r < year_days (is_leap ?y)" using c by (simp add: year_days_def)
      show "ord = days_before_year ?y + r + 1" using n(1) a(1) b(1) c(1) unfolding n_def y by linarith
      show "ord2ymd ord = (?y, month_day (is_leap ?y) r)" using False ymd unfolding y by simp
    qed
  qed
qed

text \<open>The days a \<open>datetime\<close> may have: 0001-01-01 to 9999-12-31.\<close>

lemma ord2ymd_valid:
  assumes "1 \<le> ord" "ord \<le> 3652059" "ord2ymd ord = (y, m, d)"
  shows "valid_date y m d" "ymd2ord y m d = ord"
proof -
  obtain r where r: "0 \<le> r" "r < year_days (is_leap y)" "ord = days_before_year y + r + 1"
    "month_day (is_leap y) r = (m, d)"
    using ord2ymd_parts [of ord] assms(3) by (metis prod.inject)
  note md = month_day [OF r(1,2,4)]
  have "1 \<le> y"
  proof (rule ccontr)
    assume "\<not> 1 \<le> y"
    then have "days_before_year (y + 1) \<le> days_before_year 1" by (intro days_before_year_mono) simp
    moreover have "days_before_year 1 = 0" by code_simp
    ultimately show False using assms(1) r(2,3) next_year [of y] by linarith
  qed
  moreover have "y \<le> 9999"
  proof (rule ccontr)
    assume "\<not> y \<le> 9999"
    then have "days_before_year 10000 \<le> days_before_year y" by (intro days_before_year_mono) simp
    moreover have "days_before_year 10000 = 3652059" by code_simp
    ultimately show False using assms(2) r(1,3) by linarith
  qed
  ultimately show "valid_date y m d" using md by (simp add: valid_date_def)
  show "ymd2ord y m d = ord" using md(5) r(3) by (simp add: ymd2ord_def)
qed

lemma ymd2ord_mono:
  assumes "valid_date y m d" "valid_date y' m' d'"
    and "y < y' \<or> y = y' \<and> (m < m' \<or> m = m' \<and> d < d')"
  shows "ymd2ord y m d < ymd2ord y' m' d'"
proof -
  have first: "before_month (is_leap y') m' \<ge> 0" using assms(2) by (auto simp: before_month_def)
  have "before_month (is_leap y) m + d \<le> year_days (is_leap y)"
    using before_end_of_year [of m "is_leap y"] assms(1) by (auto simp: valid_date_def)
  then have *: "ymd2ord y m d \<le> days_before_year (y + 1)"
    by (simp add: ymd2ord_def next_year)
  consider "y < y'" | "y = y'" "m < m'" | "y = y'" "m = m'" "d < d'" using assms(3) by blast
  then show ?thesis
  proof cases
    case 1
    then have "days_before_year (y + 1) \<le> days_before_year y'" by (intro days_before_year_mono) simp
    then show ?thesis using * first assms(2) by (simp add: ymd2ord_def valid_date_def)
  next
    case 2
    then show ?thesis
      using before_next_month [of m m' "is_leap y"] assms by (auto simp: ymd2ord_def valid_date_def)
  next
    case 3
    then show ?thesis by (simp add: ymd2ord_def)
  qed
qed

section \<open>Fixed-width decimals\<close>

lemma length_pad [simp]: "length (pad w i) = w"
  by (simp add: pad_def)

lemma digit_cases: "\<exists>d < 10. digit_char n = digit_char d \<and> n mod 10 = d"
  by (intro exI [of _ "n mod 10"]) (simp add: digit_char_def)

lemma small_nat:
  fixes d :: nat
  assumes "d < 10"
  obtains "d = 0" | "d = 1" | "d = 2" | "d = 3" | "d = 4" | "d = 5" | "d = 6" | "d = 7" | "d = 8" | "d = 9"
  using assms by fastforce

lemma digit_char_code: "of_char (digit_char n) = 48 + n mod 10"
proof -
  obtain d where "d < 10" "digit_char n = digit_char d" "n mod 10 = d" using digit_cases by blast
  then show ?thesis by (cases rule: small_nat) (simp_all add: digit_char_def)
qed

lemma is_digit_digit_char [simp]: "is_digit (digit_char n)"
  by (simp add: is_digit_def less_eq_char_def digit_char_code)

lemma digit_char_less: "digit_char m < digit_char n \<longleftrightarrow> m mod 10 < n mod 10"
  by (simp add: less_char_def digit_char_code)

lemma digits_value_snoc: "digits_value (s @ [c]) = 10 * digits_value s + (of_char c - 48)"
  by (simp add: digits_value_def)

lemma digits_value_padded: "n < 10 ^ w \<Longrightarrow> digits_value (padded w n) = n"
proof (induction w arbitrary: n)
  case 0
  then show ?case by (simp add: digits_value_def)
next
  case (Suc w)
  then have "n div 10 < 10 ^ w" by (simp add: less_mult_imp_div_less mult.commute)
  with Suc.IH show ?case by (simp add: digits_value_snoc digit_char_code)
qed

lemma digits_padded [simp]: "list_all is_digit (padded w n)"
  by (induction w arbitrary: n) auto

lemma take_digits_pad:
  assumes "0 \<le> i" "i < 10 ^ w"
  shows "take_digits w (pad w i @ r) = Some (nat i, r)"
  using assms by (simp add: take_digits_def pad_def digits_value_padded nat_less_iff)

lemma append_less:
  fixes a b x y :: string
  assumes "length a = length b"
  shows "a @ x < b @ y \<longleftrightarrow> a < b \<or> a = b \<and> x < y"
  using assms by (induction a b rule: list_induct2) auto

lemma div_mod_lex:
  fixes m n k :: int
  assumes "m < n" "0 < k"
  shows "m div k < n div k \<or> m div k = n div k \<and> m mod k < n mod k"
proof -
  have "m div k \<le> n div k" using assms by (simp add: zdiv_mono1)
  moreover have "m div k = n div k \<Longrightarrow> m mod k < n mod k"
    using assms(1) by (simp flip: minus_mult_div_eq_mod)
  ultimately show ?thesis by linarith
qed

lemma div_mod_lex_nat:
  fixes m n k :: nat
  assumes "m < n" "0 < k"
  shows "m div k < n div k \<or> m div k = n div k \<and> m mod k < n mod k"
  using div_mod_lex [of "int m" "int n" "int k"] assms by (simp flip: zdiv_int zmod_int)

lemma padded_less: "m < n \<Longrightarrow> n < 10 ^ w \<Longrightarrow> padded w m < padded w n"
proof (induction w arbitrary: m n)
  case 0
  then show ?case by simp
next
  case (Suc w)
  have "n div 10 < 10 ^ w" using Suc.prems by (simp add: less_mult_imp_div_less mult.commute)
  moreover have "m div 10 < n div 10 \<or> m div 10 = n div 10 \<and> m mod 10 < n mod 10"
    using Suc.prems(1) by (intro div_mod_lex_nat) auto
  ultimately show ?case using Suc.IH by (auto simp: append_less digit_char_less)
qed

lemma pad_less: "0 \<le> i \<Longrightarrow> i < j \<Longrightarrow> j < 10 ^ w \<Longrightarrow> pad w i < pad w j"
  by (simp add: pad_def padded_less nat_less_iff)

section \<open>Printed timestamps in order\<close>

definition date_text :: "int \<Rightarrow> string" where
  "date_text n = (case ord2ymd (n + 1) of (y, m, d) \<Rightarrow> pad 4 y @ ''-'' @ pad 2 m @ ''-'' @ pad 2 d)"

definition clock_text :: "int \<Rightarrow> string" where
  "clock_text s = pad 2 (s div 3600) @ '':'' @ pad 2 (s div 60 mod 60) @ '':'' @ pad 2 (s mod 60)"

definition fraction_text :: "int \<Rightarrow> string" where
  "fraction_text f = (if f = 0 then [] else ''.'' @ pad 6 f)"

lemma iso_utc_text:
  "iso_utc t = date_text (t div usec_of_day) @ ''T'' @ clock_text (t mod usec_of_day div 1000000) @
     fraction_text (t mod usec_of_day mod 1000000) @ ''+00:00''"
  by (simp add: iso_utc_def iso_local_def date_text_def clock_text_def fraction_text_def Let_def
      split: prod.splits)

lemma length_texts [simp]: "length (date_text n) = 10" "length (clock_text s) = 8"
  by (simp_all add: date_text_def clock_text_def split: prod.splits)

lemma date_text_mono:
  assumes "0 \<le> n" "n < n'" "n' < 3652059"
  shows "date_text n < date_text n'"
proof -
  obtain y m d y' m' d' where p: "ord2ymd (n + 1) = (y, m, d)" "ord2ymd (n' + 1) = (y', m', d')"
    by (cases "ord2ymd (n + 1)", cases "ord2ymd (n' + 1)") auto
  have v: "valid_date y m d" "ymd2ord y m d = n + 1" "valid_date y' m' d'" "ymd2ord y' m' d' = n' + 1"
    using ord2ymd_valid [OF _ _ p(1)] ord2ymd_valid [OF _ _ p(2)] assms by auto
  have "y < y' \<or> y = y' \<and> (m < m' \<or> m = m' \<and> d < d')"
  proof (rule ccontr)
    assume "\<not> ?thesis"
    then have "y' < y \<or> y' = y \<and> (m' < m \<or> m' = m \<and> d' < d) \<or> y = y' \<and> m = m' \<and> d = d'" by linarith
    then show False using ymd2ord_mono [OF v(3,1)] v(2,4) assms by auto
  qed
  moreover have "month_days (is_leap y') m' \<le> 31" by (simp add: month_days_def)
  ultimately show ?thesis
    using v(1,3) by (auto simp: date_text_def p append_less valid_date_def pad_less)
qed

lemma clock_lex:
  assumes "0 \<le> h" "h' < 100" "0 \<le> mi" "mi' < 100" "0 \<le> se" "se' < 100"
    and "h < h' \<or> h = h' \<and> (mi < mi' \<or> mi = mi' \<and> se < se')"
  shows "pad 2 h @ '':'' @ pad 2 mi @ '':'' @ pad 2 se < pad 2 h' @ '':'' @ pad 2 mi' @ '':'' @ pad 2 se'"
  using assms by (auto simp: append_less pad_less)

lemma clock_text_mono:
  assumes "0 \<le> s" "s < s'" "s' < 86400"
  shows "clock_text s < clock_text s'"
proof -
  have lex: "s div 3600 < s' div 3600 \<or> s div 3600 = s' div 3600 \<and>
      (s div 60 mod 60 < s' div 60 mod 60 \<or> s div 60 mod 60 = s' div 60 mod 60 \<and> s mod 60 < s' mod 60)"
    using div_mod_lex [OF assms(2), of 60] div_mod_lex [of "s div 60" "s' div 60" 60]
      zdiv_zmult2_eq [of 60 s 60] zdiv_zmult2_eq [of 60 s' 60] by auto
  show ?thesis
    unfolding clock_text_def by (rule clock_lex [OF _ _ _ _ _ _ lex]) (use assms in simp_all)
qed

lemma fraction_text_mono:
  assumes "0 \<le> f" "f < f'" "f' < 1000000"
  shows "fraction_text f @ ''+00:00'' < fraction_text f' @ ''+00:00''"
  using assms by (auto simp: fraction_text_def append_less pad_less less_char_def)

section \<open>Printed timestamps are read back\<close>

lemma take_pad: "take w (pad w i @ r) = pad w i" "drop w (pad w i @ r) = r"
  by simp_all

lemma parse_fraction_text:
  assumes "0 \<le> f" "f < 1000000"
  shows "parse_fraction (fraction_text f) = Some f"
proof (cases "f = 0")
  case True
  then show ?thesis by (simp add: parse_fraction_def fraction_text_def)
next
  case False
  define p where "p = pad 6 f"
  have p: "length p = 6" "list_all is_digit p" "digits_value p = nat f"
    using assms digits_value_padded [of "nat f" 6] by (simp_all add: p_def pad_def)
  then have "p \<noteq> []" by auto
  with p False show ?thesis
    using assms by (simp add: parse_fraction_def fraction_text_def Let_def flip: p_def)
qed

lemma parse_clock_text:
  assumes s: "0 \<le> s" "s < 86400" and f: "0 \<le> f" "f < 1000000"
  shows "parse_clock (clock_text s @ fraction_text f) =
     Some (s div 3600, s div 60 mod 60, s mod 60, f)"
proof -
  define h mi se where "h = s div 3600" and "mi = s div 60 mod 60" and "se = s mod 60"
  have "0 \<le> h" "h < 10 ^ 2" "0 \<le> mi" "mi < 10 ^ 2" "0 \<le> se" "se < 10 ^ 2"
    using s by (auto simp: h_def mi_def se_def)
  then show ?thesis
    using parse_fraction_text [OF f]
    unfolding parse_clock_def clock_text_def h_def [symmetric] mi_def [symmetric] se_def [symmetric]
    by (simp add: take_digits_pad)
qed

lemma clock_value:
  assumes "0 \<le> s"
  shows "clock_usec (s div 3600, s div 60 mod 60, s mod 60, f) = s * 1000000 + f"
proof -
  have "s div 3600 * 60 + s div 60 mod 60 = s div 60"
    using zdiv_zmult2_eq [of 60 s 60] by simp
  then show ?thesis by (simp only: clock_usec_def prod.case div_mult_mod_eq)
qed

lemma takeWhile_other: "c \<notin> set a \<Longrightarrow> takeWhile (\<lambda>x. x \<noteq> c) (a @ b) = a @ takeWhile (\<lambda>x. x \<noteq> c) b"
  by (induction a) auto

lemma index_of_append: "c \<notin> set a \<Longrightarrow> index_of c (a @ c # b) = Some (length a)"
  by (simp add: index_of_def takeWhile_other Let_def)

lemma index_of_None: "c \<notin> set a \<Longrightarrow> index_of c a = None"
proof -
  assume "c \<notin> set a"
  from takeWhile_other [OF this, of "[]"] have "takeWhile (\<lambda>x. x \<noteq> c) a = a"
    by (simp only: append_Nil2 takeWhile.simps)
  then show ?thesis unfolding index_of_def Let_def by (simp only:) simp
qed

lemma digits_in_pad: "c \<in> set (pad w i) \<Longrightarrow> is_digit c"
  using digits_padded by (fastforce simp: pad_def list_all_iff)

lemma not_in_clock:
  assumes "c = CHR ''-'' \<or> c = CHR ''+''"
  shows "c \<notin> set (clock_text s @ fraction_text f)"
  using assms digits_in_pad [of c] by (auto simp: clock_text_def fraction_text_def is_digit_def less_eq_char_def)

lemma parse_time_text:
  assumes "0 \<le> s" "s < 86400" "0 \<le> f" "f < 1000000"
  shows "parse_time (clock_text s @ fraction_text f @ ''+00:00'') = Some (s * 1000000 + f, Some 0)"
proof -
  let ?c = "clock_text s @ fraction_text f"
  have "tz_position (?c @ ''+00:00'') = Some (length ?c)"
  proof -
    have "CHR ''-'' \<notin> set (?c @ ''+00:00'')" "CHR ''+'' \<notin> set ?c"
      using not_in_clock [of "CHR ''-''" s f] not_in_clock [of "CHR ''+''" s f] by auto
    then show ?thesis
      unfolding tz_position_def
      using index_of_None [of "CHR ''-''"] index_of_append [of "CHR ''+''" ?c "''00:00''"] by simp
  qed
  moreover have "parse_clock ''00:00'' = Some (0, 0, 0, 0)" "clock_usec (0, 0, 0, 0) = 0" by code_simp+
  moreover have "s div 3600 < 24" using assms by simp
  moreover have "(?c @ ''+00:00'') ! length ?c = CHR ''+''" by (simp only: nth_append_length)
  ultimately show ?thesis
    using parse_clock_text [OF assms] clock_value [OF assms(1), of f]
    by (simp add: parse_time_def valid_clock_def usec_of_day_def Let_def)
qed

lemma pad_two: "\<exists>a b. pad 2 i = [a, b] \<and> is_digit a \<and> is_digit b"
  by (simp add: pad_def numeral_2_eq_2)

lemma pad_not: "\<not> is_digit c \<Longrightarrow> take (Suc 0) (pad 2 i @ r) \<noteq> [c]" "\<not> is_digit c \<Longrightarrow> (pad 2 i @ r) ! 0 \<noteq> c"
  using pad_two [of i] by auto

lemma parse_date_text:
  assumes "0 \<le> n" "n < 3652059" "ord2ymd (n + 1) = (y, m, d)"
  shows "parse_date (date_text n) = Some (y, m, d)"
proof -
  have "valid_date y m d" using ord2ymd_valid [OF _ _ assms(3)] assms by simp
  moreover have "month_days (is_leap y) m < 100" by (simp add: month_days_def)
  moreover have "\<not> is_digit (CHR ''W'')" by code_simp
  ultimately show ?thesis
    using take_digits_pad [of d 2 "[]"] pad_not(1) [of "CHR ''W''" m "[]"]
    by (simp add: parse_date_def date_text_def assms(3) take_digits_pad valid_date_def Let_def pad_not)
qed



lemma iso_utc_less:
  assumes "0 \<le> t" "t < u" "u < max_instant"
  shows "iso_utc t < iso_utc u"
proof -
  define x y where "x = t mod usec_of_day" and "y = u mod usec_of_day"
  have lex: "t div usec_of_day < u div usec_of_day \<or> t div usec_of_day = u div usec_of_day \<and>
      (x div 1000000 < y div 1000000 \<or> x div 1000000 = y div 1000000 \<and> x mod 1000000 < y mod 1000000)"
    using div_mod_lex [OF assms(2), of usec_of_day] div_mod_lex [of x y 1000000]
    by (auto simp: x_def y_def usec_of_day_def)
  have day: "0 \<le> t div usec_of_day" "u div usec_of_day < 3652059"
    "0 \<le> x div 1000000" "y div 1000000 < 86400"
    using assms by (auto simp: x_def y_def max_instant_def usec_of_day_def pos_imp_zdiv_nonneg_iff)
  show ?thesis
    using lex date_text_mono [OF day(1) _ day(2)] clock_text_mono [OF day(3) _ day(4)]
      fraction_text_mono [of "x mod 1000000" "y mod 1000000"]
    unfolding iso_utc_text x_def [symmetric] y_def [symmetric]
    by (elim disjE conjE) (simp_all add: append_less)
qed

text \<open>
  Timestamps the runtime prints are ordered as texts exactly as their instants are ordered in
  time, over the whole range of a \<open>datetime\<close>, with and without a fraction of a second.
\<close>

lemma timestamp_order:
  assumes "0 \<le> t" "t < max_instant" "0 \<le> u" "u < max_instant"
  shows "(iso_utc t < iso_utc u) = (t < u)"
  by (cases rule: linorder_cases [of t u])
    (use iso_utc_less [of t u] iso_utc_less [of u t] assms in \<open>auto dest: order_less_imp_not_less\<close>)

lemma timestamp_order_witness:
  "(iso_utc 63902908800000000 < iso_utc 63902908800000001) = ((63902908800000000 :: int) < 63902908800000001)"
  by (rule timestamp_order) (simp_all add: max_instant_def usec_of_day_def)

end
