(* ===== verification/Py_Dynamic.thy ===== *)
theory Py_Dynamic
  imports Py_Value
begin

text \<open>
  Built-ins on values of unknown type: \<open>int\<close>, item access, arithmetic and comparison of mixed
  numbers, \<open>round\<close>, and the components of a POSIX path.
\<close>

section \<open>Text\<close>

text \<open>\<open>s.split(c)\<close> for one character.\<close>

fun split_on :: "char \<Rightarrow> string \<Rightarrow> string list" where
  "split_on c [] = [[]]"
| "split_on c (x # s) = (if x = c then [] # split_on c s
     else case split_on c s of [] \<Rightarrow> [[x]] | p # ps \<Rightarrow> (x # p) # ps)"

text \<open>\<open>PurePosixPath(s).parts\<close>: the root, then the components but empty ones and dots.\<close>

definition path_parts :: "string \<Rightarrow> string list" where
  "path_parts s =
     (if take 2 s = ''//'' \<and> take 3 s \<noteq> ''///'' then [''//''] else if take 1 s = ''/'' then [''/''] else []) @
     filter (\<lambda>p. p \<noteq> [] \<and> p \<noteq> ''.'') (split_on (CHR ''/'') s)"

text \<open>A path whose parent and name the code uses on their own.\<close>

datatype path = Path (path_directory: string) (path_name: string)

definition path_text :: "path \<Rightarrow> string" where
  "path_text p = path_directory p @ ''/'' @ path_name p"

text \<open>\<open>int(s)\<close>: an optional sign and decimal digits; underscores are not modelled.\<close>

definition parse_int :: "string \<Rightarrow> int option" where
  "parse_int text =
     (let s = strip text;
          neg = (s \<noteq> [] \<and> hd s = CHR ''-'');
          u = (if s \<noteq> [] \<and> (hd s = CHR ''-'' \<or> hd s = CHR ''+'') then tl s else s)
      in if u = [] \<or> \<not> list_all is_digit u then None
         else Some (if neg then - int (digits_value u) else int (digits_value u)))"

section \<open>Text of values\<close>

text \<open>\<open>repr\<close> of a string and of a list of strings.\<close>

definition repr_char :: "char \<Rightarrow> char \<Rightarrow> string" where
  "repr_char quote c = (let n = (of_char c :: nat) in
     if c = quote \<or> c = CHR 0x5C then [CHR 0x5C, c]
     else if n = 10 then CHR 0x5C # ''n'' else if n = 13 then CHR 0x5C # ''r''
     else if n = 9 then CHR 0x5C # ''t''
     else if n < 32 \<or> (127 \<le> n \<and> n \<le> 160) \<or> n = 173
     then CHR 0x5C # ''x'' @ [hex_digit (n div 16), hex_digit n]
     else [c])"

definition repr_str :: "string \<Rightarrow> string" where
  "repr_str s = (let quote = (if List.member s (CHR 0x27) \<and> \<not> List.member s (CHR 0x22)
       then CHR 0x22 else CHR 0x27)
     in quote # concat (map (repr_char quote) s) @ [quote])"

definition repr_list :: "string list \<Rightarrow> string" where
  "repr_list xs = ''['' @ join '', '' (map repr_str xs) @ '']''"

text \<open>\<open>repr(v)\<close> and \<open>str(v)\<close>.\<close>

fun py_repr :: "pyval \<Rightarrow> string" where
  "py_repr PNone = ''None''"
| "py_repr (PBool b) = (if b then ''True'' else ''False'')"
| "py_repr (PInt i) = dec_int i"
| "py_repr (PFloat x) = (case x of PosInf \<Rightarrow> ''inf'' | NegInf \<Rightarrow> ''-inf'' | NaN \<Rightarrow> ''nan'' | Fin r \<Rightarrow> float_repr x)"
| "py_repr (PStr s) = repr_str s"
| "py_repr (PList xs) = ''['' @ join '', '' (map py_repr xs) @ '']''"
| "py_repr (PDict d) = ''{'' @ join '', '' (map (\<lambda>(k, v). repr_str k @ '': '' @ py_repr v) d) @ ''}''"

fun py_str :: "pyval \<Rightarrow> string" where
  "py_str (PStr s) = s"
| "py_str v = py_repr v"

section \<open>Values\<close>

definition item :: "pydict \<Rightarrow> string \<Rightarrow> exn + pyval" where
  "item d k = (case map_of d k of None \<Rightarrow> Inl (KeyError k) | Some v \<Rightarrow> Inr v)"

text \<open>\<open>v[k]\<close> for a string key.\<close>

fun subscript :: "pyval \<Rightarrow> string \<Rightarrow> exn + pyval" where
  "subscript (PDict d) k = item d k"
| "subscript v k = Inl (TypeError ''object is not subscriptable by str'')"

text \<open>\<open>v.get(k, x)\<close> of a value that should be a dict.\<close>

definition value_get :: "pyval \<Rightarrow> string \<Rightarrow> pyval \<Rightarrow> exn + pyval" where
  "value_get v k x = (case v of PDict d \<Rightarrow> Inr (dget_or d k x)
     | _ \<Rightarrow> Inl (AttributeError ''object has no attribute get''))"

text \<open>\<open>len(v)\<close> and the items \<open>for x in v\<close> visits.\<close>

fun iter_values :: "pyval \<Rightarrow> exn + pyval list" where
  "iter_values (PList xs) = Inr xs"
| "iter_values (PStr s) = Inr (map (\<lambda>c. PStr [c]) s)"
| "iter_values (PDict d) = Inr (map (\<lambda>(k, v). PStr k) d)"
| "iter_values v = Inl (TypeError ''object is not iterable'')"

text \<open>\<open>c or d or ...\<close> of conditions that may raise.\<close>

fun any_of :: "(exn + bool) list \<Rightarrow> exn + bool" where
  "any_of [] = Inr False"
| "any_of (c # cs) = ebind c (\<lambda>b. if b then Inr True else any_of cs)"

text \<open>\<open>int(v)\<close>: a float is truncated towards zero.\<close>

definition trunc_rat :: "rat \<Rightarrow> int" where
  "trunc_rat x = (if 0 \<le> x then \<lfloor>x\<rfloor> else - \<lfloor>- x\<rfloor>)"

fun py_int :: "pyval \<Rightarrow> exn + int" where
  "py_int (PInt i) = Inr i"
| "py_int (PBool b) = Inr (if b then 1 else 0)"
| "py_int (PFloat x) = (case x of
     Fin r \<Rightarrow> Inr (trunc_rat r)
   | NaN \<Rightarrow> Inl (ValueError ''cannot convert float NaN to integer'')
   | _ \<Rightarrow> Inl (OverflowError ''cannot convert float infinity to integer''))"
| "py_int (PStr s) = (case parse_int s of
     Some i \<Rightarrow> Inr i | None \<Rightarrow> Inl (ValueError (''invalid literal for int() with base 10: '' @ s)))"
| "py_int v = Inl (TypeError ''int() argument must be a string or a real number'')"

text \<open>
  A number as its exact value: integers of any size compare exactly with floats, so the
  comparisons \<open>flt\<close> and \<open>fle\<close> of exact values are Python's comparisons of mixed numbers.
\<close>

fun exact_num :: "pyval \<Rightarrow> exn + pyfloat" where
  "exact_num (PBool b) = Inr (Fin (if b then 1 else 0))"
| "exact_num (PInt i) = Inr (Fin (of_int i))"
| "exact_num (PFloat x) = Inr x"
| "exact_num v = Inl (TypeError ''unsupported operand type'')"

text \<open>The conversion of an operand of float arithmetic; text is not converted.\<close>

definition float_operand :: "pyval \<Rightarrow> exn + pyfloat" where
  "float_operand v = (if is_str v then Inl (TypeError ''unsupported operand type'') else py_float v)"

text \<open>\<open>isinstance(v, (int, float)) and not isinstance(v, bool)\<close>.\<close>

fun is_number :: "pyval \<Rightarrow> bool" where
  "is_number (PInt i) = True"
| "is_number (PFloat x) = True"
| "is_number v = False"

section \<open>Rounding\<close>

text \<open>\<open>round(x, n)\<close>: the nearest decimal with \<open>n\<close> places to the exact value, then the nearest double.\<close>

fun py_round :: "pyfloat \<Rightarrow> nat \<Rightarrow> pyfloat" where
  "py_round (Fin x) n = dbl (of_int (round_half_even (x * 10 ^ n)) / 10 ^ n)"
| "py_round x n = x"

text \<open>\<open>f"{x:.2f}"\<close>.\<close>

fun fixed2 :: "pyfloat \<Rightarrow> string" where
  "fixed2 (Fin x) = (let n = nat \<bar>round_half_even (x * 100)\<bar>
     in (if x < 0 then ''-'' else []) @ dec (n div 100) @ ''.'' @ padded 2 (n mod 100))"
| "fixed2 PosInf = ''inf''"
| "fixed2 NegInf = ''-inf''"
| "fixed2 NaN = ''nan''"

fun fdiv :: "pyfloat \<Rightarrow> pyfloat \<Rightarrow> pyfloat" where
  "fdiv (Fin x) (Fin y) = dbl (x / y)"
| "fdiv NaN y = NaN"
| "fdiv x NaN = NaN"
| "fdiv (Fin x) y = Fin 0"
| "fdiv PosInf (Fin y) = (if y < 0 then NegInf else PosInf)"
| "fdiv NegInf (Fin y) = (if y < 0 then PosInf else NegInf)"
| "fdiv x y = NaN"

end
