(* ===== verification/Backup_Pilot.thy ===== *)
theory Backup_Pilot
  imports Backup_Adapter Py_Dynamic
begin

text \<open>
  \<^verbatim>\<open>sean_os/backup_credentials.py\<close> and \<^verbatim>\<open>sean_os/backup_pilot.py\<close>: the contract of the writer
  key and the review package of the first supervised pilot. Both only describe what a person may
  approve. SHA-256 is the parameter \<open>sha\<close>. Years are those of four digits.
\<close>

section \<open>The writer key\<close>

abbreviation credential_error :: "string \<Rightarrow> exn + 'a" where
  "credential_error m \<equiv> Inl (BackupCredentialError m)"

definition KEY_PROPOSAL_FORMAT :: string where
  "KEY_PROPOSAL_FORMAT = ''sean-os-backblaze-writer-key-proposal/v1''"

definition KEY_PACKAGE_FORMAT :: string where
  "KEY_PACKAGE_FORMAT = ''sean-os-backblaze-writer-key-approval/v1''"

definition KEY_ACTION_TYPE :: string where
  "KEY_ACTION_TYPE = ''CREATE_BACKBLAZE_BACKUP_WRITER_KEY''"

text \<open>The allowed capabilities, sorted.\<close>

definition WRITER_CAPABILITIES :: "string list" where
  "WRITER_CAPABILITIES = [''listAllBucketNames'', ''listBuckets'', ''readBucketEncryption'',
     ''readBucketRetentions'', ''readFileRetentions'', ''writeFiles'']"

definition PROHIBITED_CAPABILITIES :: "string list" where
  "PROHIBITED_CAPABILITIES = [''listKeys'', ''writeKeys'', ''deleteKeys'', ''readBuckets'', ''writeBuckets'',
     ''deleteBuckets'', ''writeBucketEncryption'', ''writeBucketRetentions'', ''listFiles'', ''readFiles'',
     ''deleteFiles'', ''shareFiles'', ''writeFileRetentions'', ''bypassGovernance'', ''readFileLegalHolds'',
     ''writeFileLegalHolds'', ''readBucketReplications'', ''writeBucketReplications'',
     ''readBucketNotifications'', ''writeBucketNotifications'', ''readBucketLogging'', ''writeBucketLogging'',
     ''readBucketLifecycleRules'', ''writeBucketLifecycleRules'']"

definition KEY_PROPOSAL_FIELDS :: "string list" where
  "KEY_PROPOSAL_FIELDS = [''format'', ''owner_scope'', ''provider'', ''data_region'', ''provider_endpoint'',
     ''bucket_ref'', ''key_name_ref'', ''file_name_prefix'', ''valid_duration_seconds'', ''capabilities'',
     ''credential_destination_ref'', ''access_owner'', ''operator'', ''production_data_authorized'',
     ''account_admin_authorized'', ''approval_required'', ''creation_authorized'']"

definition KEY_PACKAGE_FIELDS :: "string list" where
  "KEY_PACKAGE_FIELDS = [''format'', ''proposal'', ''proposal_sha256'', ''approval_action_type'',
     ''approval_target'', ''approval_required'', ''creation_authorized'']"

definition KEY_BUCKET_RX :: rx where
  "KEY_BUCKET_RX = Seq (Cls (\<lambda>c. is_lower c \<or> is_digit c))
     (Reps (\<lambda>c. is_lower c \<or> is_digit c \<or> c = CHR ''-'') 4 (Some 62))"

definition KEY_REFERENCE_RX :: rx where
  "KEY_REFERENCE_RX = Seq (Cls alnum) (Reps (\<lambda>c. alnum c \<or> one_of ''._:/-'' c) 0 (Some 199))"

definition key_ref :: "string \<Rightarrow> pyval \<Rightarrow> exn + unit" where
  "key_ref name v =
     (if \<not> is_str v \<or> \<not> rx_fullmatch KEY_REFERENCE_RX (sval v) \<or> starts_with (sval v) ''/'' \<or>
         str_contains (sval v) ''..'' \<or> str_contains (sval v) [CHR 0x5C] \<or> secret_findings v \<noteq> []
      then credential_error (name @ '' must be one bounded non-secret reference'')
      else Inr ())"

definition KEY_BOUNDARY :: pydict where
  "KEY_BOUNDARY = [(''format'', PStr KEY_PROPOSAL_FORMAT), (''owner_scope'', PStr ''IAC''),
     (''provider'', PStr ''BACKBLAZE_B2''), (''data_region'', PStr ''CA_EAST''),
     (''file_name_prefix'', PStr ''backups/''), (''access_owner'', PStr ''IAC''), (''operator'', PStr ''sean''),
     (''production_data_authorized'', PBool False), (''account_admin_authorized'', PBool False),
     (''approval_required'', PBool True), (''creation_authorized'', PBool False)]"

definition check_capabilities :: "pyval \<Rightarrow> exn + unit" where
  "check_capabilities v =
     (if v \<noteq> PList (map PStr WRITER_CAPABILITIES)
      then credential_error ''Backup writer capabilities must match the exact allowlist''
      else if list_ex (List.member PROHIBITED_CAPABILITIES) WRITER_CAPABILITIES
      then credential_error ''Backup writer proposal includes prohibited authority''
      else Inr ())"

definition validate_backup_writer_key_proposal :: "pyval \<Rightarrow> exn + pydict" where
  "validate_backup_writer_key_proposal proposal =
     (let d = dval proposal in
      if \<not> is_dict proposal \<or> \<not> fields_are d KEY_PROPOSAL_FIELDS
      then credential_error ''Backup writer key proposal fields are incomplete''
      else if secret_findings (PDict d) \<noteq> []
      then credential_error ''Secret-like material is prohibited in key proposals''
      else if \<not> matches d KEY_BOUNDARY
      then credential_error ''Backup writer key proposal violates the pilot boundary''
      else
        case verify_backblaze_endpoint (dget d ''provider_endpoint'') (sval (dget d ''data_region'')) of
          Inl e \<Rightarrow> credential_error (exn_str e)
        | Inr endpoint \<Rightarrow>
            if \<not> is_str (dget d ''bucket_ref'') \<or> \<not> rx_fullmatch KEY_BUCKET_RX (sval (dget d ''bucket_ref''))
            then credential_error ''Backup key must be restricted to one valid bucket''
            else
              ebind (key_ref ''key_name_ref'' (dget d ''key_name_ref'')) (\<lambda>_.
              ebind (key_ref ''credential_destination_ref'' (dget d ''credential_destination_ref'')) (\<lambda>_.
              if \<not> int_between 300 (Some 14400) (dget d ''valid_duration_seconds'')
              then credential_error ''Pilot key duration must be between 5 minutes and 4 hours''
              else ebind (check_capabilities (dget d ''capabilities'')) (\<lambda>_. Inr (canon_dict d)))))"

definition build_backup_writer_key_approval_package :: "(string \<Rightarrow> string) \<Rightarrow> pyval \<Rightarrow> exn + pydict" where
  "build_backup_writer_key_approval_package sha proposal =
     ebind (validate_backup_writer_key_proposal proposal) (\<lambda>d.
     let digest = sha (dumps (PDict d)) in
     Inr (canon_dict [(''format'', PStr KEY_PACKAGE_FORMAT), (''proposal'', PDict d), (''proposal_sha256'', PStr digest),
       (''approval_action_type'', PStr KEY_ACTION_TYPE),
       (''approval_target'', PStr (''BACKBLAZE_B2_KEY:'' @ sval (dget d ''key_name_ref'') @ '':'' @ take 16 digest)),
       (''approval_required'', PBool True), (''creation_authorized'', PBool False)]))"

definition verify_backup_writer_key_approval_package :: "(string \<Rightarrow> string) \<Rightarrow> pyval \<Rightarrow> exn + pydict" where
  "verify_backup_writer_key_approval_package sha package =
     (if \<not> is_dict package \<or> \<not> fields_are (dval package) KEY_PACKAGE_FIELDS
      then credential_error ''Backup writer key package fields are incomplete''
      else
        ebind (validate_backup_writer_key_proposal (dget (dval package) ''proposal'')) (\<lambda>proposal.
        ebind (build_backup_writer_key_approval_package sha (PDict proposal)) (\<lambda>expected.
        if dumps package \<noteq> dumps (PDict expected)
        then credential_error ''Backup writer key package is invalid or modified''
        else Inr expected)))"

section \<open>The pilot package\<close>

abbreviation pilot_error :: "string \<Rightarrow> exn + 'a" where
  "pilot_error m \<equiv> Inl (BackupPilotError m)"

definition PILOT_FORMAT :: string where
  "PILOT_FORMAT = ''sean-os-supervised-synthetic-backup-pilot/v1''"

definition RAILWAY_PROJECT_ID :: string where
  "RAILWAY_PROJECT_ID = ''aa5875de-3c73-44df-a7d8-00b5911d64d2''"

definition RAILWAY_ENVIRONMENT_ID :: string where
  "RAILWAY_ENVIRONMENT_ID = ''8bb602a7-8e67-4a34-8f57-def32780aeb9''"

definition RAILWAY_SERVICE_ID :: string where
  "RAILWAY_SERVICE_ID = ''f836e6ff-56ba-4b69-8dab-6c2e91478853''"

definition RAILWAY_VOLUME_REF :: string where
  "RAILWAY_VOLUME_REF = ''railway-volume:iac-ai-runtime-volume''"

definition BACKBLAZE_BUCKET :: string where
  "BACKBLAZE_BUCKET = ''iac-sean-os-ca-east-20260820-v01-9k4m''"

definition BACKBLAZE_ENDPOINT :: string where
  "BACKBLAZE_ENDPOINT = ''s3.ca-east-006.backblazeb2.com''"

definition DESTINATION_REF :: string where
  "DESTINATION_REF = ''backblaze-b2-bucket:'' @ BACKBLAZE_BUCKET"

definition WRITER_IDENTITY_REF :: string where
  "WRITER_IDENTITY_REF = ''railway-managed-value:sean-os-b2-writer-v1''"

definition ENCRYPTION_KEY_REF :: string where
  "ENCRYPTION_KEY_REF = ''railway-managed-value:sean-os-aes256-v1''"

definition RESTORE_TARGET_REF :: string where
  "RESTORE_TARGET_REF = ''local-quarantine:synthetic-iac-restore-v1''"

text \<open>The managed variables of \<^verbatim>\<open>sean_os/backup_secrets.py\<close>, sorted.\<close>

definition MANAGED_SECRET_VARIABLES :: "string list" where
  "MANAGED_SECRET_VARIABLES = [''SEAN_OS_MANAGED_B2_APPLICATION_KEY'', ''SEAN_OS_MANAGED_B2_KEY_ID'',
     ''SEAN_OS_MANAGED_BACKUP_AES256_KEY_B64'']"

definition COMMIT_RX :: rx where
  "COMMIT_RX = Reps hex_char 40 (Some 40)"

definition pilot_aware :: "pyval \<Rightarrow> string \<Rightarrow> exn + datetime" where
  "pilot_aware v name = (case fromisoformat_val v of
     Inl e \<Rightarrow> pilot_error (name @ '' must be one ISO-8601 timestamp'')
   | Inr dt \<Rightarrow> if is_aware dt then Inr dt else pilot_error (name @ '' must include a timezone''))"

text \<open>\<open>strftime("%Y%m%dT%H%M%S")\<close> of local microseconds.\<close>

definition compact_stamp :: "int \<Rightarrow> string" where
  "compact_stamp t = (let (y, m, d) = ord2ymd (t div usec_of_day + 1); s = t mod usec_of_day div 1000000 in
     pad 4 y @ pad 2 m @ pad 2 d @ ''T'' @ pad 2 (s div 3600) @ pad 2 (s div 60 mod 60) @ pad 2 (s mod 60))"

definition whole_seconds :: "int \<Rightarrow> int" where
  "whole_seconds n = (if 0 \<le> n then n div 1000000 else - (- n div 1000000))"

definition pilot_drill_proposal :: "datetime \<Rightarrow> datetime \<Rightarrow> pydict" where
  "pilot_drill_proposal start end_at =
     [(''format'', PStr ''sean-os-independent-backup-drill-proposal/v2''), (''owner_scope'', PStr ''IAC''),
      (''project_id'', PStr RAILWAY_PROJECT_ID), (''environment_id'', PStr RAILWAY_ENVIRONMENT_ID),
      (''service_id'', PStr RAILWAY_SERVICE_ID), (''primary_volume_id'', PStr RAILWAY_VOLUME_REF),
      (''destination_kind'', PStr ''ENCRYPTED_OBJECT_STORAGE''), (''destination_provider'', PStr ''BACKBLAZE_B2''),
      (''destination_ref'', PStr DESTINATION_REF), (''data_region'', PStr ''CA_EAST''),
      (''independent_from_primary'', PBool True), (''encryption_at_rest'', PBool True),
      (''encryption_key_owner'', PStr ''IAC''), (''access_owner'', PStr ''IAC''), (''retention_days'', PInt 30),
      (''object_lock_enabled'', PBool True), (''restore_target_ref'', PStr RESTORE_TARGET_REF),
      (''isolated_restore'', PBool True), (''overwrite_production'', PBool False), (''operator'', PStr ''sean''),
      (''rollback_owner'', PStr ''sean''), (''window_start'', PStr (isoformat start)),
      (''window_end'', PStr (isoformat end_at)), (''max_cost_cad'', PInt 15),
      (''kill_switch_change_requested'', PBool True), (''live_connectors_enabled'', PBool False),
      (''real_data_authorized'', PBool False)]"

definition pilot_key_proposal :: "int \<Rightarrow> pydict" where
  "pilot_key_proposal duration =
     [(''format'', PStr ''sean-os-backblaze-writer-key-proposal/v1''), (''owner_scope'', PStr ''IAC''),
      (''provider'', PStr ''BACKBLAZE_B2''), (''data_region'', PStr ''CA_EAST''),
      (''provider_endpoint'', PStr BACKBLAZE_ENDPOINT), (''bucket_ref'', PStr BACKBLAZE_BUCKET),
      (''file_name_prefix'', PStr ''backups/''), (''key_name_ref'', PStr ''sean-os-backup-writer-pilot-v1''),
      (''credential_destination_ref'', PStr WRITER_IDENTITY_REF), (''operator'', PStr ''sean''),
      (''access_owner'', PStr ''IAC''), (''valid_duration_seconds'', PInt duration),
      (''capabilities'', PList (map PStr WRITER_CAPABILITIES)), (''approval_required'', PBool True),
      (''creation_authorized'', PBool False), (''production_data_authorized'', PBool False),
      (''account_admin_authorized'', PBool False)]"

definition PILOT_RUNTIME :: pydict where
  "PILOT_RUNTIME =
     [(''SEAN_OS_BACKUP_EXECUTION'', PStr ''APPROVED''), (''SEAN_OS_BACKUP_PROVIDER'', PStr ''BACKBLAZE_B2''),
      (''SEAN_OS_BACKUP_DATA_REGION'', PStr ''CA_EAST''), (''SEAN_OS_BACKUP_ENDPOINT'', PStr BACKBLAZE_ENDPOINT),
      (''SEAN_OS_BACKUP_DESTINATION_REF'', PStr DESTINATION_REF),
      (''SEAN_OS_BACKUP_WRITER_IDENTITY_REF'', PStr WRITER_IDENTITY_REF),
      (''SEAN_OS_BACKUP_ENCRYPTION_KEY_REF'', PStr ENCRYPTION_KEY_REF), (''SEAN_OS_BACKUP_MAX_COST_CAD'', PStr ''15'')]"

definition PILOT_GATES :: "string list" where
  "PILOT_GATES = [''APPROVE_CANDIDATE_PUSH_AND_RAILWAY_DEPLOYMENT'', ''CREATE_EXACT_BACKBLAZE_WRITER_KEY'',
     ''PLACE_THREE_RAILWAY_MANAGED_VALUES'', ''AUTHORIZE_ONE_SYNTHETIC_UPLOAD'',
     ''AUTHORIZE_ISOLATED_SYNTHETIC_RESTORE'', ''REMOVE_OR_ROTATE_PILOT_VALUES'']"

definition PILOT_AUTHORITY :: "string list" where
  "PILOT_AUTHORITY = [''key_creation_authorized'', ''secret_placement_authorized'', ''push_authorized'',
     ''deployment_authorized'', ''upload_authorized'', ''restore_authorized'', ''real_data_authorized'',
     ''network_enabled'', ''execution_authorized'']"

definition pilot_fields :: "string \<Rightarrow> string \<Rightarrow> pydict \<Rightarrow> pydict \<Rightarrow> pydict" where
  "pilot_fields commit_sha object_ref drill writer =
     [(''format'', PStr PILOT_FORMAT), (''owner_scope'', PStr ''IAC''), (''data_mode'', PStr ''SYNTHETIC_IAC_DATABASE_ONLY''),
      (''candidate_commit'', PStr commit_sha), (''deployed_baseline_commit'', PStr commit_sha),
      (''bucket_name'', PStr BACKBLAZE_BUCKET), (''provider_endpoint'', PStr BACKBLAZE_ENDPOINT),
      (''object_ref'', PStr object_ref), (''writer_identity_ref'', PStr WRITER_IDENTITY_REF),
      (''encryption_key_ref'', PStr ENCRYPTION_KEY_REF),
      (''managed_variable_names'', PList (map PStr MANAGED_SECRET_VARIABLES)),
      (''drill_approval_package'', PDict drill), (''writer_key_approval_package'', PDict writer),
      (''non_secret_runtime'', PDict PILOT_RUNTIME), (''required_manual_gates'', PList (map PStr PILOT_GATES))] @
     map (\<lambda>k. (k, PBool False)) PILOT_AUTHORITY"

definition build_supervised_backup_pilot_package ::
  "(string \<Rightarrow> string) \<Rightarrow> pyval \<Rightarrow> pyval \<Rightarrow> pyval \<Rightarrow> exn + pydict" where
  "build_supervised_backup_pilot_package sha candidate_commit window_start window_end =
     (if \<not> is_str candidate_commit \<or> \<not> rx_fullmatch COMMIT_RX (sval candidate_commit)
      then pilot_error ''Candidate commit must be one full Git commit SHA''
      else
        ebind (pilot_aware window_start ''window_start'') (\<lambda>start.
        ebind (pilot_aware window_end ''window_end'') (\<lambda>end_at.
        let duration = whole_seconds (instant_of end_at - instant_of start) in
        if \<not> (1 \<le> duration \<and> duration \<le> 14400)
        then pilot_error ''Pilot window must be positive and at most four hours''
        else if \<not> (0 \<le> instant_of start \<and> instant_of start < max_instant)
        then Inl (OverflowError ''date value out of range'')
        else
          let object_ref = ''backups/pilot-'' @ take 12 (sval candidate_commit) @ ''-'' @
                compact_stamp (instant_of start) @ ''Z.db.enc'' in
          ebind (build_independent_backup_approval_package sha (PDict (pilot_drill_proposal start end_at))) (\<lambda>drill.
          ebind (build_backup_writer_key_approval_package sha (PDict (pilot_key_proposal duration))) (\<lambda>writer.
          let package = pilot_fields (sval candidate_commit) object_ref drill writer in
          if secret_findings (PDict package) \<noteq> []
          then pilot_error ''Pilot package contains prohibited secret-like material''
          else Inr (canon_dict (package @ [(''package_sha256'', PStr (sha (dumps (PDict package))))])))))))"

fun pilot_incomplete :: "exn \<Rightarrow> exn" where
  "pilot_incomplete (KeyError m) = BackupPilotError ''Pilot package is incomplete''"
| "pilot_incomplete (TypeError m) = BackupPilotError ''Pilot package is incomplete''"
| "pilot_incomplete e = e"

definition verify_supervised_backup_pilot_package :: "(string \<Rightarrow> string) \<Rightarrow> pyval \<Rightarrow> exn + pydict" where
  "verify_supervised_backup_pilot_package sha package =
     (if \<not> is_dict package then pilot_error ''Pilot package must be an object''
      else
        let inside = (\<lambda>k. ebind (subscript package ''drill_approval_package'') (\<lambda>drill.
              ebind (subscript drill ''proposal'') (\<lambda>proposal. subscript proposal k))) in
        case ebind (subscript package ''candidate_commit'') (\<lambda>candidate_commit.
             ebind (inside ''window_start'') (\<lambda>window_start. ebind (inside ''window_end'') (\<lambda>window_end.
             build_supervised_backup_pilot_package sha candidate_commit window_start window_end))) of
          Inl e \<Rightarrow> Inl (pilot_incomplete e)
        | Inr rebuilt \<Rightarrow>
            if \<not> is_str (dget (dval package) ''package_sha256'') \<or> dumps package \<noteq> dumps (PDict rebuilt)
            then pilot_error ''Pilot package is invalid or modified''
            else Inr rebuilt)"

end
