(* ===== verification/Backup_Execution.thy ===== *)
theory Backup_Execution
  imports Store_Transfers Py_Dynamic
begin

text \<open>
  \<^verbatim>\<open>sean_os/backup_execution.py\<close>: the default-off boundary of an approved upload. Encryption and
  upload are ports outside the repository; \<open>upload_ports\<close> holds what they and the file system answer
  in one run, where each is asked at most once.
\<close>

section \<open>Configuration\<close>

definition EXECUTION_MODE_KEY :: string where
  "EXECUTION_MODE_KEY = ''SEAN_OS_BACKUP_EXECUTION''"

definition EXECUTION_ENV_KEYS :: "string list" where
  "EXECUTION_ENV_KEYS = [EXECUTION_MODE_KEY, ''SEAN_OS_BACKUP_PROVIDER'', ''SEAN_OS_BACKUP_DATA_REGION'',
     ''SEAN_OS_BACKUP_ENDPOINT'', ''SEAN_OS_BACKUP_DESTINATION_REF'', ''SEAN_OS_BACKUP_WRITER_IDENTITY_REF'',
     ''SEAN_OS_BACKUP_ENCRYPTION_KEY_REF'', ''SEAN_OS_BACKUP_MAX_BYTES'', ''SEAN_OS_BACKUP_MAX_COST_CAD'']"

definition FORBIDDEN_DIRECT_SECRET_ENV_KEYS :: "string list" where
  "FORBIDDEN_DIRECT_SECRET_ENV_KEYS = [''SEAN_OS_BACKUP_ACCESS_KEY_ID'', ''SEAN_OS_BACKUP_SECRET_ACCESS_KEY'',
     ''SEAN_OS_BACKUP_ENCRYPTION_KEY'']"

definition ENCRYPTED_ARTIFACT_FORMAT :: string where
  "ENCRYPTED_ARTIFACT_FORMAT = ''sean-os-client-encrypted-backup-artifact/v1''"

definition ENCRYPTED_ARTIFACT_FIELDS :: "string list" where
  "ENCRYPTED_ARTIFACT_FIELDS = [''format'', ''plan_sha256'', ''plaintext_sha256'', ''plaintext_bytes'',
     ''ciphertext_sha256'', ''ciphertext_bytes'', ''algorithm'', ''key_owner'', ''key_ref'', ''authenticated'',
     ''aad_plan_sha256'', ''credentials_persisted'', ''source_path_included'']"

definition PROVIDER_UPLOAD_FIELDS :: "string list" where
  "PROVIDER_UPLOAD_FIELDS = [''provider'', ''provider_region'', ''provider_endpoint'',
     ''provider_writer_identity_ref'', ''plan_sha256'', ''destination_ref'', ''object_ref'', ''content_sha256'',
     ''content_bytes'', ''provider_request_ref'', ''provider_version_ref'', ''provider_encryption'',
     ''encryption_verified'', ''object_lock_mode'', ''object_lock_verified'', ''retention_days'', ''uploaded_at'',
     ''retain_until'', ''network_performed'', ''uploaded'', ''overwrite_performed'', ''restore_authorized'',
     ''credentials_persisted'']"

definition CLIENT_ENCRYPTION_ALGORITHMS :: "string list" where
  "CLIENT_ENCRYPTION_ALGORITHMS = [''AES_256_GCM'', ''XCHACHA20_POLY1305'']"

record runtime_config =
  rc_enabled :: bool
  rc_provider :: "string option"
  rc_region :: "string option"
  rc_endpoint :: "string option"
  rc_destination :: "string option"
  rc_identity :: "string option"
  rc_key :: "string option"
  rc_max_bytes :: "int option"
  rc_max_cost :: "pyfloat option"

definition disabled_config :: runtime_config where
  "disabled_config = \<lparr>rc_enabled = False, rc_provider = None, rc_region = None, rc_endpoint = None,
     rc_destination = None, rc_identity = None, rc_key = None, rc_max_bytes = None, rc_max_cost = None\<rparr>"

type_synonym environment = "string \<Rightarrow> string option"

definition env_set :: "environment \<Rightarrow> string \<Rightarrow> bool" where
  "env_set env k = (given (env k) \<noteq> None)"

definition env_text :: "environment \<Rightarrow> string \<Rightarrow> string" where
  "env_text env k = (case env k of None \<Rightarrow> [] | Some s \<Rightarrow> s)"

abbreviation execution_error :: "string \<Rightarrow> exn + 'a" where
  "execution_error m \<equiv> Inl (BackupExecutionError m)"

definition execution_ref :: "string \<Rightarrow> string \<Rightarrow> exn + string" where
  "execution_ref name s =
     (if s = [] \<or> strip s \<noteq> s \<or> 200 < length s \<or> list_ex control_char s
      then execution_error (name @ '' must be one bounded non-secret reference'')
      else if secret_findings (PStr s) \<noteq> []
      then execution_error (name @ '' must not contain secret-like material'')
      else Inr s)"

definition opt_float :: "pyfloat option \<Rightarrow> pyval" where
  "opt_float x = (case x of None \<Rightarrow> PNone | Some f \<Rightarrow> PFloat f)"

definition opt_int :: "int option \<Rightarrow> pyval" where
  "opt_int x = (case x of None \<Rightarrow> PNone | Some i \<Rightarrow> PInt i)"

definition config_dict :: "runtime_config \<Rightarrow> pydict" where
  "config_dict c = [(''enabled'', PBool (rc_enabled c)), (''provider'', opt_str (rc_provider c)),
     (''data_region'', opt_str (rc_region c)), (''endpoint'', opt_str (rc_endpoint c)),
     (''destination_ref'', opt_str (rc_destination c)), (''writer_identity_ref'', opt_str (rc_identity c)),
     (''encryption_key_ref'', opt_str (rc_key c)), (''max_bytes'', opt_int (rc_max_bytes c)),
     (''max_cost_cad'', opt_float (rc_max_cost c))]"

text \<open>The mode of an environment: off unless it says otherwise.\<close>

definition execution_mode :: "environment \<Rightarrow> string \<Rightarrow> string" where
  "execution_mode env k = (case env k of None \<Rightarrow> ''DISABLED'' | Some m \<Rightarrow> m)"

definition approved_backup_config :: "environment \<Rightarrow> exn + runtime_config" where
  "approved_backup_config env =
     (let region = env_text env ''SEAN_OS_BACKUP_DATA_REGION'' in
      if env_text env ''SEAN_OS_BACKUP_PROVIDER'' \<noteq> ''BACKBLAZE_B2''
      then execution_error ''Backup provider must be BACKBLAZE_B2''
      else case verify_backblaze_endpoint (PStr (env_text env ''SEAN_OS_BACKUP_ENDPOINT'')) region of
        Inl e \<Rightarrow> execution_error (exn_str e)
      | Inr endpoint \<Rightarrow>
          (case parse_int (env_text env ''SEAN_OS_BACKUP_MAX_BYTES'') of
             None \<Rightarrow> execution_error ''Backup maximum bytes must be an integer''
           | Some max_bytes \<Rightarrow>
               if \<not> (1 \<le> max_bytes \<and> max_bytes \<le> 10 * 1024 * 1024 * 1024)
               then execution_error ''Backup maximum bytes must be between 1 byte and 10 GiB''
               else case parse_float (env_text env ''SEAN_OS_BACKUP_MAX_COST_CAD'') of
                 None \<Rightarrow> execution_error ''Backup cost ceiling must be numeric''
               | Some max_cost \<Rightarrow>
                   if \<not> is_finite max_cost \<or> \<not> (fle (Fin 0) max_cost \<and> fle max_cost (Fin 15))
                   then execution_error ''Backup cost ceiling must be between CAD 0 and CAD 15''
                   else
                     ebind (execution_ref ''destination_ref'' (env_text env ''SEAN_OS_BACKUP_DESTINATION_REF'')) (\<lambda>destination.
                     ebind (execution_ref ''writer_identity_ref'' (env_text env ''SEAN_OS_BACKUP_WRITER_IDENTITY_REF'')) (\<lambda>writer.
                     ebind (execution_ref ''encryption_key_ref'' (env_text env ''SEAN_OS_BACKUP_ENCRYPTION_KEY_REF'')) (\<lambda>key.
                     let config = \<lparr>rc_enabled = True, rc_provider = Some ''BACKBLAZE_B2'', rc_region = Some region,
                       rc_endpoint = Some endpoint, rc_destination = Some destination, rc_identity = Some writer,
                       rc_key = Some key, rc_max_bytes = Some max_bytes, rc_max_cost = Some max_cost\<rparr> in
                     if secret_findings (PDict (config_dict config)) \<noteq> []
                     then execution_error ''Backup runtime configuration contains secret-like material''
                     else Inr config)))))"

definition load_backup_runtime_config :: "environment \<Rightarrow> exn + runtime_config" where
  "load_backup_runtime_config env =
     (let mode = execution_mode env EXECUTION_MODE_KEY;
          required = filter (\<lambda>k. k \<noteq> EXECUTION_MODE_KEY) EXECUTION_ENV_KEYS in
      if list_ex (env_set env) FORBIDDEN_DIRECT_SECRET_ENV_KEYS
      then execution_error ''Raw backup secrets are prohibited in runtime configuration''
      else if mode = ''DISABLED'' then
        (if list_ex (env_set env) required
         then execution_error ''Disabled backup execution cannot retain partial configuration''
         else Inr disabled_config)
      else if mode \<noteq> ''APPROVED''
      then execution_error ''Backup execution mode must be DISABLED or APPROVED''
      else if list_ex (\<lambda>k. \<not> env_set env k) required
      then execution_error ''Approved backup execution requires the complete configuration''
      else approved_backup_config env)"

section \<open>The leased transfer\<close>

text \<open>The configuration fields against the plan, as Python compares them.\<close>

definition config_mismatch :: "runtime_config \<Rightarrow> pydict \<Rightarrow> bool" where
  "config_mismatch c plan \<longleftrightarrow>
     \<not> py_eq (opt_str (rc_provider c)) (dget plan ''provider'') \<or>
     \<not> py_eq (opt_str (rc_region c)) (dget plan ''data_region'') \<or>
     \<not> py_eq (opt_str (rc_endpoint c)) (dget plan ''provider_endpoint'') \<or>
     \<not> py_eq (opt_str (rc_destination c)) (dget plan ''destination_ref'') \<or>
     \<not> py_eq (opt_str (rc_identity c)) (dget plan ''provider_writer_identity_ref'') \<or>
     \<not> py_eq (opt_str (rc_key c)) (dget plan ''client_encryption_key_ref'') \<or>
     \<not> py_eq (opt_float (rc_max_cost c)) (dget plan ''max_cost_cad'')"

definition max_bytes_of :: "runtime_config \<Rightarrow> int" where
  "max_bytes_of c = (case rc_max_bytes c of None \<Rightarrow> 0 | Some n \<Rightarrow> n)"

definition in_window :: "pydict \<Rightarrow> instant \<Rightarrow> exn + bool" where
  "in_window plan t =
     ebind (fromisoformat (sval (dget plan ''window_start''))) (\<lambda>start.
     ebind (fromisoformat (sval (dget plan ''window_end''))) (\<lambda>end_at.
     Inr (instant_of start \<le> t \<and> t \<le> instant_of end_at)))"

text \<open>The checks before the clock is read, and the window and the source after it.\<close>

definition validate_lease ::
  "(string \<Rightarrow> string) \<Rightarrow> transfer_row \<Rightarrow> string \<Rightarrow> runtime_config \<Rightarrow> exn + pydict" where
  "validate_lease sha claimed worker_id config =
     (if \<not> rc_enabled config then execution_error ''Backup execution is disabled''
      else if bx_status claimed \<noteq> OB_AUTHORIZED \<or> missing (bx_approval claimed) \<or>
              bx_owner claimed \<noteq> Some worker_id \<or> missing (bx_lease claimed)
      then execution_error ''Backup transfer requires an active approved worker lease''
      else
        ebind (verify_stored_backup_transfer_plan sha (PDict (tr_plan claimed))) (\<lambda>plan.
        ebind (verify_synthetic_backup_adapter_receipt sha
                 (case tr_preflight claimed of None \<Rightarrow> PNone | Some p \<Rightarrow> p)) (\<lambda>preflight.
        if dget preflight ''plan_sha256'' \<noteq> dget plan ''plan_sha256''
        then execution_error ''Backup preflight does not match the leased plan''
        else if config_mismatch config plan
        then execution_error ''Backup runtime configuration does not match the approved plan''
        else Inr plan)))"

definition validate_source ::
  "(string \<Rightarrow> file_probe) \<Rightarrow> pyval \<Rightarrow> runtime_config \<Rightarrow> pydict \<Rightarrow> instant \<Rightarrow> exn + pydict" where
  "validate_source probe manifest config plan t =
     ebind (in_window plan t) (\<lambda>inside.
     if \<not> inside then execution_error ''Backup execution is outside the exact approved window''
     else
       ebind (verify_local_iac_backup_manifest probe manifest) (\<lambda>source.
       if \<not> py_eq (dget source ''backup_sha256'') (dget plan ''backup_sha256'') \<or>
          \<not> py_eq (dget source ''backup_bytes'') (dget plan ''backup_bytes'') \<or>
          \<not> py_eq (dget source ''schema_version'') (dget plan ''schema_version'')
       then execution_error ''Backup source no longer matches the approved plan''
       else if max_bytes_of config < ival (dget source ''backup_bytes'')
       then execution_error ''Backup source exceeds the configured maximum size''
       else Inr source))"

definition validate_claimed_backup_transfer ::
  "(string \<Rightarrow> file_probe) \<Rightarrow> transfer_row \<Rightarrow> pyval \<Rightarrow> string \<Rightarrow> runtime_config \<Rightarrow> pydict py" where
  "validate_claimed_backup_transfer probe claimed manifest worker_id config =
     bind (reads w_sha256) (\<lambda>sha.
     bind (lift_result (validate_lease sha claimed worker_id config)) (\<lambda>plan.
     bind now_instant (\<lambda>t.
     bind (lift_result (validate_source probe manifest config plan t)) (\<lambda>source.
     ret plan))))"

section \<open>Evidence of the ports\<close>

record artifact =
  art_path :: string
  art_evidence :: pydict

definition encryption_requirements :: "pydict \<Rightarrow> runtime_config \<Rightarrow> pydict" where
  "encryption_requirements plan config = [
     (''format'', PStr ENCRYPTED_ARTIFACT_FORMAT), (''plan_sha256'', dget plan ''plan_sha256''),
     (''plaintext_sha256'', dget plan ''backup_sha256''), (''plaintext_bytes'', dget plan ''backup_bytes''),
     (''key_owner'', PStr ''IAC''), (''key_ref'', opt_str (rc_key config)), (''authenticated'', PBool True),
     (''aad_plan_sha256'', dget plan ''plan_sha256''), (''credentials_persisted'', PBool False),
     (''source_path_included'', PBool False)]"

definition verify_encrypted_artifact ::
  "(string \<Rightarrow> file_probe) \<Rightarrow> artifact \<Rightarrow> pydict \<Rightarrow> runtime_config \<Rightarrow> string \<Rightarrow> exn + pydict" where
  "verify_encrypted_artifact probe a plan config source_path =
     (let evidence = art_evidence a; file = probe (art_path a) in
      if \<not> fields_are evidence ENCRYPTED_ARTIFACT_FIELDS \<or> secret_findings (PDict evidence) \<noteq> []
      then execution_error ''Client encryption evidence is incomplete or unsafe''
      else if \<not> matches evidence (encryption_requirements plan config)
      then execution_error ''Client encryption evidence does not match the exact plan''
      else
        ebind (in_names (dget evidence ''algorithm'') CLIENT_ENCRYPTION_ALGORITHMS) (\<lambda>known.
        if \<not> known then execution_error ''Client encryption algorithm is unsupported''
        else if \<not> is_sha256 (dget evidence ''ciphertext_sha256'')
        then execution_error ''Client-encrypted artifact hash is malformed''
        else if \<not> int_between 1 None (dget evidence ''ciphertext_bytes'')
        then execution_error ''Client-encrypted artifact size is invalid''
        else if path_parts (art_path a) = path_parts source_path \<or> \<not> fp_regular file \<or>
                fp_bytes file \<noteq> ival (dget evidence ''ciphertext_bytes'') \<or>
                fp_sha256 file \<noteq> sval (dget evidence ''ciphertext_sha256'')
        then execution_error ''Client-encrypted artifact does not match its evidence''
        else Inr evidence))"

definition provider_requirements :: "pydict \<Rightarrow> pydict \<Rightarrow> runtime_config \<Rightarrow> pydict" where
  "provider_requirements plan encryption config = [
     (''provider'', dget plan ''provider''), (''provider_region'', dget plan ''data_region''),
     (''provider_endpoint'', opt_str (rc_endpoint config)),
     (''provider_writer_identity_ref'', opt_str (rc_identity config)),
     (''plan_sha256'', dget plan ''plan_sha256''), (''destination_ref'', dget plan ''destination_ref''),
     (''object_ref'', dget plan ''object_ref''), (''content_sha256'', dget encryption ''ciphertext_sha256''),
     (''content_bytes'', dget encryption ''ciphertext_bytes''), (''provider_encryption'', PStr ''AES256''),
     (''encryption_verified'', PBool True), (''object_lock_mode'', PStr ''COMPLIANCE''),
     (''object_lock_verified'', PBool True), (''retention_days'', dget plan ''retention_days''),
     (''network_performed'', PBool True), (''uploaded'', PBool True), (''overwrite_performed'', PBool False),
     (''restore_authorized'', PBool False), (''credentials_persisted'', PBool False)]"

definition upload_receipt :: "pydict \<Rightarrow> pydict \<Rightarrow> pydict \<Rightarrow> pydict" where
  "upload_receipt provider encryption plan = [
     (''format'', PStr UPLOAD_RECEIPT_FORMAT), (''evidence_mode'', PStr ''PRODUCTION''),
     (''provider'', dget provider ''provider''), (''provider_region'', dget provider ''provider_region''),
     (''provider_endpoint'', dget provider ''provider_endpoint''),
     (''provider_writer_identity_ref'', dget provider ''provider_writer_identity_ref''),
     (''plan_sha256'', dget plan ''plan_sha256''), (''destination_ref'', dget plan ''destination_ref''),
     (''object_ref'', dget plan ''object_ref''), (''backup_sha256'', dget plan ''backup_sha256''),
     (''backup_bytes'', dget plan ''backup_bytes''), (''ciphertext_sha256'', dget encryption ''ciphertext_sha256''),
     (''ciphertext_bytes'', dget encryption ''ciphertext_bytes''),
     (''client_encryption_algorithm'', dget encryption ''algorithm''),
     (''client_encryption_key_ref'', dget encryption ''key_ref''),
     (''provider_request_ref'', dget provider ''provider_request_ref''),
     (''provider_version_ref'', dget provider ''provider_version_ref''),
     (''encryption_mode'', PStr ''IAC_MANAGED_AUTHENTICATED_ENCRYPTION_PLUS_PROVIDER_AES256''),
     (''encryption_verified'', PBool True), (''object_lock_mode'', dget provider ''object_lock_mode''),
     (''object_lock_verified'', dget provider ''object_lock_verified''),
     (''retention_days'', dget provider ''retention_days''), (''uploaded_at'', dget provider ''uploaded_at''),
     (''retain_until'', dget provider ''retain_until''), (''network_performed'', dget provider ''network_performed''),
     (''uploaded'', dget provider ''uploaded''), (''overwrite_performed'', dget provider ''overwrite_performed''),
     (''restore_authorized'', dget provider ''restore_authorized''), (''credentials_persisted'', PBool False),
     (''source_path_included'', PBool False)]"

definition build_upload_receipt ::
  "(string \<Rightarrow> string) \<Rightarrow> pydict \<Rightarrow> pydict \<Rightarrow> pydict \<Rightarrow> runtime_config \<Rightarrow> exn + pydict" where
  "build_upload_receipt sha provider encryption plan config =
     (if \<not> fields_are provider PROVIDER_UPLOAD_FIELDS \<or> secret_findings (PDict provider) \<noteq> []
      then execution_error ''Provider upload evidence is incomplete or unsafe''
      else if \<not> matches provider (provider_requirements plan encryption config)
      then execution_error ''Provider upload evidence does not match the exact plan''
      else
        let receipt = upload_receipt provider encryption plan in
        verify_backup_upload_receipt sha
          (PDict (receipt @ [(''receipt_sha256'', PStr (sha (dumps (PDict receipt))))])) (PDict plan))"

section \<open>Execution\<close>

record upload_ports =
  up_manifest_probe :: "string \<Rightarrow> file_probe"
  up_encrypt :: "string \<Rightarrow> pydict \<Rightarrow> string \<Rightarrow> exn + artifact"
  up_artifact_probe :: "string \<Rightarrow> file_probe"
  up_upload :: "artifact \<Rightarrow> pydict \<Rightarrow> runtime_config \<Rightarrow> exn + pydict"

text \<open>Everything up to the call of the upload port: the artifact, its evidence and the plan.\<close>

definition prepare_upload ::
  "transfer_row \<Rightarrow> pyval \<Rightarrow> string \<Rightarrow> runtime_config \<Rightarrow> upload_ports \<Rightarrow> transfer_row py \<Rightarrow>
   (artifact \<times> pydict \<times> pydict) py" where
  "prepare_upload claimed manifest worker_id config ports guard =
     bind (validate_claimed_backup_transfer (up_manifest_probe ports) claimed manifest worker_id config) (\<lambda>plan.
     let source_path = sval (dget (dval manifest) ''path'') in
     seq guard
    (bind (lift_result (up_encrypt ports source_path plan (text_or (rc_key config) ''None''))) (\<lambda>a.
     bind (lift_result (verify_encrypted_artifact (up_artifact_probe ports) a plan config source_path)) (\<lambda>encryption.
     seq guard (ret (a, encryption, plan))))))"

text \<open>After the port returned, every failure asks for reconciliation.\<close>

definition finish_upload ::
  "transfer_row py \<Rightarrow> pydict \<Rightarrow> pydict \<Rightarrow> pydict \<Rightarrow> runtime_config \<Rightarrow> pydict py" where
  "finish_upload guard provider encryption plan config =
     try_except
       (seq guard
       (bind (reads w_sha256) (\<lambda>sha.
        lift_result (build_upload_receipt sha provider encryption plan config))))
       (\<lambda>e. raise (BackupExecutionReconciliationRequired
          ''Verified provider write requires manual reconciliation; automatic retry prohibited''))"

definition execute_claimed_backup_transfer ::
  "transfer_row \<Rightarrow> pyval \<Rightarrow> string \<Rightarrow> runtime_config \<Rightarrow> upload_ports \<Rightarrow> transfer_row py \<Rightarrow> pydict py" where
  "execute_claimed_backup_transfer claimed manifest worker_id config ports guard =
     bind (prepare_upload claimed manifest worker_id config ports guard) (\<lambda>(a, encryption, plan).
     bind (lift_result (up_upload ports a plan config)) (\<lambda>provider.
     finish_upload guard provider encryption plan config))"

end
