(* ===== verification/Backup_Activation.thy ===== *)
theory Backup_Activation
  imports Backup_Pilot Backup_Execution
begin

text \<open>
  \<^verbatim>\<open>sean_os/backup_activation.py\<close>: one synthetic, network-free rehearsal of a backup and the
  evidence that binds it to its durable transfer. \<open>activation_host\<close> holds what the file system
  answers in one run, the copied database and its manifest included. The in-memory store that is
  copied is part of those answers.
\<close>

section \<open>The file system\<close>

text \<open>The rows a read-only query finds in the copied database; a payload that is not JSON is \<open>None\<close>.\<close>

record sentinel_row =
  sr_id :: string
  sr_type :: string
  sr_scope :: string
  sr_source :: string
  sr_creator :: string
  sr_payload :: "pyval option"

record sentinel_audit =
  sa_actor :: string
  sa_action :: string
  sa_result :: string
  sa_record :: "string option"

record source_database =
  sd_records :: "sentinel_row list"
  sd_count :: "string \<Rightarrow> nat"
  sd_audits :: "sentinel_audit list"

record activation_host =
  ah_database :: string
  ah_symlink :: "string \<Rightarrow> bool"
  ah_exists :: "string \<Rightarrow> bool"
  ah_resolve :: "string \<Rightarrow> string"
  ah_private_directory :: "string \<Rightarrow> exn + bool"
  ah_backup :: "string \<Rightarrow> exn + pydict"
  ah_write :: "string \<Rightarrow> string \<Rightarrow> exn + unit"
  ah_probe :: "string \<Rightarrow> file_probe"
  ah_source :: "string \<Rightarrow> source_database option"
  ah_sidecar :: "string \<Rightarrow> pyval option"
  ah_private_file :: "string \<Rightarrow> bool"

abbreviation activation_error :: "string \<Rightarrow> exn + 'a" where
  "activation_error m \<equiv> Inl (BackupActivationError m)"

definition ACTIVATION_FORMAT :: string where
  "ACTIVATION_FORMAT = ''sean-os-supervised-synthetic-backup-activation/v1''"

definition ACTIVATION_FIELDS :: "string list" where
  "ACTIVATION_FIELDS = [''format'', ''owner_scope'', ''data_mode'', ''candidate_commit'', ''pilot_package'',
     ''backup_manifest'', ''transfer_plan'', ''synthetic_preflight_receipt'', ''transfer_status'',
     ''non_secret_runtime'', ''managed_variable_names'', ''required_next_gates'', ''network_performed'',
     ''key_created'', ''secret_placed'', ''upload_authorized'', ''restore_authorized'', ''real_data_authorized'',
     ''activation_sha256'']"

definition SYNTHETIC_EMPTY_TABLES :: "string list" where
  "SYNTHETIC_EMPTY_TABLES = [''relationships'', ''project_state'', ''approvals'', ''work_queue'', ''budgets'',
     ''cost_reservations'', ''usage_events'', ''worker_heartbeats'', ''report_runs'', ''schedule_dispatches'',
     ''action_executions'', ''imported_artifacts'', ''coding_deliveries'', ''coding_delivery_requests'',
     ''command_requests'', ''alert_observations'', ''alert_incidents'', ''alert_delivery_outbox'',
     ''backup_transfer_outbox'', ''backup_activation_evidence'']"

text \<open>Paths: \<open>root in path.parents\<close>, \<open>path / name\<close>, and \<open>with_suffix\<close> on the parts of a path.\<close>

definition strictly_inside :: "string \<Rightarrow> string \<Rightarrow> bool" where
  "strictly_inside path base_path = (let p = path_parts path; r = path_parts base_path in
     length r < length p \<and> take (length r) p = r)"

definition child_path :: "string \<Rightarrow> string \<Rightarrow> string" where
  "child_path directory name = directory @ ''/'' @ name"

definition staging_directory :: "activation_host \<Rightarrow> string \<Rightarrow> string \<Rightarrow> exn + string" where
  "staging_directory host path data_root =
     (if ah_symlink host path then activation_error ''Backup staging workspace must not be a symlink''
      else
        let resolved = ah_resolve host path in
        if \<not> strictly_inside resolved (ah_resolve host data_root)
        then activation_error ''Backup staging workspace must be inside the data volume''
        else ebind (ah_private_directory host resolved) (\<lambda>is_private.
          if \<not> is_private then activation_error ''Backup staging workspace must have private permissions''
          else Inr resolved))"

text \<open>\<open>name.rfind('.')\<close> decides what \<open>with_suffix\<close> replaces; an empty name raises.\<close>

definition name_stem :: "string \<Rightarrow> string" where
  "name_stem name =
     (let extension = rev (takeWhile (\<lambda>c. c \<noteq> CHR ''.'') (rev name)); i = length name - length extension in
      if 1 < i \<and> extension \<noteq> [] then take (i - 1) name else name)"

definition with_suffix :: "string list \<Rightarrow> string \<Rightarrow> exn + string list" where
  "with_suffix parts suffix_text =
     (if parts = [] \<or> parts = [''/''] \<or> parts = [''//''] then Inl (ValueError ''path has an empty name'')
      else Inr (butlast parts @ [name_stem (last parts) @ suffix_text]))"

section \<open>The copied database\<close>

definition SENTINEL_PAYLOAD :: pydict where
  "SENTINEL_PAYLOAD = [(''name'', PStr ''Synthetic backup drill sentinel''), (''data_mode'', PStr ''SYNTHETIC_ONLY'')]"

definition check_sentinel :: "sentinel_row \<Rightarrow> exn + unit" where
  "check_sentinel r =
     (if sr_type r \<noteq> ''KNOWLEDGE'' \<or> sr_scope r \<noteq> ''IAC'' \<or> sr_source r \<noteq> ''user'' \<or> sr_creator r \<noteq> ''sean''
      then activation_error ''Synthetic backup sentinel is invalid''
      else case sr_payload r of
        None \<Rightarrow> activation_error ''Synthetic backup source verification failed''
      | Some payload \<Rightarrow>
          if \<not> py_eq payload (PDict SENTINEL_PAYLOAD) then activation_error ''Synthetic backup sentinel is invalid''
          else Inr ())"

definition sentinel_audited :: "sentinel_row \<Rightarrow> sentinel_audit list \<Rightarrow> bool" where
  "sentinel_audited r audits = (case audits of
     [a] \<Rightarrow> sa_actor a = ''sean'' \<and> sa_action a = ''CREATE_RECORD'' \<and> sa_result a = ''ALLOWED'' \<and>
            sa_record a = Some (sr_id r)
   | _ \<Rightarrow> False)"

definition verify_synthetic_source_database :: "activation_host \<Rightarrow> string \<Rightarrow> exn + unit" where
  "verify_synthetic_source_database host path = (case ah_source host path of
     None \<Rightarrow> activation_error ''Synthetic backup source verification failed''
   | Some d \<Rightarrow>
       (case sd_records d of
          [r] \<Rightarrow>
            ebind (check_sentinel r) (\<lambda>_.
            if list_ex (\<lambda>t. sd_count d t \<noteq> 0) SYNTHETIC_EMPTY_TABLES
            then activation_error ''Synthetic backup source contains non-sentinel operational state''
            else if \<not> sentinel_audited r (sd_audits d)
            then activation_error ''Synthetic backup audit sentinel is invalid''
            else Inr ())
        | _ \<Rightarrow> activation_error ''Synthetic backup source must contain exactly one sentinel record''))"

section \<open>The package\<close>

definition ACTIVATION_GATES :: "string list" where
  "ACTIVATION_GATES = [''APPROVE_CANDIDATE_PUSH_AND_RAILWAY_DEPLOYMENT'', ''CREATE_EXACT_BACKBLAZE_WRITER_KEY'',
     ''PLACE_THREE_RAILWAY_MANAGED_VALUES'', ''APPROVE_EXACT_SYNTHETIC_TRANSFER'']"

definition NO_ACTION :: pydict where
  "NO_ACTION = map (\<lambda>k. (k, PBool False)) [''network_performed'', ''key_created'', ''secret_placed'',
     ''upload_authorized'', ''restore_authorized'', ''real_data_authorized'']"

definition ACTIVATION_SAFETY :: pydict where
  "ACTIVATION_SAFETY = [(''format'', PStr ACTIVATION_FORMAT), (''owner_scope'', PStr ''IAC''),
     (''data_mode'', PStr ''SYNTHETIC_IAC_DATABASE_ONLY''), (''transfer_status'', PStr ''PREFLIGHT_VALIDATED'')] @ NO_ACTION"

definition BACKUP_WORKER_ENV_KEYS :: "string list" where
  "BACKUP_WORKER_ENV_KEYS = [''SEAN_OS_BACKUP_BUCKET'', ''SEAN_OS_BACKUP_MANIFEST_PATH'',
     ''SEAN_OS_BACKUP_OUTPUT_DIRECTORY'']"

text \<open>
  The runtime block as an environment. \<open>int\<close> and \<open>float\<close> also take numbers; any other value that
  is not a text acts like a text with a line break, which no check accepts.
\<close>

definition no_text :: string where
  "no_text = [CHR 0x0A]"

definition runtime_text :: "string \<Rightarrow> pyval \<Rightarrow> string" where
  "runtime_text k v =
     (if is_str v then sval v
      else if \<not> truthy v then []
      else if k = ''SEAN_OS_BACKUP_MAX_BYTES'' then (case py_int v of Inl e \<Rightarrow> no_text | Inr i \<Rightarrow> dec_int i)
      else if k = ''SEAN_OS_BACKUP_MAX_COST_CAD'' then (case py_float v of Inl e \<Rightarrow> no_text | Inr x \<Rightarrow> py_str (PFloat x))
      else no_text)"

definition runtime_env :: "pyval \<Rightarrow> environment" where
  "runtime_env v = (\<lambda>k. map_option (runtime_text k) (map_of (dval v) k))"

definition runtime_matches :: "runtime_config \<Rightarrow> pydict \<Rightarrow> bool" where
  "runtime_matches c plan \<longleftrightarrow>
     py_eq (opt_str (rc_destination c)) (dget plan ''destination_ref'') \<and>
     py_eq (opt_str (rc_endpoint c)) (dget plan ''provider_endpoint'') \<and>
     py_eq (opt_str (rc_identity c)) (dget plan ''provider_writer_identity_ref'') \<and>
     py_eq (opt_str (rc_key c)) (dget plan ''client_encryption_key_ref'') \<and>
     py_eq (opt_int (rc_max_bytes c)) (dget plan ''backup_bytes'')"

text \<open>The places of the manifest and of the encrypted copies, and the manifest as it was stored.\<close>

definition activation_paths_ok :: "activation_host \<Rightarrow> pydict \<Rightarrow> pyval \<Rightarrow> string list \<Rightarrow> pyval \<Rightarrow> bool" where
  "activation_paths_ok host runtime manifest expected stored =
     (let manifest_path = py_str (dget_or runtime ''SEAN_OS_BACKUP_MANIFEST_PATH'' (PStr []));
          output_path = py_str (dget_or runtime ''SEAN_OS_BACKUP_OUTPUT_DIRECTORY'' (PStr [])) in
      path_parts manifest_path = expected \<and>
      path_parts output_path = butlast expected @ [''encrypted''] \<and>
      ah_private_file host manifest_path \<and> ah_private_file host (sval (dget (dval manifest) ''path'')) \<and>
      py_eq stored manifest)"

definition check_activation_runtime :: "activation_host \<Rightarrow> pydict \<Rightarrow> pydict \<Rightarrow> exn + unit" where
  "check_activation_runtime host d plan =
     (let runtime_values = dget d ''non_secret_runtime''; runtime = dval runtime_values; manifest = dget d ''backup_manifest'' in
      if \<not> is_dict runtime_values then Inl (AttributeError ''object has no attribute get'')
      else
        ebind (load_backup_runtime_config (runtime_env runtime_values)) (\<lambda>config.
        ebind (with_suffix (path_parts (sval (dget (dval manifest) ''path''))) ''.manifest.json'') (\<lambda>expected.
        case ah_sidecar host (py_str (dget_or runtime ''SEAN_OS_BACKUP_MANIFEST_PATH'' (PStr []))) of
          None \<Rightarrow> activation_error ''Synthetic activation manifest sidecar is invalid''
        | Some stored \<Rightarrow>
            if \<not> fields_are runtime (EXECUTION_ENV_KEYS @ BACKUP_WORKER_ENV_KEYS) \<or>
               \<not> runtime_matches config plan \<or>
               dget runtime ''SEAN_OS_BACKUP_BUCKET'' \<noteq> PStr BACKBLAZE_BUCKET \<or>
               \<not> activation_paths_ok host runtime manifest expected stored \<or>
               dget d ''managed_variable_names'' \<noteq> PList (map PStr MANAGED_SECRET_VARIABLES) \<or>
               dget d ''required_next_gates'' \<noteq> PList (map PStr ACTIVATION_GATES)
            then activation_error ''Synthetic activation runtime does not match its plan''
            else Inr ())))"

definition verify_supervised_synthetic_backup_activation ::
  "(string \<Rightarrow> string) \<Rightarrow> activation_host \<Rightarrow> pyval \<Rightarrow> exn + pydict" where
  "verify_supervised_synthetic_backup_activation sha host package =
     (let d = dval package in
      if \<not> is_dict package \<or> \<not> fields_are d ACTIVATION_FIELDS
      then activation_error ''Synthetic activation fields are unsupported''
      else if dget d ''activation_sha256'' \<noteq> PStr (digest_envelope sha d ''activation_sha256'')
      then activation_error ''Synthetic activation package is invalid or modified''
      else if secret_findings (PDict (filter (\<lambda>(k, v). k \<noteq> ''activation_sha256'') d)) \<noteq> []
      then activation_error ''Synthetic activation package contains secret-like material''
      else if \<not> matches d ACTIVATION_SAFETY
      then activation_error ''Synthetic activation violates the safety contract''
      else
        ebind (verify_supervised_backup_pilot_package sha (dget d ''pilot_package'')) (\<lambda>pilot.
        if \<not> py_eq (dget pilot ''candidate_commit'') (dget d ''candidate_commit'')
        then activation_error ''Synthetic activation candidate does not match its pilot''
        else
          ebind (verify_local_iac_backup_manifest (ah_probe host) (dget d ''backup_manifest'')) (\<lambda>evidence.
          ebind (verify_synthetic_source_database host (sval (dget (dval (dget d ''backup_manifest'')) ''path''))) (\<lambda>_.
          ebind (verify_backup_transfer_plan sha (dget d ''transfer_plan'') (dget pilot ''drill_approval_package'')) (\<lambda>plan.
          ebind (verify_synthetic_backup_adapter_receipt sha (dget d ''synthetic_preflight_receipt'')) (\<lambda>preflight.
          if \<not> py_eq (dget plan ''plan_sha256'') (dget preflight ''plan_sha256'') \<or>
             \<not> py_eq (dget plan ''backup_sha256'') (dget evidence ''backup_sha256'') \<or>
             \<not> py_eq (dget plan ''backup_bytes'') (dget evidence ''backup_bytes'')
          then activation_error ''Synthetic activation evidence does not match''
          else ebind (check_activation_runtime host d plan) (\<lambda>_. Inr (canon_dict d))))))))"

section \<open>The durable evidence\<close>

text \<open>A column that holds a truth value as an integer.\<close>

definition int_flag :: "bool \<Rightarrow> pyval" where
  "int_flag b = PInt (if b then 1 else 0)"

text \<open>\<open>dict(row)\<close>: the payload column holds the canonical text.\<close>

definition evidence_dict :: "activation_row \<Rightarrow> pydict" where
  "evidence_dict r =
     [(''plan_sha256'', PStr (ac_plan r)), (''activation_sha256'', PStr (ac_sha256 r)),
      (''activation_format'', PStr (ac_format r)), (''candidate_commit'', PStr (ac_commit r)),
      (''data_mode'', PStr (ac_mode r)), (''backup_sha256'', PStr (ac_backup_sha256 r)),
      (''backup_bytes'', PInt (ac_backup_bytes r)), (''activation_payload'', PStr (dumps (ac_payload r))),
      (''network_performed'', int_flag (ac_network r)), (''key_created'', int_flag (ac_key r)),
      (''secret_placed'', int_flag (ac_secret r)), (''upload_authorized'', int_flag (ac_upload r)),
      (''restore_authorized'', int_flag (ac_restore r)), (''real_data_authorized'', int_flag (ac_real r)),
      (''recorded_at'', PStr (ac_at r))]"

definition EVIDENCE_SAFETY :: pydict where
  "EVIDENCE_SAFETY = [(''activation_format'', PStr ACTIVATION_FORMAT),
     (''data_mode'', PStr ''SYNTHETIC_IAC_DATABASE_ONLY''), (''network_performed'', PInt 0), (''key_created'', PInt 0),
     (''secret_placed'', PInt 0), (''upload_authorized'', PInt 0), (''restore_authorized'', PInt 0),
     (''real_data_authorized'', PInt 0)]"

fun is_value_error :: "exn \<Rightarrow> bool" where
  "is_value_error (AuthorizationError m) = False"
| "is_value_error (PolicyDenied m a) = False"
| "is_value_error (BridgeDenied m) = False"
| "is_value_error (KeyError m) = False"
| "is_value_error (AttributeError m) = False"
| "is_value_error (OverflowError m) = False"
| "is_value_error (IntegrityError m) = False"
| "is_value_error (OperationalError m) = False"
| "is_value_error (DatabaseError m) = False"
| "is_value_error (MigrationGuardError m) = False"
| "is_value_error (PortError c m) = False"
| "is_value_error (TypeError m) = False"
| "is_value_error e = True"

definition stored_activation_error :: "exn \<Rightarrow> exn" where
  "stored_activation_error e =
     (if is_value_error e \<or> (case e of TypeError m \<Rightarrow> True | _ \<Rightarrow> False)
      then BackupActivationError ''Stored synthetic activation payload is invalid'' else e)"

definition evidence_valid :: "activation_row \<Rightarrow> pydict \<Rightarrow> bool" where
  "evidence_valid r activation \<longleftrightarrow>
     (let evidence = evidence_dict r; plan = dval (dget activation ''transfer_plan'') in
      matches evidence EVIDENCE_SAFETY \<and>
      list_all (\<lambda>k. is_sha256 (dget evidence k)) [''plan_sha256'', ''activation_sha256'', ''backup_sha256''] \<and>
      rx_fullmatch COMMIT_RX (ac_commit r) \<and> 0 < ac_backup_bytes r \<and>
      py_eq (dget activation ''activation_sha256'') (PStr (ac_sha256 r)) \<and>
      py_eq (dget activation ''candidate_commit'') (PStr (ac_commit r)) \<and>
      py_eq (dget activation ''data_mode'') (PStr (ac_mode r)) \<and>
      py_eq (dget plan ''plan_sha256'') (PStr (ac_plan r)) \<and>
      py_eq (dget plan ''backup_sha256'') (PStr (ac_backup_sha256 r)) \<and>
      py_eq (dget plan ''backup_bytes'') (PInt (ac_backup_bytes r)) \<and>
      secret_findings (PDict evidence) = [])"

definition check_evidence :: "(string \<Rightarrow> string) \<Rightarrow> activation_host \<Rightarrow> activation_row \<Rightarrow> exn + activation_row" where
  "check_evidence sha host r =
     (case verify_supervised_synthetic_backup_activation sha host (canon (ac_payload r)) of
        Inl e \<Rightarrow> Inl (stored_activation_error e)
      | Inr activation \<Rightarrow>
          if evidence_valid r activation then Inr r
          else activation_error ''Stored synthetic activation evidence is invalid'')"

definition get_activation_evidence :: "activation_host \<Rightarrow> actor \<Rightarrow> string \<Rightarrow> activation_row py" where
  "get_activation_evidence host actor plan_sha256 =
     seq (authorize actor ''IAC'' [] ''read'')
    (bind (table db_activations) (\<lambda>rows.
     case row_by ac_plan plan_sha256 rows of
       None \<Rightarrow> raise (BackupActivationError ''Backup transfer lacks verified synthetic activation evidence'')
     | Some r \<Rightarrow> bind (reads w_sha256) (\<lambda>sha. lift_result (check_evidence sha host r))))"

definition activation_evidence :: "pydict \<Rightarrow> string \<Rightarrow> activation_row" where
  "activation_evidence verified stamp =
     (let plan = dval (dget verified ''transfer_plan'') in
      \<lparr>ac_plan = sval (dget plan ''plan_sha256''), ac_sha256 = sval (dget verified ''activation_sha256''),
       ac_format = sval (dget verified ''format''), ac_commit = sval (dget verified ''candidate_commit''),
       ac_mode = sval (dget verified ''data_mode''), ac_backup_sha256 = sval (dget plan ''backup_sha256''),
       ac_backup_bytes = ival (dget plan ''backup_bytes''), ac_payload = PDict verified,
       ac_network = truthy (dget verified ''network_performed''), ac_key = truthy (dget verified ''key_created''),
       ac_secret = truthy (dget verified ''secret_placed''), ac_upload = truthy (dget verified ''upload_authorized''),
       ac_restore = truthy (dget verified ''restore_authorized''),
       ac_real = truthy (dget verified ''real_data_authorized''), ac_at = stamp\<rparr>)"

text \<open>The \<open>CHECK\<close> constraints of the table.\<close>

definition activation_checks :: "activation_row \<Rightarrow> bool" where
  "activation_checks r \<longleftrightarrow>
     length (ac_sha256 r) = 64 \<and> ac_format r = ACTIVATION_FORMAT \<and> length (ac_commit r) = 40 \<and>
     ac_mode r = ''SYNTHETIC_IAC_DATABASE_ONLY'' \<and> length (ac_backup_sha256 r) = 64 \<and> 0 < ac_backup_bytes r \<and>
     \<not> ac_network r \<and> \<not> ac_key r \<and> \<not> ac_secret r \<and> \<not> ac_upload r \<and> \<not> ac_restore r \<and> \<not> ac_real r"

definition insert_activation :: "activation_row \<Rightarrow> unit py" where
  "insert_activation r =
     bind (table db_activations) (\<lambda>rows.
     if \<not> activation_checks r then reject ''CHECK constraint failed''
     else if list_ex (\<lambda>x. ac_sha256 x = ac_sha256 r) rows then reject ''UNIQUE constraint failed''
     else sql_insert_new db_activations db_activations_update ac_plan r)"

definition same_evidence :: "activation_row \<Rightarrow> activation_row \<Rightarrow> bool" where
  "same_evidence r s \<longleftrightarrow>
     (let stable = filter (\<lambda>(k, v). k \<noteq> ''recorded_at'') in
      py_eq (PDict (stable (evidence_dict r))) (PDict (stable (evidence_dict s))))"

definition record_activation :: "activation_host \<Rightarrow> actor \<Rightarrow> pyval \<Rightarrow> activation_row py" where
  "record_activation host actor package =
     bind (reads w_sha256) (\<lambda>sha.
     bind (lift_result (verify_supervised_synthetic_backup_activation sha host package)) (\<lambda>verified.
     let plan = dval (dget verified ''transfer_plan''); plan_sha256 = sval (dget plan ''plan_sha256'') in
     bind (get_backup_transfer actor plan_sha256) (\<lambda>transfer.
     seq (authorize actor ''IAC'' [] ''write'')
    (seq (raise_if (bx_status transfer \<noteq> OB_PREFLIGHT \<or> tr_proposal transfer \<noteq> sval (dget plan ''proposal_sha256'') \<or>
                    \<not> py_eq (case tr_preflight transfer of None \<Rightarrow> PNone | Some p \<Rightarrow> p)
                        (dget verified ''synthetic_preflight_receipt''))
            (BackupActivationError ''Synthetic activation does not match the durable preflight state''))
    (bind (table db_activations) (\<lambda>rows.
     case row_by ac_plan plan_sha256 rows of
       Some existing \<Rightarrow>
         seq (raise_if (\<not> same_evidence existing (activation_evidence verified []))
                (BackupActivationError ''Backup plan is already bound to different activation evidence''))
             (get_activation_evidence host actor plan_sha256)
     | None \<Rightarrow>
         bind now (\<lambda>stamp.
         seq (insert_activation (activation_evidence verified stamp))
        (seq commit
        (seq (audit actor ''RECORD_SYNTHETIC_BACKUP_ACTIVATION'' AU_ALLOWED
                ''Verified synthetic-only activation bound to exact backup plan'' None
                [(''scope'', PStr ''IAC''), (''plan_sha256'', PStr plan_sha256),
                 (''activation_sha256'', dget verified ''activation_sha256''), (''data_mode'', dget verified ''data_mode''),
                 (''network_performed'', PBool False), (''upload_authorized'', PBool False),
                 (''real_data_authorized'', PBool False)])
         (get_activation_evidence host actor plan_sha256))))))))))"

section \<open>Preparation\<close>

definition write_private_json :: "activation_host \<Rightarrow> string \<Rightarrow> pydict \<Rightarrow> exn + unit" where
  "write_private_json host path value = ah_write host path (dumps (PDict value) @ [CHR 0x0A])"

record staging =
  sg_source :: string
  sg_manifest :: string
  sg_activation :: string
  sg_output :: string

definition staging_paths :: "string \<Rightarrow> string \<Rightarrow> datetime \<Rightarrow> staging" where
  "staging_paths workspace candidate_commit start =
     (let pre = ''synthetic-'' @ take 12 candidate_commit @ ''-'' @ compact_stamp (fst start) in
      \<lparr>sg_source = child_path workspace (pre @ ''.db''), sg_manifest = child_path workspace (pre @ ''.manifest.json''),
       sg_activation = child_path workspace (pre @ ''.activation.json''), sg_output = child_path workspace ''encrypted''\<rparr>)"

text \<open>Everything before the store is written: the workspace, the copy, its manifest, plan and receipt.\<close>

definition stage_source ::
  "(string \<Rightarrow> string) \<Rightarrow> activation_host \<Rightarrow> string \<Rightarrow> string \<Rightarrow> string \<Rightarrow> string \<Rightarrow>
   exn + (staging \<times> pydict \<times> pydict \<times> pydict \<times> pydict)" where
  "stage_source sha host workspace candidate_commit window_start window_end =
     ebind (staging_directory host workspace (ah_database host)) (\<lambda>directory.
     ebind (build_supervised_backup_pilot_package sha (PStr candidate_commit) (PStr window_start) (PStr window_end)) (\<lambda>pilot.
     ebind (fromisoformat window_start) (\<lambda>start.
     let paths = staging_paths directory candidate_commit start in
     if list_ex (\<lambda>p. ah_exists host p \<or> ah_symlink host p) [sg_source paths, sg_manifest paths, sg_activation paths]
     then activation_error ''Synthetic activation artifacts must not already exist''
     else
       ebind (ah_backup host (sg_source paths)) (\<lambda>manifest.
       ebind (write_private_json host (sg_manifest paths) manifest) (\<lambda>_.
       ebind (build_backup_transfer_plan sha (ah_probe host) (dget pilot ''drill_approval_package'') (PDict manifest)
                (dget pilot ''object_ref'') (PStr BACKBLAZE_ENDPOINT) (PStr WRITER_IDENTITY_REF) (PStr ENCRYPTION_KEY_REF)) (\<lambda>plan.
       ebind (synthetic_backup_adapter_receipt sha (PDict plan) (dget pilot ''drill_approval_package'')) (\<lambda>preflight.
       Inr (paths, pilot, manifest, plan, preflight))))))))"

definition activation_runtime :: "staging \<Rightarrow> pydict \<Rightarrow> pydict" where
  "activation_runtime paths plan = PILOT_RUNTIME @
     [(''SEAN_OS_BACKUP_MAX_BYTES'', PStr (py_str (dget plan ''backup_bytes''))),
      (''SEAN_OS_BACKUP_BUCKET'', PStr BACKBLAZE_BUCKET), (''SEAN_OS_BACKUP_MANIFEST_PATH'', PStr (sg_manifest paths)),
      (''SEAN_OS_BACKUP_OUTPUT_DIRECTORY'', PStr (sg_output paths))]"

definition activation_package ::
  "string \<Rightarrow> pydict \<Rightarrow> pydict \<Rightarrow> pydict \<Rightarrow> pydict \<Rightarrow> string \<Rightarrow> pydict \<Rightarrow> pydict" where
  "activation_package candidate_commit pilot manifest plan preflight status runtime =
     [(''format'', PStr ACTIVATION_FORMAT), (''owner_scope'', PStr ''IAC''),
      (''data_mode'', PStr ''SYNTHETIC_IAC_DATABASE_ONLY''), (''candidate_commit'', PStr candidate_commit),
      (''pilot_package'', PDict pilot), (''backup_manifest'', PDict manifest), (''transfer_plan'', PDict plan),
      (''synthetic_preflight_receipt'', PDict preflight), (''transfer_status'', PStr status),
      (''non_secret_runtime'', PDict runtime), (''managed_variable_names'', PList (map PStr MANAGED_SECRET_VARIABLES)),
      (''required_next_gates'', PList (map PStr ACTIVATION_GATES))] @ NO_ACTION"

text \<open>The package from the staged transfer, written beside the copy and verified.\<close>

definition seal_activation ::
  "(string \<Rightarrow> string) \<Rightarrow> activation_host \<Rightarrow> staging \<Rightarrow> pydict \<Rightarrow> pydict \<Rightarrow> exn + pydict" where
  "seal_activation sha host paths runtime unsigned =
     ebind (load_backup_runtime_config (runtime_env (PDict runtime))) (\<lambda>_.
     if secret_findings (PDict unsigned) \<noteq> []
     then activation_error ''Synthetic activation package contains secret-like material''
     else
       let package = unsigned @ [(''activation_sha256'', PStr (sha (dumps (PDict unsigned))))] in
       ebind (write_private_json host (sg_activation paths) package) (\<lambda>_.
       verify_supervised_synthetic_backup_activation sha host (PDict package)))"

definition prepare_activation ::
  "activation_host \<Rightarrow> string \<Rightarrow> string \<Rightarrow> string \<Rightarrow> string \<Rightarrow> pydict py" where
  "prepare_activation host workspace candidate_commit window_start window_end =
     bind (reads w_profile) (\<lambda>profile.
     seq (raise_if (profile \<noteq> ''IAC'') (BackupActivationError ''Backup activation requires an IAC database profile''))
    (bind (reads w_sha256) (\<lambda>sha.
     bind (lift_result (stage_source sha host workspace candidate_commit window_start window_end)) (\<lambda>(paths, pilot, manifest, plan, preflight).
     seq (stage_backup_transfer sean (PDict plan) (dget pilot ''drill_approval_package''))
    (bind (record_backup_transfer_preflight sean (sval (dget plan ''plan_sha256'')) (PDict preflight)) (\<lambda>staged.
     let runtime = activation_runtime paths plan in
     bind (lift_result (seal_activation sha host paths runtime
             (activation_package candidate_commit pilot manifest plan preflight
                (outbox_name ''COMPLETED'' (bx_status staged)) runtime))) (\<lambda>verified.
     seq (record_activation host sean (PDict verified)) (ret verified))))))))"

section \<open>The laws\<close>

lemma reader_get_activation_evidence: "reader (get_activation_evidence host actor plan_sha256)"
  unfolding get_activation_evidence_def by (intro reader_intros reader_authorize)

lemma lawful_get_activation_evidence [legal_ops]: "lawful prof P (get_activation_evidence host actor plan_sha256)"
  by (rule store.lawful_reader, rule reader_get_activation_evidence)

lemma lawful_insert_activation [legal_ops]: "lawful prof P (insert_activation r)"
  unfolding insert_activation_def
proof (intro op_rules legal_ops, goal_cases)
  case (1 rows d)
  then show ?case
    unfolding store_le_table
    by (intro activations.step_insert) (auto simp: activation_ok_def activation_checks_def)
qed

lemma lawful_record_activation [legal_ops]: "lawful prof P (record_activation host actor package)"
  unfolding record_activation_def by (intro op_rules legal_ops)

lemma lawful_prepare_activation [legal_ops]:
  "lawful prof P (prepare_activation host workspace candidate_commit window_start window_end)"
  unfolding prepare_activation_def by (intro op_rules legal_ops)

end
