(* ===== verification/Commands.thy ===== *)
theory Commands
  imports Store_Rules Store_Work Store_Deliveries Store_Transfers Py_Dynamic
begin

text \<open>
  \<^verbatim>\<open>sean_os/commands.py\<close>: the command interface. A command is checked against the table of
  exposed commands, hashed, and queued once per external request id; it is never executed inline.
  The other operations of the gateway are guarded calls of the store.
\<close>

section \<open>The exposed commands\<close>

record command_spec =
  cs_action :: string
  cs_required :: "string list"
  cs_optional :: "string list"

definition COMMANDS :: "(string \<times> command_spec) list" where
  "COMMANDS = [
     (''CREATE_RECORD'', \<lparr>cs_action = ''CREATE_IAC_RECORD'',
        cs_required = [''entity_type'', ''payload''],
        cs_optional = [''confidence'', ''effective_at'', ''expires_at'', ''retention_rule'']\<rparr>),
     (''UPDATE_RECORD'', \<lparr>cs_action = ''UPDATE_IAC_RECORD'',
        cs_required = [''record_id'', ''payload'', ''expected_version''], cs_optional = []\<rparr>),
     (''LINK_RECORDS'', \<lparr>cs_action = ''LINK_IAC_RECORDS'',
        cs_required = [''from_record_id'', ''relationship_type'', ''to_record_id''], cs_optional = []\<rparr>),
     (''CAPTURE_IDEA'', \<lparr>cs_action = ''CAPTURE_IAC_IDEA'',
        cs_required = [''name'', ''hypothesis'', ''evidence''], cs_optional = []\<rparr>),
     (''EVALUATE_IDEA'', \<lparr>cs_action = ''EVALUATE_IAC_IDEA'',
        cs_required = [''idea_id'', ''evidence_strength'', ''recommendation''], cs_optional = []\<rparr>),
     (''CREATE_IAC_GOAL'', \<lparr>cs_action = ''CREATE_IAC_GOAL'',
        cs_required = [''name'', ''success_metric''], cs_optional = []\<rparr>),
     (''CREATE_PROJECT'', \<lparr>cs_action = ''CHIEF_CREATE_PROJECT'',
        cs_required = [''goal_id'', ''name'', ''tasks'', ''success_metric'', ''stop_condition''],
        cs_optional = [''idea_id'', ''portfolio_metrics'']\<rparr>),
     (''REVIEW_PORTFOLIO'', \<lparr>cs_action = ''CHIEF_REVIEW_PORTFOLIO'',
        cs_required = [''project_ids''], cs_optional = [''capacity_limit'', ''low_fit_threshold'']\<rparr>),
     (''QUALIFY_REVENUE'', \<lparr>cs_action = ''REVENUE_QUALIFY'',
        cs_required = [''signal_id'', ''goal_id'', ''account_alias'', ''icp_fit'', ''urgency'',
          ''evidence_strength'', ''estimated_value'', ''synthetic''], cs_optional = []\<rparr>),
     (''COMPARE_REVENUE_PORTFOLIO'', \<lparr>cs_action = ''REVENUE_COMPARE_PORTFOLIO'',
        cs_required = [''goal_id'', ''candidates''], cs_optional = [''research_capacity'']\<rparr>),
     (''IMPORT_CLAUDE_ARTIFACT'', \<lparr>cs_action = ''IMPORT_CLAUDE_ARTIFACT'',
        cs_required = [''external_id'', ''content'', ''source_uri'', ''captured_at'', ''synthetic''],
        cs_optional = [''metadata'']\<rparr>),
     (''REGISTER_CODING_DELIVERY'', \<lparr>cs_action = ''REGISTER_CODING_DELIVERY'',
        cs_required = [''external_id'', ''project_id'', ''task_id'', ''repository'', ''base_revision'',
          ''branch_name'', ''review_ref'', ''summary'', ''changed_paths'', ''test_results'',
          ''activity_units'', ''estimated_cost_units'', ''synthetic''], cs_optional = []\<rparr>),
     (''GENERATE_REPORT'', \<lparr>cs_action = ''GENERATE_OPERATIONAL_REPORT'',
        cs_required = [''cadence''], cs_optional = [''period_key'']\<rparr>),
     (''REQUEST_CUSTOMER_CONTACT_APPROVAL'', \<lparr>cs_action = ''REQUEST_CUSTOMER_CONTACT_APPROVAL'',
        cs_required = [''target'', ''draft_record_id'', ''max_impact'', ''expires_at''], cs_optional = []\<rparr>)]"

section \<open>Submission\<close>

record submission =
  su_work :: string
  su_deduplicated :: bool
  su_status :: string

definition command_status :: "actor \<Rightarrow> string \<Rightarrow> string py" where
  "command_status actor work_id =
     bind (table db_commands) (\<lambda>commands. bind (table db_work) (\<lambda>items.
     case (if list_ex (\<lambda>c. cq_work c = work_id \<and> cq_by c = actor_id actor) commands
           then row_by wk_id work_id items else None) of
       None \<Rightarrow> raise (AuthorizationError ''Command is not visible to this interface principal'')
     | Some row \<Rightarrow> ret (work_status_str (wk_status row))))"

definition check_fields :: "command_spec \<Rightarrow> pydict \<Rightarrow> exn + unit" where
  "check_fields spec payload =
     (let fields = map fst payload;
          missing = filter (\<lambda>f. \<not> List.member fields f) (cs_required spec);
          extras = filter (\<lambda>f. \<not> List.member (cs_required spec) f \<and> \<not> List.member (cs_optional spec) f) fields
      in if missing \<noteq> [] \<or> extras \<noteq> []
         then Inl (ValidationError (''Command fields invalid; missing='' @ repr_list (sort missing) @
                '', extra='' @ repr_list (sort extras)))
         else Inr ())"

definition canonical_command :: "string \<Rightarrow> string \<Rightarrow> pydict \<Rightarrow> string" where
  "canonical_command command scope payload =
     dumps (PDict [(''command_type'', PStr command), (''scope'', PStr scope), (''payload'', PDict payload)])"

text \<open>The request of an earlier coding delivery with the same external id, and who submitted it.\<close>

definition find_delivery_request ::
  "string option \<Rightarrow> coding_request_row list \<Rightarrow> command_row list \<Rightarrow> (coding_request_row \<times> command_row) option"
where
  "find_delivery_request external requests commands =
     (if external = None then None
      else find (\<lambda>(d, c). cd_external d = external \<and> cq_work c = cd_work d)
             (concat (map (\<lambda>d. map (Pair d) commands) requests)))"

definition insert_delivery_request :: "string option \<Rightarrow> string \<Rightarrow> string \<Rightarrow> string \<Rightarrow> unit py" where
  "insert_delivery_request external digest work_id stamp =
     bind (table db_coding_requests) (\<lambda>rows.
     if external \<noteq> None \<and> list_ex (\<lambda>r. cd_external r = external) rows
     then reject ''UNIQUE constraint failed: coding_delivery_requests.external_id''
     else sql_insert_new db_coding_requests db_coding_requests_update cd_work
            \<lparr>cd_external = external, cd_sha256 = digest, cd_work = work_id, cd_at = stamp\<rparr>)"

definition queue_command ::
  "actor \<Rightarrow> string \<Rightarrow> string \<Rightarrow> string \<Rightarrow> command_spec \<Rightarrow> pydict \<Rightarrow> string \<Rightarrow> string \<Rightarrow> string \<Rightarrow> string \<Rightarrow>
   unit py"
where
  "queue_command actor external_id command scope spec payload digest request_id work_id stamp =
     seq begin_immediate
    (seq (sql_insert_new db_work db_work_update wk_id
            \<lparr>wk_id = work_id, wk_type = cs_action spec, wk_scope = scope,
             wk_payload = PDict (canon_dict payload), wk_status = WK_QUEUED,
             wk_priority = 100, wk_attempts = 0, wk_max = 3,
             wk_available_at = stamp, wk_owner = None, wk_lease = None,
             wk_error = None, wk_created_at = stamp, wk_updated_at = stamp\<rparr>)
    (bind (table db_commands) (\<lambda>rows.
     seq (if list_ex (\<lambda>r. cq_id r = request_id) rows
          then reject ''UNIQUE constraint failed: command_requests.id''
          else sql_insert_new db_commands db_commands_update cq_external
            \<lparr>cq_id = request_id, cq_external = external_id, cq_sha256 = digest, cq_by = actor_id actor,
             cq_scope = scope, cq_type = command, cq_work = work_id, cq_at = stamp\<rparr>)
    (seq (if command = ''REGISTER_CODING_DELIVERY'' then
            bind (lift_result (text_column (dget payload ''external_id''))) (\<lambda>external.
            insert_delivery_request external digest work_id stamp)
          else ret ())
      commit))))"

definition queue_new ::
  "actor \<Rightarrow> string \<Rightarrow> string \<Rightarrow> string \<Rightarrow> command_spec \<Rightarrow> pydict \<Rightarrow> string \<Rightarrow> submission py"
where
  "queue_new actor external_id command scope spec payload digest =
     bind uuid4 (\<lambda>request_id. bind uuid4 (\<lambda>work_id. bind now (\<lambda>stamp.
     seq (try_except
            (queue_command actor external_id command scope spec payload digest request_id work_id stamp)
            (\<lambda>e. seq rollback (raise e)))
    (seq (record_policy_decision actor (Some work_id) True ''Whitelisted interface command queued''
            [(''command_type'', PStr command), (''external_request_id'', PStr external_id)])
      (ret \<lparr>su_work = work_id, su_deduplicated = False, su_status = ''QUEUED''\<rparr>)))))"

definition queue_delivery ::
  "actor \<Rightarrow> string \<Rightarrow> string \<Rightarrow> string \<Rightarrow> command_spec \<Rightarrow> pydict \<Rightarrow> string \<Rightarrow> submission py"
where
  "queue_delivery actor external_id command scope spec payload digest =
     bind (lift_result (text_column (dget payload ''external_id''))) (\<lambda>external.
     bind (table db_coding_requests) (\<lambda>requests. bind (table db_commands) (\<lambda>commands.
     case find_delivery_request external requests commands of
       None \<Rightarrow> queue_new actor external_id command scope spec payload digest
     | Some (d, c) \<Rightarrow>
         seq (raise_if (cq_by c \<noteq> actor_id actor)
                (AuthorizationError ''Coding delivery is not visible to this principal''))
        (seq (raise_if (cd_sha256 d \<noteq> digest)
                (ValidationError ''Coding delivery ID was reused with different request content''))
        (bind (command_status actor (cd_work d)) (\<lambda>status.
         ret \<lparr>su_work = cd_work d, su_deduplicated = True, su_status = status\<rparr>))))))"

definition submit :: "actor \<Rightarrow> string \<Rightarrow> string \<Rightarrow> pydict \<Rightarrow> string \<Rightarrow> submission py" where
  "submit actor external_id command_type payload scope =
     seq (raise_if (scope \<noteq> ''IAC'')
            (AuthorizationError ''v0.1 command interface is isolated to IAC scope''))
    (seq (authorize actor scope [] ''write'')
    (let command = upper command_type in
     case map_of COMMANDS command of
       None \<Rightarrow> raise (AuthorizationError ''Command type is not exposed by the interface'')
     | Some spec \<Rightarrow>
         seq (raise_if (blank external_id) (ValidationError ''External request ID is required''))
        (bind (lift_result (check_fields spec payload)) (\<lambda>_.
         let findings = secret_findings (PDict payload) in
         seq (raise_if (findings \<noteq> []) (ValidationError
                (''Secret-like material is prohibited in durable command payloads: '' @
                 join '', '' (map f_path findings))))
        (bind (sha256 (canonical_command command scope payload)) (\<lambda>digest.
         bind (table db_commands) (\<lambda>commands.
         case row_by cq_external external_id commands of
           Some existing \<Rightarrow>
             seq (raise_if (cq_sha256 existing \<noteq> digest)
                    (ValidationError ''Request ID was reused with different command content''))
            (bind (command_status actor (cq_work existing)) (\<lambda>status.
             ret \<lparr>su_work = cq_work existing, su_deduplicated = True, su_status = status\<rparr>))
         | None \<Rightarrow>
             if command = ''REGISTER_CODING_DELIVERY''
             then queue_delivery actor external_id command scope spec payload digest
             else queue_new actor external_id command scope spec payload digest)))))))"

section \<open>The rest of the gateway\<close>

definition command_result :: "actor \<Rightarrow> string \<Rightarrow> pyval option py" where
  "command_result actor work_id =
     bind (table db_commands) (\<lambda>commands. bind (table db_work) (\<lambda>items.
     case (if list_ex (\<lambda>c. cq_work c = work_id \<and> cq_by c = actor_id actor) commands
           then row_by wk_id work_id items else None) of
       None \<Rightarrow> raise (AuthorizationError ''Command is not visible to this interface principal'')
     | Some row \<Rightarrow>
         if wk_status row \<noteq> WK_SUCCEEDED then ret None
         else completed_action_result work_id (wk_type row)))"

definition gateway_get_record :: "actor \<Rightarrow> string \<Rightarrow> (rec_row \<times> currentness) py" where
  "gateway_get_record actor record_id = get_record actor record_id"

definition gateway_list_records :: "actor \<Rightarrow> string option \<Rightarrow> (rec_row \<times> currentness) list py" where
  "gateway_list_records actor entity_type = list_records actor entity_type"

definition audit_trace :: "actor \<Rightarrow> int \<Rightarrow> audit_row list py" where
  "audit_trace actor limit = scoped_audit_events actor limit"

definition iac_only :: "string \<Rightarrow> string \<Rightarrow> unit py" where
  "iac_only scope interface = raise_if (scope \<noteq> ''IAC'')
     (AuthorizationError (''v0.1 '' @ interface @ '' interface is isolated to IAC scope''))"

definition sean_only :: "actor \<Rightarrow> string \<Rightarrow> unit py" where
  "sean_only actor what = raise_if (\<not> actor_is_sean actor)
     (AuthorizationError (''Only Sean's authenticated interface may '' @ what))"

definition active_incidents :: "actor \<Rightarrow> string \<Rightarrow> incident_row list py" where
  "active_incidents actor scope =
     seq (iac_only scope ''incident'')
    (bind (active_alert_incidents actor scope) (\<lambda>incidents.
     seq (record_policy_decision actor None True ''Scoped active incidents returned''
            [(''scope'', PStr scope), (''incident_count'', PInt (int (length incidents)))])
      (ret incidents)))"

definition resolve_incident :: "actor \<Rightarrow> string \<Rightarrow> string \<Rightarrow> string \<Rightarrow> incident_row py" where
  "resolve_incident actor incident_id reason scope =
     seq (iac_only scope ''incident'')
    (seq (sean_only actor ''resolve incidents'')
    (bind (get_alert_incident actor incident_id) (\<lambda>incident.
     seq (raise_if (ic_scope incident \<noteq> scope)
            (AuthorizationError ''Incident is outside the interface scope''))
      (resolve_alert_incident actor incident_id reason))))"

definition deliveries :: "actor \<Rightarrow> string option \<Rightarrow> string \<Rightarrow> delivery_view list py" where
  "deliveries actor status scope =
     seq (iac_only scope ''delivery'') (list_alert_deliveries actor scope status)"

definition gateway_delivery_diagnostics :: "actor \<Rightarrow> string \<Rightarrow> delivery_diagnostics py" where
  "gateway_delivery_diagnostics actor scope =
     seq (iac_only scope ''delivery'') (alert_delivery_diagnostics actor scope)"

definition delivery_in_scope :: "delivery_view \<Rightarrow> string \<Rightarrow> unit py" where
  "delivery_in_scope delivery scope = raise_if (bx_scope (dv_row delivery) \<noteq> scope)
     (AuthorizationError ''Alert delivery is outside the interface scope'')"

definition stage_delivery :: "actor \<Rightarrow> string \<Rightarrow> string \<Rightarrow> delivery_view py" where
  "stage_delivery actor plan_id scope =
     seq (iac_only scope ''delivery'')
    (bind (stage_alert_delivery actor plan_id) (\<lambda>delivery.
     seq (delivery_in_scope delivery scope) (ret delivery)))"

definition request_delivery_approval ::
  "actor \<Rightarrow> string \<Rightarrow> string \<Rightarrow> string \<Rightarrow> string \<Rightarrow> string py" where
  "request_delivery_approval actor delivery_id max_impact expires_at scope =
     seq (iac_only scope ''delivery'')
    (bind (get_alert_delivery actor delivery_id) (\<lambda>delivery.
     seq (delivery_in_scope delivery scope)
      (request_alert_delivery_approval actor delivery_id max_impact expires_at)))"

definition decide_delivery_approval ::
  "actor \<Rightarrow> string \<Rightarrow> string \<Rightarrow> bool \<Rightarrow> string \<Rightarrow> string \<Rightarrow> approval_status py" where
  "decide_delivery_approval actor delivery_id approval_id approve reason scope =
     seq (iac_only scope ''delivery'')
    (seq (sean_only actor ''decide approvals'')
    (bind (get_alert_delivery actor delivery_id) (\<lambda>delivery.
     bind (table db_approvals) (\<lambda>approvals.
     case row_by ap_id approval_id approvals of
       None \<Rightarrow> raise (ValidationError ''Approval not found'')
     | Some approval \<Rightarrow>
         seq (raise_if (bx_scope (dv_row delivery) \<noteq> scope \<or> ap_scope approval \<noteq> scope \<or>
                ap_action approval \<noteq> ''DELIVER_ALERT'' \<or> ap_target approval \<noteq> delivery_id)
                (AuthorizationError ''Approval does not match the exact IAC delivery''))
          (decide_approval actor approval_id approve reason)))))"

definition authorize_delivery :: "actor \<Rightarrow> string \<Rightarrow> string \<Rightarrow> string \<Rightarrow> delivery_view py" where
  "authorize_delivery actor delivery_id approval_id scope =
     seq (iac_only scope ''delivery'')
    (seq (sean_only actor ''authorize delivery'')
    (bind (get_alert_delivery actor delivery_id) (\<lambda>delivery.
     seq (delivery_in_scope delivery scope)
      (authorize_alert_delivery actor delivery_id approval_id))))"

definition reset_failed_delivery :: "actor \<Rightarrow> string \<Rightarrow> string \<Rightarrow> string \<Rightarrow> delivery_view py" where
  "reset_failed_delivery actor delivery_id reason scope =
     seq (iac_only scope ''delivery'')
    (seq (sean_only actor ''reset delivery'')
    (bind (get_alert_delivery actor delivery_id) (\<lambda>delivery.
     seq (delivery_in_scope delivery scope)
      (reset_failed_alert_delivery actor delivery_id reason))))"

definition backup_transfers :: "actor \<Rightarrow> string option \<Rightarrow> string \<Rightarrow> transfer_row list py" where
  "backup_transfers actor status scope =
     seq (iac_only scope ''backup'') (list_backup_transfers actor status)"

definition backup_transfer :: "actor \<Rightarrow> string \<Rightarrow> string \<Rightarrow> transfer_row py" where
  "backup_transfer actor plan_sha256 scope =
     seq (iac_only scope ''backup'')
    (bind (get_backup_transfer actor plan_sha256) (\<lambda>transfer.
     seq (raise_if (bx_scope transfer \<noteq> scope)
            (AuthorizationError ''Backup transfer is outside the interface scope''))
      (ret transfer)))"

definition request_backup_approval ::
  "actor \<Rightarrow> string \<Rightarrow> string \<Rightarrow> string \<Rightarrow> string \<Rightarrow> string py" where
  "request_backup_approval actor plan_sha256 max_impact expires_at scope =
     seq (backup_transfer actor plan_sha256 scope)
      (request_backup_transfer_approval actor plan_sha256 max_impact expires_at)"

definition decide_backup_approval ::
  "actor \<Rightarrow> string \<Rightarrow> string \<Rightarrow> bool \<Rightarrow> string \<Rightarrow> string \<Rightarrow> approval_status py" where
  "decide_backup_approval actor plan_sha256 approval_id approve reason scope =
     seq (sean_only actor ''decide approvals'')
    (bind (backup_transfer actor plan_sha256 scope) (\<lambda>transfer.
     bind (table db_approvals) (\<lambda>approvals.
     case row_by ap_id approval_id approvals of
       None \<Rightarrow> raise (ValidationError ''Approval not found'')
     | Some approval \<Rightarrow>
         seq (raise_if (ap_scope approval \<noteq> scope \<or>
                ap_action approval \<noteq> ''RUN_INDEPENDENT_BACKUP_RESTORE_DRILL'' \<or>
                ap_target approval \<noteq> tr_target transfer)
                (AuthorizationError ''Approval does not match the exact IAC backup transfer''))
          (decide_approval actor approval_id approve reason))))"

definition authorize_backup :: "actor \<Rightarrow> string \<Rightarrow> string \<Rightarrow> string \<Rightarrow> transfer_row py" where
  "authorize_backup actor plan_sha256 approval_id scope =
     seq (sean_only actor ''authorize backup'')
    (seq (backup_transfer actor plan_sha256 scope)
      (authorize_backup_transfer actor plan_sha256 approval_id))"

section \<open>The gateway respects the laws of the store\<close>

lemma reader_command_status: "reader (command_status actor work_id)"
  unfolding command_status_def by (intro reader_intros)

lemma lawful_command_status [legal_ops]: "lawful prof P (command_status actor work_id)"
  by (rule store.lawful_reader, rule reader_command_status)

lemma lawful_queue_new [legal_ops]:
  assumes "clean_value (PDict payload)" and "scope = ''IAC''"
    and "scope \<in> set (allowed_scopes prof)"
  shows "lawful prof P (queue_new actor external_id command scope spec payload digest)"
  unfolding queue_new_def queue_command_def insert_delivery_request_def
proof (intro op_rules legal_ops store.lawful_try, goal_cases)
  case 1
  then show ?case
    unfolding store_le_table
    by (intro work.step_insert) (use assms in \<open>simp_all add: work_ok_def clean_json SCOPES_def del: clean_value.simps\<close>)
next
  case 2
  then show ?case unfolding store_le_table by (intro commands.step_insert) simp_all
next
  case 3
  then show ?case unfolding store_le_table by (intro coding_requests.step_insert) simp_all
qed

lemma lawful_submit [legal_ops]: "lawful prof P (submit actor external_id command_type payload scope)"
  unfolding submit_def queue_delivery_def
  by (intro op_rules legal_ops store.lawful_reader [OF reader_command_status])
    (simp_all add: secret_findings_empty_iff del: clean_value.simps)

lemma lawful_gateway [legal_ops]:
  "lawful prof P (command_result actor work_id)"
  "lawful prof P (gateway_get_record actor record_id)"
  "lawful prof P (gateway_list_records actor entity_type)"
  "lawful prof P (audit_trace actor limit)"
  "lawful prof P (active_incidents actor scope)"
  "lawful prof P (resolve_incident actor incident_id reason scope)"
  "lawful prof P (deliveries actor status scope)"
  "lawful prof P (gateway_delivery_diagnostics actor scope)"
  "lawful prof P (stage_delivery actor plan_id scope)"
  "lawful prof P (request_delivery_approval actor delivery_id max_impact expires_at scope)"
  "lawful prof P (decide_delivery_approval actor delivery_id approval_id approve reason scope)"
  "lawful prof P (authorize_delivery actor delivery_id approval_id scope)"
  "lawful prof P (reset_failed_delivery actor delivery_id reason scope)"
  "lawful prof P (backup_transfers actor status scope)"
  "lawful prof P (backup_transfer actor plan_sha256 scope)"
  "lawful prof P (request_backup_approval actor plan_sha256 max_impact expires_at scope)"
  "lawful prof P (decide_backup_approval actor plan_sha256 approval_id approve reason scope)"
  "lawful prof P (authorize_backup actor plan_sha256 approval_id scope)"
  unfolding command_result_def gateway_get_record_def gateway_list_records_def audit_trace_def
    active_incidents_def resolve_incident_def deliveries_def gateway_delivery_diagnostics_def
    stage_delivery_def request_delivery_approval_def decide_delivery_approval_def
    authorize_delivery_def reset_failed_delivery_def backup_transfers_def backup_transfer_def
    request_backup_approval_def decide_backup_approval_def authorize_backup_def
    iac_only_def sean_only_def delivery_in_scope_def
  by (intro op_rules legal_ops)+

end
