(* ===== verification/Backup_Operator.thy ===== *)
theory Backup_Operator
  imports Backup_Activation Commands
begin

text \<open>
  \<^verbatim>\<open>sean_os/backup_operator.py\<close>: the operator reviews a transfer and then asks for, decides and uses
  its approval. Every mutation names the digest of a review and starts by taking that review again.
  The helpers the restore operator repeats are parametrised by the exception they raise.
\<close>

section \<open>Shared checks\<close>

definition require_hash :: "(string \<Rightarrow> exn) \<Rightarrow> string \<Rightarrow> string \<Rightarrow> exn + string" where
  "require_hash err name value =
     (if \<not> is_sha256 (PStr value) then Inl (err (name @ '' must be one lowercase SHA-256 digest'')) else Inr value)"

definition aware_expiry :: "exn \<Rightarrow> exn \<Rightarrow> string \<Rightarrow> exn + datetime" where
  "aware_expiry invalid naive s = (case fromisoformat s of
     Inl e \<Rightarrow> Inl invalid
   | Inr dt \<Rightarrow> if is_aware dt then Inr dt else Inl naive)"

definition approval_item :: "(string \<Rightarrow> string) \<Rightarrow> pydict \<Rightarrow> approval_row \<Rightarrow> datetime \<Rightarrow> pydict" where
  "approval_item sha conditions r expires =
     [(''approval_id'', PStr (ap_id r)), (''status'', PStr (approval_status_str (ap_status r))),
      (''max_impact'', PStr (ap_impact r)), (''expires_at'', PStr (isoformat expires)),
      (''conditions_sha256'', PStr (sha (dumps (ap_conditions r)))),
      (''conditions_match'', PBool (py_eq (ap_conditions r) (PDict conditions)))]"

fun approval_items ::
  "(string \<Rightarrow> string) \<Rightarrow> exn \<Rightarrow> exn \<Rightarrow> pydict \<Rightarrow> approval_row list \<Rightarrow> exn + pyval list" where
  "approval_items sha invalid naive conditions [] = Inr []"
| "approval_items sha invalid naive conditions (r # rows) =
     ebind (aware_expiry invalid naive (ap_expires_at r)) (\<lambda>expires.
     ebind (approval_items sha invalid naive conditions rows) (\<lambda>items.
     Inr (PDict (approval_item sha conditions r expires) # items)))"

definition approvals_for :: "string \<Rightarrow> string \<Rightarrow> approval_row list \<Rightarrow> approval_row list" where
  "approvals_for action target rows =
     order_by ap_id (filter (\<lambda>r. ap_action r = action \<and> ap_target r = target \<and> ap_scope r = ''IAC'') rows)"

definition review_items :: "pydict \<Rightarrow> pydict list" where
  "review_items review = (case dget review ''approvals'' of PList xs \<Rightarrow> map dval xs | _ \<Rightarrow> [])"

definition items_of :: "string \<Rightarrow> pydict \<Rightarrow> pydict list" where
  "items_of approval_id review = filter (\<lambda>d. dget d ''approval_id'' = PStr approval_id) (review_items review)"

definition sealed_review :: "(string \<Rightarrow> string) \<Rightarrow> exn \<Rightarrow> pydict \<Rightarrow> exn + pydict" where
  "sealed_review sha secret review =
     (if secret_findings (PDict review) \<noteq> [] then Inl secret
      else Inr (canon_dict (review @ [(''review_sha256'', PStr (sha (dumps (PDict review))))])))"

text \<open>A request that is open or granted and has not expired at an instant.\<close>

definition active_item :: "datetime \<Rightarrow> pydict \<Rightarrow> exn + bool" where
  "active_item instant d =
     (if \<not> List.member [PStr ''PENDING'', PStr ''APPROVED''] (dget d ''status'') then Inr False
      else ebind (fromisoformat (sval (dget d ''expires_at''))) (\<lambda>expires. dt_lt instant expires))"

fun active_items :: "datetime \<Rightarrow> pydict list \<Rightarrow> exn + pydict list" where
  "active_items instant [] = Inr []"
| "active_items instant (d # ds) =
     ebind (active_item instant d) (\<lambda>active.
     ebind (active_items instant ds) (\<lambda>rest. Inr (if active then d # rest else rest)))"

definition current_instant :: "datetime option \<Rightarrow> datetime py" where
  "current_instant given_time = (case given_time of
     None \<Rightarrow> bind now_instant (\<lambda>t. ret (utc_dt t)) | Some dt \<Rightarrow> ret dt)"

definition parsed_times :: "exn \<Rightarrow> string \<Rightarrow> pydict \<Rightarrow> exn + (datetime \<times> datetime \<times> datetime)" where
  "parsed_times err expires_at review =
     (case ebind (fromisoformat expires_at) (\<lambda>expiry.
           ebind (fromisoformat_val (dget review ''window_start'')) (\<lambda>start.
           ebind (fromisoformat_val (dget review ''window_end'')) (\<lambda>end_at. Inr (expiry, start, end_at)))) of
        Inl e \<Rightarrow> Inl err
      | Inr parsed \<Rightarrow> Inr parsed)"

definition in_execution_window :: "pydict \<Rightarrow> datetime \<Rightarrow> exn + bool" where
  "in_execution_window review dt =
     ebind (fromisoformat (sval (dget review ''window_start''))) (\<lambda>start.
     ebind (fromisoformat (sval (dget review ''window_end''))) (\<lambda>end_at.
     if \<not> is_aware dt then Inr False
     else ebind (dt_le start dt) (\<lambda>begun. if \<not> begun then Inr False else dt_lt dt end_at)))"

text \<open>\<open>f"... CAD {float(cost):.2f} maximum"\<close>.\<close>

definition impact_text :: "string \<Rightarrow> pyval \<Rightarrow> exn + string" where
  "impact_text action cost = ebind (py_float cost) (\<lambda>x. Inr (action @ ''; CAD '' @ fixed2 x @ '' maximum''))"

section \<open>The review\<close>

abbreviation operator_error :: "string \<Rightarrow> exn + 'a" where
  "operator_error m \<equiv> Inl (BackupOperatorError m)"

definition BACKUP_ACTIVATION_ENV_KEYS :: "string list" where
  "BACKUP_ACTIVATION_ENV_KEYS = EXECUTION_ENV_KEYS @ FORBIDDEN_DIRECT_SECRET_ENV_KEYS @ MANAGED_SECRET_VARIABLES @
     BACKUP_WORKER_ENV_KEYS"

definition preflight_matches :: "(string \<Rightarrow> string) \<Rightarrow> string \<Rightarrow> pyval option \<Rightarrow> exn + bool" where
  "preflight_matches sha plan_sha256 preflight = (case preflight of
     None \<Rightarrow> Inr False
   | Some p \<Rightarrow> ebind (verify_synthetic_backup_adapter_receipt sha p) (\<lambda>validated.
       if dget validated ''plan_sha256'' \<noteq> PStr plan_sha256
       then operator_error ''Synthetic preflight does not match the transfer plan'' else Inr True))"

definition review_fields ::
  "activation_row \<Rightarrow> transfer_row \<Rightarrow> pydict \<Rightarrow> bool \<Rightarrow> pyval list \<Rightarrow> pydict" where
  "review_fields activation transfer plan preflight_valid approvals =
     [(''format'', PStr ''sean-os-backup-operator-review/v1''), (''owner_scope'', PStr ''IAC''),
      (''data_mode'', PStr ''SYNTHETIC_IAC_DATABASE_ONLY''), (''activation_sha256'', PStr (ac_sha256 activation)),
      (''candidate_commit'', PStr (ac_commit activation)), (''plan_sha256'', PStr (bx_id transfer)),
      (''proposal_sha256'', dget plan ''proposal_sha256''), (''approval_target'', dget plan ''approval_target''),
      (''transfer_status'', PStr (outbox_name ''COMPLETED'' (bx_status transfer))),
      (''preflight_validated'', PBool preflight_valid)] @
     map (\<lambda>k. (k, dget plan k)) [''provider'', ''destination_ref'', ''data_region'', ''provider_endpoint'',
       ''provider_writer_identity_ref'', ''client_encryption_key_ref'', ''object_ref'', ''backup_sha256'', ''backup_bytes'',
       ''retention_mode'', ''retention_days'', ''window_start'', ''window_end'', ''max_cost_cad''] @
     [(''attempt_count'', PInt (bx_attempts transfer)), (''max_attempts'', PInt (bx_max transfer)),
      (''approval_id'', opt_str (bx_approval transfer)), (''approvals'', PList approvals),
      (''network_performed_by_operation'', PBool False), (''upload_performed_by_operation'', PBool False)]"

definition review_of ::
  "(string \<Rightarrow> string) \<Rightarrow> activation_row \<Rightarrow> transfer_row \<Rightarrow> pydict \<Rightarrow> approval_row list \<Rightarrow> exn + pydict" where
  "review_of sha activation transfer plan approvals =
     (if PStr (ac_backup_sha256 activation) \<noteq> dget plan ''backup_sha256'' \<or>
         PInt (ac_backup_bytes activation) \<noteq> dget plan ''backup_bytes''
      then operator_error ''Synthetic activation does not match the transfer source''
      else
        ebind (preflight_matches sha (bx_id transfer) (tr_preflight transfer)) (\<lambda>preflight_valid.
        ebind (approval_items sha (BackupOperatorError ''Stored approval expiry is invalid'')
                 (BackupOperatorError ''Stored approval expiry must include a timezone'')
                 (backup_transfer_approval_conditions transfer)
                 (approvals_for DRILL_ACTION (tr_target transfer) approvals)) (\<lambda>items.
        sealed_review sha (BackupOperatorError ''Backup operator review contains secret-like material'')
          (review_fields activation transfer plan preflight_valid items))))"

definition review_backup_transfer :: "activation_host \<Rightarrow> actor \<Rightarrow> string \<Rightarrow> pydict py" where
  "review_backup_transfer host actor given_sha256 =
     bind (lift_result (require_hash BackupOperatorError ''plan_sha256'' given_sha256)) (\<lambda>plan_sha256.
     bind (get_backup_transfer actor plan_sha256) (\<lambda>transfer.
     seq (raise_if (bx_scope transfer \<noteq> ''IAC'') (BackupOperatorError ''Backup operator workflow is restricted to IAC''))
    (bind (reads w_sha256) (\<lambda>sha.
     bind (lift_result (verify_stored_backup_transfer_plan sha (PDict (tr_plan transfer)))) (\<lambda>plan.
     bind (get_activation_evidence host actor plan_sha256) (\<lambda>activation.
     bind (table db_approvals) (\<lambda>approvals.
     lift_result (review_of sha activation transfer plan approvals))))))))"

definition require_current_review :: "activation_host \<Rightarrow> actor \<Rightarrow> string \<Rightarrow> string \<Rightarrow> pydict py" where
  "require_current_review host actor plan_sha256 expected_review_sha256 =
     seq (lift_result (require_hash BackupOperatorError ''expected_review_sha256'' expected_review_sha256))
    (bind (review_backup_transfer host actor plan_sha256) (\<lambda>review.
     seq (raise_if (dget review ''review_sha256'' \<noteq> PStr expected_review_sha256)
            (BackupOperatorError ''Operator review is stale; review the transfer again''))
         (ret review)))"

definition operation_result :: "string \<Rightarrow> pydict \<Rightarrow> string \<Rightarrow> exn + pydict" where
  "operation_result name review approval_id = (case items_of approval_id review of
     [] \<Rightarrow> operator_error ''Operation result is missing its approval state''
   | d # rest \<Rightarrow>
       let result = [(''format'', PStr ''sean-os-backup-operator-operation/v1''), (''operation'', PStr name),
             (''plan_sha256'', dget review ''plan_sha256''), (''approval_id'', PStr approval_id),
             (''approval_status'', dget d ''status''), (''transfer_status'', dget review ''transfer_status''),
             (''review_sha256'', dget review ''review_sha256''), (''next_action'', PStr ''RUN_REVIEW''),
             (''network_performed'', PBool False), (''upload_performed'', PBool False), (''transfer_claimed'', PBool False)] in
       if secret_findings (PDict result) \<noteq> [] then operator_error ''Backup operator result contains secret-like material''
       else Inr result)"

definition operation :: "activation_host \<Rightarrow> actor \<Rightarrow> string \<Rightarrow> string \<Rightarrow> string \<Rightarrow> pydict py" where
  "operation host actor plan_sha256 name approval_id =
     bind (review_backup_transfer host actor plan_sha256) (\<lambda>updated. lift_result (operation_result name updated approval_id))"

section \<open>The operations\<close>

text \<open>The checks of a request, up to the text of the approval.\<close>

definition check_request :: "pydict \<Rightarrow> datetime \<Rightarrow> string \<Rightarrow> exn + (string \<times> string)" where
  "check_request review instant expires_at =
     ebind (active_items instant (review_items review)) (\<lambda>active.
     if active \<noteq> [] then operator_error ''An active backup approval already exists''
     else
       ebind (parsed_times (BackupOperatorError ''Approval expiry must be timezone-aware ISO-8601'') expires_at review)
         (\<lambda>(expiry, start, end_at).
       if \<not> list_all is_aware [expiry, start, end_at, instant]
       then operator_error ''Approval and execution times must include timezones''
       else if \<not> (instant_of instant < instant_of expiry \<and> instant_of expiry \<le> instant_of end_at)
       then operator_error ''Approval must expire in the future and by the window end''
       else if seconds (4 * 60 * 60) < instant_of expiry - instant_of instant
       then operator_error ''Backup approval lifetime must not exceed four hours''
       else if instant_of expiry \<le> instant_of start
       then operator_error ''Backup approval must remain valid after the window starts''
       else
         ebind (impact_text ''One synthetic IAC backup upload; no restore'' (dget review ''max_cost_cad'')) (\<lambda>impact.
         Inr (impact, isoformat expiry))))"

definition request_exact_backup_approval ::
  "activation_host \<Rightarrow> actor \<Rightarrow> string \<Rightarrow> string \<Rightarrow> string \<Rightarrow> datetime option \<Rightarrow> pydict py" where
  "request_exact_backup_approval host actor plan_sha256 expected_review_sha256 expires_at current_time =
     bind (require_current_review host actor plan_sha256 expected_review_sha256) (\<lambda>review.
     seq (raise_if (dget review ''transfer_status'' \<noteq> PStr ''PREFLIGHT_VALIDATED'' \<or>
                    \<not> truthy (dget review ''preflight_validated''))
            (BackupOperatorError ''Only a validated synthetic preflight may request approval''))
    (bind (current_instant current_time) (\<lambda>instant.
     bind (lift_result (check_request review instant expires_at)) (\<lambda>(impact, expiry).
     bind (request_backup_approval actor plan_sha256 impact expiry ''IAC'') (\<lambda>approval_id.
     operation host actor plan_sha256 ''REQUEST_APPROVAL'' approval_id)))))"

definition exact_item :: "string \<Rightarrow> string \<Rightarrow> pydict \<Rightarrow> bool" where
  "exact_item status approval_id review = (case items_of approval_id review of
     [d] \<Rightarrow> dget d ''status'' = PStr status \<and> dget d ''conditions_match'' = PBool True
   | _ \<Rightarrow> False)"

definition decide_exact_backup_approval ::
  "activation_host \<Rightarrow> actor \<Rightarrow> string \<Rightarrow> string \<Rightarrow> bool \<Rightarrow> string \<Rightarrow> string \<Rightarrow> pydict py" where
  "decide_exact_backup_approval host actor plan_sha256 approval_id approve reason expected_review_sha256 =
     bind (require_current_review host actor plan_sha256 expected_review_sha256) (\<lambda>review.
     seq (raise_if (\<not> exact_item ''PENDING'' approval_id review)
            (BackupOperatorError ''Approval is not the exact pending request under review''))
    (seq (raise_if (blank reason \<or> 240 < length reason)
            (BackupOperatorError ''Approval decision requires a bounded reason''))
    (seq (raise_if (secret_findings (PStr reason) \<noteq> [])
            (BackupOperatorError ''Secret-like material is prohibited in approval evidence''))
    (bind (decide_backup_approval actor plan_sha256 approval_id approve reason ''IAC'') (\<lambda>status.
     seq (raise_if (status \<noteq> (if approve then AP_APPROVED else AP_DENIED))
            (BackupOperatorError ''Approval decision did not reach the requested state''))
         (operation host actor plan_sha256 (if approve then ''APPROVE'' else ''DENY'') approval_id))))))"

definition authorize_exact_backup_state ::
  "activation_host \<Rightarrow> environment \<Rightarrow> actor \<Rightarrow> string \<Rightarrow> string \<Rightarrow> string \<Rightarrow> string \<Rightarrow> datetime option \<Rightarrow> pydict py" where
  "authorize_exact_backup_state host env actor plan_sha256 approval_id expected_review_sha256 confirm_plan_sha256
     current_time =
     seq (lift_result (require_hash BackupOperatorError ''plan_sha256'' plan_sha256))
    (seq (lift_result (require_hash BackupOperatorError ''confirm_plan_sha256'' confirm_plan_sha256))
    (seq (raise_if (confirm_plan_sha256 \<noteq> plan_sha256) (BackupOperatorError ''Exact plan confirmation does not match''))
    (bind (require_current_review host actor plan_sha256 expected_review_sha256) (\<lambda>review.
     seq (raise_if (dget review ''transfer_status'' \<noteq> PStr ''PREFLIGHT_VALIDATED'' \<or>
                    \<not> exact_item ''APPROVED'' approval_id review)
            (BackupOperatorError ''Approval is not the exact approved request under review''))
    (seq (raise_if (list_ex (env_set env) BACKUP_ACTIVATION_ENV_KEYS)
            (BackupOperatorError ''State authorization requires all backup execution and secret values absent''))
    (bind (current_instant current_time) (\<lambda>instant.
     bind (lift_result (in_execution_window review instant)) (\<lambda>inside.
     seq (raise_if (\<not> inside) (BackupOperatorError ''State authorization is outside the exact execution window''))
    (seq (authorize_backup actor plan_sha256 approval_id ''IAC'')
    (bind (review_backup_transfer host actor plan_sha256) (\<lambda>updated.
     seq (raise_if (dget updated ''transfer_status'' \<noteq> PStr ''AUTHORIZED'')
            (ValidationError ''Backup transfer did not reach authorized state''))
         (lift_result (operation_result ''AUTHORIZE_STATE_ONLY'' updated approval_id)))))))))))))"

section \<open>The laws\<close>

lemma reader_review_backup_transfer: "reader (review_backup_transfer host actor plan_sha256)"
  unfolding review_backup_transfer_def
  by (intro reader_intros reader_get_backup_transfer reader_get_activation_evidence)

lemma reader_require_current_review: "reader (require_current_review host actor plan_sha256 expected)"
  unfolding require_current_review_def by (intro reader_intros reader_review_backup_transfer)

lemma reader_operation: "reader (operation host actor plan_sha256 name approval_id)"
  unfolding operation_def by (intro reader_intros reader_review_backup_transfer)

lemmas lawful_operator [legal_ops] =
  store.lawful_reader [OF reader_review_backup_transfer] store.lawful_reader [OF reader_require_current_review]
  store.lawful_reader [OF reader_operation]

lemma lawful_current_instant [legal_ops]: "lawful prof P (current_instant given_time)"
  unfolding current_instant_def by (intro op_rules legal_ops)

lemma lawful_request_exact_backup_approval [legal_ops]:
  "lawful prof P (request_exact_backup_approval host actor plan_sha256 expected expires_at current_time)"
  unfolding request_exact_backup_approval_def by (intro op_rules legal_ops)

lemma lawful_decide_exact_backup_approval [legal_ops]:
  "lawful prof P (decide_exact_backup_approval host actor plan_sha256 approval_id approve reason expected)"
  unfolding decide_exact_backup_approval_def by (intro op_rules legal_ops)

lemma lawful_authorize_exact_backup_state [legal_ops]:
  "lawful prof P (authorize_exact_backup_state host env actor plan_sha256 approval_id expected confirm current_time)"
  unfolding authorize_exact_backup_state_def by (intro op_rules legal_ops)

end
