(* ===== verification/Restore_Execution.thy ===== *)
theory Restore_Execution
  imports Store_Restores Backup_Execution
begin

text \<open>
  \<^verbatim>\<open>sean_os/backup_restore_execution.py\<close>: the default-off boundary of one approved isolated
  restore. Download and decryption are ports outside the repository; \<open>restore_ports\<close> holds what they
  and the file system answer in one run.
\<close>

section \<open>Configuration\<close>

definition RESTORE_MODE_KEY :: string where
  "RESTORE_MODE_KEY = ''SEAN_OS_BACKUP_RESTORE_EXECUTION''"

definition RESTORE_EXECUTION_ENV_KEYS :: "string list" where
  "RESTORE_EXECUTION_ENV_KEYS = [RESTORE_MODE_KEY, ''SEAN_OS_BACKUP_RESTORE_PROVIDER'',
     ''SEAN_OS_BACKUP_RESTORE_DATA_REGION'', ''SEAN_OS_BACKUP_RESTORE_ENDPOINT'',
     ''SEAN_OS_BACKUP_RESTORE_DESTINATION_REF'', ''SEAN_OS_BACKUP_RESTORE_IDENTITY_REF'',
     ''SEAN_OS_BACKUP_RESTORE_ENCRYPTION_KEY_REF'', ''SEAN_OS_BACKUP_RESTORE_MAX_BYTES'',
     ''SEAN_OS_BACKUP_RESTORE_MAX_COST_CAD'']"

definition FORBIDDEN_DIRECT_RESTORE_SECRET_KEYS :: "string list" where
  "FORBIDDEN_DIRECT_RESTORE_SECRET_KEYS = [''SEAN_OS_BACKUP_RESTORE_ACCESS_KEY_ID'',
     ''SEAN_OS_BACKUP_RESTORE_SECRET_ACCESS_KEY'', ''SEAN_OS_BACKUP_RESTORE_ENCRYPTION_KEY'']"

definition DOWNLOADED_ARTIFACT_FORMAT :: string where
  "DOWNLOADED_ARTIFACT_FORMAT = ''sean-os-downloaded-encrypted-backup/v1''"

definition DECRYPTED_ARTIFACT_FORMAT :: string where
  "DECRYPTED_ARTIFACT_FORMAT = ''sean-os-authenticated-backup-restore/v1''"

definition DOWNLOADED_ARTIFACT_FIELDS :: "string list" where
  "DOWNLOADED_ARTIFACT_FIELDS = [''format'', ''restore_plan_sha256'', ''provider'', ''provider_region'',
     ''provider_endpoint'', ''provider_restore_identity_ref'', ''destination_ref'', ''object_ref'',
     ''provider_version_ref'', ''ciphertext_sha256'', ''ciphertext_bytes'', ''provider_encryption'',
     ''network_performed'', ''downloaded'', ''overwrite_performed'', ''object_lock_mode'', ''object_lock_verified'',
     ''retain_until'', ''credentials_persisted'', ''source_path_included'']"

definition DECRYPTED_ARTIFACT_FIELDS :: "string list" where
  "DECRYPTED_ARTIFACT_FIELDS = [''format'', ''plan_sha256'', ''plaintext_sha256'', ''plaintext_bytes'',
     ''algorithm'', ''key_owner'', ''key_ref'', ''authenticated'', ''credentials_persisted'', ''source_path_included'']"

abbreviation restore_run_error :: "string \<Rightarrow> exn + 'a" where
  "restore_run_error m \<equiv> Inl (BackupRestoreExecutionError m)"

definition restore_run_ref :: "string \<Rightarrow> string \<Rightarrow> exn + string" where
  "restore_run_ref name s =
     (if s = [] \<or> strip s \<noteq> s \<or> 200 < length s \<or> list_ex control_char s \<or> secret_findings (PStr s) \<noteq> []
      then restore_run_error (name @ '' must be one bounded non-secret reference'')
      else Inr s)"

definition restore_config_dict :: "runtime_config \<Rightarrow> pydict" where
  "restore_config_dict c = [(''enabled'', PBool (rc_enabled c)), (''provider'', opt_str (rc_provider c)),
     (''data_region'', opt_str (rc_region c)), (''endpoint'', opt_str (rc_endpoint c)),
     (''destination_ref'', opt_str (rc_destination c)), (''restore_identity_ref'', opt_str (rc_identity c)),
     (''encryption_key_ref'', opt_str (rc_key c)), (''max_bytes'', opt_int (rc_max_bytes c)),
     (''max_cost_cad'', opt_float (rc_max_cost c))]"

definition approved_restore_config :: "environment \<Rightarrow> exn + runtime_config" where
  "approved_restore_config env =
     (if env_text env ''SEAN_OS_BACKUP_RESTORE_PROVIDER'' \<noteq> ''BACKBLAZE_B2''
      then restore_run_error ''Backup restore provider must be BACKBLAZE_B2''
      else if env_text env ''SEAN_OS_BACKUP_RESTORE_DATA_REGION'' \<noteq> ''CA_EAST''
      then restore_run_error ''Backup restore data region must be CA_EAST''
      else
        ebind (restore_run_ref ''provider_endpoint'' (env_text env ''SEAN_OS_BACKUP_RESTORE_ENDPOINT'')) (\<lambda>endpoint.
        if \<not> starts_with endpoint ''s3.ca-east-'' \<or> \<not> ends_with endpoint ''.backblazeb2.com''
        then restore_run_error ''Backup restore endpoint must be exact Canada East''
        else case parse_int (env_text env ''SEAN_OS_BACKUP_RESTORE_MAX_BYTES'') of
          None \<Rightarrow> restore_run_error ''Backup restore maximum bytes must be an integer''
        | Some max_bytes \<Rightarrow>
            if \<not> (1 \<le> max_bytes \<and> max_bytes \<le> 10 * 1024 * 1024 * 1024)
            then restore_run_error ''Backup restore maximum bytes is outside the safe range''
            else case parse_float (env_text env ''SEAN_OS_BACKUP_RESTORE_MAX_COST_CAD'') of
              None \<Rightarrow> restore_run_error ''Backup restore cost ceiling must be numeric''
            | Some max_cost \<Rightarrow>
                if \<not> is_finite max_cost \<or> \<not> (fle (Fin 0) max_cost \<and> fle max_cost (Fin 15))
                then restore_run_error ''Backup restore cost ceiling must be CAD 0 to CAD 15''
                else
                  ebind (restore_run_ref ''destination_ref'' (env_text env ''SEAN_OS_BACKUP_RESTORE_DESTINATION_REF'')) (\<lambda>destination.
                  ebind (restore_run_ref ''restore_identity_ref'' (env_text env ''SEAN_OS_BACKUP_RESTORE_IDENTITY_REF'')) (\<lambda>identity.
                  ebind (restore_run_ref ''encryption_key_ref'' (env_text env ''SEAN_OS_BACKUP_RESTORE_ENCRYPTION_KEY_REF'')) (\<lambda>key.
                  let config = \<lparr>rc_enabled = True, rc_provider = Some ''BACKBLAZE_B2'', rc_region = Some ''CA_EAST'',
                    rc_endpoint = Some endpoint, rc_destination = Some destination, rc_identity = Some identity,
                    rc_key = Some key, rc_max_bytes = Some max_bytes, rc_max_cost = Some max_cost\<rparr> in
                  if secret_findings (PDict (restore_config_dict config)) \<noteq> []
                  then restore_run_error ''Backup restore runtime configuration contains secret-like material''
                  else Inr config)))))"

definition load_backup_restore_runtime_config :: "environment \<Rightarrow> exn + runtime_config" where
  "load_backup_restore_runtime_config env =
     (let mode = execution_mode env RESTORE_MODE_KEY;
          required = filter (\<lambda>k. k \<noteq> RESTORE_MODE_KEY) RESTORE_EXECUTION_ENV_KEYS in
      if list_ex (env_set env) FORBIDDEN_DIRECT_RESTORE_SECRET_KEYS
      then restore_run_error ''Raw restore secrets are prohibited in runtime configuration''
      else if mode = ''DISABLED'' then
        (if list_ex (env_set env) required
         then restore_run_error ''Disabled backup restore cannot retain partial configuration''
         else Inr disabled_config)
      else if mode \<noteq> ''APPROVED''
      then restore_run_error ''Backup restore execution mode must be DISABLED or APPROVED''
      else if list_ex (\<lambda>k. \<not> env_set env k) required
      then restore_run_error ''Approved backup restore requires the complete configuration''
      else approved_restore_config env)"

section \<open>The leased restore\<close>

definition restore_config_mismatch :: "runtime_config \<Rightarrow> pydict \<Rightarrow> bool" where
  "restore_config_mismatch c plan \<longleftrightarrow>
     \<not> py_eq (opt_str (rc_provider c)) (dget plan ''provider'') \<or>
     \<not> py_eq (opt_str (rc_region c)) (dget plan ''data_region'') \<or>
     \<not> py_eq (opt_str (rc_endpoint c)) (dget plan ''provider_endpoint'') \<or>
     \<not> py_eq (opt_str (rc_destination c)) (dget plan ''destination_ref'') \<or>
     \<not> py_eq (opt_str (rc_identity c)) (dget plan ''provider_restore_identity_ref'') \<or>
     \<not> py_eq (opt_str (rc_key c)) (dget plan ''client_encryption_key_ref'') \<or>
     \<not> py_eq (opt_float (rc_max_cost c)) (dget plan ''max_cost_cad'')"

definition validate_claimed_backup_restore ::
  "(string \<Rightarrow> string) \<Rightarrow> restore_row \<Rightarrow> string \<Rightarrow> runtime_config \<Rightarrow> instant \<Rightarrow> exn + pydict" where
  "validate_claimed_backup_restore sha claimed worker_id config t =
     (if \<not> rc_enabled config then restore_run_error ''Backup restore execution is disabled''
      else if bx_status claimed \<noteq> OB_AUTHORIZED \<or> missing (bx_approval claimed) \<or>
              bx_owner claimed \<noteq> Some worker_id \<or> missing (bx_lease claimed)
      then restore_run_error ''Backup restore requires an active approved lease''
      else
        ebind (verify_isolated_backup_restore_plan sha (PDict (rr_plan claimed))) (\<lambda>plan.
        ebind (verify_synthetic_backup_restore_preflight sha
                 (case rr_preflight claimed of None \<Rightarrow> PNone | Some p \<Rightarrow> p)) (\<lambda>preflight.
        if dget preflight ''restore_plan_sha256'' \<noteq> dget plan ''plan_sha256'' \<or>
           dget preflight ''upload_receipt_sha256'' \<noteq> dget plan ''upload_receipt_sha256''
        then restore_run_error ''Backup restore preflight does not match the lease''
        else if restore_config_mismatch config plan
        then restore_run_error ''Backup restore runtime configuration does not match the exact plan''
        else if max_bytes_of config < ival (dget plan ''ciphertext_bytes'')
        then restore_run_error ''Backup restore exceeds the byte ceiling''
        else
          ebind (in_window plan t) (\<lambda>inside.
          if \<not> inside then restore_run_error ''Backup restore is outside the exact approved window''
          else
            ebind (fromisoformat (text_or (bx_lease claimed) [])) (\<lambda>lease.
            ebind (dt_le lease (utc_dt t)) (\<lambda>expired.
            if expired then restore_run_error ''Backup restore lease has expired'' else Inr plan))))))"

section \<open>Evidence of the ports\<close>

text \<open>What is observed of a private file: the probe, and whether its mode is 0600.\<close>

record private_probe =
  pp_file :: file_probe
  pp_private :: bool

definition download_requirements :: "pydict \<Rightarrow> pydict" where
  "download_requirements plan = [
     (''format'', PStr DOWNLOADED_ARTIFACT_FORMAT), (''restore_plan_sha256'', dget plan ''plan_sha256''),
     (''provider'', dget plan ''provider''), (''provider_region'', dget plan ''data_region''),
     (''provider_endpoint'', dget plan ''provider_endpoint''),
     (''provider_restore_identity_ref'', dget plan ''provider_restore_identity_ref''),
     (''destination_ref'', dget plan ''destination_ref''), (''object_ref'', dget plan ''object_ref''),
     (''provider_version_ref'', dget plan ''provider_version_ref''),
     (''ciphertext_sha256'', dget plan ''ciphertext_sha256''), (''ciphertext_bytes'', dget plan ''ciphertext_bytes''),
     (''provider_encryption'', PStr ''AES256''), (''object_lock_mode'', PStr ''COMPLIANCE''),
     (''object_lock_verified'', PBool True), (''retain_until'', dget plan ''retain_until''),
     (''network_performed'', PBool True), (''downloaded'', PBool True), (''overwrite_performed'', PBool False),
     (''credentials_persisted'', PBool False), (''source_path_included'', PBool False)]"

definition verify_download ::
  "(string \<Rightarrow> private_probe) \<Rightarrow> artifact \<Rightarrow> pydict \<Rightarrow> runtime_config \<Rightarrow> exn + pydict" where
  "verify_download probe a plan config =
     (let evidence = art_evidence a; p = probe (art_path a); file = pp_file p in
      if \<not> fields_are evidence DOWNLOADED_ARTIFACT_FIELDS \<or> secret_findings (PDict evidence) \<noteq> [] \<or>
         \<not> matches evidence (download_requirements plan)
      then restore_run_error ''Downloaded artifact evidence does not match the plan''
      else if \<not> fp_regular file \<or> \<not> pp_private p \<or> fp_bytes file \<noteq> ival (dget plan ''ciphertext_bytes'') \<or>
              fp_sha256 file \<noteq> sval (dget plan ''ciphertext_sha256'') \<or>
              max_bytes_of config < ival (dget plan ''ciphertext_bytes'')
      then restore_run_error ''Downloaded encrypted artifact is unsafe or changed''
      else Inr evidence)"

definition decryption_requirements :: "pydict \<Rightarrow> pydict" where
  "decryption_requirements plan = [
     (''format'', PStr DECRYPTED_ARTIFACT_FORMAT), (''plan_sha256'', dget plan ''upload_plan_sha256''),
     (''plaintext_sha256'', dget plan ''expected_plaintext_sha256''),
     (''plaintext_bytes'', dget plan ''expected_plaintext_bytes''), (''algorithm'', PStr ''AES_256_GCM''),
     (''key_owner'', PStr ''IAC''), (''key_ref'', dget plan ''client_encryption_key_ref''),
     (''authenticated'', PBool True), (''credentials_persisted'', PBool False),
     (''source_path_included'', PBool False)]"

definition verify_decrypted :: "(string \<Rightarrow> private_probe) \<Rightarrow> artifact \<Rightarrow> pydict \<Rightarrow> exn + pydict" where
  "verify_decrypted probe a plan =
     (let evidence = art_evidence a; p = probe (art_path a); file = pp_file p in
      if \<not> fields_are evidence DECRYPTED_ARTIFACT_FIELDS \<or> secret_findings (PDict evidence) \<noteq> [] \<or>
         \<not> matches evidence (decryption_requirements plan)
      then restore_run_error ''Decrypted artifact evidence does not match the plan''
      else if \<not> fp_regular file \<or> \<not> pp_private p \<or>
              fp_bytes file \<noteq> ival (dget plan ''expected_plaintext_bytes'') \<or>
              fp_sha256 file \<noteq> sval (dget plan ''expected_plaintext_sha256'')
      then restore_run_error ''Authenticated restore artifact is unsafe or changed''
      else case fp_database file of
        None \<Rightarrow> restore_run_error ''Restored database verification failed''
      | Some (integrity, violations, version, profile) \<Rightarrow>
          if \<not> py_eq integrity (PStr ''ok'') \<or> violations \<or>
             \<not> py_eq version (dget plan ''expected_schema_version'') \<or> \<not> py_eq profile (PStr ''IAC'')
          then restore_run_error ''Restored database integrity or scope check failed''
          else Inr evidence)"

section \<open>Execution\<close>

record restore_ports =
  rp_destination_taken :: bool
  rp_download :: "pydict \<Rightarrow> runtime_config \<Rightarrow> exn + artifact"
  rp_download_probe :: "string \<Rightarrow> private_probe"
  rp_decrypt :: "string \<Rightarrow> string \<Rightarrow> string \<Rightarrow> string \<Rightarrow> exn + artifact"
  rp_restored_probe :: "string \<Rightarrow> private_probe"

text \<open>Everything up to and including the call of the decryption port, which publishes the restore.\<close>

definition publish_restore ::
  "restore_row \<Rightarrow> string \<Rightarrow> runtime_config \<Rightarrow> restore_ports \<Rightarrow> string \<Rightarrow> restore_row py \<Rightarrow> instant \<Rightarrow>
   (artifact \<times> pydict) py" where
  "publish_restore claimed worker_id config ports destination guard t =
     bind (reads w_sha256) (\<lambda>sha.
     bind (lift_result (validate_claimed_backup_restore sha claimed worker_id config t)) (\<lambda>plan.
     seq (raise_if (rp_destination_taken ports)
            (BackupRestoreExecutionError ''Restore destination must be new and non-overwriting''))
    (seq guard
    (bind (lift_result (rp_download ports plan config)) (\<lambda>downloaded.
     bind (lift_result (verify_download (rp_download_probe ports) downloaded plan config)) (\<lambda>_.
     seq guard
    (bind (lift_result (rp_decrypt ports (art_path downloaded) destination (text_or (rc_key config) ''None'')
            (sval (dget plan ''upload_plan_sha256'')))) (\<lambda>decrypted.
     ret (decrypted, plan)))))))))"

definition confirm_restore ::
  "restore_ports \<Rightarrow> restore_row py \<Rightarrow> artifact \<Rightarrow> pydict \<Rightarrow> instant \<Rightarrow> pydict py" where
  "confirm_restore ports guard decrypted plan t =
     try_except
       (bind (lift_result (verify_decrypted (rp_restored_probe ports) decrypted plan)) (\<lambda>_.
        seq guard
       (bind (reads w_sha256) (\<lambda>sha.
        lift_result (build_isolated_backup_restore_receipt sha (PDict plan) (PDict (completion_requirements plan))
          (PStr (iso_utc t)))))))
       (\<lambda>e. raise (BackupRestoreExecutionReconciliationRequired
          ''Published isolated restore requires manual reconciliation''))"

definition execute_claimed_backup_restore ::
  "restore_row \<Rightarrow> string \<Rightarrow> runtime_config \<Rightarrow> restore_ports \<Rightarrow> string \<Rightarrow> restore_row py \<Rightarrow> pydict py" where
  "execute_claimed_backup_restore claimed worker_id config ports destination guard =
     bind now_instant (\<lambda>t.
     bind (publish_restore claimed worker_id config ports destination guard t) (\<lambda>(decrypted, plan).
     confirm_restore ports guard decrypted plan t))"

end
