(* ===== verification/Restore_Operator.thy ===== *)
theory Restore_Operator
  imports Backup_Operator Restore_Execution
begin

text \<open>
  \<^verbatim>\<open>sean_os/backup_restore_operator.py\<close>: the operator workflow of an isolated restore, with the shape
  of the one of a transfer but over the store instead of the gateway.
\<close>

section \<open>The review\<close>

abbreviation restore_operator_error :: "string \<Rightarrow> exn + 'a" where
  "restore_operator_error m \<equiv> Inl (BackupRestoreOperatorError m)"

definition MANAGED_RESTORE_SECRET_VARIABLES :: "string list" where
  "MANAGED_RESTORE_SECRET_VARIABLES = [''SEAN_OS_MANAGED_B2_RESTORE_KEY_ID'',
     ''SEAN_OS_MANAGED_B2_RESTORE_APPLICATION_KEY'']"

definition RESTORE_ACTIVATION_ENV_KEYS :: "string list" where
  "RESTORE_ACTIVATION_ENV_KEYS = RESTORE_EXECUTION_ENV_KEYS @ FORBIDDEN_DIRECT_RESTORE_SECRET_KEYS @
     MANAGED_RESTORE_SECRET_VARIABLES @ MANAGED_SECRET_VARIABLES"

definition restore_preflight_matches ::
  "(string \<Rightarrow> string) \<Rightarrow> string \<Rightarrow> pydict \<Rightarrow> pyval option \<Rightarrow> exn + bool" where
  "restore_preflight_matches sha plan_sha256 plan preflight = (case preflight of
     None \<Rightarrow> Inr False
   | Some p \<Rightarrow> ebind (verify_synthetic_backup_restore_preflight sha p) (\<lambda>validated.
       if dget validated ''restore_plan_sha256'' = PStr plan_sha256 \<and>
          py_eq (dget validated ''upload_receipt_sha256'') (dget plan ''upload_receipt_sha256'')
       then Inr True
       else restore_operator_error ''Restore preflight does not match the exact upload evidence''))"

definition restore_review_fields :: "restore_row \<Rightarrow> pydict \<Rightarrow> bool \<Rightarrow> pyval list \<Rightarrow> pydict" where
  "restore_review_fields restore plan preflight_valid approvals =
     [(''format'', PStr ''sean-os-backup-restore-operator-review/v1''), (''owner_scope'', PStr ''IAC''),
      (''restore_plan_sha256'', PStr (bx_id restore))] @
     map (\<lambda>k. (k, dget plan k)) [''upload_plan_sha256'', ''upload_receipt_sha256'', ''restore_key_proposal_sha256'',
       ''approval_target''] @
     [(''restore_status'', PStr (outbox_name ''RESTORED'' (bx_status restore))),
      (''preflight_validated'', PBool preflight_valid)] @
     map (\<lambda>k. (k, dget plan k)) [''provider'', ''data_region'', ''provider_endpoint'', ''destination_ref'', ''object_ref'',
       ''provider_version_ref'', ''provider_restore_identity_ref'', ''client_encryption_key_ref'', ''ciphertext_sha256'',
       ''expected_plaintext_sha256'', ''restore_target_ref'', ''window_start'', ''window_end'', ''max_cost_cad''] @
     [(''attempt_count'', PInt (bx_attempts restore)), (''max_attempts'', PInt (bx_max restore)),
      (''approval_id'', opt_str (bx_approval restore)), (''approvals'', PList approvals),
      (''network_performed_by_operation'', PBool False), (''download_performed_by_operation'', PBool False),
      (''decryption_performed_by_operation'', PBool False), (''restore_performed_by_operation'', PBool False)]"

definition restore_review_of ::
  "(string \<Rightarrow> string) \<Rightarrow> restore_row \<Rightarrow> pydict \<Rightarrow> approval_row list \<Rightarrow> exn + pydict" where
  "restore_review_of sha restore plan approvals =
     ebind (restore_preflight_matches sha (bx_id restore) plan (rr_preflight restore)) (\<lambda>preflight_valid.
     ebind (approval_items sha (BackupRestoreOperatorError ''Stored restore approval expiry is invalid'')
              (BackupRestoreOperatorError ''Stored restore approval expiry must include a timezone'')
              (backup_restore_approval_conditions restore)
              (approvals_for RESTORE_ACTION_TYPE (rr_target restore) approvals)) (\<lambda>items.
     sealed_review sha (BackupRestoreOperatorError ''Restore operator review contains secret-like material'')
       (restore_review_fields restore plan preflight_valid items)))"

definition review_backup_restore :: "actor \<Rightarrow> string \<Rightarrow> pydict py" where
  "review_backup_restore actor given_sha256 =
     bind (lift_result (require_hash BackupRestoreOperatorError ''plan_sha256'' given_sha256)) (\<lambda>plan_sha256.
     bind (get_backup_restore actor plan_sha256) (\<lambda>restore.
     seq (raise_if (bx_scope restore \<noteq> ''IAC'')
            (BackupRestoreOperatorError ''Backup restore workflow is restricted to IAC''))
    (bind (reads w_sha256) (\<lambda>sha.
     bind (lift_result (verify_isolated_backup_restore_plan sha (PDict (rr_plan restore)))) (\<lambda>plan.
     bind (table db_approvals) (\<lambda>approvals.
     lift_result (restore_review_of sha restore plan approvals)))))))"

definition require_current_restore_review :: "actor \<Rightarrow> string \<Rightarrow> string \<Rightarrow> pydict py" where
  "require_current_restore_review actor plan_sha256 expected_review_sha256 =
     seq (lift_result (require_hash BackupRestoreOperatorError ''expected_review_sha256'' expected_review_sha256))
    (bind (review_backup_restore actor plan_sha256) (\<lambda>review.
     seq (raise_if (dget review ''review_sha256'' \<noteq> PStr expected_review_sha256)
            (BackupRestoreOperatorError ''Operator review is stale; review the restore again''))
         (ret review)))"

definition restore_operation_result :: "string \<Rightarrow> pydict \<Rightarrow> string \<Rightarrow> exn + pydict" where
  "restore_operation_result name review approval_id = (case items_of approval_id review of
     [] \<Rightarrow> restore_operator_error ''Operation result is missing its approval state''
   | d # rest \<Rightarrow>
       let result = [(''format'', PStr ''sean-os-backup-restore-operator-operation/v1''), (''operation'', PStr name),
             (''restore_plan_sha256'', dget review ''restore_plan_sha256''), (''approval_id'', PStr approval_id),
             (''approval_status'', dget d ''status''), (''restore_status'', dget review ''restore_status''),
             (''review_sha256'', dget review ''review_sha256''), (''next_action'', PStr ''RUN_REVIEW''),
             (''network_performed'', PBool False), (''downloaded'', PBool False), (''decrypted'', PBool False),
             (''restored'', PBool False), (''restore_claimed'', PBool False)] in
       if secret_findings (PDict result) \<noteq> []
       then restore_operator_error ''Restore operator result contains secret-like material''
       else Inr result)"

definition restore_operation :: "actor \<Rightarrow> string \<Rightarrow> string \<Rightarrow> string \<Rightarrow> pydict py" where
  "restore_operation actor plan_sha256 name approval_id =
     bind (review_backup_restore actor plan_sha256) (\<lambda>updated.
     lift_result (restore_operation_result name updated approval_id))"

section \<open>The operations\<close>

definition check_restore_request :: "pydict \<Rightarrow> datetime \<Rightarrow> string \<Rightarrow> exn + (string \<times> string)" where
  "check_restore_request review instant expires_at =
     ebind (active_items instant (review_items review)) (\<lambda>active.
     if active \<noteq> [] then restore_operator_error ''An active isolated restore approval already exists''
     else
       ebind (parsed_times (BackupRestoreOperatorError ''Restore approval expiry must be timezone-aware ISO-8601'')
                expires_at review) (\<lambda>(expiry, start, end_at).
       if \<not> list_all is_aware [instant, expiry, start, end_at]
       then restore_operator_error ''Restore approval times must include timezones''
       else if \<not> (instant_of instant < instant_of expiry \<and> instant_of expiry \<le> instant_of end_at) \<or>
               instant_of expiry \<le> instant_of start
       then restore_operator_error ''Restore approval must remain valid inside the exact execution window''
       else if seconds (4 * 60 * 60) < instant_of expiry - instant_of instant
       then restore_operator_error ''Isolated restore approval lifetime must not exceed four hours''
       else
         ebind (impact_text ''One isolated IAC restore into a new target; no overwrite'' (dget review ''max_cost_cad''))
           (\<lambda>impact. Inr (impact, isoformat expiry))))"

definition request_exact_restore_approval ::
  "actor \<Rightarrow> string \<Rightarrow> string \<Rightarrow> string \<Rightarrow> datetime option \<Rightarrow> pydict py" where
  "request_exact_restore_approval actor plan_sha256 expected_review_sha256 expires_at current_time =
     bind (require_current_restore_review actor plan_sha256 expected_review_sha256) (\<lambda>review.
     seq (raise_if (dget review ''restore_status'' \<noteq> PStr ''PREFLIGHT_VALIDATED'' \<or>
                    \<not> truthy (dget review ''preflight_validated''))
            (BackupRestoreOperatorError ''Only a validated no-action restore preflight may request approval''))
    (bind (current_instant current_time) (\<lambda>instant.
     bind (lift_result (check_restore_request review instant expires_at)) (\<lambda>(impact, expiry).
     bind (request_backup_restore_approval actor plan_sha256 impact expiry) (\<lambda>approval_id.
     restore_operation actor plan_sha256 ''REQUEST_APPROVAL'' approval_id)))))"

text \<open>The first item with the id, in a status, with the expected conditions.\<close>

definition first_exact :: "string \<Rightarrow> string \<Rightarrow> pydict \<Rightarrow> bool" where
  "first_exact status approval_id review = (case items_of approval_id review of
     [] \<Rightarrow> False
   | d # rest \<Rightarrow> dget d ''status'' = PStr status \<and> truthy (dget d ''conditions_match''))"

definition decide_exact_restore_approval ::
  "actor \<Rightarrow> string \<Rightarrow> string \<Rightarrow> bool \<Rightarrow> string \<Rightarrow> string \<Rightarrow> pydict py" where
  "decide_exact_restore_approval actor plan_sha256 approval_id approve reason expected_review_sha256 =
     bind (require_current_restore_review actor plan_sha256 expected_review_sha256) (\<lambda>review.
     seq (raise_if (\<not> first_exact ''PENDING'' approval_id review)
            (BackupRestoreOperatorError ''Restore approval is not the exact pending request under review''))
    (seq (raise_if (\<not> actor_is_sean actor)
            (BackupRestoreOperatorError ''Only Sean may decide an isolated restore approval''))
    (seq (raise_if (blank reason \<or> 240 < length reason)
            (BackupRestoreOperatorError ''Restore approval decision requires a bounded reason''))
    (seq (raise_if (secret_findings (PStr reason) \<noteq> [])
            (BackupRestoreOperatorError ''Secret-like material is prohibited in restore approval evidence''))
    (bind (decide_approval actor approval_id approve reason) (\<lambda>status.
     seq (raise_if (status \<noteq> (if approve then AP_APPROVED else AP_DENIED))
            (ValidationError ''Restore approval decision did not reach the requested state''))
         (restore_operation actor plan_sha256 (if approve then ''APPROVE'' else ''DENY'') approval_id)))))))"

definition authorize_exact_restore_state ::
  "environment \<Rightarrow> actor \<Rightarrow> string \<Rightarrow> string \<Rightarrow> string \<Rightarrow> string \<Rightarrow> datetime option \<Rightarrow> pydict py" where
  "authorize_exact_restore_state env actor plan_sha256 approval_id expected_review_sha256 confirm_plan_sha256
     current_time =
     seq (lift_result (require_hash BackupRestoreOperatorError ''plan_sha256'' plan_sha256))
    (seq (lift_result (require_hash BackupRestoreOperatorError ''confirm_plan_sha256'' confirm_plan_sha256))
    (seq (raise_if (confirm_plan_sha256 \<noteq> plan_sha256)
            (BackupRestoreOperatorError ''Exact restore plan confirmation does not match''))
    (bind (require_current_restore_review actor plan_sha256 expected_review_sha256) (\<lambda>review.
     seq (raise_if (dget review ''restore_status'' \<noteq> PStr ''PREFLIGHT_VALIDATED'' \<or>
                    \<not> first_exact ''APPROVED'' approval_id review)
            (BackupRestoreOperatorError ''Restore approval is not the exact approved request under review''))
    (seq (raise_if (list_ex (env_set env) RESTORE_ACTIVATION_ENV_KEYS)
            (BackupRestoreOperatorError ''State authorization requires all restore execution and secret values absent''))
    (bind (current_instant current_time) (\<lambda>instant.
     bind (lift_result (in_execution_window review instant)) (\<lambda>inside.
     seq (raise_if (\<not> inside)
            (BackupRestoreOperatorError ''Restore state authorization is outside the exact execution window''))
    (seq (authorize_backup_restore actor plan_sha256 approval_id (Some (isoformat instant)))
    (bind (review_backup_restore actor plan_sha256) (\<lambda>updated.
     seq (raise_if (dget updated ''restore_status'' \<noteq> PStr ''AUTHORIZED'')
            (ValidationError ''Isolated restore did not reach authorized state''))
         (lift_result (restore_operation_result ''AUTHORIZE_STATE_ONLY'' updated approval_id)))))))))))))"

section \<open>The laws\<close>

lemma reader_review_backup_restore: "reader (review_backup_restore actor plan_sha256)"
  unfolding review_backup_restore_def by (intro reader_intros reader_get_backup_restore)

lemma reader_require_current_restore_review: "reader (require_current_restore_review actor plan_sha256 expected)"
  unfolding require_current_restore_review_def by (intro reader_intros reader_review_backup_restore)

lemma reader_restore_operation: "reader (restore_operation actor plan_sha256 name approval_id)"
  unfolding restore_operation_def by (intro reader_intros reader_review_backup_restore)

lemmas lawful_restore_operator [legal_ops] =
  store.lawful_reader [OF reader_review_backup_restore] store.lawful_reader [OF reader_require_current_restore_review]
  store.lawful_reader [OF reader_restore_operation]

lemma lawful_request_exact_restore_approval [legal_ops]:
  "lawful prof P (request_exact_restore_approval actor plan_sha256 expected expires_at current_time)"
  unfolding request_exact_restore_approval_def by (intro op_rules legal_ops)

lemma lawful_decide_exact_restore_approval [legal_ops]:
  "lawful prof P (decide_exact_restore_approval actor plan_sha256 approval_id approve reason expected)"
  unfolding decide_exact_restore_approval_def by (intro op_rules legal_ops)

lemma lawful_authorize_exact_restore_state [legal_ops]:
  "lawful prof P (authorize_exact_restore_state env actor plan_sha256 approval_id expected confirm current_time)"
  unfolding authorize_exact_restore_state_def by (intro op_rules legal_ops)

end
