(* ===== verification/Scheduler.thy ===== *)
theory Scheduler
  imports Store_Rules Store_Work Calendar
begin

text \<open>
  \<^verbatim>\<open>sean_os/scheduler.py\<close>: cadence work, dispatched once per local calendar period. The
  time-zone database is a parameter: the UTC offset of the zone, in microseconds, at an instant.
\<close>

section \<open>Local periods\<close>

definition day_key :: "int \<Rightarrow> string" where
  "day_key local_time = (let (y, m, d) = ord2ymd (local_time div usec_of_day + 1)
     in pad 4 y @ ''-'' @ pad 2 m @ ''-'' @ pad 2 d)"

text \<open>The ISO year and week of a day: weeks start on Monday, week 1 holds the first Thursday.\<close>

definition iso_week :: "int \<Rightarrow> int \<times> int" where
  "iso_week ord = (let (y, m, d) = ord2ymd ord in
     if ord < isoweek1monday y then (y - 1, (ord - isoweek1monday (y - 1)) div 7 + 1)
     else if isoweek1monday (y + 1) \<le> ord then (y + 1, (ord - isoweek1monday (y + 1)) div 7 + 1)
     else (y, (ord - isoweek1monday y) div 7 + 1))"

definition week_key :: "int \<Rightarrow> string" where
  "week_key local_time = (let (y, w) = iso_week (local_time div usec_of_day + 1)
     in pad 4 y @ ''-W'' @ pad 2 w)"

definition weekday :: "int \<Rightarrow> int" where
  "weekday local_time = (local_time div usec_of_day + 7) mod 7"

section \<open>Dispatching\<close>

definition dispatch_transaction ::
  "string \<Rightarrow> string \<Rightarrow> string \<Rightarrow> pydict \<Rightarrow> int \<Rightarrow> string \<Rightarrow> string \<Rightarrow> bool py" where
  "dispatch_transaction schedule_name period_key task_type payload priority work_id stamp =
     seq begin_immediate
    (bind (table db_dispatches) (\<lambda>rows.
     if row_by dispatch_key (schedule_name, period_key) rows \<noteq> None
     then seq commit (ret False)
     else
       seq (sql_insert_new db_work db_work_update wk_id
              \<lparr>wk_id = work_id, wk_type = task_type, wk_scope = ''IAC'',
               wk_payload = PDict (canon_dict payload), wk_status = WK_QUEUED,
               wk_priority = priority, wk_attempts = 0, wk_max = 3,
               wk_available_at = stamp, wk_owner = None, wk_lease = None,
               wk_error = None, wk_created_at = stamp, wk_updated_at = stamp\<rparr>)
      (seq (sql_insert_new db_dispatches db_dispatches_update dispatch_key
              \<lparr>sd_name = schedule_name, sd_period = period_key, sd_work = work_id, sd_at = stamp\<rparr>)
      (seq commit
       (ret True)))))"

definition dispatch_once ::
  "actor \<Rightarrow> string \<Rightarrow> string \<Rightarrow> string \<Rightarrow> pydict \<Rightarrow> int \<Rightarrow> string option py" where
  "dispatch_once actor schedule_name period_key task_type payload priority =
     seq (authorize actor ''IAC'' [] ''write'')
    (bind uuid4 (\<lambda>work_id. bind now (\<lambda>stamp.
     bind (try_except
             (dispatch_transaction schedule_name period_key task_type payload priority work_id stamp)
             (\<lambda>e. seq rollback (raise e))) (\<lambda>dispatched.
     if \<not> dispatched then ret None
     else
       seq (record_policy_decision actor (Some work_id) True ''Scheduled work dispatched''
              [(''schedule_name'', PStr schedule_name), (''period_key'', PStr period_key),
               (''task_type'', PStr task_type), (''priority'', PInt priority)])
        (ret (Some work_id))))))"

text \<open>One schedule: its name, period key, task type, payload and priority.\<close>

type_synonym schedule = "string \<times> string \<times> string \<times> pydict \<times> int"

definition schedules :: "int \<Rightarrow> schedule list" where
  "schedules local_time =
     (let day = day_key local_time; week = week_key local_time in
      [(''daily-portfolio-maintenance'', day, ''CHIEF_MAINTAIN_PORTFOLIO'',
          [(''period_key'', PStr day)], 40),
       (''daily-operational-report'', day, ''GENERATE_OPERATIONAL_REPORT'',
          [(''cadence'', PStr ''DAILY''), (''period_key'', PStr day)], 50)] @
      (if weekday local_time = 0 then
         [(''weekly-operational-report'', week, ''GENERATE_OPERATIONAL_REPORT'',
            [(''cadence'', PStr ''WEEKLY''), (''period_key'', PStr week)], 50)]
       else []))"

definition dispatch_schedule :: "actor \<Rightarrow> schedule \<Rightarrow> string option py" where
  "dispatch_schedule actor s = (case s of (name, period, task_type, payload, priority) \<Rightarrow>
     dispatch_once actor name period task_type payload priority)"

definition scheduler_tick :: "(instant \<Rightarrow> int) \<Rightarrow> actor \<Rightarrow> instant option \<Rightarrow> string list py" where
  "scheduler_tick utc_offset actor at_time =
     bind (case at_time of None \<Rightarrow> now_instant | Some t \<Rightarrow> ret t) (\<lambda>t.
     bind (collect (schedules (t + utc_offset t)) (dispatch_schedule actor)) (\<lambda>ids.
     ret (List.map_filter id ids)))"

section \<open>The dispatched payloads are clean\<close>

lemma no_search:
  assumes "\<And>q t. set t \<subseteq> set s \<Longrightarrow> rx_match r (q, t) = []"
  shows "\<not> rx_search_from r c s"
  using assms
proof (induction s arbitrary: c)
  case Nil
  then show ?case by simp
next
  case (Cons x s)
  have "\<not> rx_search_from r (Some x) s" by (rule Cons.IH) (use Cons.prems in auto)
  moreover have "rx_match r (c, x # s) = []" by (rule Cons.prems) simp
  ultimately show ?case by simp
qed

lemma starts_with_set: "starts_with s p \<Longrightarrow> set p \<subseteq> set s"
  unfolding starts_with_def by (metis set_take_subset)

lemma lower_char_b: "lower_char c = CHR ''b'' \<Longrightarrow> c = CHR ''b'' \<or> c = CHR ''B''"
  by (cases c) (auto simp: lower_char_bits)

text \<open>Every secret pattern starts with letters no date contains.\<close>

lemma clean_without_markers:
  assumes "CHR ''B'' \<notin> set s" "CHR ''b'' \<notin> set s" "CHR ''s'' \<notin> set s" "CHR ''A'' \<notin> set s"
  shows "clean_value (PStr s)"
proof -
  have lit: "rx_match (Seq (Lit l) r) (q, t) = []" if "x \<in> set l" "x \<notin> set s" "set t \<subseteq> set s" for x l r q t
    using that starts_with_set [of t l] by auto
  have word: "rx_match (Seq WordB r) (q, t) = []" if "rx_match r (q, t) = []" for r q t
    using that by simp
  have nocase: "rx_match (Seq (LitNoCase ''Bearer'') r) (q, t) = []" if "set t \<subseteq> set s" for r q t
  proof (cases t)
    case (Cons c u)
    then have "lower_char c \<noteq> CHR ''b''" using that assms lower_char_b by auto
    moreover have "lower ''Bearer'' = ''bearer''" by code_simp
    ultimately show ?thesis using Cons by (simp add: lower_def)
  qed simp
  have "\<not> rx_search_from (Seq (Lit ''-----BEGIN '') r) c s" for r c
    by (intro no_search lit [of "CHR ''B''"]) (simp_all add: assms)
  moreover have "\<not> rx_search_from (Seq WordB (Seq (Lit ''sk-'') r)) c s" for r c
    by (intro no_search word lit [of "CHR ''s''"]) (simp_all add: assms)
  moreover have "\<not> rx_search_from (Seq WordB (Seq (Lit ''AKIA'') r)) c s" for r c
    by (intro no_search word lit [of "CHR ''A''"]) (simp_all add: assms)
  moreover have "\<not> rx_search_from (Seq WordB (Seq (LitNoCase ''Bearer'') r)) c s" for r c
    by (intro no_search word nocase)
  ultimately show ?thesis
    by (simp add: SECRET_PATTERNS_def rx_search_def)
qed

lemma period_key_clean:
  "clean_value (PStr (day_key t))" "clean_value (PStr (week_key t))"
  by (rule clean_without_markers;
      auto simp: day_key_def week_key_def split: prod.splits dest!: digits_in_pad simp: is_digit_def less_eq_char_def)+

lemma schedules_clean: "(name, period, task_type, payload, priority) \<in> set (schedules t) \<Longrightarrow> clean_value (PDict payload)"
proof -
  have keys: "\<not> List.member SENSITIVE_KEYS (normalized_key ''period_key'')"
    "\<not> List.member SENSITIVE_KEYS (normalized_key ''cadence'')"
    "clean_value (PStr ''DAILY'')" "clean_value (PStr ''WEEKLY'')" by code_simp+
  assume "(name, period, task_type, payload, priority) \<in> set (schedules t)"
  then show ?thesis
    using keys period_key_clean by (auto simp: schedules_def Let_def simp del: clean_value.simps(3) split: if_splits)
qed

section \<open>The dispatcher respects the laws of the store\<close>

lemma lawful_dispatch_once [legal_ops]:
  assumes "clean_value (PDict payload)"
  shows "lawful prof P (dispatch_once actor name period task_type payload priority)"
  unfolding dispatch_once_def dispatch_transaction_def
proof (intro op_rules legal_ops store.lawful_try, goal_cases)
  case 1
  then show ?case
    unfolding store_le_table
    by (intro work.step_insert) (simp_all add: work_ok_def clean_json assms del: clean_value.simps)
next
  case 2
  then show ?case unfolding store_le_table by (intro dispatches.step_insert) simp_all
qed

lemma lawful_scheduler_tick [legal_ops]: "lawful prof P (scheduler_tick utc_offset actor at_time)"
  unfolding scheduler_tick_def dispatch_schedule_def
  by (intro op_rules legal_ops) (auto dest: schedules_clean simp del: clean_value.simps)

section \<open>Once per period\<close>

text \<open>A dispatched period is not dispatched again; a fresh one adds one item and one dispatch.\<close>

lemma wp_dispatch_once:
  "wp (dispatch_once actor name period task_type payload priority)
    (\<lambda>x v. w_committed v = w_db v \<and> denial (w_profile w) actor ''IAC'' [] ''write'' = None \<and>
       w_profile v = w_profile w \<and>
       (case x of
          None \<Rightarrow> row_by dispatch_key (name, period) (db_dispatches (w_db w)) \<noteq> None \<and> w_db v = w_db w
        | Some i \<Rightarrow> row_by dispatch_key (name, period) (db_dispatches (w_db w)) = None \<and>
            (\<exists>r d. db_work (w_db v) = db_work (w_db w) @ [r] \<and> wk_id r = i \<and> wk_type r = task_type \<and>
              wk_status r = WK_QUEUED \<and> db_dispatches (w_db v) = db_dispatches (w_db w) @ [d] \<and>
              dispatch_key d = (name, period) \<and> sd_work d = i)))
    (\<lambda>e v. w_committed v = w_committed w) w"
  unfolding dispatch_once_def dispatch_transaction_def record_policy_decision_def
  by (auto simp: py_wp dispatch_key_def split: option.splits)

end
