(* ===== verification/Bridge.thy ===== *)
theory Bridge
  imports Commands
begin

text \<open>
  \<^verbatim>\<open>sean_os/bridge.py\<close>: the fail-closed receiver of commands from the separately owned Sean
  OS. It checks an envelope field by field and hands the command to the gateway as the actor
  \<open>sean-os-bridge\<close>, which holds the IAC scope only.
\<close>

section \<open>The contract\<close>

definition BRIDGE_VERSION :: string where
  "BRIDGE_VERSION = ''sean-os-iac-bridge/v1''"

definition ALLOWED_COMMANDS :: "string list" where
  "ALLOWED_COMMANDS = [''CREATE_IAC_GOAL'', ''CREATE_PROJECT'', ''REVIEW_PORTFOLIO'', ''QUALIFY_REVENUE'',
     ''COMPARE_REVENUE_PORTFOLIO'', ''GENERATE_REPORT'', ''REQUEST_CUSTOMER_CONTACT_APPROVAL'']"

definition PERSONAL_KEYS :: "string list" where
  "PERSONAL_KEYS = [''personal'', ''family'', ''health'', ''medical'', ''bank'', ''rbc'', ''wealth'', ''home_address'']"

definition BRIDGE_FIELDS :: "string list" where
  "BRIDGE_FIELDS = [''contract_version'', ''request_id'', ''issued_at'', ''target'', ''command_type'',
     ''payload'', ''personal_data_included'', ''payload_sha256'']"

definition bridge_actor :: actor where
  "bridge_actor = \<lparr>actor_id = ''sean-os-bridge'', actor_scopes = [''IAC''], actor_is_sean = False\<rparr>"

fun personal_paths_at :: "pyval \<Rightarrow> string \<Rightarrow> string list" where
  "personal_paths_at (PDict d) path =
     concat (map (\<lambda>(k, v). let child = path @ ''.'' @ k in
       (if List.member PERSONAL_KEYS (normalized_key k) then [child] else []) @
       personal_paths_at v child) d)"
| "personal_paths_at (PList xs) path =
     concat (map (\<lambda>(i, v). personal_paths_at v (path @ ''['' @ dec i @ '']'')) (enumerate 0 xs))"
| "personal_paths_at v path = []"

definition personal_paths :: "pyval \<Rightarrow> string list" where
  "personal_paths v = personal_paths_at v ''$''"

record bridge_receipt =
  br_version :: string
  br_request :: string
  br_work :: string
  br_status :: string

text \<open>The checks of \<open>accept\<close>: the command and payload, or the refusal.\<close>

definition bridge_check :: "(string \<Rightarrow> string) \<Rightarrow> pydict \<Rightarrow> exn + (string \<times> pydict)" where
  "bridge_check sha envelope =
     (if \<not> fields_are envelope BRIDGE_FIELDS
      then Inl (BridgeDenied ''Bridge envelope fields do not match the contract'')
      else if dget envelope ''contract_version'' \<noteq> PStr BRIDGE_VERSION \<or> dget envelope ''target'' \<noteq> PStr ''IAC''
      then Inl (BridgeDenied ''Bridge version or target mismatch'')
      else if dget envelope ''personal_data_included'' \<noteq> PBool False
      then Inl (BridgeDenied ''PERSONAL data is prohibited on the IAC bridge'')
      else
        let command = upper (py_str (dget envelope ''command_type'')) in
        case dget envelope ''payload'' of
          PDict payload \<Rightarrow>
            if \<not> List.member ALLOWED_COMMANDS command
            then Inl (BridgeDenied ''Command is not exposed across the ownership bridge'')
            else if personal_paths (PDict payload) \<noteq> [] \<or> secret_findings (PDict payload) \<noteq> []
            then Inl (BridgeDenied ''Bridge payload contains prohibited PERSONAL or secret material'')
            else if dget envelope ''payload_sha256'' \<noteq> PStr (sha (dumps (PDict payload)))
            then Inl (BridgeDenied ''Bridge command integrity check failed'')
            else Inr (command, payload)
        | _ \<Rightarrow> Inl (BridgeDenied ''Command is not exposed across the ownership bridge''))"

definition bridge_accept :: "pydict \<Rightarrow> bridge_receipt py" where
  "bridge_accept envelope =
     bind (reads w_sha256) (\<lambda>sha.
     bind (lift_result (bridge_check sha envelope)) (\<lambda>(command, payload).
     let request = py_str (dget envelope ''request_id'') in
     bind (submit bridge_actor (''bridge:'' @ request) command payload ''IAC'') (\<lambda>submitted.
     ret \<lparr>br_version = BRIDGE_VERSION, br_request = request, br_work = su_work submitted,
          br_status = su_status submitted\<rparr>)))"

lemma lawful_bridge_accept [legal_ops]: "lawful prof P (bridge_accept envelope)"
  unfolding bridge_accept_def by (intro op_rules legal_ops)

section \<open>What the scan for personal data finds\<close>

text \<open>The specification: a key at some depth normalises to a personal key.\<close>

fun has_personal_key :: "pyval \<Rightarrow> bool" where
  "has_personal_key (PDict d) =
     list_ex (\<lambda>(k, v). List.member PERSONAL_KEYS (normalized_key k) \<or> has_personal_key v) d"
| "has_personal_key (PList xs) = list_ex has_personal_key xs"
| "has_personal_key v = False"

lemma personal_paths_at_empty_iff: "personal_paths_at v path = [] \<longleftrightarrow> \<not> has_personal_key v"
proof (induction v arbitrary: path rule: has_personal_key.induct)
  case (1 d)
  have "personal_paths_at (PDict d) path = [] \<longleftrightarrow>
      (\<forall>(k, v)\<in>set d. \<not> List.member PERSONAL_KEYS (normalized_key k) \<and>
         personal_paths_at v (path @ ''.'' @ k) = [])"
    by (auto simp: Let_def split: if_splits)
  also have "\<dots> \<longleftrightarrow> \<not> has_personal_key (PDict d)"
    using 1 by (fastforce simp: list_ex_iff)
  finally show ?case .
next
  case (2 xs)
  have "personal_paths_at (PList xs) path = [] \<longleftrightarrow>
      (\<forall>(i, v)\<in>set (enumerate 0 xs). \<not> has_personal_key v)"
    using 2 by (fastforce dest: enumerate_member)
  also have "\<dots> \<longleftrightarrow> (\<forall>v\<in>snd ` set (enumerate 0 xs). \<not> has_personal_key v)" by auto
  also have "snd ` set (enumerate 0 xs) = set xs"
    by (metis list.set_map map_snd_enumerate)
  finally show ?case by (simp add: list_ex_iff)
qed auto

lemma personal_paths_empty_iff: "personal_paths v = [] \<longleftrightarrow> \<not> has_personal_key v"
  by (simp add: personal_paths_def personal_paths_at_empty_iff)

end
