(* ===== verification/Monitoring.thy ===== *)
theory Monitoring
  imports Store_Alerts Store_Deliveries Work_Behaviour
begin

text \<open>
  \<^verbatim>\<open>sean_os/monitoring.py\<close>: alerts from a health snapshot, the reviewable delivery plans made
  of them, and the evidence of acknowledgement and synthetic delivery. Digests are taken with
  the function \<open>sha\<close>.
\<close>

section \<open>Escalation routes\<close>

record escalation_route =
  er_id :: string
  er_scope :: string
  er_kind :: string
  er_ref :: string
  er_minimum :: string

definition SEVERITIES :: "string list" where
  "SEVERITIES = [''ATTENTION'', ''HIGH'', ''CRITICAL'']"

definition severity_level :: "string \<Rightarrow> nat" where
  "severity_level s = (if s = ''ATTENTION'' then 1 else if s = ''HIGH'' then 2 else 3)"

definition make_route :: "escalation_route \<Rightarrow> exn + escalation_route" where
  "make_route r =
     (if blank (er_id r) \<or> blank (er_ref r)
      then Inl (ValueError ''route_id and destination_ref are required'')
      else if \<not> List.member [''PERSONAL'', ''IAC''] (er_scope r)
      then Inl (ValueError ''Escalation routes must be owned by PERSONAL or IAC'')
      else if \<not> List.member [''EMAIL'', ''WEBHOOK''] (er_kind r)
      then Inl (ValueError ''Unsupported escalation destination kind'')
      else if \<not> List.member SEVERITIES (er_minimum r)
      then Inl (ValueError ''Unsupported minimum severity'')
      else Inr r)"

section \<open>Alerts\<close>

definition alert :: "string \<Rightarrow> string \<Rightarrow> string \<Rightarrow> pydict" where
  "alert code severity summary =
     [(''code'', PStr code), (''severity'', PStr severity), (''summary'', PStr summary)]"

definition queue_alert :: "health \<Rightarrow> work_status \<times> string \<times> string \<Rightarrow> pydict list" where
  "queue_alert h x = (case x of (status, severity, summary) \<Rightarrow>
     (let count = count_of (he_queue h) status in
      if count \<noteq> 0 then [alert (work_status_str status) severity (dec count @ '' work item(s): '' @ summary)]
      else []))"

definition classify_alerts :: "bool \<Rightarrow> health \<Rightarrow> bool option \<Rightarrow> pydict list" where
  "classify_alerts integrity_ok h backup_ok =
     (if \<not> integrity_ok then [alert ''DATABASE_INTEGRITY_FAILED'' ''CRITICAL'' ''Database integrity check failed''] else []) @
     (if he_kill_switch h then [alert ''KILL_SWITCH_ACTIVE'' ''CRITICAL'' ''Runtime kill switch is active''] else []) @
     (if list_ex snd (he_workers h) then [alert ''STALE_WORKER'' ''CRITICAL'' ''At least one runtime worker is stale''] else []) @
     concat (map (queue_alert h)
       [(WK_DEAD_LETTER, ''CRITICAL'', ''Work reached the dead-letter queue''),
        (WK_POLICY_BLOCKED, ''HIGH'', ''Work was blocked by runtime policy''),
        (WK_BUDGET_BLOCKED, ''HIGH'', ''Work was blocked by its budget ceiling''),
        (WK_APPROVAL_BLOCKED, ''ATTENTION'', ''Work requires an exact approval'')]) @
     (if he_active h = 0 then [alert ''NO_ACTIVE_WORKER'' ''CRITICAL'' ''No active runtime worker is reporting''] else []) @
     (if count_of (he_deliveries h) OB_FAILED \<noteq> 0
      then [alert ''ALERT_DELIVERY_FAILED'' ''CRITICAL'' ''Synthetic alert delivery exhausted retries''] else []) @
     (if count_of (he_transfers h) OB_FAILED \<noteq> 0
      then [alert ''BACKUP_TRANSFER_FAILED'' ''CRITICAL'' ''Backup transfer exhausted retries''] else []) @
     (if count_of (he_transfers h) OB_RECONCILE \<noteq> 0
      then [alert ''BACKUP_TRANSFER_RECONCILIATION_REQUIRED'' ''CRITICAL''
              ''Backup provider write result requires manual reconciliation''] else []) @
     (if count_of (he_restores h) OB_FAILED \<noteq> 0
      then [alert ''BACKUP_RESTORE_FAILED'' ''CRITICAL''
              ''Isolated backup restore exhausted retries or its approved window''] else []) @
     (if count_of (he_restores h) OB_RECONCILE \<noteq> 0
      then [alert ''BACKUP_RESTORE_RECONCILIATION_REQUIRED'' ''CRITICAL''
              ''Isolated restore artifact requires manual reconciliation''] else []) @
     (if backup_ok = Some False then [alert ''BACKUP_FAILED'' ''CRITICAL'' ''Latest verified backup failed''] else [])"

section \<open>Delivery plans\<close>

definition delivery_plan :: "(string \<Rightarrow> string) \<Rightarrow> escalation_route \<Rightarrow> string \<Rightarrow> pydict \<Rightarrow> pydict" where
  "delivery_plan sha route owner_scope a =
     [(''schema_version'', PInt 1),
      (''plan_id'', PStr (sha (dumps (PDict [(''owner_scope'', PStr owner_scope),
         (''route_id'', PStr (er_id route)), (''alert'', PDict a)])))),
      (''status'', PStr ''PLANNED''),
      (''delivery_authorized'', PBool False),
      (''approval_required'', PBool True),
      (''approval_action_type'', PStr ''DELIVER_ALERT''),
      (''action_target'', PStr (er_id route)),
      (''owner_scope'', PStr owner_scope),
      (''route'', PDict [(''route_id'', PStr (er_id route)), (''destination_kind'', PStr (er_kind route)),
         (''destination_ref'', PStr (er_ref route))]),
      (''alert'', PDict a)]"

fun plan_alerts :: "(string \<Rightarrow> string) \<Rightarrow> escalation_route \<Rightarrow> string \<Rightarrow> pydict list \<Rightarrow> exn + pydict list" where
  "plan_alerts sha route owner_scope [] = Inr []"
| "plan_alerts sha route owner_scope (a # alerts) =
     ebind (in_names (dget_or a ''severity'' (PStr [])) SEVERITIES) (\<lambda>known.
     if \<not> known then Inl (ValueError ''Alert has unsupported severity'')
     else ebind (plan_alerts sha route owner_scope alerts) (\<lambda>plans.
       if severity_level (sval (dget a ''severity'')) < severity_level (er_minimum route) then Inr plans
       else Inr (delivery_plan sha route owner_scope a # plans)))"

definition plan_alert_deliveries ::
  "(string \<Rightarrow> string) \<Rightarrow> pydict list \<Rightarrow> escalation_route \<Rightarrow> string \<Rightarrow> exn + pydict list" where
  "plan_alert_deliveries sha alerts route owner_scope =
     (if owner_scope \<noteq> er_scope route
      then Inl (ValueError ''Alert scope does not match escalation route ownership'')
      else plan_alerts sha route owner_scope alerts)"

definition is_plan_id :: "pyval \<Rightarrow> bool" where
  "is_plan_id v = (is_str v \<and> length (sval v) = 64)"

fun deduplicate_alert_plans :: "string list \<Rightarrow> pydict list \<Rightarrow> exn + pydict list" where
  "deduplicate_alert_plans seen [] = Inr []"
| "deduplicate_alert_plans seen (plan # plans) =
     (let plan_id = dget plan ''plan_id'' in
      if \<not> is_plan_id plan_id then Inl (ValueError ''Alert plan requires a deterministic plan_id'')
      else if List.member seen (sval plan_id) then deduplicate_alert_plans seen plans
      else ebind (deduplicate_alert_plans (sval plan_id # seen) plans) (\<lambda>unique. Inr (plan # unique)))"

section \<open>Evidence\<close>

text \<open>\<open>datetime.fromisoformat\<close> of a text that must be an aware timestamp.\<close>

definition aware_text :: "string \<Rightarrow> string \<Rightarrow> exn + datetime" where
  "aware_text field s = (case fromisoformat s of
     Inl e \<Rightarrow> Inl (ValueError (field @ '' must be ISO-8601''))
   | Inr dt \<Rightarrow> if is_aware dt then Inr dt else Inl (ValueError (field @ '' must include a timezone'')))"

definition with_digest :: "(string \<Rightarrow> string) \<Rightarrow> pydict \<Rightarrow> pydict" where
  "with_digest sha evidence = evidence @ [(''receipt_sha256'', PStr (sha (dumps (PDict evidence))))]"

definition acknowledge_alert_plan ::
  "(string \<Rightarrow> string) \<Rightarrow> pydict \<Rightarrow> string \<Rightarrow> string \<Rightarrow> exn + pydict" where
  "acknowledge_alert_plan sha plan acknowledged_by acknowledged_at =
     (if \<not> is_plan_id (dget plan ''plan_id'') then Inl (ValueError ''Alert plan requires a deterministic plan_id'')
      else if blank acknowledged_by then Inl (ValueError ''acknowledged_by is required'')
      else ebind (aware_text ''acknowledged_at'' acknowledged_at) (\<lambda>instant.
        Inr (with_digest sha
          [(''schema_version'', PInt 1), (''plan_id'', dget plan ''plan_id''),
           (''owner_scope'', dget plan ''owner_scope''), (''route_id'', dget plan ''action_target''),
           (''acknowledged_by'', PStr acknowledged_by), (''acknowledged_at'', PStr (isoformat instant)),
           (''delivery_authorized'', PBool False)])))"

definition synthetic_delivery_receipt ::
  "(string \<Rightarrow> string) \<Rightarrow> delivery_row \<Rightarrow> string \<Rightarrow> exn + pydict" where
  "synthetic_delivery_receipt sha delivery delivered_at =
     ebind (aware_text ''delivered_at'' delivered_at) (\<lambda>instant.
     if bx_status delivery \<noteq> OB_AUTHORIZED
     then Inl (ValueError ''Synthetic adapter requires an authorized delivery'')
     else Inr (with_digest sha
       [(''schema_version'', PInt 1), (''delivery_id'', PStr (bx_id delivery)),
        (''payload_sha256'', PStr (dl_sha256 delivery)), (''delivered_at'', PStr (isoformat instant)),
        (''mode'', PStr ''SYNTHETIC''), (''network_used'', PBool False), (''external_effect'', PBool False)]))"

section \<open>Snapshots\<close>

record snapshot =
  sn_healthy :: bool
  sn_alerts :: "pydict list"
  sn_observations :: "(observation_row \<times> incident_row) list"
  sn_health :: health

definition monitor_actor :: "string \<Rightarrow> actor" where
  "monitor_actor scope = \<lparr>actor_id = ''runtime-monitor'', actor_scopes = [scope], actor_is_sean = False\<rparr>"

definition capture_monitor_snapshot ::
  "bool \<Rightarrow> int \<Rightarrow> bool option \<Rightarrow> escalation_route option \<Rightarrow> snapshot py" where
  "capture_monitor_snapshot integrity_ok stale_after backup_ok route =
     bind (runtime_health integrity_ok stale_after True (map_option er_scope route)) (\<lambda>h.
     let alerts = classify_alerts integrity_ok h backup_ok in
     bind (case route of
             None \<Rightarrow> ret []
           | Some r \<Rightarrow>
               bind (reads w_sha256) (\<lambda>sha.
               bind (lift_result (plan_alert_deliveries sha alerts r (er_scope r))) (\<lambda>plans.
               collect plans (record_alert_observation (monitor_actor (er_scope r)))))) (\<lambda>observations.
     ret \<lparr>sn_healthy = (he_healthy h \<and> backup_ok \<noteq> Some False), sn_alerts = alerts,
          sn_observations = observations, sn_health = h\<rparr>))"

record runtime_monitor =
  mn_route :: escalation_route
  mn_interval :: pyfloat
  mn_stale_after :: int
  mn_next_due :: pyfloat

definition make_monitor :: "runtime_monitor \<Rightarrow> exn + runtime_monitor" where
  "make_monitor m =
     (if flt (mn_interval m) (Fin 1) then Inl (ValueError ''Monitoring interval must be at least one second'')
      else if mn_stale_after m < 1 then Inl (ValueError ''Stale threshold must be positive'')
      else Inr m)"

text \<open>A tick returns the snapshot, if one was due, and the monitor with its next due time.\<close>

definition monitor_tick :: "bool \<Rightarrow> runtime_monitor \<Rightarrow> pyfloat \<Rightarrow> (snapshot option \<times> runtime_monitor) py" where
  "monitor_tick integrity_ok m monotonic_now =
     (if flt monotonic_now (mn_next_due m) then ret (None, m)
      else
        bind (capture_monitor_snapshot integrity_ok (mn_stale_after m) None (Some (mn_route m))) (\<lambda>s.
        ret (Some s, m\<lparr>mn_next_due := fadd monotonic_now (mn_interval m)\<rparr>)))"

lemma lawful_capture [legal_ops]:
  "lawful prof P (capture_monitor_snapshot integrity_ok stale_after backup_ok route)"
  unfolding capture_monitor_snapshot_def by (intro op_rules legal_ops)

lemma lawful_monitor_tick [legal_ops]: "lawful prof P (monitor_tick integrity_ok m monotonic_now)"
  unfolding monitor_tick_def by (intro op_rules legal_ops)

end
