(* ===== verification/Runtime_Policy.thy ===== *)
theory Runtime_Policy
  imports Store_Approvals Work_Behaviour
begin

text \<open>
  \<^verbatim>\<open>sean_os/policy.py\<close>: the registry of actions and the gate in front of their handlers. A
  handler is any action on the world; the registry is the list of its entries in registration
  order, found by the name of their policy.
\<close>

section \<open>Policies and the registry\<close>

record action_policy =
  pol_name :: string
  pol_scopes :: "string list"
  pol_external :: bool
  pol_reversible :: bool
  pol_approval :: bool
  pol_cost :: bool
  pol_prohibited :: bool

type_synonym handler = "pyval \<Rightarrow> pydict py"

type_synonym registry = "(action_policy \<times> handler) list"

definition entry_for :: "registry \<Rightarrow> string \<Rightarrow> (action_policy \<times> handler) option" where
  "entry_for reg task_type = find (\<lambda>(p, h). pol_name p = task_type) reg"

definition register :: "action_policy \<Rightarrow> handler \<Rightarrow> registry \<Rightarrow> exn + registry" where
  "register policy h reg =
     (if entry_for reg (pol_name policy) \<noteq> None
      then Inl (ValueError (''Action already registered: '' @ pol_name policy))
      else Inr (reg @ [(policy, h)]))"

definition policy_for :: "registry \<Rightarrow> string \<Rightarrow> exn + (action_policy \<times> handler)" where
  "policy_for reg task_type = (case entry_for reg task_type of
     None \<Rightarrow> Inl (PolicyDenied (''No registered action policy or handler for '' @ task_type) False)
   | Some e \<Rightarrow> Inr e)"

definition noop_policy :: action_policy where
  "noop_policy = \<lparr>pol_name = ''NOOP'', pol_scopes = [''PERSONAL'', ''IAC'', ''SHARED''], pol_external = False,
     pol_reversible = True, pol_approval = False, pol_cost = False, pol_prohibited = False\<rparr>"

definition noop_handler :: handler where
  "noop_handler payload = ret [(''ok'', PBool True), (''echo'', payload)]"

definition default_registry :: registry where
  "default_registry = (case register noop_policy noop_handler [] of Inl e \<Rightarrow> [] | Inr reg \<Rightarrow> reg)"

section \<open>The gate\<close>

text \<open>The work dict an action is executed for; \<open>None\<close> stands for an absent key.\<close>

record action_request =
  rq_id :: "string option"
  rq_type :: "string option"
  rq_scope :: "string option"
  rq_payload :: "pyval option"

definition request_type :: "action_request \<Rightarrow> string" where
  "request_type work = (case rq_type work of None \<Rightarrow> ''<missing>'' | Some t \<Rightarrow> t)"

definition need_key :: "string \<Rightarrow> 'a option \<Rightarrow> exn + 'a" where
  "need_key k x = (case x of None \<Rightarrow> Inl (KeyError k) | Some v \<Rightarrow> Inr v)"

definition cost_refusal :: "action_policy \<Rightarrow> pyfloat \<Rightarrow> string option" where
  "cost_refusal p estimated =
     (if flt (Fin 0) estimated \<and> \<not> pol_cost p
      then Some (''Non-cost-bearing action '' @ pol_name p @ '' declared a cost'')
      else if pol_cost p \<and> fle estimated (Fin 0)
      then Some (''Cost-bearing action '' @ pol_name p @ '' requires a positive estimate'')
      else if pol_external p \<and> \<not> pol_approval p
      then Some (''External action '' @ pol_name p @ '' must require approval'')
      else if \<not> pol_reversible p \<and> \<not> pol_approval p
      then Some (''Irreversible action '' @ pol_name p @ '' must require approval'')
      else None)"

text \<open>
  The exact approval of an action. An approval id or target that is not text cannot match: it is
  refused here, without the denial the approval queue would also record.
\<close>

definition consume_exact :: "actor \<Rightarrow> action_policy \<Rightarrow> string \<Rightarrow> pyval \<Rightarrow> pyval \<Rightarrow> unit py" where
  "consume_exact actor p scope approval_id target =
     (if \<not> truthy approval_id \<or> \<not> truthy target
      then raise (PolicyDenied (''Action '' @ pol_name p @ '' requires an exact approval and target'') True)
      else case (approval_id, target) of
        (PStr i, PStr t) \<Rightarrow>
          try_except (consume_approval actor i (pol_name p) t None (Some scope) None True)
            (\<lambda>e. if is_authorization e then raise (PolicyDenied (exn_str e) True) else raise e)
      | _ \<Rightarrow> raise (PolicyDenied ''Approval does not match exact action and target'' True))"

definition payload_get :: "pyval \<Rightarrow> string \<Rightarrow> pyval" where
  "payload_get payload k = (case payload of PDict d \<Rightarrow> dget d k | _ \<Rightarrow> PNone)"

definition policy_gate ::
  "registry \<Rightarrow> actor \<Rightarrow> action_request \<Rightarrow> (action_policy \<times> handler \<times> pyval \<times> pyfloat) py" where
  "policy_gate reg actor work =
     bind kill_switch_enabled (\<lambda>kill.
     seq (raise_if kill (PolicyDenied ''Kill switch is ON; execution denied'' False))
    (bind (lift_result (policy_for reg (request_type work))) (\<lambda>(p, h).
     bind (lift_result (need_key ''payload'' (rq_payload work))) (\<lambda>payload.
     seq (raise_if (pol_prohibited p) (PolicyDenied (''Action '' @ pol_name p @ '' is prohibited'') False))
    (bind (lift_result (need_key ''owner_scope'' (rq_scope work))) (\<lambda>scope.
     seq (raise_if (\<not> List.member (pol_scopes p) scope) (PolicyDenied
            (''Action '' @ pol_name p @ '' is not permitted in '' @ scope @ '' scope'') False))
    (bind (lift_result (estimated_cost payload)) (\<lambda>estimated.
     case cost_refusal p estimated of
       Some reason \<Rightarrow> raise (PolicyDenied reason False)
     | None \<Rightarrow>
         seq (if pol_approval p
              then consume_exact actor p scope (payload_get payload ''approval_id'')
                     (payload_get payload ''action_target'')
              else ret ())
          (ret (p, h, payload, estimated))))))))))"

fun denied_reason :: "exn \<Rightarrow> string option" where
  "denied_reason (PolicyDenied m a) = Some m"
| "denied_reason e = None"

definition gate_denied :: "actor \<Rightarrow> action_request \<Rightarrow> exn \<Rightarrow> 'a py" where
  "gate_denied actor work e =
     (case denied_reason e of
        None \<Rightarrow> raise e
      | Some reason \<Rightarrow>
          seq (record_policy_decision actor (rq_id work) False reason
                 [(''task_type'', PStr (request_type work)), (''tool'', PStr ''policy_registry''),
                  (''rollback_status'', PStr ''NOT_STARTED''), (''outcome'', PStr ''DENIED'')])
            (raise e))"

definition id_evidence :: "pyval \<Rightarrow> pyval list" where
  "id_evidence payload = (case payload of
     PDict d \<Rightarrow> map (\<lambda>(k, v). PDict [(''field'', PStr k), (''record_id'', v)])
       (filter (\<lambda>(k, v). ends_with k ''_id'' \<and> is_str v) d)
   | _ \<Rightarrow> [])"

definition run_handler ::
  "actor \<Rightarrow> action_request \<Rightarrow> action_policy \<Rightarrow> handler \<Rightarrow> pyval \<Rightarrow> pyfloat \<Rightarrow> pyval py" where
  "run_handler actor work p h payload estimated =
     seq (record_policy_decision actor (rq_id work) True ''Registered action policy satisfied''
            [(''task_type'', PStr (pol_name p)), (''tool'', PStr ''registered_handler''),
             (''cost_units'', PFloat estimated), (''evidence'', PList (id_evidence payload)),
             (''rollback_status'', PStr (if pol_reversible p then ''AVAILABLE'' else ''NOT_AVAILABLE'')),
             (''outcome'', PStr ''AUTHORIZED'')])
    (bind (h payload) (\<lambda>result.
     seq (case given (rq_id work) of
            None \<Rightarrow> ret ()
          | Some i \<Rightarrow> record_action_result actor i (pol_name p) result)
      (ret (PDict result))))"

definition execute :: "registry \<Rightarrow> actor \<Rightarrow> action_request \<Rightarrow> pyval py" where
  "execute reg actor work =
     bind (case given (rq_id work) of
             None \<Rightarrow> ret None
           | Some i \<Rightarrow> completed_action_result i (request_type work)) (\<lambda>replay.
     case replay of
       Some result \<Rightarrow>
         seq (record_policy_decision actor (rq_id work) True
                ''Returning durable result; handler replay suppressed''
                [(''task_type'', PStr (request_type work))])
          (ret result)
     | None \<Rightarrow>
         bind (try_except (policy_gate reg actor work) (gate_denied actor work))
           (\<lambda>(p, h, payload, estimated). run_handler actor work p h payload estimated))"

section \<open>What the gate lets through\<close>

definition permitted :: "world \<Rightarrow> actor \<Rightarrow> action_request \<Rightarrow> action_policy \<Rightarrow> pyval \<Rightarrow> bool" where
  "permitted w actor work p payload \<longleftrightarrow>
     \<not> switch_on (w_db w) \<and> \<not> pol_prohibited p \<and> rq_payload work = Some payload \<and>
     (\<exists>scope units. rq_scope work = Some scope \<and> scope \<in> set (pol_scopes p) \<and>
        estimated_cost payload = Inr units \<and> cost_refusal p units = None \<and>
        (if pol_approval p
         then \<exists>i t r. payload_get payload ''approval_id'' = PStr i \<and>
           payload_get payload ''action_target'' = PStr t \<and>
           row_by ap_id i (db_approvals (w_db w)) = Some r \<and>
           grants (w_profile w) actor (pol_name p) t (gate_time None w) (Some scope) None r
         else \<not> pol_external p \<and> pol_reversible p))"

lemma wp_consume_exact:
  "wp (consume_exact actor p scope approval_id target)
    (\<lambda>_ v. \<exists>i t r. approval_id = PStr i \<and> target = PStr t \<and>
       row_by ap_id i (db_approvals (w_db w)) = Some r \<and>
       grants (w_profile w) actor (pol_name p) t (gate_time None w) (Some scope) None r)
    (\<lambda>e v. True) w"
proof (cases "(\<not> truthy approval_id \<or> \<not> truthy target) \<or> (\<nexists>i t. approval_id = PStr i \<and> target = PStr t)")
  case True
  then show ?thesis
    by (cases approval_id; cases target) (auto simp: consume_exact_def py_wp)
next
  case False
  then obtain i t where it: "approval_id = PStr i" "target = PStr t" "i \<noteq> []" "t \<noteq> []" by auto
  show ?thesis
    unfolding consume_exact_def it(1,2)
    by (simp add: it wp_try_except)
      (rule wp_mono [OF wp_consume_approval]; auto simp: py_wp)
qed

lemma policy_for_name: "policy_for reg t = Inr (p, h) \<Longrightarrow> pol_name p = t"
  by (auto simp: policy_for_def entry_for_def dest!: find_SomeD split: option.splits)

lemma wp_step_consume_exact:
  assumes "\<And>i t r v. approval_id = PStr i \<Longrightarrow> target = PStr t \<Longrightarrow>
      row_by ap_id i (db_approvals (w_db w)) = Some r \<Longrightarrow>
      grants (w_profile w) actor (pol_name p) t (gate_time None w) (Some scope) None r \<Longrightarrow> wp n Q E v"
    and "\<And>e v. E e v"
  shows "wp (seq (consume_exact actor p scope approval_id target) n) Q E w"
  unfolding wp_seq by (rule wp_mono [OF wp_consume_exact]) (use assms in blast)+

lemma wp_policy_gate:
  "wp (policy_gate reg actor work)
    (\<lambda>(p, h, payload, units) v. policy_for reg (request_type work) = Inr (p, h) \<and> permitted w actor work p payload)
    (\<lambda>e v. True) w"
  unfolding policy_gate_def
  by (intro wp_step_kill wp_step_consume_exact wp_step_prod wp_steps TrueI)
    (auto simp: permitted_def need_key_def cost_refusal_def split: option.splits if_splits)

text \<open>Recording a result leaves a durable row for the item.\<close>

lemma wp_record_result:
  "wp (record_action_result actor i task_type result)
    (\<lambda>_ v. w_committed v = w_db v \<and> (case row_by ex_work i (db_executions (w_db w)) of
        Some row \<Rightarrow> row_by ex_work i (db_executions (w_db v)) = Some row
      | None \<Rightarrow> \<exists>row. row_by ex_work i (db_executions (w_db v)) = Some row \<and> ex_type row = task_type \<and>
          ex_result row = PDict (canon_dict result)))
    (\<lambda>e v. True) w"
  unfolding record_action_result_def
  by (intro wp_steps TrueI) (auto simp: py_wp wp_audit table_simps split: option.splits)

end
