(* ===== verification/Worker.thy ===== *)
theory Worker
  imports Store_Deliveries Monitoring Scheduler Runtime_Policy Backup_Execution Restore_Execution
begin

text \<open>
  \<^verbatim>\<open>scripts/worker.py\<close> and \<^verbatim>\<open>scripts/restore_worker.py\<close>: the continuous worker, the delivery and
  backup outboxes it serves, and the one-shot restore worker. What the file system and the adapters
  answer is a parameter: \<open>transfer_host\<close> and \<open>restore_host\<close>.
\<close>

section \<open>Statements\<close>

text \<open>What a processed item reports: the finished row, or the status a failure left.\<close>

datatype 'a outcome = Completed 'a | Settled string string

section \<open>Synthetic deliveries\<close>

definition process_synthetic_delivery_once :: "actor \<Rightarrow> string \<Rightarrow> delivery_view outcome option py" where
  "process_synthetic_delivery_once actor worker_id =
     bind (claim_authorized_alert_delivery actor worker_id 30) (\<lambda>claimed.
     case claimed of
       None \<Rightarrow> ret None
     | Some delivery \<Rightarrow>
         let delivery_id = bx_id (dv_row delivery) in
         bind (attempt
           (bind now (\<lambda>delivered_at.
            bind (reads w_sha256) (\<lambda>sha.
            bind (lift_result (synthetic_delivery_receipt sha (dv_row delivery) delivered_at)) (\<lambda>receipt.
            complete_claimed_synthetic_alert_delivery actor delivery_id worker_id receipt))))) (\<lambda>outcome.
         case outcome of
           Inr row \<Rightarrow> ret (Some (Completed row))
         | Inl e \<Rightarrow>
             seq (fail_claimed_alert_delivery actor delivery_id worker_id
                    (exn_class e @ '': synthetic no-network adapter failed'') 5)
              (ret (Some (Settled delivery_id ''RETRY_SCHEDULED'')))))"

section \<open>Private files\<close>

text \<open>
  What is observed of a path: a symbolic link, resolved inside the data directory, a regular file
  or directory, and the permissions the code asks for.
\<close>

record path_probe =
  pb_link :: bool
  pb_inside :: bool
  pb_there :: bool
  pb_private :: bool

definition load_private_backup_manifest ::
  "path_probe \<Rightarrow> pyval option \<Rightarrow> (string \<Rightarrow> path_probe) \<Rightarrow> exn + pyval" where
  "load_private_backup_manifest p content probe =
     (if pb_link p \<or> \<not> pb_inside p
      then Inl (ValueError ''Backup manifest must be a regular file inside the data directory'')
      else if \<not> pb_there p \<or> \<not> pb_private p
      then Inl (ValueError ''Backup manifest must exist with private permissions'')
      else case content of
        Some (PDict manifest) \<Rightarrow>
          (let source = probe (py_str (dget_or manifest ''path'' (PStr []))) in
           if pb_link source \<or> \<not> pb_inside source
           then Inl (ValueError ''Backup source must be a regular file inside the data directory'')
           else if \<not> pb_there source \<or> \<not> pb_private source
           then Inl (ValueError ''Backup source must exist with private permissions'')
           else Inr (PDict manifest))
      | _ \<Rightarrow> Inl (ValueError ''Backup manifest is unreadable or malformed''))"

text \<open>A directory is made, if it is missing, between the check of its place and of its permissions.\<close>

definition private_directory :: "string \<Rightarrow> string \<Rightarrow> path_probe \<Rightarrow> exn + unit \<Rightarrow> exn + unit" where
  "private_directory outside exposed p made =
     (if pb_link p \<or> \<not> pb_inside p then Inl (ValueError outside)
      else ebind made (\<lambda>_.
        if \<not> pb_there p \<or> \<not> pb_private p then Inl (ValueError exposed) else Inr ()))"

definition private_output_directory :: "path_probe \<Rightarrow> exn + unit \<Rightarrow> exn + unit" where
  "private_output_directory = private_directory
     ''Backup output must be a directory inside the data directory''
     ''Backup output directory must have private permissions''"

definition private_restore_directory :: "string \<Rightarrow> path_probe \<Rightarrow> exn + unit \<Rightarrow> exn + unit" where
  "private_restore_directory description = private_directory
     (description @ '' must be a directory inside the data volume'')
     (description @ '' must have private permissions'')"

definition new_restore_destination :: "path_probe \<Rightarrow> exn + unit" where
  "new_restore_destination p =
     (if pb_link p \<or> \<not> pb_inside p \<or> pb_there p
      then Inl (ValueError ''Restore destination must be new inside the isolated directory'')
      else Inr ())"

definition PROVIDER_BUCKET_RX :: rx where
  "PROVIDER_BUCKET_RX = Seq (Cls (\<lambda>c. is_lower c \<or> is_digit c))
     (Seq (Reps (\<lambda>c. is_lower c \<or> is_digit c \<or> one_of ''.-'' c) 4 (Some 61))
       (Cls (\<lambda>c. is_lower c \<or> is_digit c)))"

definition verify_backblaze_bucket_name :: "string \<Rightarrow> exn + string" where
  "verify_backblaze_bucket_name s =
     (if \<not> rx_fullmatch PROVIDER_BUCKET_RX s then Inl (BackupProviderError ''Backblaze bucket name is malformed'')
      else if str_contains s ''..'' \<or> str_contains s ''.-'' \<or> str_contains s ''-.''
      then Inl (BackupProviderError ''Backblaze bucket name is unsafe'')
      else Inr s)"

section \<open>Backup transfers\<close>

fun is_reconciliation :: "exn \<Rightarrow> bool" where
  "is_reconciliation (BackupReconciliationRequired m) = True"
| "is_reconciliation (BackupExecutionReconciliationRequired m) = True"
| "is_reconciliation e = False"

record transfer_host =
  th_manifest :: path_probe
  th_content :: "pyval option"
  th_source :: "string \<Rightarrow> path_probe"
  th_probe :: "string \<Rightarrow> file_probe"
  th_output :: path_probe
  th_output_made :: "exn + unit"
  th_adapters :: "environment \<Rightarrow> runtime_config \<Rightarrow> exn + upload_ports"

definition hold_transfer :: "actor \<Rightarrow> string \<Rightarrow> string \<Rightarrow> string \<Rightarrow> transfer_row outcome py" where
  "hold_transfer actor plan_sha256 worker_id reason =
     bind (hold_claimed_backup_transfer_for_reconciliation actor plan_sha256 worker_id reason)
       (\<lambda>status. ret (Settled plan_sha256 (outbox_name ''COMPLETED'' status)))"

definition AMBIGUOUS_WRITE :: string where
  "AMBIGUOUS_WRITE = ''Provider write result is ambiguous; automatic retry prohibited''"

definition VERIFIED_WRITE :: string where
  "VERIFIED_WRITE = ''Verified provider write requires manual reconciliation; automatic retry prohibited''"

definition upload_claimed ::
  "actor \<Rightarrow> string \<Rightarrow> environment \<Rightarrow> runtime_config \<Rightarrow> pyval \<Rightarrow> transfer_host \<Rightarrow>
   transfer_row \<Rightarrow> pydict py" where
  "upload_claimed actor worker_id env config manifest host claimed =
     seq (validate_claimed_backup_transfer (th_probe host) claimed manifest worker_id config)
    (seq (lift_result (private_output_directory (th_output host) (th_output_made host)))
    (bind (lift_result (th_adapters host env config)) (\<lambda>ports.
     execute_claimed_backup_transfer claimed manifest worker_id config ports
       (assert_backup_transfer_execution_allowed actor (bx_id claimed) worker_id None))))"

definition settle_upload ::
  "actor \<Rightarrow> string \<Rightarrow> string \<Rightarrow> exn + pydict \<Rightarrow> transfer_row outcome py" where
  "settle_upload actor worker_id plan_sha256 outcome =
     (case outcome of
        Inl e \<Rightarrow>
          if is_reconciliation e then hold_transfer actor plan_sha256 worker_id AMBIGUOUS_WRITE
          else
            bind (fail_claimed_backup_transfer actor plan_sha256 worker_id
                    (safe_exception_summary (exn_class e) ''backup transfer failed'') 60)
              (\<lambda>status. ret (Settled plan_sha256 (outbox_name ''COMPLETED'' status)))
      | Inr receipt \<Rightarrow>
          bind (attempt (complete_claimed_backup_transfer actor plan_sha256 worker_id (PDict receipt))) (\<lambda>finished.
          case finished of
            Inr row \<Rightarrow> ret (Completed row)
          | Inl e \<Rightarrow> hold_transfer actor plan_sha256 worker_id
              (if is_reconciliation e then AMBIGUOUS_WRITE else VERIFIED_WRITE)))"

text \<open>The \<open>try\<close> statement of a claimed transfer.\<close>

definition handle_transfer ::
  "actor \<Rightarrow> string \<Rightarrow> environment \<Rightarrow> runtime_config \<Rightarrow> pyval \<Rightarrow> transfer_host \<Rightarrow> transfer_row \<Rightarrow>
   transfer_row outcome py" where
  "handle_transfer actor worker_id env config manifest host claimed =
     bind (attempt (upload_claimed actor worker_id env config manifest host claimed))
       (settle_upload actor worker_id (bx_id claimed))"

definition process_backup_transfer_once ::
  "actor \<Rightarrow> string \<Rightarrow> environment \<Rightarrow> string \<Rightarrow> transfer_host \<Rightarrow> transfer_row outcome option py" where
  "process_backup_transfer_once actor worker_id env bucket host =
     bind (lift_result (load_backup_runtime_config env)) (\<lambda>config.
     seq (raise_if (\<not> rc_enabled config) (ValueError ''Backup worker execution is disabled''))
    (bind (lift_result (verify_backblaze_bucket_name bucket)) (\<lambda>name.
     seq (raise_if (rc_destination config \<noteq> Some (''backblaze-b2-bucket:'' @ name))
            (ValueError ''Backup bucket does not match the approved destination reference''))
    (bind (lift_result (load_private_backup_manifest (th_manifest host) (th_content host) (th_source host))) (\<lambda>manifest.
     bind (claim_authorized_backup_transfer actor worker_id 300) (\<lambda>claim.
     case claim of
       None \<Rightarrow> ret None
     | Some claimed \<Rightarrow>
         bind (handle_transfer actor worker_id env config manifest host claimed) (\<lambda>r. ret (Some r))))))))"

section \<open>Backup restores\<close>

definition PUBLISHED_RESTORE :: string where
  "PUBLISHED_RESTORE = ''Published isolated restore requires manual reconciliation''"

fun is_restore_reconciliation :: "exn \<Rightarrow> bool" where
  "is_restore_reconciliation (BackupRestoreExecutionReconciliationRequired m) = True"
| "is_restore_reconciliation e = False"

text \<open>\<open>rh_exists_after\<close>: the destination exists when a failure is handled.\<close>

record restore_host =
  rh_downloads :: path_probe
  rh_downloads_made :: "exn + unit"
  rh_restores :: path_probe
  rh_restores_made :: "exn + unit"
  rh_destination :: path_probe
  rh_path :: string
  rh_exists_after :: bool
  rh_adapters :: "environment \<Rightarrow> runtime_config \<Rightarrow> exn + restore_ports"

definition hold_restore :: "actor \<Rightarrow> string \<Rightarrow> string \<Rightarrow> restore_row outcome py" where
  "hold_restore actor plan_sha256 worker_id =
     bind (hold_claimed_backup_restore_for_reconciliation actor plan_sha256 worker_id PUBLISHED_RESTORE)
       (\<lambda>status. ret (Settled plan_sha256 (outbox_name ''RESTORED'' status)))"

definition restore_claimed ::
  "actor \<Rightarrow> string \<Rightarrow> environment \<Rightarrow> runtime_config \<Rightarrow> restore_host \<Rightarrow> restore_row \<Rightarrow> pydict py" where
  "restore_claimed actor worker_id env config host claimed =
     bind (lift_result (rh_adapters host env config)) (\<lambda>ports.
     execute_claimed_backup_restore claimed worker_id config ports (rh_path host)
       (assert_backup_restore_execution_allowed actor (bx_id claimed) worker_id None))"

definition settle_restore ::
  "actor \<Rightarrow> string \<Rightarrow> string \<Rightarrow> bool \<Rightarrow> exn + pydict \<Rightarrow> restore_row outcome py" where
  "settle_restore actor worker_id plan_sha256 exists_after outcome =
     (case outcome of
        Inl e \<Rightarrow>
          if is_restore_reconciliation e \<or> exists_after then hold_restore actor plan_sha256 worker_id
          else
            bind (fail_claimed_backup_restore actor plan_sha256 worker_id
                    (safe_exception_summary (exn_class e) ''backup restore failed'') 60)
              (\<lambda>status. ret (Settled plan_sha256 (outbox_name ''RESTORED'' status)))
      | Inr receipt \<Rightarrow>
          bind (attempt (complete_claimed_backup_restore actor plan_sha256 worker_id (PDict receipt) None)) (\<lambda>finished.
          case finished of
            Inr row \<Rightarrow> ret (Completed row)
          | Inl e \<Rightarrow> hold_restore actor plan_sha256 worker_id))"

definition handle_restore ::
  "actor \<Rightarrow> string \<Rightarrow> environment \<Rightarrow> runtime_config \<Rightarrow> restore_host \<Rightarrow> restore_row \<Rightarrow>
   restore_row outcome py" where
  "handle_restore actor worker_id env config host claimed =
     bind (attempt (restore_claimed actor worker_id env config host claimed))
       (settle_restore actor worker_id (bx_id claimed) (rh_exists_after host))"

definition process_backup_restore_once ::
  "actor \<Rightarrow> string \<Rightarrow> environment \<Rightarrow> string \<Rightarrow> restore_host \<Rightarrow> restore_row outcome option py" where
  "process_backup_restore_once actor worker_id env bucket host =
     bind (lift_result (load_backup_restore_runtime_config env)) (\<lambda>config.
     seq (raise_if (\<not> rc_enabled config) (ValueError ''Backup restore execution is disabled''))
    (bind (lift_result (verify_backblaze_bucket_name bucket)) (\<lambda>name.
     seq (raise_if (rc_destination config \<noteq> Some (''backblaze-b2-bucket:'' @ name))
            (ValueError ''Restore bucket does not match the approved destination''))
    (seq (lift_result (private_restore_directory ''Restore download directory'' (rh_downloads host) (rh_downloads_made host)))
    (seq (lift_result (private_restore_directory ''Isolated restore directory'' (rh_restores host) (rh_restores_made host)))
    (seq (lift_result (new_restore_destination (rh_destination host)))
    (bind (claim_authorized_backup_restore actor worker_id 900 None) (\<lambda>claim.
     case claim of
       None \<Rightarrow> ret None
     | Some claimed \<Rightarrow>
         bind (handle_restore actor worker_id env config host claimed) (\<lambda>r. ret (Some r))))))))))"

section \<open>The worker\<close>

text \<open>The dict of a claimed row, as the policy gate reads it.\<close>

definition request_of :: "work_row \<Rightarrow> action_request" where
  "request_of row = \<lparr>rq_id = Some (wk_id row), rq_type = Some (wk_type row), rq_scope = Some (wk_scope row),
     rq_payload = Some (wk_payload row)\<rparr>"

definition settle_item :: "actor \<Rightarrow> string \<Rightarrow> work_row \<Rightarrow> exn \<Rightarrow> unit py" where
  "settle_item actor worker_id row e =
     (case e of
        PolicyDenied reason approval_required \<Rightarrow>
          seq (block_work actor (wk_id row) worker_id reason approval_required) (ret ())
      | _ \<Rightarrow>
          let safe_error = safe_exception_summary (exn_class e) ''worker handler failed'' in
          seq (heartbeat worker_id ''IAC'' ''ERROR'' (Some (wk_id row)) [(''error'', PStr safe_error)])
         (seq (fail_work actor (wk_id row) worker_id safe_error 5) (ret ())))"

definition process_item :: "registry \<Rightarrow> actor \<Rightarrow> string \<Rightarrow> work_row \<Rightarrow> unit py" where
  "process_item reg actor worker_id row =
     try_except
       (seq (heartbeat worker_id ''IAC'' ''WORKING'' (Some (wk_id row)) [])
       (bind (execute reg actor (request_of row)) (\<lambda>result.
        complete_work actor (wk_id row) worker_id (dval result))))
       (settle_item actor worker_id row)"

text \<open>
  The command line: the route of the monitor, the switches, and the backup contract. \<open>None\<close> is an
  option that is not given.
\<close>

record worker_options =
  wo_worker :: string
  wo_route :: "string option list"
  wo_synthetic :: bool
  wo_backup :: bool
  wo_bucket :: "string option"
  wo_manifest :: "string option"
  wo_output :: "string option"
  wo_once :: bool

definition options_error :: "worker_options \<Rightarrow> string option" where
  "options_error a =
     (let route = map (\<lambda>x. given x \<noteq> None) (wo_route a);
          backup = (given (wo_bucket a) \<noteq> None \<and> wo_manifest a \<noteq> None \<and> wo_output a \<noteq> None) in
      if list_ex id route \<and> \<not> list_all id route
      then Some ''integrated monitoring requires the complete route contract''
      else if wo_backup a \<noteq> backup
      then Some ''backup execution requires the complete explicit worker contract''
      else None)"

text \<open>
  What the outside answers during one pass of the loop: the integrity check of the database, the
  monotonic clock, the environment and the host of the backup adapters.
\<close>

record worker_pass =
  wp_integrity :: bool
  wp_monotonic :: pyfloat
  wp_env :: environment
  wp_host :: transfer_host

text \<open>One pass: the monitor with its next due time, and whether an item was processed.\<close>

definition worker_cycle ::
  "worker_options \<Rightarrow> registry \<Rightarrow> actor \<Rightarrow> (instant \<Rightarrow> int) \<Rightarrow> runtime_monitor option \<Rightarrow> worker_pass \<Rightarrow>
   (bool \<times> runtime_monitor option) py" where
  "worker_cycle a reg actor utc_offset monitor i =
     (let worker_id = wo_worker a in
      seq (heartbeat worker_id ''IAC'' ''IDLE'' None [])
     (bind (case monitor of
              None \<Rightarrow> ret None
            | Some m \<Rightarrow> bind (monitor_tick (wp_integrity i) m (wp_monotonic i)) (\<lambda>(s, m'). ret (Some m'))) (\<lambda>monitor'.
      seq (scheduler_tick utc_offset actor None)
     (seq (if wo_synthetic a then process_synthetic_delivery_once actor worker_id else ret None)
     (seq (if wo_backup a
           then process_backup_transfer_once actor worker_id (wp_env i) (text_or (wo_bucket a) []) (wp_host i)
           else ret None)
     (bind (claim_work actor worker_id 30) (\<lambda>work.
      case work of
        None \<Rightarrow> ret (False, monitor')
      | Some row \<Rightarrow> seq (process_item reg actor worker_id row) (ret (True, monitor')))))))))"

text \<open>The passes until a signal stops the loop; with \<open>--once\<close> the first is the last.\<close>

primrec worker_loop ::
  "worker_options \<Rightarrow> registry \<Rightarrow> actor \<Rightarrow> (instant \<Rightarrow> int) \<Rightarrow> runtime_monitor option \<Rightarrow> worker_pass list \<Rightarrow>
   unit py" where
  "worker_loop a reg actor utc_offset monitor [] = ret ()"
| "worker_loop a reg actor utc_offset monitor (i # is) =
     bind (worker_cycle a reg actor utc_offset monitor i) (\<lambda>(found, monitor').
     if wo_once a then ret () else worker_loop a reg actor utc_offset monitor' is)"

text \<open>Closing the store discards a transaction that is still open.\<close>

definition worker_main ::
  "worker_options \<Rightarrow> (actor \<Rightarrow> registry) \<Rightarrow> (instant \<Rightarrow> int) \<Rightarrow> runtime_monitor option \<Rightarrow> worker_pass list \<Rightarrow> unit py" where
  "worker_main a registry_of utc_offset monitor passes =
     (let worker_id = wo_worker a;
          actor = \<lparr>actor_id = worker_id, actor_scopes = [''IAC''], actor_is_sean = False\<rparr> in
      seq (heartbeat worker_id ''IAC'' ''STARTING'' None [])
     (try_finally (worker_loop a (registry_of actor) actor utc_offset monitor passes)
        (seq (heartbeat worker_id ''IAC'' ''STOPPED'' None []) rollback)))"

definition restore_main ::
  "string \<Rightarrow> environment \<Rightarrow> string \<Rightarrow> restore_host \<Rightarrow> (bool \<times> string option \<times> string option) py" where
  "restore_main worker_id env bucket host =
     try_finally
       (bind (process_backup_restore_once \<lparr>actor_id = worker_id, actor_scopes = [''IAC''], actor_is_sean = False\<rparr>
                worker_id env bucket host) (\<lambda>result.
        ret (case result of
          None \<Rightarrow> (False, None, Some ''NO_AUTHORIZED_RESTORE'')
        | Some (Completed row) \<Rightarrow> (True, Some (bx_id row), Some (outbox_name ''RESTORED'' (bx_status row)))
        | Some (Settled plan_sha256 status) \<Rightarrow> (True, Some plan_sha256, Some status))))
       rollback"

section \<open>The monitor loop\<close>

text \<open>
  \<^verbatim>\<open>scripts/monitor_worker.py\<close>: snapshots at a bounded cadence. \<open>wait k\<close> is whether the wait after
  snapshot \<open>k\<close> was interrupted by a signal. Without a maximum the loop may run forever, so it is
  given fuel: \<open>None\<close> is a loop still running.
\<close>

fun monitor_iterations ::
  "nat \<Rightarrow> (nat \<Rightarrow> bool) \<Rightarrow> (nat \<Rightarrow> bool) \<Rightarrow> escalation_route \<Rightarrow> int \<Rightarrow> int option \<Rightarrow> nat \<Rightarrow> nat option py" where
  "monitor_iterations 0 integrity_ok wait route stale_after limit completed = ret None"
| "monitor_iterations (Suc fuel) integrity_ok wait route stale_after limit completed =
     (let reached = (\<lambda>n. case limit of None \<Rightarrow> False | Some m \<Rightarrow> m \<le> int n) in
      if reached completed then ret (Some completed)
      else
        bind (capture_monitor_snapshot (integrity_ok completed) stale_after None (Some route)) (\<lambda>snapshot.
        if reached (completed + 1) \<or> wait (completed + 1) then ret (Some (completed + 1))
        else monitor_iterations fuel integrity_ok wait route stale_after limit (completed + 1)))"

definition run_monitor_loop ::
  "nat \<Rightarrow> (nat \<Rightarrow> bool) \<Rightarrow> (nat \<Rightarrow> bool) \<Rightarrow> escalation_route \<Rightarrow> pyfloat \<Rightarrow> int \<Rightarrow> int option \<Rightarrow> nat option py" where
  "run_monitor_loop fuel integrity_ok wait route interval_seconds stale_after max_iterations =
     seq (raise_if (flt interval_seconds (Fin 1)) (ValueError ''Monitoring interval must be at least one second''))
    (seq (raise_if (case max_iterations of None \<Rightarrow> False | Some m \<Rightarrow> m < 1) (ValueError ''max_iterations must be positive''))
    (monitor_iterations fuel integrity_ok wait route stale_after max_iterations 0))"

end
