(* ===== verification/Chief_Of_Staff.thy ===== *)
theory Chief_Of_Staff
  imports Store_Rules Store_Approvals Runtime_Policy Py_Dynamic
begin

text \<open>
  \<^verbatim>\<open>sean_os/chief_of_staff.py\<close>, class \<open>ChiefOfStaff\<close>: projects with their tasks, the evaluation of a
  project, and the portfolio review. Arguments come from the payload of a work item, so they are
  values of any type. A value that stands for text where a store operation takes text is refused
  before the operation if it is not text; an id that is not text names no record.
\<close>

section \<open>Arguments of any type\<close>

text \<open>\<open>v.strip()\<close> and \<open>not v.strip()\<close>.\<close>

definition need_text :: "pyval \<Rightarrow> exn + string" where
  "need_text v = (case v of PStr s \<Rightarrow> Inr s | _ \<Rightarrow> Inl (AttributeError ''object has no method of str''))"

definition text_arg :: "pyval \<Rightarrow> exn + string" where
  "text_arg v = (case v of PStr s \<Rightarrow> Inr s | _ \<Rightarrow> Inl (TypeError ''argument must be str''))"

definition is_blank :: "pyval \<Rightarrow> exn + bool" where
  "is_blank v = ebind (need_text v) (\<lambda>s. Inr (blank s))"

definition record_ref :: "pyval \<Rightarrow> exn + string" where
  "record_ref v = (case v of
     PStr s \<Rightarrow> Inr s
   | PList xs \<Rightarrow> Inl (DatabaseError ''Error binding parameter 1: type is not supported'')
   | PDict d \<Rightarrow> Inl (DatabaseError ''Error binding parameter 1: type is not supported'')
   | _ \<Rightarrow> Inl (KeyError (py_str v)))"

definition read_record :: "actor \<Rightarrow> pyval \<Rightarrow> rec_row py" where
  "read_record actor v = bind (lift_result (record_ref v)) (\<lambda>i.
     bind (get_record actor i) (\<lambda>(row, c). ret row))"

text \<open>\<open>set(v) == names\<close>, for at least two names of more than one character.\<close>

definition names_are :: "pyval \<Rightarrow> string list \<Rightarrow> exn + bool" where
  "names_are v names = ebind (iter_values v) (\<lambda>xs.
     if list_ex (\<lambda>x. case x of PList ys \<Rightarrow> True | PDict d \<Rightarrow> True | _ \<Rightarrow> False) xs
     then Inl (TypeError ''unhashable type'')
     else Inr (list_all (\<lambda>x. is_str x \<and> List.member names (sval x)) xs \<and>
       list_all (\<lambda>n. List.member xs (PStr n)) names))"

text \<open>\<open>any(not 0 <= float(value) <= 1 for value in values)\<close>.\<close>

definition in_unit :: "pyfloat \<Rightarrow> bool" where
  "in_unit x = (fle (Fin 0) x \<and> fle x (Fin 1))"

definition any_outside_unit :: "pyval list \<Rightarrow> exn + bool" where
  "any_outside_unit vs = any_of (map (\<lambda>v. ebind (py_float v) (\<lambda>x. Inr (\<not> in_unit x))) vs)"

section \<open>Projects\<close>

record planning_limits =
  pl_max_tasks :: nat
  pl_scopes :: "string list"

definition default_limits :: planning_limits where
  "default_limits = \<lparr>pl_max_tasks = 5, pl_scopes = [''IAC'']\<rparr>"

definition METRIC_NAMES :: "string list" where
  "METRIC_NAMES = [''strategic_fit'', ''expected_value'', ''urgency'', ''confidence'', ''effort'', ''risk'']"

definition default_metrics :: pyval where
  "default_metrics = PDict (map (\<lambda>k. (k, PFloat (dbl (1 / 2)))) METRIC_NAMES)"

fun values_of :: "pyval \<Rightarrow> exn + pyval list" where
  "values_of (PDict d) = Inr (map snd d)"
| "values_of v = Inl (AttributeError ''object has no attribute values'')"

definition metrics_error :: exn where
  "metrics_error = ValidationError ''Portfolio metrics must contain six bounded 0-1 values''"

text \<open>The metrics of a new project, as floats.\<close>

definition check_metrics :: "pyval \<Rightarrow> exn + pydict" where
  "check_metrics given_metrics =
     (let metrics = (if truthy given_metrics then given_metrics else default_metrics) in
      ebind (names_are metrics METRIC_NAMES) (\<lambda>six.
      if \<not> six then Inl metrics_error
      else
        ebind (values_of metrics) (\<lambda>vs.
        ebind (any_outside_unit vs) (\<lambda>outside.
        if outside then Inl metrics_error
        else Inr (map (\<lambda>(k, v). (k, case py_float v of Inl e \<Rightarrow> PNone | Inr x \<Rightarrow> PFloat x)) (dval metrics))))))"

definition task_lacks :: "pyval \<Rightarrow> string \<Rightarrow> exn + bool" where
  "task_lacks task k = ebind (value_get task k (PStr [])) (\<lambda>v. Inr (blank (py_str v)))"

primrec check_tasks :: "pyval list \<Rightarrow> exn + unit" where
  "check_tasks [] = Inr ()"
| "check_tasks (task # tasks) =
     ebind (any_of [task_lacks task ''name'', task_lacks task ''done_when'']) (\<lambda>lacks.
     if lacks then Inl (ValidationError ''Every task requires name and done_when'') else check_tasks tasks)"

definition check_plan ::
  "planning_limits \<Rightarrow> rec_row \<Rightarrow> pyval \<Rightarrow> pyval \<Rightarrow> pyval \<Rightarrow> pyval \<Rightarrow> pyval \<Rightarrow> exn + (pyval list \<times> pydict)" where
  "check_plan limits goal name tasks success_metric stop_condition given_metrics =
     (if rec_type goal \<noteq> ''GOAL'' then Inl (ValidationError ''Chief of Staff projects must advance a GOAL'')
      else if \<not> List.member (pl_scopes limits) (rec_scope goal)
      then Inl (AuthorizationError (''Chief of Staff cannot plan in '' @ rec_scope goal @ '' scope''))
      else
        ebind (any_of [is_blank name, is_blank success_metric, is_blank stop_condition]) (\<lambda>lacks.
        if lacks then Inl (ValidationError ''Project name, success metric, and stop condition are required'')
        else
          let bound = ValidationError (''Projects require 1-'' @ dec (pl_max_tasks limits) @ '' bounded tasks'') in
          if \<not> truthy tasks then Inl bound
          else
            ebind (iter_values tasks) (\<lambda>items.
            if pl_max_tasks limits < length items then Inl bound
            else
              ebind (check_tasks items) (\<lambda>_.
              ebind (check_metrics given_metrics) (\<lambda>metrics. Inr (items, metrics))))))"

definition chief_record :: "new_record" where
  "chief_record = defaults\<lparr>nr_source := ''chief-of-staff''\<rparr>"

definition create_task :: "actor \<Rightarrow> string \<Rightarrow> string \<Rightarrow> nat \<times> pyval \<Rightarrow> string py" where
  "create_task actor scope project_id numbered =
     (let (position, task) = numbered in
      bind (create_record actor ''TASK'' scope
        [(''name'', dget (dval task) ''name''), (''done_when'', dget (dval task) ''done_when''),
         (''project_id'', PStr project_id), (''position'', PInt (int position)), (''status'', PStr ''READY''),
         (''created_by_agent'', PStr (actor_id actor))] chief_record) (\<lambda>task_id.
      seq (link_records actor task_id ''BELONGS_TO'' project_id) (ret task_id)))"

definition create_project ::
  "actor \<Rightarrow> planning_limits \<Rightarrow> pyval \<Rightarrow> pyval \<Rightarrow> pyval \<Rightarrow> pyval \<Rightarrow> pyval \<Rightarrow> pyval \<Rightarrow> (string \<times> string list) py" where
  "create_project actor limits goal_id name tasks success_metric stop_condition given_metrics =
     bind (read_record actor goal_id) (\<lambda>goal.
     bind (lift_result (check_plan limits goal name tasks success_metric stop_condition given_metrics)) (\<lambda>(items, metrics).
     bind (create_record actor ''PROJECT'' (rec_scope goal)
       [(''name'', name), (''goal_id'', goal_id), (''success_metric'', success_metric),
        (''stop_condition'', stop_condition), (''created_by_agent'', PStr (actor_id actor)),
        (''portfolio_metrics'', PDict metrics)] chief_record) (\<lambda>project_id.
     seq (link_records actor project_id ''ADVANCES'' (rec_id goal))
    (bind (collect (enumerate 1 items) (create_task actor (rec_scope goal) project_id)) (\<lambda>task_ids.
     seq (transition_project actor project_id ''ACTIVE'' ''Bounded plan passed internal policy checks'' None None)
         (ret (project_id, task_ids)))))))"

text \<open>Whether the actor created a record and recorded itself as the agent that did.\<close>

definition agent_owned :: "actor \<Rightarrow> rec_row \<Rightarrow> bool" where
  "agent_owned actor r =
     (rec_created_by r = actor_id actor \<and> dget (dval (rec_payload r)) ''created_by_agent'' = PStr (actor_id actor))"

definition evaluate_project ::
  "actor \<Rightarrow> pyval \<Rightarrow> int \<Rightarrow> int \<Rightarrow> pyfloat \<Rightarrow> pyfloat \<Rightarrow> pyval \<Rightarrow> string py" where
  "evaluate_project actor project_id completed_tasks total_tasks metric_value minimum evidence =
     bind (read_record actor project_id) (\<lambda>project.
     seq (raise_if (rec_type project \<noteq> ''PROJECT'') (ValidationError ''Evaluation target must be a PROJECT''))
    (seq (raise_if (\<not> agent_owned actor project)
            (AuthorizationError ''Agent may only self-manage projects it created''))
    (bind (lift_result (if total_tasks < 1 \<or> \<not> (0 \<le> completed_tasks \<and> completed_tasks \<le> total_tasks)
                        then Inr True else is_blank evidence)) (\<lambda>invalid.
     seq (raise_if invalid (ValidationError ''Valid task counts and evidence are required''))
    (let low = flt metric_value minimum;
         state = (if low \<and> completed_tasks = total_tasks then ''KILLED'' else if low then ''PAUSED'' else ''ACTIVE'');
         reason = (if state = ''KILLED'' then ''Measured outcome below viability threshold: ''
           else if state = ''PAUSED'' then ''Early evidence is below threshold; preserve remaining effort: ''
           else ''Evidence supports continuing: '') @ sval evidence;
         reopen = (if state = ''KILLED''
           then Some (''New evidence predicts metric >= '' @ py_repr (PFloat minimum)) else None) in
     seq (transition_project actor (rec_id project) state reason reopen None)
    (bind (create_record actor ''DECISION'' (rec_scope project)
       [(''project_id'', project_id), (''decision'', PStr state), (''evidence'', evidence),
        (''metric_value'', PFloat metric_value), (''minimum_viable_metric'', PFloat minimum)] chief_record) (\<lambda>decision_id.
     seq (link_records actor decision_id ''GOVERNS'' (rec_id project)) (ret state))))))))"

section \<open>The portfolio\<close>

text \<open>The weights of the score, as the literals of the code.\<close>

definition WEIGHTS :: "(string \<times> pyfloat) list" where
  "WEIGHTS = [(''strategic_fit'', dbl (3 / 10)), (''expected_value'', dbl (1 / 4)), (''urgency'', dbl (3 / 20)),
     (''confidence'', dbl (3 / 20)), (''effort'', dbl (- (1 / 10))), (''risk'', dbl (- (1 / 20)))]"

text \<open>\<open>metrics[k] * w\<close>; a subtracted term is added with its weight negated.\<close>

definition weighted :: "pyval \<Rightarrow> string \<times> pyfloat \<Rightarrow> exn + pyfloat" where
  "weighted metrics kw = ebind (subscript metrics (fst kw)) (\<lambda>v. ebind (float_operand v) (\<lambda>x. Inr (fmul x (snd kw))))"

fun weighted_sum :: "pyval \<Rightarrow> pyfloat option \<Rightarrow> (string \<times> pyfloat) list \<Rightarrow> exn + pyfloat" where
  "weighted_sum metrics sofar [] = Inr (case sofar of None \<Rightarrow> Fin 0 | Some t \<Rightarrow> t)"
| "weighted_sum metrics sofar (kw # kws) = ebind (weighted metrics kw) (\<lambda>x.
     weighted_sum metrics (Some (case sofar of None \<Rightarrow> x | Some t \<Rightarrow> fadd t x)) kws)"

definition portfolio_score :: "pyval \<Rightarrow> exn + pyfloat" where
  "portfolio_score metrics = ebind (weighted_sum metrics None WEIGHTS) (\<lambda>x. Inr (py_round x 4))"

record ranked =
  rk_project :: string
  rk_name :: pyval
  rk_score :: pyfloat
  rk_metrics :: pyval
  rk_owned :: bool

definition rank_project :: "actor \<Rightarrow> pyval \<Rightarrow> ranked py" where
  "rank_project actor v =
     bind (read_record actor v) (\<lambda>project.
     seq (raise_if (rec_type project \<noteq> ''PROJECT'' \<or> rec_scope project \<noteq> ''IAC'')
            (ValidationError ''Portfolio review accepts IAC projects only''))
    (let metrics = dget (dval (rec_payload project)) ''portfolio_metrics'' in
     seq (raise_if (\<not> truthy metrics) (ValidationError ''Project lacks portfolio metrics''))
    (bind (lift_result (portfolio_score metrics)) (\<lambda>score.
     ret \<lparr>rk_project = rec_id project, rk_name = dget (dval (rec_payload project)) ''name'', rk_score = score,
          rk_metrics = metrics, rk_owned = agent_owned actor project\<rparr>))))"

text \<open>The order of the key \<open>(-score, project_id)\<close>, for scores that are numbers.\<close>

definition ranks_before :: "ranked \<Rightarrow> ranked \<Rightarrow> bool" where
  "ranks_before a b = (flt (rk_score b) (rk_score a) \<or>
     (\<not> flt (rk_score a) (rk_score b) \<and> rk_project a < rk_project b))"

definition rank_sort :: "ranked list \<Rightarrow> ranked list" where
  "rank_sort = sort_before ranks_before"

text \<open>\<open>dict.fromkeys(v)\<close>: the first of equal items.\<close>

fun first_items :: "pyval list \<Rightarrow> pyval list \<Rightarrow> pyval list" where
  "first_items seen [] = []"
| "first_items seen (x # xs) =
     (if list_ex (py_eq x) seen then first_items seen xs else x # first_items (x # seen) xs)"

definition distinct_items :: "pyval \<Rightarrow> exn + pyval list" where
  "distinct_items v = ebind (iter_values v) (\<lambda>xs.
     if list_ex (\<lambda>x. case x of PList ys \<Rightarrow> True | PDict d \<Rightarrow> True | _ \<Rightarrow> False) xs
     then Inl (TypeError ''unhashable type'') else Inr (first_items [] xs))"

record verdict =
  vd_item :: ranked
  vd_recommendation :: string
  vd_rationale :: string

definition verdict_dict :: "verdict \<Rightarrow> pyval" where
  "verdict_dict v = (let entry = vd_item v in PDict
     [(''project_id'', PStr (rk_project entry)), (''name'', rk_name entry), (''score'', PFloat (rk_score entry)),
      (''metrics'', rk_metrics entry), (''agent_owned'', PBool (rk_owned entry)),
      (''recommendation'', PStr (vd_recommendation v)), (''rationale'', PStr (vd_rationale v))])"

text \<open>The recommendation for the entry at a position, and its rationale.\<close>

definition recommend :: "int \<Rightarrow> pyfloat \<Rightarrow> nat \<Rightarrow> ranked \<Rightarrow> exn + (string \<times> string)" where
  "recommend capacity low_fit position entry =
     ebind (subscript (rk_metrics entry) ''strategic_fit'') (\<lambda>fit.
     ebind (exact_num fit) (\<lambda>exact.
     ebind (float_operand fit) (\<lambda>shown.
     Inr (if flt exact low_fit
          then (''CHALLENGE_NO'', ''Strategic fit '' @ fixed2 shown @ '' is below '' @ fixed2 low_fit)
          else if capacity < int position
          then (''PAUSE_FOR_CAPACITY'',
            ''Rank '' @ dec position @ '' is outside capacity limit '' @ dec_int capacity)
          else (''PRIORITIZE'', ''Rank '' @ dec position @ '' is within capacity'')))))"

definition judge :: "actor \<Rightarrow> int \<Rightarrow> pyfloat \<Rightarrow> nat \<times> ranked \<Rightarrow> (verdict \<times> bool) py" where
  "judge actor capacity low_fit numbered =
     (let (position, entry) = numbered in
      bind (lift_result (recommend capacity low_fit position entry)) (\<lambda>(recommendation, rationale).
      if recommendation \<noteq> ''PRIORITIZE'' \<and> rk_owned entry then
        seq (transition_project actor (rk_project entry) ''PAUSED''
               (''Chief of Staff portfolio review: '' @ rationale) None None)
         (ret (\<lparr>vd_item = entry, vd_recommendation = recommendation, vd_rationale = rationale\<rparr>, True))
      else
        let shown = (if recommendation \<noteq> ''PRIORITIZE'' then recommendation @ ''_HUMAN_REVIEW'' else recommendation) in
        ret (\<lparr>vd_item = entry, vd_recommendation = shown, vd_rationale = rationale\<rparr>, False)))"

record review =
  rv_decision :: "string option"
  rv_ranked :: "verdict list"
  rv_paused :: "string list"

definition names_list :: "string list \<Rightarrow> pyval" where
  "names_list xs = PList (map PStr xs)"

definition review_portfolio :: "actor \<Rightarrow> pyval \<Rightarrow> int \<Rightarrow> pyfloat \<Rightarrow> review py" where
  "review_portfolio actor project_ids capacity low_fit =
     bind (lift_result (if \<not> truthy project_ids then Inr True
            else ebind (iter_values project_ids) (\<lambda>xs. Inr (100 < length xs)))) (\<lambda>out_of_bounds.
     seq (raise_if out_of_bounds (ValidationError ''Portfolio review requires 1-100 projects''))
    (seq (raise_if (capacity < 1 \<or> 10 < capacity \<or> \<not> in_unit low_fit)
            (ValidationError ''Portfolio capacity or low-fit threshold is invalid''))
    (bind (lift_result (distinct_items project_ids)) (\<lambda>items.
     bind (collect items (rank_project actor)) (\<lambda>found.
     bind (collect (enumerate 1 (rank_sort found)) (judge actor capacity low_fit)) (\<lambda>judged.
     let verdicts = map fst judged;
         changed = map (rk_project \<circ> vd_item \<circ> fst) (filter snd judged) in
     bind (create_record actor ''DECISION'' ''IAC''
       [(''kind'', PStr ''PORTFOLIO_REVIEW''), (''ranked_projects'', PList (map verdict_dict verdicts)),
        (''capacity_limit'', PInt capacity), (''low_fit_threshold'', PFloat low_fit),
        (''autonomously_paused'', names_list changed)]
       (chief_record\<lparr>nr_confidence := Some (dbl (9 / 10))\<rparr>)) (\<lambda>decision_id.
     seq (for_each verdicts (\<lambda>v. bind (link_records actor decision_id ''GOVERNS'' (rk_project (vd_item v))) (\<lambda>_. ret ())))
         (ret \<lparr>rv_decision = Some decision_id, rv_ranked = verdicts, rv_paused = changed\<rparr>))))))))"

section \<open>Scheduled maintenance\<close>

definition period_char :: "char \<Rightarrow> bool" where
  "period_char c = (is_upper c \<or> is_lower c \<or> is_digit c \<or> List.member ''._:-'' c)"

text \<open>The first 101 current IAC projects, oldest first.\<close>

definition current_projects :: "db \<Rightarrow> rec_row list" where
  "current_projects d = take 101 (order_by rec_created_at (order_by rec_id
     (filter (\<lambda>r. rec_scope r = ''IAC'' \<and> rec_type r = ''PROJECT'' \<and>
        (case row_by prj_id (rec_id r) (db_projects d) of
           None \<Rightarrow> False | Some p \<Rightarrow> prj_state p = PROJ_ACTIVE \<or> prj_state p = PROJ_INCUBATOR)) (db_records d))))"

text \<open>A number, then its bounds: the conversion of a huge integer raises.\<close>

primrec all_unit_numbers :: "pyval list \<Rightarrow> exn + bool" where
  "all_unit_numbers [] = Inr True"
| "all_unit_numbers (v # vs) =
     (if \<not> is_number v then Inr False
      else ebind (py_float v) (\<lambda>x. if in_unit x then all_unit_numbers vs else Inr False))"

definition has_metrics :: "rec_row \<Rightarrow> exn + bool" where
  "has_metrics r = (case dget (dval (rec_payload r)) ''portfolio_metrics'' of
     PDict d \<Rightarrow> if fields_are d METRIC_NAMES then all_unit_numbers (map snd d) else Inr False
   | _ \<Rightarrow> Inr False)"

definition maintain_portfolio :: "actor \<Rightarrow> pyval \<Rightarrow> int \<Rightarrow> pyfloat \<Rightarrow> pydict py" where
  "maintain_portfolio actor period_key capacity low_fit =
     seq (raise_if (\<not> is_str period_key \<or> sval period_key = [] \<or> 40 < length (sval period_key) \<or>
              \<not> list_all period_char (sval period_key))
            (ValidationError ''Portfolio maintenance period key is invalid''))
    (bind (table current_projects) (\<lambda>rows.
     seq (raise_if (100 < length rows)
            (ValidationError ''Portfolio maintenance exceeds the bounded project limit''))
    (bind (collect rows (\<lambda>r. bind (lift_result (has_metrics r)) (\<lambda>b. ret (rec_id r, b)))) (\<lambda>sorted_out.
     let eligible = map fst (filter snd sorted_out); missing_metrics = map fst (filter (\<lambda>x. \<not> snd x) sorted_out) in
     bind (if eligible \<noteq> [] then review_portfolio actor (names_list eligible) capacity low_fit
           else ret \<lparr>rv_decision = None, rv_ranked = [], rv_paused = []\<rparr>) (\<lambda>r.
     ret [(''kind'', PStr ''CHIEF_PORTFOLIO_MAINTENANCE''), (''period_key'', period_key),
          (''reviewed_project_count'', PInt (int (length eligible))),
          (''missing_metrics_project_ids'', names_list missing_metrics), (''decision_id'', opt_str (rv_decision r)),
          (''ranked_projects'', PList (map verdict_dict (rv_ranked r))),
          (''autonomously_paused'', names_list (rv_paused r)),
          (''external_effect'', PBool False), (''approval_consumed'', PBool False)])))))"

section \<open>The laws of the store\<close>

lemma lawful_read_record [legal_ops]: "lawful prof P (read_record actor v)"
  unfolding read_record_def by (intro op_rules legal_ops)

lemma lawful_create_project [legal_ops]:
  "lawful prof P (create_project actor limits goal_id name tasks success_metric stop_condition given_metrics)"
  unfolding create_project_def create_task_def by (intro op_rules legal_ops)

lemma lawful_evaluate_project [legal_ops]:
  "lawful prof P (evaluate_project actor project_id completed_tasks total_tasks metric minimum evidence)"
  unfolding evaluate_project_def by (intro op_rules legal_ops)

lemma lawful_review_portfolio [legal_ops]: "lawful prof P (review_portfolio actor project_ids capacity low_fit)"
  unfolding review_portfolio_def rank_project_def judge_def by (intro op_rules legal_ops)

lemma lawful_maintain_portfolio [legal_ops]: "lawful prof P (maintain_portfolio actor period_key capacity low_fit)"
  unfolding maintain_portfolio_def by (intro op_rules legal_ops)

end
