(* ===== verification/Revenue_Agent.thy ===== *)
theory Revenue_Agent
  imports Chief_Of_Staff
begin

text \<open>
  \<^verbatim>\<open>sean_os/revenue_agent.py\<close>: internal analysis of synthetic revenue signals. The charter is the
  default one. The dash of the project names is the three bytes of its UTF-8 encoding.
\<close>

section \<open>Charter\<close>

record charter =
  ch_threshold :: pyfloat
  ch_max_value :: pyfloat
  ch_synthetic_only :: bool

definition default_charter :: charter where
  "default_charter = \<lparr>ch_threshold = dbl (65 / 100), ch_max_value = Fin 1000000, ch_synthetic_only = True\<rparr>"

definition em_dash :: string where
  "em_dash = [CHR 0xE2, CHR 0x80, CHR 0x94]"

definition revenue_record :: "new_record" where
  "revenue_record = defaults\<lparr>nr_source := ''revenue-agent''\<rparr>"

definition register_signal :: "actor \<Rightarrow> charter \<Rightarrow> pyval \<Rightarrow> pyval \<Rightarrow> pyval \<Rightarrow> bool \<Rightarrow> string py" where
  "register_signal actor charter name evidence source_reference synthetic =
     seq (raise_if (ch_synthetic_only charter \<and> \<not> synthetic)
            (ValidationError ''v0.1 Revenue Agent accepts synthetic signals only''))
    (bind (lift_result (any_of [is_blank name, is_blank evidence, is_blank source_reference])) (\<lambda>lacks.
     seq (raise_if lacks (ValidationError ''Signal name, evidence, and source reference are required''))
    (create_record actor ''KNOWLEDGE'' ''IAC''
       [(''kind'', PStr ''REVENUE_SIGNAL''), (''name'', name), (''evidence'', evidence),
        (''source_reference'', source_reference), (''synthetic'', PBool synthetic)]
       (revenue_record\<lparr>nr_locator := Some (sval source_reference)\<rparr>))))"

section \<open>Qualification\<close>

text \<open>\<open>c in v\<close> for a text of one character.\<close>

definition char_in :: "char \<Rightarrow> pyval \<Rightarrow> exn + bool" where
  "char_in c v = (case v of
     PStr s \<Rightarrow> Inr (List.member s c)
   | PList xs \<Rightarrow> Inr (List.member xs (PStr [c]))
   | PDict d \<Rightarrow> Inr (dhas d [c])
   | _ \<Rightarrow> Inl (TypeError ''argument is not iterable''))"

definition alias_refused :: "pyval \<Rightarrow> exn + bool" where
  "alias_refused v = any_of [char_in CHR ''@'' v, is_blank v]"

definition outside_unit :: "pyfloat \<Rightarrow> bool" where
  "outside_unit x = (flt x (Fin 0) \<or> flt (Fin 1) x)"

definition qualification_score :: "pyfloat \<Rightarrow> pyfloat \<Rightarrow> pyfloat \<Rightarrow> pyfloat" where
  "qualification_score icp_fit urgency evidence_strength = py_round
     (fadd (fadd (fmul icp_fit (dbl (45 / 100))) (fmul urgency (dbl (1 / 4)))) (fmul evidence_strength (dbl (3 / 10)))) 4"

definition done_task :: "string \<Rightarrow> string \<Rightarrow> pyval" where
  "done_task name done_when = PDict [(''name'', PStr name), (''done_when'', PStr done_when)]"

definition draft_project :: "actor \<Rightarrow> charter \<Rightarrow> pyval \<Rightarrow> pyval \<Rightarrow> string \<Rightarrow> string py" where
  "draft_project actor charter goal_id account_alias opportunity_id =
     bind (create_project actor default_limits goal_id
       (PStr (''Internal opportunity brief '' @ em_dash @ '' '' @ sval account_alias))
       (PList [done_task ''Validate synthetic assumptions'' ''Assumptions and counter-evidence are recorded'',
               done_task ''Prepare internal draft'' ''Draft is stored locally and marked NOT SENT''])
       (PStr ''validated opportunity score'')
       (PStr (''validated score below '' @ py_repr (PFloat (ch_threshold charter)))) PNone) (\<lambda>(project_id, task_ids).
     seq (link_records actor project_id ''EXPLORES'' opportunity_id) (ret project_id))"

definition qualify ::
  "actor \<Rightarrow> charter \<Rightarrow> pyval \<Rightarrow> pyval \<Rightarrow> pyval \<Rightarrow> pyfloat \<Rightarrow> pyfloat \<Rightarrow> pyfloat \<Rightarrow> pyfloat \<Rightarrow> bool \<Rightarrow> pydict py" where
  "qualify actor charter signal_id goal_id account_alias icp_fit urgency evidence_strength estimated_value synthetic =
     seq (raise_if (ch_synthetic_only charter \<and> \<not> synthetic)
            (ValidationError ''v0.1 Revenue Agent accepts synthetic opportunities only''))
    (bind (lift_result (alias_refused account_alias)) (\<lambda>refused.
     seq (raise_if refused (ValidationError ''Use a non-identifying account alias, not contact information''))
    (seq (raise_if (list_ex outside_unit [icp_fit, urgency, evidence_strength])
            (ValidationError ''Qualification scores must be between 0 and 1''))
    (seq (raise_if (flt estimated_value (Fin 0) \<or> flt (ch_max_value charter) estimated_value)
            (ValidationError ''Estimated value is outside the charter boundary''))
    (bind (read_record actor signal_id) (\<lambda>signal.
     bind (read_record actor goal_id) (\<lambda>goal.
     seq (raise_if (rec_scope signal \<noteq> ''IAC'' \<or> dget (dval (rec_payload signal)) ''kind'' \<noteq> PStr ''REVENUE_SIGNAL'')
            (ValidationError ''Qualification requires an IAC revenue signal''))
    (seq (raise_if (rec_type goal \<noteq> ''GOAL'' \<or> rec_scope goal \<noteq> ''IAC'')
            (ValidationError ''Revenue opportunities must advance an IAC goal''))
    (let score = qualification_score icp_fit urgency evidence_strength;
         worthy = fle (ch_threshold charter) score;
         recommendation = (if worthy then ''PREPARE_INTERNAL_DRAFT'' else ''NO_ACTION'') in
     bind (create_record actor ''IDEA'' ''IAC''
       [(''kind'', PStr ''REVENUE_OPPORTUNITY''), (''signal_id'', signal_id), (''account_alias'', account_alias),
        (''qualification_score'', PFloat score), (''estimated_value'', PFloat estimated_value),
        (''recommendation'', PStr recommendation), (''synthetic'', PBool synthetic),
        (''external_action_authorized'', PBool False)] revenue_record) (\<lambda>opportunity_id.
     seq (link_records actor opportunity_id ''SUPPORTED_BY'' (rec_id signal))
    (bind (create_record actor ''DECISION'' ''IAC''
       [(''opportunity_id'', PStr opportunity_id), (''decision'', PStr recommendation), (''score'', PFloat score),
        (''threshold'', PFloat (ch_threshold charter)), (''external_action_authorized'', PBool False)]
       revenue_record) (\<lambda>decision_id.
     seq (link_records actor decision_id ''GOVERNS'' opportunity_id)
    (bind (if worthy
           then bind (draft_project actor charter goal_id account_alias opportunity_id) (\<lambda>i. ret (Some i))
           else ret None) (\<lambda>project_id.
     ret [(''opportunity_id'', PStr opportunity_id), (''decision_id'', PStr decision_id),
          (''project_id'', opt_str project_id), (''score'', PFloat score),
          (''recommendation'', PStr recommendation), (''external_action_authorized'', PBool False)]))))))))))))))"

section \<open>The revenue portfolio\<close>

definition OPPORTUNITY_CLASSES :: "string list" where
  "OPPORTUNITY_CLASSES = [''NEW_OUTBOUND'', ''EXISTING_CUSTOMER'', ''INACTIVE_CUSTOMER'', ''UNCONVERTED_QUOTE'',
     ''INBOUND_LEAD'', ''NEW_CHANNEL'']"

definition CANDIDATE_FIELDS :: "string list" where
  "CANDIDATE_FIELDS = [''opportunity_class'', ''account_alias'', ''estimated_value'', ''gross_margin'', ''probability'',
     ''strategic_fit'', ''evidence_strength'', ''sean_hours'', ''implementation_cost'', ''capacity_load'', ''synthetic'']"

primrec float_fields :: "pyval \<Rightarrow> string list \<Rightarrow> exn + pyfloat list" where
  "float_fields candidate [] = Inr []"
| "float_fields candidate (k # ks) = ebind (subscript candidate k) (\<lambda>v. ebind (py_float v) (\<lambda>x.
     ebind (float_fields candidate ks) (\<lambda>xs. Inr (x # xs))))"

record candidate_rank =
  cd_fields :: pydict
  cd_class :: string
  cd_expected :: pyfloat
  cd_adjusted :: pyfloat
  cd_roi :: pyfloat
  cd_score :: pyfloat

text \<open>The three figures of a candidate, before rounding, and its rank score.\<close>

definition rank_figures :: "pyfloat list \<Rightarrow> pyfloat \<Rightarrow> pyfloat \<Rightarrow> pyfloat \<Rightarrow> pyfloat \<times> pyfloat \<times> pyfloat \<times> pyfloat" where
  "rank_figures bounded value cost hours =
     (let expected = fsub (fmul (fmul value (bounded ! 0)) (bounded ! 1)) cost;
          adjusted = fmul expected (fsub (Fin 1) (fmul (bounded ! 4) (dbl (3 / 10))));
          roi = fdiv adjusted (if flt hours (Fin 1) then Fin 1 else hours);
          factor = fadd (fadd (dbl (7 / 10)) (fmul (dbl (1 / 5)) (bounded ! 2))) (fmul (dbl (1 / 10)) (bounded ! 3)) in
      (expected, adjusted, roi, py_round (fmul roi factor) 2))"

definition rank_candidate :: "charter \<Rightarrow> pyval \<Rightarrow> exn + candidate_rank" where
  "rank_candidate charter candidate =
     ebind (names_are candidate CANDIDATE_FIELDS) (\<lambda>exact.
     if \<not> exact then Inl (ValidationError ''Revenue candidate fields are incomplete or unexpected'')
     else ebind (subscript candidate ''opportunity_class'') (\<lambda>given_class.
       let opportunity_class = upper (py_str given_class) in
       if \<not> List.member OPPORTUNITY_CLASSES opportunity_class
       then Inl (ValidationError ''Unknown revenue opportunity class'')
       else
         let fields = dval candidate; alias = py_str (dget fields ''account_alias'') in
         if \<not> truthy (dget fields ''synthetic'') \<or> List.member alias CHR ''@'' \<or> blank alias
         then Inl (ValidationError ''Revenue portfolio accepts synthetic non-identifying aliases only'')
         else
           ebind (float_fields candidate [''gross_margin'', ''probability'', ''strategic_fit'', ''evidence_strength'',
                    ''capacity_load'']) (\<lambda>bounded.
           if list_ex outside_unit bounded then Inl (ValidationError ''Revenue ratios must be between 0 and 1'')
           else
             ebind (float_fields candidate [''estimated_value'', ''implementation_cost'', ''sean_hours'']) (\<lambda>amounts.
             let value = amounts ! 0; cost = amounts ! 1; hours = amounts ! 2 in
             if flt value (Fin 0) \<or> flt (ch_max_value charter) value \<or> flt cost (Fin 0) \<or> flt hours (Fin 0)
             then Inl (ValidationError ''Revenue value, cost, or Sean hours is outside charter'')
             else
               let (expected, adjusted, roi, score) = rank_figures bounded value cost hours in
               Inr \<lparr>cd_fields = fields, cd_class = opportunity_class, cd_expected = py_round expected 2,
                    cd_adjusted = py_round adjusted 2, cd_roi = py_round roi 2, cd_score = score\<rparr>))))"

primrec rank_candidates :: "charter \<Rightarrow> pyval list \<Rightarrow> exn + candidate_rank list" where
  "rank_candidates charter [] = Inr []"
| "rank_candidates charter (x # xs) = ebind (rank_candidate charter x) (\<lambda>c.
     ebind (rank_candidates charter xs) (\<lambda>cs. Inr (c # cs)))"

definition candidate_dict :: "candidate_rank \<Rightarrow> pyval" where
  "candidate_dict c = PDict (dupdate (cd_fields c)
     [(''opportunity_class'', PStr (cd_class c)), (''expected_return'', PFloat (cd_expected c)),
      (''capacity_adjusted_return'', PFloat (cd_adjusted c)), (''roi_per_sean_hour'', PFloat (cd_roi c)),
      (''rank_score'', PFloat (cd_score c))])"

text \<open>The order of the key \<open>(-rank_score, account_alias)\<close>, with the aliases compared as text.\<close>

definition candidate_before :: "candidate_rank \<Rightarrow> candidate_rank \<Rightarrow> bool" where
  "candidate_before a b = (flt (cd_score b) (cd_score a) \<or> (\<not> flt (cd_score a) (cd_score b) \<and>
     py_str (dget (cd_fields a) ''account_alias'') < py_str (dget (cd_fields b) ''account_alias'')))"

definition candidate_sort :: "candidate_rank list \<Rightarrow> candidate_rank list" where
  "candidate_sort = sort_before candidate_before"

text \<open>\<open>a < b\<close>, and \<open>max(...)\<close>: the first of the largest.\<close>

definition value_less :: "pyval \<Rightarrow> pyval \<Rightarrow> exn + bool" where
  "value_less a b = (case (a, b) of
     (PStr s, PStr t) \<Rightarrow> Inr (s < t)
   | _ \<Rightarrow> ebind (exact_num a) (\<lambda>x. ebind (exact_num b) (\<lambda>y. Inr (flt x y))))"

primrec max_from :: "pyval \<Rightarrow> pyval list \<Rightarrow> exn + pyval" where
  "max_from best [] = Inr best"
| "max_from best (v # vs) = ebind (value_less best v) (\<lambda>b. max_from (if b then v else best) vs)"

definition max_value :: "candidate_rank list \<Rightarrow> exn + pyval" where
  "max_value cs = (case map (\<lambda>c. dget (cd_fields c) ''estimated_value'') cs of
     [] \<Rightarrow> Inr (PInt 1)
   | v # vs \<Rightarrow> ebind (max_from v vs) (\<lambda>m. Inr (if truthy m then m else PInt 1)))"

text \<open>\<open>min(1, x)\<close>.\<close>

definition at_most_one :: "pyfloat \<Rightarrow> pyval" where
  "at_most_one x = (if flt x (Fin 1) then PFloat x else PInt 1)"

definition candidate_metrics :: "candidate_rank \<Rightarrow> pyval \<Rightarrow> exn + pyval" where
  "candidate_metrics c largest =
     (let fields = cd_fields c; f = (\<lambda>k. py_float (dget fields k)) in
      ebind (f ''strategic_fit'') (\<lambda>fit. ebind (f ''estimated_value'') (\<lambda>value.
      ebind (float_operand largest) (\<lambda>top. ebind (f ''probability'') (\<lambda>probability.
      ebind (f ''evidence_strength'') (\<lambda>evidence. ebind (f ''sean_hours'') (\<lambda>hours.
      Inr (PDict [(''strategic_fit'', PFloat fit), (''expected_value'', at_most_one (fdiv value top)),
        (''urgency'', PFloat probability), (''confidence'', PFloat evidence),
        (''effort'', at_most_one (fdiv hours (Fin 40))), (''risk'', PFloat (fsub (Fin 1) evidence))]))))))))"

definition research_project :: "actor \<Rightarrow> pyval \<Rightarrow> pyval \<Rightarrow> candidate_rank \<Rightarrow> string \<Rightarrow> string py" where
  "research_project actor goal_id largest c hypothesis_id =
     bind (lift_result (candidate_metrics c largest)) (\<lambda>metrics.
     bind (create_project actor default_limits goal_id
       (PStr (''Revenue research '' @ em_dash @ '' '' @ cd_class c @ '' '' @ em_dash @ '' '' @
              py_str (dget (cd_fields c) ''account_alias'')))
       (PList [done_task ''Validate expected-return assumptions'' ''Margin, probability, cost, and capacity evidence are stored'',
               done_task ''Prepare internal recommendation'' ''Recommendation is stored locally and marked NOT SENT''])
       (PStr ''capacity-adjusted expected return'') (PStr ''validated expected return is non-positive'') metrics)
       (\<lambda>(project_id, task_ids).
     seq (link_records actor project_id ''EXPLORES'' hypothesis_id) (ret project_id)))"

text \<open>One hypothesis, and a research project if it is selected.\<close>

definition place_candidate ::
  "actor \<Rightarrow> pyval \<Rightarrow> int \<Rightarrow> pyval \<Rightarrow> nat \<times> candidate_rank \<Rightarrow> (string \<times> string option) py" where
  "place_candidate actor goal_id capacity largest numbered =
     (let (position, c) = numbered;
          selected = (int position \<le> capacity \<and> flt (Fin 0) (cd_expected c)) in
      bind (lift_result (py_float (dget (cd_fields c) ''evidence_strength''))) (\<lambda>confidence.
      bind (create_record actor ''IDEA'' ''IAC''
        [(''kind'', PStr ''REVENUE_HYPOTHESIS''), (''rank'', PInt (int position)),
         (''opportunity_class'', PStr (cd_class c)), (''account_alias'', dget (cd_fields c) ''account_alias''),
         (''rank_score'', PFloat (cd_score c)), (''expected_return'', PFloat (cd_expected c)),
         (''recommendation'', PStr (if selected then ''RESEARCH'' else ''REJECT_FOR_NOW'')),
         (''reopen_trigger'', if selected then PNone
            else PStr ''Research capacity increases or new evidence raises expected return''),
         (''synthetic'', PBool True), (''external_action_authorized'', PBool False)]
        (revenue_record\<lparr>nr_confidence := Some confidence\<rparr>)) (\<lambda>hypothesis_id.
      if selected
      then bind (research_project actor goal_id largest c hypothesis_id) (\<lambda>p. ret (hypothesis_id, Some p))
      else ret (hypothesis_id, None))))"

definition compare_portfolio :: "actor \<Rightarrow> charter \<Rightarrow> pyval \<Rightarrow> pyval \<Rightarrow> int \<Rightarrow> pydict py" where
  "compare_portfolio actor charter goal_id candidates capacity =
     bind (lift_result (if \<not> truthy candidates then Inr True
            else ebind (iter_values candidates) (\<lambda>xs. Inr (20 < length xs)))) (\<lambda>out_of_bounds.
     seq (raise_if (out_of_bounds \<or> \<not> (1 \<le> capacity \<and> capacity \<le> 5))
            (ValidationError ''Revenue portfolio requires 1-20 candidates and capacity 1-5''))
    (bind (read_record actor goal_id) (\<lambda>goal.
     seq (raise_if (rec_type goal \<noteq> ''GOAL'' \<or> rec_scope goal \<noteq> ''IAC'')
            (ValidationError ''Revenue portfolio must advance an IAC goal''))
    (bind (lift_result (ebind (iter_values candidates) (rank_candidates charter))) (\<lambda>found.
     let ranking = candidate_sort found in
     bind (lift_result (max_value ranking)) (\<lambda>largest.
     bind (collect (enumerate 1 ranking) (place_candidate actor goal_id capacity largest)) (\<lambda>placed.
     let hypotheses = map fst placed; projects = List.map_filter snd placed;
         rejected = map snd (filter (\<lambda>(i, h). capacity \<le> int i \<or> fle (cd_expected (ranking ! i)) (Fin 0))
           (enumerate 0 hypotheses));
         shown = PList (map candidate_dict ranking) in
     bind (create_record actor ''DECISION'' ''IAC''
       [(''kind'', PStr ''REVENUE_PORTFOLIO_ALLOCATION''), (''ranked_candidates'', shown),
        (''research_capacity'', PInt capacity), (''selected_project_ids'', names_list projects),
        (''rejected_hypothesis_ids'', names_list rejected), (''external_action_authorized'', PBool False)]
       (revenue_record\<lparr>nr_confidence := Some (dbl (4 / 5))\<rparr>)) (\<lambda>decision_id.
     ret [(''decision_id'', PStr decision_id), (''ranked_candidates'', shown), (''project_ids'', names_list projects),
          (''hypothesis_ids'', names_list hypotheses), (''external_action_authorized'', PBool False)]))))))))"

section \<open>The laws of the store\<close>

lemma lawful_register_signal [legal_ops]:
  "lawful prof P (register_signal actor charter name evidence source_reference synthetic)"
  unfolding register_signal_def by (intro op_rules legal_ops)

lemma lawful_qualify [legal_ops]:
  "lawful prof P (qualify actor charter signal_id goal_id account_alias icp_fit urgency evidence_strength value synthetic)"
  unfolding qualify_def draft_project_def by (intro op_rules legal_ops)

lemma lawful_compare_portfolio [legal_ops]:
  "lawful prof P (compare_portfolio actor charter goal_id candidates capacity)"
  unfolding compare_portfolio_def place_candidate_def research_project_def by (intro op_rules legal_ops)

end
