(* ===== verification/Integrations.thy ===== *)
theory Integrations
  imports Chief_Of_Staff
begin

text \<open>
  \<^verbatim>\<open>sean_os/integrations.py\<close>: the gates of the connectors, the offline import of artifacts and the
  record of a coding delivery. The payload of a coding delivery is the payload of a work item, a
  value of any type; so are the fields of an import.
\<close>

section \<open>Connector gates\<close>

definition configure_connector :: "actor \<Rightarrow> string \<Rightarrow> bool \<Rightarrow> string \<Rightarrow> unit py" where
  "configure_connector actor connector_name enabled given_mode =
     seq (raise_if (\<not> actor_is_sean actor) (AuthorizationError ''Only Sean may configure integration gates''))
    (let name = upper connector_name; mode = upper given_mode in
     bind (table db_connectors) (\<lambda>rows.
     seq (raise_if (\<not> List.member (map cn_name rows) name) (ValidationError ''Unknown connector''))
    (seq (raise_if (\<not> List.member [''SYNTHETIC_ONLY'', ''LIVE''] mode) (ValidationError ''Unknown connector mode''))
    (seq (raise_if (enabled \<and> (mode = ''LIVE'' \<or> name \<noteq> ''CLAUDE_IMPORT''))
            (AuthorizationError ''Only synthetic Claude import may be enabled in v0.1''))
    (bind now (\<lambda>stamp.
     seq (sql_update db_connectors db_connectors_update (\<lambda>r. cn_name r = name)
            (\<lambda>r. r\<lparr>cn_enabled := enabled, cn_mode := mode, cn_updated_at := stamp, cn_updated_by := actor_id actor\<rparr>))
    (seq commit
     (record_policy_decision actor None True ''Connector gate configured''
        [(''connector_name'', PStr name), (''enabled'', PBool enabled), (''mode'', PStr mode)]))))))))"

definition connector_statuses :: "connector_row list py" where
  "connector_statuses = bind (table db_connectors) (\<lambda>rows. ret (order_by cn_name rows))"

definition require_enabled :: "string \<Rightarrow> bool \<Rightarrow> unit py" where
  "require_enabled connector_name synthetic =
     bind (table db_connectors) (\<lambda>rows.
     let found = row_by cn_name (upper connector_name) rows in
     seq (raise_if (case found of None \<Rightarrow> True | Some r \<Rightarrow> \<not> cn_enabled r)
            (AuthorizationError (''Connector '' @ connector_name @ '' is disabled'')))
         (raise_if (case found of None \<Rightarrow> False | Some r \<Rightarrow> cn_mode r = ''SYNTHETIC_ONLY'' \<and> \<not> synthetic)
            (AuthorizationError ''Connector permits synthetic artifacts only'')))"

section \<open>Artifact import\<close>

record import_envelope =
  ie_external :: pyval
  ie_content :: pyval
  ie_source :: pyval
  ie_captured :: pyval
  ie_synthetic :: bool
  ie_metadata :: pyval

definition import_project :: "actor \<Rightarrow> string \<Rightarrow> pyval \<Rightarrow> string option py" where
  "import_project actor scope v =
     (if \<not> truthy v then ret None
      else bind (read_record actor v) (\<lambda>project.
        seq (raise_if (rec_type project \<noteq> ''PROJECT'' \<or> rec_scope project \<noteq> scope)
               (ValidationError ''Imported project reference is invalid''))
            (ret (Some (rec_id project)))))"

definition import_result :: "string \<Rightarrow> string \<Rightarrow> bool \<Rightarrow> pydict" where
  "import_result record_id digest deduplicated =
     [(''record_id'', PStr record_id), (''content_sha256'', PStr digest), (''deduplicated'', PBool deduplicated)]"

definition store_artifact :: "actor \<Rightarrow> string \<Rightarrow> import_envelope \<Rightarrow> string \<Rightarrow> string py" where
  "store_artifact actor scope e digest =
     bind (create_record actor ''KNOWLEDGE'' scope
       [(''kind'', PStr ''CLAUDE_IMPORTED_ARTIFACT''), (''content'', ie_content e), (''content_sha256'', PStr digest),
        (''captured_at'', ie_captured e), (''metadata'', ie_metadata e), (''synthetic'', PBool (ie_synthetic e)),
        (''trust'', PStr ''UNTRUSTED_EVIDENCE''), (''instruction_execution'', PStr ''DISABLED'')]
       (defaults\<lparr>nr_source := ''claude-import'', nr_locator := Some (sval (ie_source e))\<rparr>)) (\<lambda>record_id.
     bind now (\<lambda>stamp.
     seq (sql_insert_new db_imports db_imports_update import_key
            \<lparr>im_connector = ''CLAUDE_IMPORT'', im_external = sval (ie_external e), im_sha256 = digest,
             im_record = record_id, im_at = stamp\<rparr>)
    (seq commit (ret record_id))))"

definition ingest :: "actor \<Rightarrow> import_envelope \<Rightarrow> string \<Rightarrow> pydict py" where
  "ingest actor e scope =
     seq (require_enabled ''CLAUDE_IMPORT'' (ie_synthetic e))
    (seq (raise_if (scope \<noteq> ''IAC'') (AuthorizationError ''v0.1 Claude import is isolated to IAC scope''))
    (bind (lift_result (any_of [is_blank (ie_external e), is_blank (ie_source e), is_blank (ie_captured e)])) (\<lambda>lacks.
     seq (raise_if lacks (ValidationError ''Import requires external ID, source URI, and capture time''))
    (bind (lift_result (is_blank (ie_content e))) (\<lambda>lacks_content.
     seq (raise_if lacks_content (ValidationError ''Empty artifacts are not imported''))
    (bind (lift_result (value_get (ie_metadata e) ''project_id'' PNone)) (\<lambda>project_ref.
     bind (import_project actor scope project_ref) (\<lambda>project_id.
     bind (sha256 (sval (ie_content e))) (\<lambda>digest.
     bind (table db_imports) (\<lambda>rows.
     case row_by import_key (''CLAUDE_IMPORT'', sval (ie_external e)) rows of
       Some existing \<Rightarrow>
         seq (raise_if (im_sha256 existing \<noteq> digest)
                (ValidationError ''External artifact changed; import under a new immutable ID''))
             (ret (import_result (im_record existing) digest True))
     | None \<Rightarrow>
         bind (store_artifact actor scope e digest) (\<lambda>record_id.
         seq (case project_id of
                None \<Rightarrow> ret ()
              | Some p \<Rightarrow> bind (link_records actor record_id ''EVIDENCE_FOR'' p) (\<lambda>_. ret ()))
        (seq (record_policy_decision actor (Some record_id) True
                ''Synthetic Claude artifact imported as untrusted evidence''
                [(''external_id'', ie_external e), (''sha256'', PStr digest)])
             (ret (import_result record_id digest False))))))))))))))"

section \<open>Coding deliveries\<close>

definition ensure_link :: "actor \<Rightarrow> string \<Rightarrow> string \<Rightarrow> string \<Rightarrow> unit py" where
  "ensure_link actor record_id relationship_type target_id =
     bind (table db_links) (\<lambda>rows.
     if list_ex (\<lambda>r. rel_from r = record_id \<and> rel_type r = relationship_type \<and> rel_to r = target_id) rows
     then ret ()
     else bind (link_records actor record_id relationship_type target_id) (\<lambda>_. ret ()))"

definition DELIVERY_TEXTS :: "string list" where
  "DELIVERY_TEXTS = [''external_id'', ''repository'', ''base_revision'', ''branch_name'', ''review_ref'', ''summary'']"

definition lacks_text :: "pyval \<Rightarrow> string \<Rightarrow> exn + bool" where
  "lacks_text payload k = ebind (subscript payload k) (\<lambda>v. Inr (\<not> is_str v \<or> blank (sval v)))"

text \<open>The texts of a list that holds texts only, none of them blank.\<close>

definition text_items :: "pyval \<Rightarrow> string list option" where
  "text_items v = (case v of
     PList xs \<Rightarrow> if xs \<noteq> [] \<and> list_all (\<lambda>x. is_str x \<and> \<not> blank (sval x)) xs then Some (map sval xs) else None
   | _ \<Rightarrow> None)"

definition relative_path :: "string \<Rightarrow> bool" where
  "relative_path s = (take 1 s \<noteq> ''/'' \<and> \<not> List.member (path_parts s) ''..'')"

definition owner_and_name :: "string \<Rightarrow> bool" where
  "owner_and_name s = (length (split_on CHR ''/'' s) = 2 \<and> list_all (\<lambda>p. p \<noteq> []) (split_on CHR ''/'' s))"

record delivery_facts =
  df_repository :: string
  df_activity :: int
  df_cost :: pyfloat

definition check_units :: "pyval \<Rightarrow> pyval \<Rightarrow> exn + (int \<times> pyfloat)" where
  "check_units activity cost = (case activity of
     PInt n \<Rightarrow>
       if n \<le> 0 then Inl (ValidationError ''Coding activity units must be a positive integer'')
       else if \<not> is_number cost then Inl (ValidationError ''Coding cost units must be positive'')
       else ebind (py_float cost) (\<lambda>x.
         if fle x (Fin 0) then Inl (ValidationError ''Coding cost units must be positive'') else Inr (n, x))
   | _ \<Rightarrow> Inl (ValidationError ''Coding activity units must be a positive integer''))"

definition check_delivery :: "pyval \<Rightarrow> exn + delivery_facts" where
  "check_delivery payload =
     ebind (any_of (map (lacks_text payload) DELIVERY_TEXTS)) (\<lambda>lacks.
     if lacks then Inl (ValidationError ''Coding delivery text fields must be non-empty'')
     else
       let repository = strip (sval (dget (dval payload) ''repository'')) in
       if \<not> owner_and_name repository then Inl (ValidationError ''Repository must use owner/name form'')
       else if List.member [''main'', ''master''] (lower (strip (sval (dget (dval payload) ''branch_name''))))
       then Inl (ValidationError ''Coding delivery must use a review branch'')
       else
         ebind (subscript payload ''changed_paths'') (\<lambda>paths.
         case text_items paths of None \<Rightarrow> Inl (ValidationError ''Coding delivery requires changed paths'')
         | Some ps \<Rightarrow>
           if \<not> list_all relative_path ps then Inl (ValidationError ''Changed paths must remain repository-relative'')
           else ebind (subscript payload ''test_results'') (\<lambda>tests.
           if text_items tests = None then Inl (ValidationError ''Coding delivery requires test results'')
           else
             ebind (subscript payload ''activity_units'') (\<lambda>activity.
             ebind (subscript payload ''estimated_cost_units'') (\<lambda>cost.
             ebind (check_units activity cost) (\<lambda>(n, x).
             Inr \<lparr>df_repository = repository, df_activity = n, df_cost = x\<rparr>))))))"

text \<open>The evidence record of an earlier attempt that was stopped before its delivery was stored.\<close>

definition find_evidence :: "string \<Rightarrow> rec_row list \<Rightarrow> rec_row option" where
  "find_evidence external rows = find (\<lambda>r. rec_source r = ''claude-code-delivery'' \<and>
     dget (dval (rec_payload r)) ''external_id'' = PStr external) rows"

definition create_evidence ::
  "actor \<Rightarrow> pydict \<Rightarrow> delivery_facts \<Rightarrow> string \<Rightarrow> string \<Rightarrow> string \<Rightarrow> (string \<times> string) py" where
  "create_evidence actor payload f digest project_id task_id =
     bind uuid4 (\<lambda>delivery_id.
     bind (create_record actor ''KNOWLEDGE'' ''IAC''
       [(''kind'', PStr ''CLAUDE_CODE_DELIVERY''), (''status'', PStr ''DELIVERED''), (''delivery_id'', PStr delivery_id),
        (''external_id'', dget payload ''external_id''), (''content_sha256'', PStr digest),
        (''project_id'', PStr project_id), (''task_id'', PStr task_id), (''repository'', PStr (df_repository f)),
        (''base_revision'', dget payload ''base_revision''), (''branch_name'', dget payload ''branch_name''),
        (''review_ref'', dget payload ''review_ref''), (''summary'', dget payload ''summary''),
        (''changed_paths'', dget payload ''changed_paths''), (''test_results'', dget payload ''test_results''),
        (''activity_units'', PInt (df_activity f)), (''cost_units'', PFloat (df_cost f)), (''synthetic'', PBool True),
        (''network_used'', PBool False), (''external_effect'', PBool False)]
       (defaults\<lparr>nr_source := ''claude-code-delivery'', nr_locator := Some (sval (dget payload ''review_ref'')),
          nr_confidence := Some (Fin 1)\<rparr>)) (\<lambda>record_id.
     ret (record_id, delivery_id)))"

definition delivery_evidence ::
  "actor \<Rightarrow> pydict \<Rightarrow> delivery_facts \<Rightarrow> string \<Rightarrow> string \<Rightarrow> string \<Rightarrow> rec_row option \<Rightarrow> (string \<times> string) py" where
  "delivery_evidence actor payload f digest project_id task_id recovered = (case recovered of
     Some r \<Rightarrow>
       seq (raise_if (dget (dval (rec_payload r)) ''content_sha256'' \<noteq> PStr digest)
              (ValidationError ''Recovered coding delivery evidence has changed''))
      (bind (lift_result (ebind (subscript (rec_payload r) ''delivery_id'') text_arg)) (\<lambda>delivery_id.
       ret (rec_id r, delivery_id)))
   | None \<Rightarrow> create_evidence actor payload f digest project_id task_id)"

text \<open>A cost that is not a number is stored as NULL, which the column refuses.\<close>

definition insert_coding :: "coding_row \<Rightarrow> unit py" where
  "insert_coding row =
     bind (table db_codings) (\<lambda>rows.
     if list_ex (\<lambda>r. cg_delivery r = cg_delivery row) rows
     then reject ''UNIQUE constraint failed: coding_deliveries.delivery_id''
     else if \<not> flt (Fin 0) (cg_cost row) then reject ''NOT NULL constraint failed: coding_deliveries.cost_units''
     else if cg_status row \<noteq> ''DELIVERED'' \<or> cg_activity row \<le> 0 then reject ''CHECK constraint failed: coding_deliveries''
     else sql_insert_new db_codings db_codings_update cg_external row)"

definition delivery_result :: "string \<Rightarrow> string \<Rightarrow> string \<Rightarrow> bool \<Rightarrow> pydict" where
  "delivery_result delivery_id record_id digest deduplicated =
     [(''delivery_id'', PStr delivery_id), (''record_id'', PStr record_id), (''status'', PStr ''DELIVERED''),
      (''content_sha256'', PStr digest), (''deduplicated'', PBool deduplicated)]"

definition store_delivery ::
  "actor \<Rightarrow> pydict \<Rightarrow> delivery_facts \<Rightarrow> string \<Rightarrow> string \<Rightarrow> string \<Rightarrow> pydict py" where
  "store_delivery actor payload f digest project_id task_id =
     bind (table db_records) (\<lambda>records.
     let recovered = find_evidence (sval (dget payload ''external_id'')) records in
     bind (delivery_evidence actor payload f digest project_id task_id recovered) (\<lambda>(record_id, delivery_id).
     bind now (\<lambda>stamp.
     seq (insert_coding
            \<lparr>cg_delivery = delivery_id, cg_external = sval (dget payload ''external_id''), cg_sha256 = digest,
             cg_project = project_id, cg_task = task_id, cg_repository = df_repository f,
             cg_base = sval (dget payload ''base_revision''), cg_branch = sval (dget payload ''branch_name''),
             cg_review = sval (dget payload ''review_ref''), cg_record = record_id, cg_status = ''DELIVERED'',
             cg_activity = df_activity f, cg_cost = df_cost f, cg_at = stamp\<rparr>)
    (seq commit
    (seq (ensure_link actor record_id ''DELIVERS'' task_id)
    (seq (ensure_link actor record_id ''EVIDENCE_FOR'' project_id)
    (seq (record_policy_decision actor (Some record_id) True
            ''Synthetic coding delivery recorded without network or repository mutation''
            [(''delivery_id'', PStr delivery_id), (''project_id'', PStr project_id), (''task_id'', PStr task_id),
             (''tool'', PStr ''claude-code-synthetic''), (''cost_units'', PFloat (df_cost f)),
             (''activity_units'', PInt (df_activity f)), (''network_used'', PBool False),
             (''external_effect'', PBool False)])
         (ret (delivery_result delivery_id record_id digest (recovered \<noteq> None))))))))))"

definition record_delivery :: "actor \<Rightarrow> handler" where
  "record_delivery actor payload =
     bind (lift_result (subscript payload ''synthetic'')) (\<lambda>synthetic.
     seq (require_enabled ''CLAUDE_IMPORT'' (truthy synthetic))
    (seq (raise_if (synthetic \<noteq> PBool True)
            (AuthorizationError ''v0.1 coding delivery accepts synthetic evidence only''))
    (bind (lift_result (subscript payload ''project_id'')) (\<lambda>project_ref.
     bind (read_record actor project_ref) (\<lambda>project.
     bind (lift_result (subscript payload ''task_id'')) (\<lambda>task_ref.
     bind (read_record actor task_ref) (\<lambda>task.
     seq (raise_if (rec_type project \<noteq> ''PROJECT'' \<or> rec_type task \<noteq> ''TASK'' \<or> rec_scope project \<noteq> ''IAC'' \<or>
              rec_scope task \<noteq> ''IAC'')
            (ValidationError ''Coding delivery requires IAC project and task records''))
    (bind (table db_links) (\<lambda>links.
     seq (raise_if (\<not> list_ex (\<lambda>r. rel_from r = rec_id task \<and> rel_type r = ''BELONGS_TO'' \<and> rel_to r = rec_id project) links)
            (ValidationError ''Coding delivery task is not linked to the project''))
    (bind (lift_result (check_delivery payload)) (\<lambda>f.
     bind (sha256 (dumps payload)) (\<lambda>digest.
     bind (table db_codings) (\<lambda>rows.
     case row_by cg_external (sval (dget (dval payload) ''external_id'')) rows of
       Some existing \<Rightarrow>
         seq (raise_if (cg_sha256 existing \<noteq> digest)
                (ValidationError ''Coding delivery ID was reused with different evidence''))
        (seq (ensure_link actor (cg_record existing) ''DELIVERS'' (rec_id task))
        (seq (ensure_link actor (cg_record existing) ''EVIDENCE_FOR'' (rec_id project))
             (ret (delivery_result (cg_delivery existing) (cg_record existing) digest True))))
     | None \<Rightarrow> store_delivery actor (dval payload) f digest (rec_id project) (rec_id task))))))))))))))"

section \<open>The laws of the store\<close>

lemma lawful_configure_connector [legal_ops]: "lawful prof P (configure_connector actor name enabled mode)"
  unfolding configure_connector_def
proof (intro op_rules legal_ops, goal_cases)
  case (1 name mode rows)
  then show ?case
    unfolding store_le_table
    by (intro connectors.step_update) (auto simp: connector_ok_def connector_step_def)
qed

lemma reader_require_enabled: "reader (require_enabled name synthetic)"
  unfolding require_enabled_def by (intro reader_intros)

lemma lawful_connector_readers [legal_ops]:
  "lawful prof P connector_statuses" "lawful prof P (require_enabled name synthetic)"
  unfolding connector_statuses_def by (intro op_rules legal_ops store.lawful_reader reader_require_enabled)+

lemma lawful_store_artifact [legal_ops]: "lawful prof P (store_artifact actor scope e digest)"
  unfolding store_artifact_def
proof (intro op_rules legal_ops, goal_cases)
  case 1
  then show ?case unfolding store_le_table by (intro artifacts.step_insert) simp_all
qed

lemma lawful_ingest [legal_ops]: "lawful prof P (ingest actor e scope)"
  unfolding ingest_def import_project_def by (intro op_rules legal_ops)

lemma lawful_insert_coding [legal_ops]: "lawful prof P (insert_coding row)"
  unfolding insert_coding_def
proof (intro op_rules legal_ops, goal_cases)
  case 1
  then show ?case
    unfolding store_le_table by (intro codings.step_insert) (auto simp: coding_ok_def)
qed

lemma lawful_record_delivery [legal_ops]: "lawful prof P (record_delivery actor payload)"
  unfolding record_delivery_def store_delivery_def delivery_evidence_def create_evidence_def ensure_link_def
  by (intro op_rules legal_ops)

end
