(* ===== verification/Reporting.thy ===== *)
theory Reporting
  imports Chief_Of_Staff Store_Deliveries Scheduler
begin

text \<open>
  \<^verbatim>\<open>sean_os/reporting.py\<close>: the operational report, generated at most once per cadence, period and
  scope. The verdict of SQLite's integrity check is an argument. Ids that a stored result or an
  edited record holds are texts; the sort of others raises.
\<close>

section \<open>Rows as dictionaries\<close>

definition nat_val :: "nat \<Rightarrow> pyval" where
  "nat_val n = PInt (int n)"

definition counts_dict :: "('k \<Rightarrow> string) \<Rightarrow> ('k \<times> nat) list \<Rightarrow> pyval" where
  "counts_dict name counts = PDict (map (\<lambda>(k, n). (name k, nat_val n)) counts)"

definition heartbeat_dict :: "heartbeat_row \<times> bool \<Rightarrow> pyval" where
  "heartbeat_dict b = (case b of (w, stale) \<Rightarrow> PDict
     [(''worker_id'', PStr (hb_worker w)), (''owner_scope'', PStr (hb_scope w)), (''status'', PStr (hb_status w)),
      (''current_work_id'', opt_str (hb_work w)), (''last_seen_at'', PStr (hb_seen_at w)),
      (''details'', hb_details w), (''stale'', PBool stale)])"

definition budget_dict :: "budget_row \<times> pyfloat \<Rightarrow> pyval" where
  "budget_dict b = (case b of (r, available) \<Rightarrow> PDict
     [(''owner_scope'', PStr (bg_scope r)), (''period_key'', PStr (bg_period r)), (''limit_units'', PFloat (bg_limit r)),
      (''used_units'', PFloat (bg_used r)), (''reserved_units'', PFloat (bg_reserved r)),
      (''updated_at'', PStr (bg_updated_at r)),
      (''available_units'', if available = Fin 0 then PInt 0 else PFloat available)])"

definition health_dict :: "pydict \<Rightarrow> health \<Rightarrow> pyval" where
  "health_dict integrity h = PDict
     [(''healthy'', PBool (he_healthy h)), (''kill_switch'', PBool (he_kill_switch h)), (''integrity'', PDict integrity),
      (''queue'', counts_dict work_status_str (he_queue h)), (''workers'', PList (map heartbeat_dict (he_workers h))),
      (''delivery_outbox'', counts_dict (outbox_name ''SYNTHETIC_DELIVERED'') (he_deliveries h)),
      (''backup_transfer_outbox'', counts_dict (outbox_name ''COMPLETED'') (he_transfers h)),
      (''backup_restore_outbox'', counts_dict (outbox_name ''RESTORED'') (he_restores h)),
      (''budgets'', PList (map budget_dict (he_budgets h))), (''needs_attention'', nat_val (he_attention h)),
      (''active_worker_count'', nat_val (he_active h))]"

definition attention_dict :: "work_row \<Rightarrow> pyval" where
  "attention_dict r = PDict
     [(''id'', PStr (wk_id r)), (''task_type'', PStr (wk_type r)), (''status'', PStr (work_status_str (wk_status r))),
      (''last_error'', opt_str (wk_error r)), (''updated_at'', PStr (wk_updated_at r))]"

fun incident_status_str :: "incident_status \<Rightarrow> string" where
  "incident_status_str INC_ACTIVE = ''ACTIVE''"
| "incident_status_str INC_RESOLVED = ''RESOLVED''"

definition incident_dict :: "incident_row \<Rightarrow> pyval" where
  "incident_dict r = PDict
     [(''incident_id'', PStr (ic_id r)), (''owner_scope'', PStr (ic_scope r)), (''route_id'', PStr (ic_route r)),
      (''alert_code'', PStr (ic_code r)), (''severity'', PStr (ic_severity r)),
      (''current_summary'', PStr (ic_summary r)), (''status'', PStr (incident_status_str (ic_status r))),
      (''first_seen_at'', PStr (ic_first_at r)), (''last_seen_at'', PStr (ic_last_at r)),
      (''occurrence_count'', PInt (ic_count r)), (''reopen_count'', PInt (ic_reopens r)),
      (''resolved_at'', opt_str (ic_resolved_at r)), (''resolved_by'', opt_str (ic_resolved_by r)),
      (''resolution_reason'', opt_str (ic_resolution r))]"

definition delivery_attention_dict :: "delivery_view \<Rightarrow> pyval" where
  "delivery_attention_dict v = (let r = dv_row v in PDict
     [(''delivery_id'', PStr (bx_id r)), (''status'', PStr (outbox_name ''SYNTHETIC_DELIVERED'' (bx_status r))),
      (''lease_state'', PStr (dv_lease_state v)), (''attempt_count'', PInt (bx_attempts r)),
      (''max_attempts'', PInt (bx_max r)), (''attempts_remaining'', PInt (dv_remaining v)),
      (''available_at'', PStr (bx_available_at r)), (''last_error'', opt_str (bx_error r))])"

definition diagnostics_dict :: "string \<Rightarrow> delivery_diagnostics \<Rightarrow> pyval" where
  "diagnostics_dict scope d = PDict
     [(''scope'', PStr scope), (''counts'', counts_dict (outbox_name ''SYNTHETIC_DELIVERED'') (dd_counts d)),
      (''authorized_backlog'', nat_val (dd_backlog d)), (''active_leases'', nat_val (dd_active d)),
      (''expired_leases'', nat_val (dd_expired d)), (''failed'', nat_val (dd_failed d)),
      (''oldest_authorized_item_created_at'', opt_str (dd_oldest d)),
      (''attention'', PList (map delivery_attention_dict (dd_attention d))),
      (''manual_execution_authorized'', PBool False)]"

definition approval_fields :: "approval_row \<Rightarrow> pydict" where
  "approval_fields r =
     [(''record_id'', PStr (ap_id r)), (''action_type'', PStr (ap_action r)), (''target'', PStr (ap_target r)),
      (''max_impact'', PStr (ap_impact r)), (''status'', PStr (approval_status_str (ap_status r))),
      (''expires_at'', PStr (ap_expires_at r))]"

definition connector_dict :: "connector_row \<Rightarrow> pyval" where
  "connector_dict r = PDict
     [(''connector_name'', PStr (cn_name r)), (''enabled'', PInt (if cn_enabled r then 1 else 0)), (''mode'', PStr (cn_mode r))]"

section \<open>Projects\<close>

fun project_status_str :: "project_status \<Rightarrow> string" where
  "project_status_str PROJ_ACTIVE = ''ACTIVE''"
| "project_status_str PROJ_INCUBATOR = ''INCUBATOR''"
| "project_status_str PROJ_PAUSED = ''PAUSED''"
| "project_status_str PROJ_KILLED = ''KILLED''"

text \<open>\<open>records r JOIN project_state ps ON ps.record_id=r.id\<close> in one scope.\<close>

definition scope_projects :: "string \<Rightarrow> db \<Rightarrow> (rec_row \<times> project_row) list" where
  "scope_projects scope d = List.map_filter (\<lambda>r. map_option (Pair r) (row_by prj_id (rec_id r) (db_projects d)))
     (filter (\<lambda>r. rec_scope r = scope) (db_records d))"

record priority =
  py_id :: string
  py_name :: pyval
  py_score :: "pyfloat option"

definition priority_of :: "rec_row \<Rightarrow> exn + priority" where
  "priority_of r = (let d = dval (rec_payload r) in
     ebind (has_metrics r) (\<lambda>scored.
     ebind (if scored then ebind (portfolio_score (dget d ''portfolio_metrics'')) (\<lambda>x. Inr (Some x)) else Inr None) (\<lambda>score.
     Inr \<lparr>py_id = rec_id r, py_name = dget_or d ''name'' (PStr ''Unnamed project''), py_score = score\<rparr>)))"

text \<open>The order of the key \<open>(score is None, -(score or 0), id)\<close>.\<close>

definition priority_before :: "priority \<Rightarrow> priority \<Rightarrow> bool" where
  "priority_before a b = (case (py_score a, py_score b) of
     (Some x, None) \<Rightarrow> True
   | (None, Some y) \<Rightarrow> False
   | (None, None) \<Rightarrow> py_id a < py_id b
   | (Some x, Some y) \<Rightarrow> flt y x \<or> (\<not> flt x y \<and> py_id a < py_id b))"

definition priority_dict :: "priority \<Rightarrow> pyval" where
  "priority_dict p = PDict [(''id'', PStr (py_id p)), (''name'', py_name p),
     (''portfolio_score'', case py_score p of None \<Rightarrow> PNone | Some x \<Rightarrow> PFloat x)]"

primrec map_results :: "('a \<Rightarrow> exn + 'b) \<Rightarrow> 'a list \<Rightarrow> exn + 'b list" where
  "map_results f [] = Inr []"
| "map_results f (x # xs) = ebind (f x) (\<lambda>y. ebind (map_results f xs) (\<lambda>ys. Inr (y # ys)))"

definition top_priorities :: "string \<Rightarrow> db \<Rightarrow> exn + priority list" where
  "top_priorities scope d =
     (let current = take 100 (order_desc (\<lambda>(r, p). rec_updated_at r)
            (filter (\<lambda>(r, p). prj_state p = PROJ_ACTIVE) (scope_projects scope d))) in
      ebind (map_results (priority_of \<circ> fst) current) (\<lambda>ps. Inr (take 5 (sort_before priority_before ps))))"

definition project_changes :: "string \<Rightarrow> string \<Rightarrow> db \<Rightarrow> pyval list" where
  "project_changes scope since d = map (\<lambda>(r, p). PDict
       [(''project_id'', PStr (rec_id r)), (''name'', dget_or (dval (rec_payload r)) ''name'' (PStr ''Unnamed project'')),
        (''state'', PStr (project_status_str (prj_state p))), (''reason'', PStr (prj_reason p)),
        (''created_at'', PStr (rec_created_at r)), (''changed_at'', PStr (prj_changed_at p)),
        (''change_kind'', PStr (if since < rec_created_at r then ''CREATED'' else ''LIFECYCLE_CHANGED''))])
     (take 20 (order_by (\<lambda>(r, p). prj_changed_at p) (order_by (\<lambda>(r, p). rec_id r)
       (filter (\<lambda>(r, p). since < rec_created_at r \<or> since < prj_changed_at p) (scope_projects scope d)))))"

section \<open>Work and approvals since the last report\<close>

text \<open>A completed item, and the projects its maintenance found without metrics.\<close>

definition completed_item :: "work_row \<times> execution_row \<Rightarrow> exn + (pyval \<times> pyval list)" where
  "completed_item p = (case p of (w, e) \<Rightarrow>
     let shown = [(''work_id'', PStr (wk_id w)), (''task_type'', PStr (wk_type w)), (''completed_at'', PStr (wk_updated_at w))] in
     if wk_type w \<noteq> ''CHIEF_MAINTAIN_PORTFOLIO'' then Inr (PDict shown, [])
     else
       let result = dval (ex_result e); lacking = dget_or result ''missing_metrics_project_ids'' (PList []) in
       ebind (iter_values lacking) (\<lambda>ids.
       Inr (PDict (shown @ [(''reviewed_project_count'', dget_or result ''reviewed_project_count'' (PInt 0)),
         (''autonomously_paused'', dget_or result ''autonomously_paused'' (PList [])),
         (''missing_metrics_project_ids'', lacking)]), ids)))"

definition completed_rows :: "string \<Rightarrow> string \<Rightarrow> db \<Rightarrow> (work_row \<times> execution_row) list" where
  "completed_rows scope since d = take 20 (order_by (\<lambda>(w, e). wk_updated_at w) (order_by (\<lambda>(w, e). wk_id w)
     (List.map_filter (\<lambda>w. map_option (Pair w) (row_by ex_work (wk_id w) (db_executions d)))
       (filter (\<lambda>w. wk_scope w = scope \<and> wk_status w = WK_SUCCEEDED \<and> since < wk_updated_at w) (db_work d)))))"

definition attention_rows :: "string \<Rightarrow> db \<Rightarrow> work_row list" where
  "attention_rows scope d = order_by wk_updated_at (order_by wk_id (filter (\<lambda>w. wk_scope w = scope \<and>
     List.member [WK_APPROVAL_BLOCKED, WK_BUDGET_BLOCKED, WK_POLICY_BLOCKED, WK_DEAD_LETTER] (wk_status w)) (db_work d)))"

definition open_approvals :: "string \<Rightarrow> string \<Rightarrow> db \<Rightarrow> approval_row list" where
  "open_approvals scope stamp d = order_by ap_expires_at (order_by ap_id (filter (\<lambda>a. ap_scope a = scope \<and>
     (ap_status a = AP_PENDING \<or> ap_status a = AP_APPROVED) \<and> stamp < ap_expires_at a) (db_approvals d)))"

text \<open>Decided approvals with the time of the last audit event on them since the last report.\<close>

definition outcome_time :: "string \<Rightarrow> db \<Rightarrow> approval_row \<Rightarrow> string option" where
  "outcome_time since d a = (case map au_at (filter (\<lambda>l. au_record l = Some (ap_id a) \<and> since < au_at l) (db_audit d)) of
     [] \<Rightarrow> None | t # ts \<Rightarrow> Some (fold max ts t))"

definition approval_outcomes :: "string \<Rightarrow> string \<Rightarrow> db \<Rightarrow> (approval_row \<times> string) list" where
  "approval_outcomes scope since d = take 20 (order_by snd (order_by (\<lambda>(a, t). ap_id a)
     (List.map_filter (\<lambda>a. map_option (Pair a) (outcome_time since d a))
       (filter (\<lambda>a. ap_scope a = scope \<and> (ap_status a = AP_DENIED \<or> ap_status a = AP_EXPIRED \<or> ap_status a = AP_CONSUMED))
         (db_approvals d)))))"

section \<open>Deadlines\<close>

record deadline =
  dk_task :: string
  dk_name :: pyval
  dk_status :: string
  dk_due :: "string option"
  dk_blocked :: bool
  dk_risk :: string

datatype task_verdict = No_Risk | Malformed string | At_Risk deadline

text \<open>The due time of a task: absent, a time with its instant, or malformed.\<close>

definition due_of :: "pyval \<Rightarrow> (datetime \<times> instant) option option" where
  "due_of v = (if v = PNone then Some None
     else case fromisoformat (py_str v) of
       Inl e \<Rightarrow> None
     | Inr due \<Rightarrow> (case utc_of due of Inl e \<Rightarrow> None | Inr t \<Rightarrow> Some (Some (due, t))))"

definition judge_task :: "instant \<Rightarrow> instant \<Rightarrow> rec_row \<Rightarrow> task_verdict" where
  "judge_task stamp horizon task =
     (let d = dval (rec_payload task);
          status = upper (py_str (dget_or d ''status'' (PStr [])));
          blocked = (status = ''BLOCKED'' \<or> truthy (dget d ''blocked'')) in
      if List.member [''DONE'', ''COMPLETED'', ''CANCELLED''] status then No_Risk
      else case due_of (dget d ''due_at'') of
        None \<Rightarrow> Malformed (rec_id task)
      | Some due \<Rightarrow>
          if \<not> blocked \<and> (case due of None \<Rightarrow> True | Some (dt, t) \<Rightarrow> horizon < t) then No_Risk
          else At_Risk \<lparr>dk_task = rec_id task, dk_name = dget_or d ''name'' (PStr ''Unnamed task''),
                 dk_status = (if status = [] then ''UNKNOWN'' else status),
                 dk_due = map_option (isoformat \<circ> fst) due, dk_blocked = blocked,
                 dk_risk = (if (case due of None \<Rightarrow> False | Some (dt, t) \<Rightarrow> t < stamp) then ''OVERDUE''
                            else if blocked then ''BLOCKED'' else ''DUE_SOON'')\<rparr>)"

text \<open>The order of the key \<open>(due_at is None, due_at or "", task_id)\<close>.\<close>

definition deadline_before :: "deadline \<Rightarrow> deadline \<Rightarrow> bool" where
  "deadline_before a b = (case (dk_due a, dk_due b) of
     (Some x, None) \<Rightarrow> True
   | (None, Some y) \<Rightarrow> False
   | (None, None) \<Rightarrow> dk_task a < dk_task b
   | (Some x, Some y) \<Rightarrow> x < y \<or> (x = y \<and> dk_task a < dk_task b))"

definition deadline_dict :: "deadline \<Rightarrow> pyval" where
  "deadline_dict k = PDict
     [(''task_id'', PStr (dk_task k)), (''name'', dk_name k), (''status'', PStr (dk_status k)),
      (''due_at'', opt_str (dk_due k)), (''blocked'', PBool (dk_blocked k)), (''risk'', PStr (dk_risk k))]"

definition deadlines_at_risk :: "task_verdict list \<Rightarrow> deadline list" where
  "deadlines_at_risk vs = sort_before deadline_before (List.map_filter (\<lambda>v. case v of At_Risk k \<Rightarrow> Some k | _ \<Rightarrow> None) vs)"

definition malformed_tasks :: "task_verdict list \<Rightarrow> string list" where
  "malformed_tasks vs = sort (remdups (List.map_filter (\<lambda>v. case v of Malformed i \<Rightarrow> Some i | _ \<Rightarrow> None) vs))"

section \<open>The report\<close>

record report_data =
  rd_cadence :: string
  rd_key :: string
  rd_scope :: string
  rd_health :: pyval
  rd_spend :: pyval
  rd_attention :: "work_row list"
  rd_incidents :: "incident_row list"
  rd_diagnostics :: "delivery_diagnostics option"
  rd_approvals :: "approval_row list"
  rd_outcomes :: "(approval_row \<times> string) list"
  rd_decisions :: "pyval list"
  rd_lifecycle :: "(project_status \<times> nat) list"
  rd_priorities :: "priority list"
  rd_completed :: "pyval list"
  rd_lacking :: "string list"
  rd_changes :: "pyval list"
  rd_deadlines :: "deadline list"
  rd_malformed :: "string list"
  rd_connectors :: "connector_row list"

definition delivery_attention :: "report_data \<Rightarrow> delivery_view list" where
  "delivery_attention r = (case rd_diagnostics r of None \<Rightarrow> [] | Some d \<Rightarrow> dd_attention d)"

definition requires_attention :: "report_data \<Rightarrow> bool" where
  "requires_attention r = (rd_attention r \<noteq> [] \<or> rd_incidents r \<noteq> [] \<or> delivery_attention r \<noteq> [] \<or>
     rd_approvals r \<noteq> [] \<or> rd_deadlines r \<noteq> [] \<or> rd_lacking r \<noteq> [] \<or> rd_malformed r \<noteq> [])"

definition recommendation :: "string \<Rightarrow> string \<Rightarrow> string \<Rightarrow> string \<Rightarrow> pyval" where
  "recommendation generated k i advice = PDict
     [(''classification'', PStr ''RECOMMENDATION''), (k, PStr i), (''recommendation'', PStr advice),
      (''confidence'', PFloat (Fin 1)), (''currentness'', PStr generated)]"

fun guidance :: "work_status \<Rightarrow> string" where
  "guidance WK_APPROVAL_BLOCKED = ''Review exact approval request''"
| "guidance WK_BUDGET_BLOCKED = ''Review budget or leave work blocked''"
| "guidance WK_POLICY_BLOCKED = ''Correct policy/configuration before retry''"
| "guidance s = ''Investigate terminal failure and decide recovery''"

definition recommendations :: "string \<Rightarrow> report_data \<Rightarrow> pyval list" where
  "recommendations generated r =
     (let say = recommendation generated in
      map (\<lambda>w. say ''work_id'' (wk_id w) (guidance (wk_status w))) (rd_attention r) @
      map (\<lambda>c. say ''incident_id'' (ic_id c) ''Review incident evidence and resolve only after recovery'') (rd_incidents r) @
      map (\<lambda>v. say ''delivery_id'' (bx_id (dv_row v))
        ''Review failure evidence; Sean may reset to STAGED for fresh approval'') (delivery_attention r) @
      map (\<lambda>a. say ''approval_id'' (ap_id a) ''Review the exact bounded approval before expiry'') (rd_approvals r) @
      map (\<lambda>k. say ''task_id'' (dk_task k) (if dk_blocked k then ''Resolve the blocked commitment''
        else ''Protect or renegotiate the approaching deadline'')) (rd_deadlines r) @
      map (\<lambda>i. say ''project_id'' i ''Add bounded portfolio metrics before autonomous ranking'') (rd_lacking r) @
      map (\<lambda>i. say ''task_id'' i ''Correct the malformed or timezone-free task deadline'') (rd_malformed r))"

text \<open>What the prior report counted: \<open>len(prior.get(k, []))\<close>, nothing without a prior report.\<close>

definition py_len :: "pyval \<Rightarrow> exn + int" where
  "py_len v = (case v of PStr s \<Rightarrow> Inr (int (length s)) | PList xs \<Rightarrow> Inr (int (length xs)) | PDict d \<Rightarrow> Inr (int (length d))
     | _ \<Rightarrow> Inl (TypeError ''object has no len()''))"

definition prior_len :: "pydict \<Rightarrow> string \<Rightarrow> exn + int" where
  "prior_len prior k = (if prior = [] then Inr 0 else py_len (dget_or prior k (PList [])))"

definition prior_delivery_len :: "pydict \<Rightarrow> exn + int" where
  "prior_delivery_len prior =
     (if prior = [] then Inr 0
      else let d = dget prior ''delivery_diagnostics'' in
        ebind (value_get (if truthy d then d else PDict []) ''attention'' (PList [])) py_len)"

definition last_ten :: "'a list \<Rightarrow> 'a list" where
  "last_ten xs = drop (length xs - 10) xs"

definition report_changes :: "pydict \<Rightarrow> report_data \<Rightarrow> exn + pyval" where
  "report_changes prior r =
     ebind (prior_len prior ''attention_items'') (\<lambda>a.
     ebind (prior_len prior ''active_incidents'') (\<lambda>i.
     ebind (prior_delivery_len prior) (\<lambda>v.
     ebind (prior_len prior ''recent_decisions'') (\<lambda>c.
     Inr (PDict
       [(''has_prior_report'', PBool (prior \<noteq> [])),
        (''attention_item_delta'', PInt (int (length (rd_attention r)) - a)),
        (''active_incident_delta'', PInt (int (length (rd_incidents r)) - i)),
        (''delivery_attention_delta'', PInt (int (length (delivery_attention r)) - v)),
        (''decision_count_delta'', PInt (int (length (last_ten (rd_decisions r))) - c)),
        (''approval_outcome_count'', nat_val (length (rd_outcomes r))),
        (''completed_work_count'', nat_val (length (rd_completed r))),
        (''project_change_count'', nat_val (length (rd_changes r))),
        (''deadline_risk_count'', nat_val (length (rd_deadlines r)))])))))"

definition fact :: "string \<Rightarrow> string \<Rightarrow> pyval \<Rightarrow> pyval" where
  "fact generated statement v = PDict
     [(''classification'', PStr ''FACT''), (''statement'', PStr statement), (''value'', v),
      (''confidence'', PFloat (Fin 1)), (''currentness'', PStr generated)]"

definition report_facts :: "string \<Rightarrow> report_data \<Rightarrow> pyval list" where
  "report_facts generated r = map (\<lambda>(s, v). fact generated s v)
     [(''Runtime health snapshot'', rd_health r),
      (''Blocked or failed work count'', nat_val (length (rd_attention r))),
      (''Active monitoring incident count'', nat_val (length (rd_incidents r))),
      (''Alert delivery items requiring attention'', nat_val (length (delivery_attention r))),
      (''Completed durable work since prior report'', nat_val (length (rd_completed r))),
      (''Project changes since prior report'', nat_val (length (rd_changes r))),
      (''Promises or deadlines at risk'', nat_val (length (rd_deadlines r))),
      (''Approval outcomes since prior report'', nat_val (length (rd_outcomes r)))]"

definition report_inference :: "string \<Rightarrow> report_data \<Rightarrow> pyval" where
  "report_inference generated r = PDict
     [(''classification'', PStr ''INFERENCE''),
      (''statement'', PStr (if requires_attention r then ''Operator attention is required''
        else ''No known runtime exception requires attention'')),
      (''confidence'', PFloat (dbl (95 / 100))), (''currentness'', PStr generated),
      (''evidence_work_ids'', names_list (map wk_id (rd_attention r))),
      (''evidence_incident_ids'', names_list (map ic_id (rd_incidents r))),
      (''evidence_delivery_ids'', names_list (map (bx_id \<circ> dv_row) (delivery_attention r))),
      (''evidence_approval_ids'', names_list (map ap_id (rd_approvals r))),
      (''evidence_task_ids'', names_list (map dk_task (rd_deadlines r))),
      (''evidence_project_ids'', names_list (rd_lacking r))]"

definition unavailable_sources :: "connector_row list \<Rightarrow> string list" where
  "unavailable_sources rows = filter (\<lambda>n. \<not> list_ex (\<lambda>c. cn_name c = n \<and> cn_enabled c) rows) [''EMAIL'', ''CALENDAR'']"

definition report_payload :: "string \<Rightarrow> pyval \<Rightarrow> report_data \<Rightarrow> pydict" where
  "report_payload generated changes r =
     [(''kind'', PStr ''SEAN_OS_OPERATIONAL_REPORT''), (''cadence'', PStr (rd_cadence r)),
      (''report_type'', PStr (if rd_cadence r = ''DAILY'' then ''MORNING_BRIEF'' else ''WEEKLY_REVIEW'')),
      (''period_key'', PStr (rd_key r)), (''scope'', PStr (rd_scope r)), (''generated_at'', PStr generated),
      (''headline'', PStr (if requires_attention r then ''ATTENTION REQUIRED'' else ''SYSTEM NOMINAL'')),
      (''health'', rd_health r), (''attention_items'', PList (map attention_dict (rd_attention r))),
      (''active_incidents'', PList (map incident_dict (rd_incidents r))),
      (''delivery_diagnostics'', case rd_diagnostics r of None \<Rightarrow> PNone | Some d \<Rightarrow> diagnostics_dict (rd_scope r) d),
      (''active_approvals'', PList (map (PDict \<circ> approval_fields) (rd_approvals r))),
      (''approval_outcomes'', PList (map (\<lambda>(a, t). PDict (approval_fields a @ [(''outcome_at'', PStr t)])) (rd_outcomes r))),
      (''recent_decisions'', PList (last_ten (rd_decisions r))), (''overnight_work'', PList (rd_completed r)),
      (''project_changes'', PList (rd_changes r)), (''deadlines_at_risk'', PList (map deadline_dict (rd_deadlines r))),
      (''invalid_deadline_task_ids'', names_list (rd_malformed r)),
      (''top_priorities'', PList (map priority_dict (rd_priorities r))),
      (''portfolio_by_lifecycle'', counts_dict project_status_str (rd_lifecycle r)), (''spend'', rd_spend r),
      (''changes_since_prior'', changes), (''facts'', PList (report_facts generated r)), (''estimates'', PList []),
      (''inferences'', PList [report_inference generated r]),
      (''recommendations'', PList (recommendations generated r)),
      (''unavailable_sources'', names_list (unavailable_sources (rd_connectors r))),
      (''delivery'', PStr ''LOCAL_ONLY''), (''connectors'', PList (map connector_dict (rd_connectors r)))]"

text \<open>\<open>sorted(set(values))\<close> of texts.\<close>

definition sorted_texts :: "pyval list \<Rightarrow> exn + string list" where
  "sorted_texts vs = (if list_all is_str vs then Inr (sort (remdups (map sval vs)))
     else Inl (TypeError ''values are not texts''))"

text \<open>The payload and the time of the last report of a cadence.\<close>

definition prior_report :: "string \<Rightarrow> string \<Rightarrow> db \<Rightarrow> (pydict \<times> string) option" where
  "prior_report cadence scope d =
     (case order_desc rp_at (filter (\<lambda>r. rp_cadence r = cadence \<and> rp_scope r = scope \<and>
        row_by rec_id (rp_record r) (db_records d) \<noteq> None) (db_reports d)) of
        [] \<Rightarrow> None
      | r # rs \<Rightarrow> map_option (\<lambda>x. (dval (rec_payload x), rp_at r)) (row_by rec_id (rp_record r) (db_records d)))"

definition monitored :: "string \<Rightarrow> bool" where
  "monitored scope = List.member [''PERSONAL'', ''IAC''] scope"

definition gather_report ::
  "pydict \<Rightarrow> actor \<Rightarrow> string \<Rightarrow> string \<Rightarrow> string \<Rightarrow> instant \<Rightarrow> string \<Rightarrow> report_data py" where
  "gather_report integrity actor cadence key scope stamp since =
     bind (runtime_health (truthy (dget integrity ''ok'')) 90 False (Some scope)) (\<lambda>health.
     bind (table (attention_rows scope)) (\<lambda>attention.
     bind (if monitored scope then active_alert_incidents actor scope else ret []) (\<lambda>incidents.
     bind (if monitored scope then bind (alert_delivery_diagnostics actor scope) (\<lambda>d. ret (Some d)) else ret None) (\<lambda>diagnostics.
     bind (table (open_approvals scope (iso_utc stamp))) (\<lambda>approvals.
     bind (table (approval_outcomes scope since)) (\<lambda>outcomes.
     bind (list_records actor (Some ''DECISION'')) (\<lambda>decisions.
     bind (table (scope_projects scope)) (\<lambda>projects.
     bind (table (top_priorities scope)) (\<lambda>found. bind (lift_result found) (\<lambda>priorities.
     bind (table (completed_rows scope since)) (\<lambda>rows. bind (lift_result (map_results completed_item rows)) (\<lambda>completed.
     bind (table (project_changes scope since)) (\<lambda>changes.
     bind (lift_result (add_seconds stamp (86400 * (if cadence = ''DAILY'' then 3 else 7)))) (\<lambda>horizon.
     bind (list_records actor (Some ''TASK'')) (\<lambda>tasks.
     let verdicts = map (judge_task stamp horizon \<circ> fst) (filter (\<lambda>(r, c). rec_scope r = scope) tasks) in
     bind (table (\<lambda>d. order_by cn_name (db_connectors d))) (\<lambda>connectors.
     bind (lift_result (sorted_texts (concat (map snd completed)))) (\<lambda>lacking.
     ret \<lparr>rd_cadence = cadence, rd_key = key, rd_scope = scope, rd_health = health_dict integrity health,
          rd_spend = PList (map budget_dict (he_budgets health)), rd_attention = attention, rd_incidents = incidents,
          rd_diagnostics = diagnostics, rd_approvals = approvals, rd_outcomes = outcomes,
          rd_decisions = map (\<lambda>(r, c). PDict (dupdate [(''id'', PStr (rec_id r))] (dval (rec_payload r))))
            (filter (\<lambda>(r, c). rec_scope r = scope) decisions),
          rd_lifecycle = group_counts (\<lambda>(r, p). prj_state p) projects, rd_priorities = priorities,
          rd_completed = map fst completed, rd_lacking = lacking, rd_changes = changes,
          rd_deadlines = deadlines_at_risk verdicts, rd_malformed = malformed_tasks verdicts,
          rd_connectors = connectors\<rparr>)))))))))))))))))"

definition insert_report :: "report_row \<Rightarrow> unit py" where
  "insert_report row =
     bind (table db_reports) (\<lambda>rows.
     if list_ex (\<lambda>r. rp_id r = rp_id row) rows then reject ''UNIQUE constraint failed: report_runs.id''
     else sql_insert_new db_reports db_reports_update report_key row)"

definition new_report ::
  "pydict \<Rightarrow> actor \<Rightarrow> string \<Rightarrow> string \<Rightarrow> string \<Rightarrow> instant \<Rightarrow> pydict py" where
  "new_report integrity actor cadence key scope stamp =
     bind (table (prior_report cadence scope)) (\<lambda>prior.
     let since = (case prior of None \<Rightarrow> ''1970-01-01T00:00:00+00:00'' | Some (d, t) \<Rightarrow> t);
         before = (case prior of None \<Rightarrow> [] | Some (d, t) \<Rightarrow> d) in
     bind (gather_report integrity actor cadence key scope stamp since) (\<lambda>r.
     bind now (\<lambda>generated.
     bind (lift_result (report_changes before r)) (\<lambda>changes.
     let payload = report_payload generated changes r in
     bind (create_record actor ''KNOWLEDGE'' scope payload (defaults\<lparr>nr_source := ''automated-report''\<rparr>)) (\<lambda>record_id.
     bind uuid4 (\<lambda>run_id.
     bind now (\<lambda>recorded.
     seq (insert_report \<lparr>rp_id = run_id, rp_cadence = cadence, rp_period = key, rp_scope = scope,
            rp_record = record_id, rp_at = recorded\<rparr>)
    (seq commit
    (seq (record_policy_decision actor (Some record_id) True ''Local operational report generated''
            [(''cadence'', PStr cadence), (''period_key'', PStr key), (''scope'', PStr scope)])
         (ret payload))))))))))"

definition generate :: "pydict \<Rightarrow> actor \<Rightarrow> string \<Rightarrow> string \<Rightarrow> string option \<Rightarrow> pydict py" where
  "generate integrity actor given_cadence given_scope period_key =
     (let cadence = upper given_cadence; scope = upper given_scope in
      seq (raise_if (\<not> List.member [''DAILY'', ''WEEKLY''] cadence \<or> \<not> List.member SCOPES scope)
             (ValidationError ''Report requires DAILY/WEEKLY cadence and a valid scope''))
     (bind now_instant (\<lambda>stamp.
      let key = text_or period_key (if cadence = ''DAILY'' then day_key stamp else week_key stamp) in
      bind (table db_reports) (\<lambda>runs.
      case row_by report_key (cadence, key, scope) runs of
        Some existing \<Rightarrow> bind (get_record actor (rp_record existing)) (\<lambda>(row, c). ret (dval (rec_payload row)))
      | None \<Rightarrow> new_report integrity actor cadence key scope stamp))))"

section \<open>The laws of the store\<close>

lemma lawful_gather [legal_ops]:
  "lawful prof P (gather_report integrity actor cadence key scope stamp since)"
  unfolding gather_report_def
  by (intro op_rules legal_ops)

lemma lawful_insert_report [legal_ops]: "lawful prof P (insert_report row)"
  unfolding insert_report_def
proof (intro op_rules legal_ops, goal_cases)
  case 1
  then show ?case unfolding store_le_table by (intro reports.step_insert) simp_all
qed

lemma lawful_new_report [legal_ops]: "lawful prof P (new_report integrity actor cadence key scope stamp)"
  unfolding new_report_def by (intro op_rules legal_ops)

lemma lawful_generate [legal_ops]: "lawful prof P (generate integrity actor cadence scope period_key)"
  unfolding generate_def by (intro op_rules legal_ops)

end
