(* ===== verification/Chief_Registry.thy ===== *)
theory Chief_Registry
  imports Revenue_Agent Integrations Reporting
begin

text \<open>
  The registry of the worker, \<open>chief_of_staff_registry\<close> of \<^verbatim>\<open>sean_os/chief_of_staff.py\<close>: its handlers,
  which read their arguments from the payload of a work item, and their policies. The integrity
  verdict the report shows is an argument. A payload of a record is a dict; one that is not is
  refused before the store is asked.
\<close>

section \<open>Reading arguments\<close>

definition arg :: "pyval \<Rightarrow> string \<Rightarrow> pyval py" where
  "arg payload k = lift_result (subscript payload k)"

definition text_of :: "pyval \<Rightarrow> string \<Rightarrow> string py" where
  "text_of payload k = bind (arg payload k) (\<lambda>v. lift_result (text_arg v))"

definition int_of :: "pyval \<Rightarrow> string \<Rightarrow> int py" where
  "int_of payload k = bind (arg payload k) (\<lambda>v. lift_result (py_int v))"

definition float_of :: "pyval \<Rightarrow> string \<Rightarrow> pyfloat py" where
  "float_of payload k = bind (arg payload k) (\<lambda>v. lift_result (py_float v))"

definition int_or :: "pyval \<Rightarrow> string \<Rightarrow> int \<Rightarrow> int py" where
  "int_or payload k x = bind (lift_result (value_get payload k (PInt x))) (\<lambda>v. lift_result (py_int v))"

definition float_or :: "pyval \<Rightarrow> string \<Rightarrow> pyfloat \<Rightarrow> pyfloat py" where
  "float_or payload k x = bind (lift_result (value_get payload k (PFloat x))) (\<lambda>v. lift_result (py_float v))"

definition dict_arg :: "pyval \<Rightarrow> exn + pydict" where
  "dict_arg v = (case v of PDict d \<Rightarrow> Inr d | _ \<Rightarrow> Inl (TypeError ''record payload must be a dict''))"

definition maybe_text :: "pyval \<Rightarrow> exn + string option" where
  "maybe_text v = (if truthy v then ebind (text_arg v) (\<lambda>s. Inr (Some s)) else Inr None)"

section \<open>Records, ideas and goals\<close>

definition command_record :: "new_record" where
  "command_record = defaults\<lparr>nr_source := ''command-interface''\<rparr>"

definition evaluate_idea :: "actor \<Rightarrow> handler" where
  "evaluate_idea actor payload =
     bind (arg payload ''idea_id'') (\<lambda>idea_id.
     bind (read_record actor idea_id) (\<lambda>idea.
     seq (raise_if (rec_type idea \<noteq> ''IDEA'' \<or> rec_scope idea \<noteq> ''IAC'')
            (ValidationError ''Evaluation requires an IAC idea''))
    (bind (float_of payload ''evidence_strength'') (\<lambda>strength.
     bind (arg payload ''recommendation'') (\<lambda>given_recommendation.
     let recommendation = upper (py_str given_recommendation) in
     seq (raise_if (\<not> in_unit strength \<or> \<not> List.member [''ADVANCE'', ''INCUBATE'', ''REJECT''] recommendation)
            (ValidationError ''Idea evaluation requires bounded evidence and a valid recommendation''))
    (bind (create_record actor ''DECISION'' ''IAC''
       [(''idea_id'', PStr (rec_id idea)), (''recommendation'', PStr recommendation),
        (''evidence_strength'', PFloat strength)]
       (chief_record\<lparr>nr_confidence := Some strength\<rparr>)) (\<lambda>decision_id.
     seq (link_records actor decision_id ''GOVERNS'' (rec_id idea))
         (ret [(''decision_id'', PStr decision_id), (''recommendation'', PStr recommendation)]))))))))"

definition project_idea :: "actor \<Rightarrow> pyval \<Rightarrow> rec_row option py" where
  "project_idea actor v =
     (if \<not> truthy v then ret None
      else bind (read_record actor v) (\<lambda>idea.
        seq (raise_if (rec_type idea \<noteq> ''IDEA'' \<or> rec_scope idea \<noteq> ''IAC'')
               (ValidationError ''Project idea reference is invalid''))
            (ret (Some idea))))"

definition create_project_action :: "actor \<Rightarrow> handler" where
  "create_project_action actor payload =
     bind (lift_result (value_get payload ''idea_id'' PNone)) (\<lambda>idea_id.
     bind (project_idea actor idea_id) (\<lambda>idea.
     bind (arg payload ''goal_id'') (\<lambda>goal_id.
     bind (arg payload ''name'') (\<lambda>name.
     bind (arg payload ''tasks'') (\<lambda>tasks.
     bind (arg payload ''success_metric'') (\<lambda>success_metric.
     bind (arg payload ''stop_condition'') (\<lambda>stop_condition.
     bind (lift_result (value_get payload ''portfolio_metrics'' PNone)) (\<lambda>metrics.
     bind (create_project actor default_limits goal_id name tasks success_metric stop_condition metrics)
       (\<lambda>(project_id, task_ids).
     seq (case idea of
            None \<Rightarrow> ret ()
          | Some i \<Rightarrow> bind (link_records actor project_id ''EXPLORES'' (rec_id i)) (\<lambda>_. ret ()))
         (ret [(''project_id'', PStr project_id), (''task_ids'', names_list task_ids)]))))))))))"

definition create_iac_record :: "actor \<Rightarrow> handler" where
  "create_iac_record actor payload =
     bind (arg payload ''entity_type'') (\<lambda>given_type.
     let entity_type = upper (py_str given_type) in
     seq (raise_if (entity_type = ''APPROVAL'') (AuthorizationError ''Use a bounded approval-request command''))
    (bind (arg payload ''payload'') (\<lambda>content.
     bind (if dhas (dval payload) ''confidence''
           then bind (float_of payload ''confidence'') (\<lambda>x. ret (Some x)) else ret None) (\<lambda>confidence.
     bind (lift_result (maybe_text (dget (dval payload) ''effective_at''))) (\<lambda>effective_at.
     bind (lift_result (maybe_text (dget (dval payload) ''expires_at''))) (\<lambda>expires_at.
     bind (lift_result (text_arg (dget_or (dval payload) ''retention_rule'' (PStr ''retain'')))) (\<lambda>retention.
     bind (lift_result (dict_arg content)) (\<lambda>d.
     bind (create_record actor entity_type ''IAC'' d
       (command_record\<lparr>nr_confidence := confidence, nr_effective_at := effective_at, nr_expires_at := expires_at,
          nr_retention := retention\<rparr>)) (\<lambda>record_id.
     ret [(''record_id'', PStr record_id), (''entity_type'', PStr entity_type)])))))))))"

definition update_iac_record :: "actor \<Rightarrow> handler" where
  "update_iac_record actor payload =
     bind (arg payload ''record_id'') (\<lambda>record_id.
     bind (read_record actor record_id) (\<lambda>row.
     seq (raise_if (rec_scope row \<noteq> ''IAC'') (AuthorizationError ''Interface updates are isolated to IAC''))
    (bind (arg payload ''payload'') (\<lambda>content.
     bind (int_of payload ''expected_version'') (\<lambda>expected.
     bind (lift_result (dict_arg content)) (\<lambda>d.
     bind (update_record actor (rec_id row) d expected None) (\<lambda>version.
     ret [(''record_id'', PStr (rec_id row)), (''version'', PInt version)])))))))"

definition link_iac_records :: "actor \<Rightarrow> handler" where
  "link_iac_records actor payload =
     bind (arg payload ''from_record_id'') (\<lambda>from_id.
     bind (read_record actor from_id) (\<lambda>source.
     bind (arg payload ''to_record_id'') (\<lambda>to_id.
     bind (read_record actor to_id) (\<lambda>target.
     seq (raise_if (rec_scope source \<noteq> ''IAC'' \<or> rec_scope target \<noteq> ''IAC'')
            (AuthorizationError ''Interface links are isolated to IAC''))
    (bind (text_of payload ''relationship_type'') (\<lambda>relationship_type.
     bind (link_records actor (rec_id source) relationship_type (rec_id target)) (\<lambda>relationship_id.
     ret [(''relationship_id'', PStr relationship_id)])))))))"

definition capture_idea :: "actor \<Rightarrow> handler" where
  "capture_idea actor payload =
     bind (arg payload ''name'') (\<lambda>name.
     bind (arg payload ''hypothesis'') (\<lambda>hypothesis.
     bind (arg payload ''evidence'') (\<lambda>evidence.
     bind (create_record actor ''IDEA'' ''IAC''
       [(''name'', name), (''hypothesis'', hypothesis), (''evidence'', evidence), (''classification'', PStr ''IDEA'')]
       (command_record\<lparr>nr_confidence := Some (dbl (1 / 2))\<rparr>)) (\<lambda>idea_id.
     ret [(''idea_id'', PStr idea_id)]))))"

definition create_goal :: "actor \<Rightarrow> handler" where
  "create_goal actor payload =
     bind (arg payload ''name'') (\<lambda>name.
     bind (arg payload ''success_metric'') (\<lambda>success_metric.
     bind (create_record actor ''GOAL'' ''IAC'' [(''name'', name), (''success_metric'', success_metric)] command_record)
       (\<lambda>goal_id. ret [(''goal_id'', PStr goal_id)])))"

section \<open>Portfolio, revenue and approvals\<close>

definition review_action :: "actor \<Rightarrow> handler" where
  "review_action actor payload =
     bind (arg payload ''project_ids'') (\<lambda>project_ids.
     bind (int_or payload ''capacity_limit'' 3) (\<lambda>capacity.
     bind (float_or payload ''low_fit_threshold'' (dbl (35 / 100))) (\<lambda>low_fit.
     bind (review_portfolio actor project_ids capacity low_fit) (\<lambda>r.
     ret [(''decision_id'', opt_str (rv_decision r)), (''ranked_projects'', PList (map verdict_dict (rv_ranked r))),
          (''autonomously_paused'', names_list (rv_paused r))]))))"

definition maintain_action :: "actor \<Rightarrow> handler" where
  "maintain_action actor payload =
     bind (arg payload ''period_key'') (\<lambda>period_key.
     bind (int_or payload ''capacity_limit'' 3) (\<lambda>capacity.
     bind (float_or payload ''low_fit_threshold'' (dbl (35 / 100))) (\<lambda>low_fit.
     maintain_portfolio actor period_key capacity low_fit)))"

definition evaluate_action :: "actor \<Rightarrow> handler" where
  "evaluate_action actor payload =
     bind (arg payload ''project_id'') (\<lambda>project_id.
     bind (int_of payload ''completed_tasks'') (\<lambda>completed.
     bind (int_of payload ''total_tasks'') (\<lambda>total_tasks.
     bind (float_of payload ''metric_value'') (\<lambda>metric.
     bind (float_of payload ''minimum_viable_metric'') (\<lambda>minimum.
     bind (arg payload ''evidence'') (\<lambda>evidence.
     bind (evaluate_project actor project_id completed total_tasks metric minimum evidence) (\<lambda>state.
     ret [(''state'', PStr state)])))))))"

definition signal_action :: "actor \<Rightarrow> handler" where
  "signal_action actor payload =
     bind (arg payload ''name'') (\<lambda>name.
     bind (arg payload ''evidence'') (\<lambda>evidence.
     bind (arg payload ''source_reference'') (\<lambda>source_reference.
     bind (arg payload ''synthetic'') (\<lambda>synthetic.
     bind (register_signal actor default_charter name evidence source_reference (truthy synthetic)) (\<lambda>signal_id.
     ret [(''signal_id'', PStr signal_id)])))))"

definition qualify_action :: "actor \<Rightarrow> handler" where
  "qualify_action actor payload =
     bind (arg payload ''signal_id'') (\<lambda>signal_id.
     bind (arg payload ''goal_id'') (\<lambda>goal_id.
     bind (arg payload ''account_alias'') (\<lambda>alias.
     bind (float_of payload ''icp_fit'') (\<lambda>icp_fit.
     bind (float_of payload ''urgency'') (\<lambda>urgency.
     bind (float_of payload ''evidence_strength'') (\<lambda>strength.
     bind (float_of payload ''estimated_value'') (\<lambda>estimated.
     bind (arg payload ''synthetic'') (\<lambda>synthetic.
     qualify actor default_charter signal_id goal_id alias icp_fit urgency strength estimated (truthy synthetic)))))))))"

definition compare_action :: "actor \<Rightarrow> handler" where
  "compare_action actor payload =
     bind (arg payload ''goal_id'') (\<lambda>goal_id.
     bind (arg payload ''candidates'') (\<lambda>candidates.
     bind (int_or payload ''research_capacity'' 2) (\<lambda>capacity.
     compare_portfolio actor default_charter goal_id candidates capacity)))"

definition contact_approval :: "actor \<Rightarrow> handler" where
  "contact_approval actor payload =
     bind (text_of payload ''target'') (\<lambda>target.
     bind (text_of payload ''max_impact'') (\<lambda>max_impact.
     bind (text_of payload ''expires_at'') (\<lambda>expires_at.
     bind (arg payload ''draft_record_id'') (\<lambda>draft.
     bind (request_approval actor ''SEND_CUSTOMER_MESSAGE'' target ''IAC'' max_impact expires_at
             [(''draft_record_id'', draft)]) (\<lambda>approval_id.
     ret [(''approval_id'', PStr approval_id), (''external_action_executed'', PBool False)])))))"

section \<open>Reports and imports\<close>

definition report_action :: "pydict \<Rightarrow> actor \<Rightarrow> handler" where
  "report_action integrity actor payload =
     bind (arg payload ''cadence'') (\<lambda>given_cadence.
     bind (lift_result (value_get payload ''period_key'' PNone)) (\<lambda>given_key.
     bind (lift_result (need_text given_cadence)) (\<lambda>cadence.
     bind (lift_result (maybe_text given_key)) (\<lambda>key.
     generate integrity actor cadence ''IAC'' key))))"

definition import_action :: "actor \<Rightarrow> handler" where
  "import_action actor payload =
     bind (arg payload ''external_id'') (\<lambda>external.
     bind (arg payload ''content'') (\<lambda>content.
     bind (arg payload ''source_uri'') (\<lambda>source_uri.
     bind (arg payload ''captured_at'') (\<lambda>captured.
     bind (arg payload ''synthetic'') (\<lambda>synthetic.
     bind (lift_result (value_get payload ''metadata'' (PDict []))) (\<lambda>metadata.
     ingest actor \<lparr>ie_external = external, ie_content = content, ie_source = source_uri, ie_captured = captured,
       ie_synthetic = truthy synthetic, ie_metadata = metadata\<rparr> ''IAC''))))))"

section \<open>The registry\<close>

definition internal_policy :: "string \<Rightarrow> action_policy" where
  "internal_policy n = \<lparr>pol_name = n, pol_scopes = [''IAC''], pol_external = False, pol_reversible = True,
     pol_approval = False, pol_cost = False, pol_prohibited = False\<rparr>"

definition chief_actions :: "pydict \<Rightarrow> actor \<Rightarrow> registry" where
  "chief_actions integrity actor =
     [(internal_policy ''NOOP'', noop_handler),
      (internal_policy ''CREATE_IAC_RECORD'', create_iac_record actor),
      (internal_policy ''UPDATE_IAC_RECORD'', update_iac_record actor),
      (internal_policy ''LINK_IAC_RECORDS'', link_iac_records actor),
      (internal_policy ''CAPTURE_IAC_IDEA'', capture_idea actor),
      (internal_policy ''EVALUATE_IAC_IDEA'', evaluate_idea actor),
      (internal_policy ''CREATE_IAC_GOAL'', create_goal actor),
      (internal_policy ''CHIEF_CREATE_PROJECT'', create_project_action actor),
      (internal_policy ''CHIEF_REVIEW_PORTFOLIO'', review_action actor),
      (internal_policy ''CHIEF_MAINTAIN_PORTFOLIO'', maintain_action actor),
      (internal_policy ''CHIEF_EVALUATE_PROJECT'', evaluate_action actor),
      (internal_policy ''GENERATE_OPERATIONAL_REPORT'', report_action integrity actor),
      (internal_policy ''REVENUE_REGISTER_SIGNAL'', signal_action actor),
      (internal_policy ''REVENUE_QUALIFY'', qualify_action actor),
      (internal_policy ''REVENUE_COMPARE_PORTFOLIO'', compare_action actor),
      (internal_policy ''IMPORT_CLAUDE_ARTIFACT'', import_action actor),
      ((internal_policy ''REGISTER_CODING_DELIVERY'')\<lparr>pol_cost := True\<rparr>, record_delivery actor),
      (internal_policy ''REQUEST_CUSTOMER_CONTACT_APPROVAL'', contact_approval actor)]"

primrec register_all :: "registry \<Rightarrow> registry \<Rightarrow> exn + registry" where
  "register_all [] reg = Inr reg"
| "register_all (e # es) reg = ebind (register (fst e) (snd e) reg) (register_all es)"

definition chief_of_staff_registry :: "pydict \<Rightarrow> actor \<Rightarrow> exn + registry" where
  "chief_of_staff_registry integrity actor = register_all (chief_actions integrity actor) []"

section \<open>The laws of the store\<close>

lemmas argument_defs = arg_def text_of_def int_of_def float_of_def int_or_def float_or_def

lemma lawful_handlers [legal_ops]:
  "lawful prof P (noop_handler payload)"
  "lawful prof P (evaluate_idea actor payload)"
  "lawful prof P (create_project_action actor payload)"
  "lawful prof P (create_iac_record actor payload)"
  "lawful prof P (update_iac_record actor payload)"
  "lawful prof P (link_iac_records actor payload)"
  "lawful prof P (capture_idea actor payload)"
  "lawful prof P (create_goal actor payload)"
  unfolding noop_handler_def evaluate_idea_def create_project_action_def project_idea_def create_iac_record_def
    update_iac_record_def link_iac_records_def capture_idea_def create_goal_def argument_defs
  by (intro op_rules legal_ops)+

lemma lawful_agent_handlers [legal_ops]:
  "lawful prof P (review_action actor payload)"
  "lawful prof P (maintain_action actor payload)"
  "lawful prof P (evaluate_action actor payload)"
  "lawful prof P (signal_action actor payload)"
  "lawful prof P (qualify_action actor payload)"
  "lawful prof P (compare_action actor payload)"
  "lawful prof P (contact_approval actor payload)"
  "lawful prof P (report_action integrity actor payload)"
  "lawful prof P (import_action actor payload)"
  unfolding review_action_def maintain_action_def evaluate_action_def signal_action_def qualify_action_def
    compare_action_def contact_approval_def report_action_def import_action_def argument_defs
  by (intro op_rules legal_ops)+

lemma chief_registered: "chief_of_staff_registry integrity actor = Inr (chief_actions integrity actor)"
  by (simp add: chief_of_staff_registry_def chief_actions_def register_def entry_for_def internal_policy_def
      ebind_def)

lemma chief_lawful:
  assumes "(p, h) \<in> set (chief_actions integrity actor)"
  shows "lawful prof P (h payload)"
  using assms by (auto simp: chief_actions_def intro: legal_ops)

end
