(* ===== verification/Worker_Laws.thy ===== *)
theory Worker_Laws
  imports Worker Chief_Registry
begin

text \<open>
  The policy gate, the executors and the workers respect the laws of the store, as far as the
  handlers of the registry do; the registry of the chief of staff does.
\<close>

section \<open>Statements\<close>

lemma lawful_sum:
  "(\<And>e. x = Inl e \<Longrightarrow> lawful prof P (f e)) \<Longrightarrow> (\<And>y. x = Inr y \<Longrightarrow> lawful prof P (g y)) \<Longrightarrow>
   lawful prof P (case x of Inl e \<Rightarrow> f e | Inr y \<Rightarrow> g y)"
  by (cases x) auto

lemma lawful_attempt: "lawful prof P m \<Longrightarrow> lawful prof P (attempt m)"
  unfolding attempt_def by (intro op_rules)

lemma lawful_finally: "lawful prof P m \<Longrightarrow> lawful prof (\<lambda>_. True) f \<Longrightarrow> lawful prof P (try_finally m f)"
  unfolding try_finally_def by (intro op_rules lawful_attempt)

lemmas worker_rules = lawful_sum lawful_attempt lawful_finally op_rules

section \<open>The gate\<close>

definition registry_lawful :: "string \<Rightarrow> registry \<Rightarrow> bool" where
  "registry_lawful prof reg \<longleftrightarrow> (\<forall>p h payload. (p, h) \<in> set reg \<longrightarrow> lawful prof (\<lambda>_. True) (h payload))"

lemma lawful_policy_gate [legal_ops]: "lawful prof P (policy_gate reg actor work)"
  unfolding policy_gate_def consume_exact_def
  by (intro worker_rules legal_ops store.lawful_bind_reader [OF reader_kill_switch_enabled])
    (auto split: pyval.split intro: worker_rules legal_ops)

lemma lawful_gate_denied [legal_ops]: "lawful prof P (gate_denied actor work e)"
  unfolding gate_denied_def by (intro worker_rules legal_ops)

lemma lawful_run_handler:
  assumes "\<And>payload. lawful prof (\<lambda>_. True) (h payload)"
  shows "lawful prof P (run_handler actor work p h payload estimated)"
  unfolding run_handler_def by (intro worker_rules legal_ops assms)

lemma gate_registered:
  assumes "try_except (policy_gate reg actor work) (gate_denied actor work) w = (Inr (p, h, payload, units), w')"
  shows "(p, h) \<in> set reg"
proof -
  have "wp (try_except (policy_gate reg actor work) (gate_denied actor work))
      (\<lambda>(p, h, payload, units) v. (p, h) \<in> set reg) (\<lambda>e v. True) w"
    unfolding wp_try_except
    by (rule wp_mono [OF wp_policy_gate])
      (auto simp: policy_for_def entry_for_def gate_denied_def record_policy_decision_def wp_audit py_wp dest!: find_SomeD split: option.splits)
  then show ?thesis using assms by (simp add: wp_def)
qed

lemma lawful_execute:
  assumes "registry_lawful prof reg"
  shows "lawful prof P (execute reg actor work)"
  unfolding execute_def
proof (rule store.lawful_bind, goal_cases)
  case 1
  show ?case by (intro worker_rules legal_ops)
next
  case (2 replay)
  have "lawful prof Q (bind (try_except (policy_gate reg actor work) (gate_denied actor work))
      (\<lambda>(p, h, payload, units). run_handler actor work p h payload units))" for Q
  proof (rule store.lawful_bind_result [where C = "\<lambda>(p, h, payload, units). (p, h) \<in> set reg"], goal_cases)
    case 1
    show ?case by (intro worker_rules legal_ops)
  next
    case (2 w x w')
    then show ?case using gate_registered by (cases x) auto
  next
    case (3 x)
    then show ?case using assms
      by (cases x) (auto simp: registry_lawful_def intro!: lawful_run_handler)
  qed
  then show ?case by (cases replay) (auto intro!: worker_rules legal_ops)
qed

section \<open>Executors and outboxes\<close>

lemma lawful_upload [legal_ops]:
  assumes "lawful prof (\<lambda>_. True) guard"
  shows "lawful prof P (execute_claimed_backup_transfer claimed manifest worker_id config ports guard)"
  unfolding execute_claimed_backup_transfer_def prepare_upload_def finish_upload_def
    validate_claimed_backup_transfer_def
  by (intro worker_rules legal_ops assms)

lemma lawful_restore [legal_ops]:
  assumes "lawful prof (\<lambda>_. True) guard"
  shows "lawful prof P (execute_claimed_backup_restore claimed worker_id config ports destination guard)"
  unfolding execute_claimed_backup_restore_def publish_restore_def confirm_restore_def
  by (intro worker_rules legal_ops assms)

lemma lawful_process_delivery [legal_ops]: "lawful prof P (process_synthetic_delivery_once actor worker_id)"
  unfolding process_synthetic_delivery_once_def by (intro worker_rules legal_ops)

lemma lawful_process_transfer [legal_ops]:
  "lawful prof P (process_backup_transfer_once actor worker_id env bucket host)"
  unfolding process_backup_transfer_once_def handle_transfer_def upload_claimed_def settle_upload_def
    hold_transfer_def validate_claimed_backup_transfer_def
  by (intro worker_rules legal_ops)

lemma lawful_process_restore [legal_ops]:
  "lawful prof P (process_backup_restore_once actor worker_id env bucket host)"
  unfolding process_backup_restore_once_def handle_restore_def restore_claimed_def settle_restore_def hold_restore_def
  by (intro worker_rules legal_ops)

section \<open>The workers\<close>

lemma lawful_settle_item [legal_ops]: "lawful prof P (settle_item actor worker_id row e)"
  unfolding settle_item_def by (cases e) (auto simp: Let_def intro!: worker_rules legal_ops)

lemma lawful_process_item:
  "registry_lawful prof reg \<Longrightarrow> lawful prof P (process_item reg actor worker_id row)"
  unfolding process_item_def by (intro worker_rules legal_ops lawful_execute)

lemma lawful_worker_cycle:
  "registry_lawful prof reg \<Longrightarrow> lawful prof P (worker_cycle a reg actor utc_offset monitor i)"
  unfolding worker_cycle_def by (intro worker_rules legal_ops lawful_process_item)

lemma lawful_worker_loop:
  assumes "registry_lawful prof reg"
  shows "lawful prof P (worker_loop a reg actor utc_offset monitor passes)"
proof (induction passes arbitrary: monitor P)
  case Nil
  show ?case unfolding worker_loop.simps by (intro worker_rules legal_ops)
next
  case (Cons i passes)
  show ?case unfolding worker_loop.simps by (intro worker_rules legal_ops lawful_worker_cycle assms Cons)
qed

lemma chief_registry_lawful: "registry_lawful prof (chief_actions integrity actor)"
  unfolding registry_lawful_def using chief_lawful by blast

definition chief_worker ::
  "pydict \<Rightarrow> worker_options \<Rightarrow> (instant \<Rightarrow> int) \<Rightarrow> runtime_monitor option \<Rightarrow> worker_pass list \<Rightarrow> unit py" where
  "chief_worker integrity a = worker_main a (chief_actions integrity)"

lemma lawful_chief_worker [legal_ops]: "lawful prof P (chief_worker integrity a utc_offset monitor passes)"
  unfolding chief_worker_def worker_main_def
  by (intro worker_rules legal_ops lawful_worker_loop chief_registry_lawful)

lemma lawful_restore_main [legal_ops]: "lawful prof P (restore_main worker_id env bucket host)"
  unfolding restore_main_def by (intro worker_rules legal_ops)

lemma lawful_monitor_iterations:
  "lawful prof P (monitor_iterations fuel integrity_ok wait route stale_after limit completed)"
proof (induction fuel arbitrary: completed P)
  case 0
  show ?case unfolding monitor_iterations.simps by (intro worker_rules legal_ops)
next
  case (Suc fuel)
  show ?case unfolding monitor_iterations.simps by (intro worker_rules legal_ops Suc)
qed

lemma lawful_monitor_loop [legal_ops]:
  "lawful prof P (run_monitor_loop fuel integrity_ok wait route interval stale_after limit)"
  unfolding run_monitor_loop_def by (intro worker_rules legal_ops lawful_monitor_iterations)

end
