(* ===== verification/Store_Lifecycle.thy ===== *)
theory Store_Lifecycle
  imports Restore_Operator Scheduler Bridge Monitoring Worker_Laws
begin

text \<open>
  The store as a whole. A world is reachable if it results from opening a new database and
  then running public operations of \<^verbatim>\<open>SeanOSStore\<close>, of the scheduler, the command gateway,
  the bridge, the monitor and the agents, and whole runs of the workers, in any order, with any
  arguments, successful or not, where the process may also die between two operations, which
  loses the open transaction. The theorems say what no run can do.
\<close>

section \<open>Runs\<close>

text \<open>The world an operation leaves, whether it returned or raised.\<close>

definition effect :: "'a py \<Rightarrow> world \<Rightarrow> world" where
  "effect m w = snd (m w)"

definition new_world :: "(nat \<Rightarrow> instant) \<Rightarrow> (nat \<Rightarrow> string) \<Rightarrow> (string \<Rightarrow> string) \<Rightarrow> world" where
  "new_world clock uuid sha =
     \<lparr>w_db = empty_db, w_committed = empty_db, w_in_tx = False, w_profile = [], w_clock = clock,
      w_tick = 0, w_uuid = uuid, w_fresh = 0, w_sha256 = sha\<rparr>"

definition opened :: "string \<Rightarrow> (nat \<Rightarrow> instant) \<Rightarrow> (nat \<Rightarrow> string) \<Rightarrow> (string \<Rightarrow> string) \<Rightarrow> world" where
  "opened profile clock uuid sha = effect (open_store profile) (new_world clock uuid sha)"

text \<open>The operations of the scheduler, the command gateway, the bridge and the monitor.\<close>

inductive interface_step :: "world \<Rightarrow> world \<Rightarrow> bool" where
  scheduler_tick_step: "interface_step w (effect (scheduler_tick utc_offset actor at_time) w)"
| submit_step: "interface_step w (effect (submit actor external_id command_type payload scope) w)"
| command_status_step: "interface_step w (effect (command_status actor work_id) w)"
| command_result_step: "interface_step w (effect (command_result actor work_id) w)"
| audit_trace_step: "interface_step w (effect (audit_trace actor limit) w)"
| active_incidents_step: "interface_step w (effect (active_incidents actor scope) w)"
| resolve_incident_step: "interface_step w (effect (resolve_incident actor incident_id reason scope) w)"
| deliveries_step: "interface_step w (effect (deliveries actor status_filter scope) w)"
| gateway_delivery_diagnostics_step: "interface_step w (effect (gateway_delivery_diagnostics actor scope) w)"
| stage_delivery_step: "interface_step w (effect (stage_delivery actor plan_id scope) w)"
| request_delivery_approval_step: "interface_step w (effect (request_delivery_approval actor delivery_id max_impact expires_at scope) w)"
| decide_delivery_approval_step: "interface_step w (effect (decide_delivery_approval actor delivery_id approval_id approve reason scope) w)"
| authorize_delivery_step: "interface_step w (effect (authorize_delivery actor delivery_id approval_id scope) w)"
| reset_failed_delivery_step: "interface_step w (effect (reset_failed_delivery actor delivery_id reason scope) w)"
| backup_transfers_step: "interface_step w (effect (backup_transfers actor status_filter scope) w)"
| backup_transfer_step: "interface_step w (effect (backup_transfer actor plan_sha256 scope) w)"
| request_backup_approval_step: "interface_step w (effect (request_backup_approval actor plan_sha256 max_impact expires_at scope) w)"
| decide_backup_approval_step: "interface_step w (effect (decide_backup_approval actor plan_sha256 approval_id approve reason scope) w)"
| authorize_backup_step: "interface_step w (effect (authorize_backup actor plan_sha256 approval_id scope) w)"
| bridge_accept_step: "interface_step w (effect (bridge_accept envelope) w)"
| capture_monitor_snapshot_step: "interface_step w (effect (capture_monitor_snapshot integrity_ok stale_after backup_ok route) w)"
| monitor_tick_step: "interface_step w (effect (monitor_tick integrity_ok monitor monotonic_now) w)"

text \<open>
  The operations of the agents, of reporting and of the connectors, an action executed with the
  registry of the chief of staff, and runs of the workers.
\<close>

inductive agent_step :: "world \<Rightarrow> world \<Rightarrow> bool" where
  create_project_step: "agent_step w (effect (create_project actor limits goal_id name tasks success stop metrics) w)"
| evaluate_project_step: "agent_step w (effect (evaluate_project actor project_id completed all_tasks metric minimum evidence) w)"
| review_portfolio_step: "agent_step w (effect (review_portfolio actor project_ids capacity low_fit) w)"
| maintain_portfolio_step: "agent_step w (effect (maintain_portfolio actor period_key capacity low_fit) w)"
| register_signal_step: "agent_step w (effect (register_signal actor charter name evidence source_reference synthetic) w)"
| qualify_step: "agent_step w (effect (qualify actor charter signal_id goal_id alias icp_fit urgency strength estimated synthetic) w)"
| compare_portfolio_step: "agent_step w (effect (compare_portfolio actor charter goal_id candidates capacity) w)"
| generate_step: "agent_step w (effect (generate integrity actor cadence scope period_key) w)"
| configure_connector_step: "agent_step w (effect (configure_connector actor name enabled mode) w)"
| connector_statuses_step: "agent_step w (effect connector_statuses w)"
| ingest_step: "agent_step w (effect (ingest actor envelope scope) w)"
| record_delivery_step: "agent_step w (effect (record_delivery actor payload) w)"
| execute_step: "agent_step w (effect (execute (chief_actions integrity actor) actor work) w)"
| worker_loop_step: "agent_step w (effect (worker_loop a (chief_actions integrity actor) actor utc_offset monitor passes) w)"
| chief_worker_step: "agent_step w (effect (chief_worker integrity a utc_offset monitor passes) w)"
| restore_main_step: "agent_step w (effect (restore_main worker_id env bucket host) w)"
| monitor_loop_step: "agent_step w (effect (run_monitor_loop fuel integrity_ok wait route interval stale_after limit) w)"

text \<open>The activation of a synthetic backup and the operator workflows.\<close>

inductive operator_step :: "world \<Rightarrow> world \<Rightarrow> bool" where
  prepare_activation_step: "operator_step w (effect (prepare_activation host workspace candidate window_start window_end) w)"
| record_activation_step: "operator_step w (effect (record_activation host actor package) w)"
| get_activation_evidence_step: "operator_step w (effect (get_activation_evidence host actor plan_sha256) w)"
| review_transfer_step: "operator_step w (effect (review_backup_transfer host actor plan_sha256) w)"
| request_transfer_step: "operator_step w (effect (request_exact_backup_approval host actor plan_sha256 expected expires_at current_time) w)"
| decide_transfer_step: "operator_step w (effect (decide_exact_backup_approval host actor plan_sha256 approval_id approve reason expected) w)"
| authorize_transfer_step: "operator_step w (effect (authorize_exact_backup_state host env actor plan_sha256 approval_id expected confirm current_time) w)"
| review_restore_step: "operator_step w (effect (review_backup_restore actor plan_sha256) w)"
| request_restore_step: "operator_step w (effect (request_exact_restore_approval actor plan_sha256 expected expires_at current_time) w)"
| decide_restore_step: "operator_step w (effect (decide_exact_restore_approval actor plan_sha256 approval_id approve reason expected) w)"
| authorize_restore_step: "operator_step w (effect (authorize_exact_restore_state env actor plan_sha256 approval_id expected confirm current_time) w)"

inductive store_step :: "world \<Rightarrow> world \<Rightarrow> bool" where
  crash_step: "store_step w (rollback_world w)"
| interface_operation: "interface_step w w' \<Longrightarrow> store_step w w'"
| agent_operation: "agent_step w w' \<Longrightarrow> store_step w w'"
| operator_operation: "operator_step w w' \<Longrightarrow> store_step w w'"
| set_kill_switch_step: "store_step w (effect (set_kill_switch actor enabled) w)"
| configure_budget_step: "store_step w (effect (configure_budget actor scope limit_units period_key) w)"
| budget_status_step: "store_step w (effect (budget_status scope period_key) w)"
| heartbeat_step: "store_step w (effect (heartbeat worker_id scope status current_work_id details) w)"
| runtime_health_step: "store_step w (effect (runtime_health integrity_ok scope stale_after require_active) w)"
| create_record_step: "store_step w (effect (create_record actor entity_type scope payload nr) w)"
| get_record_step: "store_step w (effect (get_record actor record_id) w)"
| list_records_step: "store_step w (effect (list_records actor kind) w)"
| update_record_step: "store_step w (effect (update_record actor record_id payload expected_version correlation_id) w)"
| link_records_step: "store_step w (effect (link_records actor from_id relationship_type to_id) w)"
| transition_project_step: "store_step w (effect (transition_project actor record_id state reason reopen_trigger review_at) w)"
| sale_export_package_step: "store_step w (effect (sale_export_package actor) w)"
| create_approval_step: "store_step w (effect (create_approval actor action_type target scope max_impact approver expires_at conditions reusable) w)"
| request_approval_step: "store_step w (effect (request_approval actor action_type target scope max_impact expires_at conditions) w)"
| decide_approval_step: "store_step w (effect (decide_approval actor approval_id approve reason) w)"
| consume_approval_step: "store_step w (effect (consume_approval actor approval_id action_type target at_time required_scope required_conditions do_commit) w)"
| enqueue_work_step: "store_step w (effect (enqueue_work actor task_type scope payload priority max_attempts available_at) w)"
| claim_work_step: "store_step w (effect (claim_work actor worker_id lease_seconds) w)"
| block_work_step: "store_step w (effect (block_work actor work_id worker_id reason approval_required) w)"
| record_policy_decision_step: "store_step w (effect (record_policy_decision actor work_id allowed reason details) w)"
| completed_action_result_step: "store_step w (effect (completed_action_result work_id task_type) w)"
| record_action_result_step: "store_step w (effect (record_action_result actor work_id task_type result) w)"
| complete_work_step: "store_step w (effect (complete_work actor work_id worker_id result) w)"
| fail_work_step: "store_step w (effect (fail_work actor work_id worker_id error retry_seconds) w)"
| scoped_audit_events_step: "store_step w (effect (scoped_audit_events actor limit) w)"
| stage_backup_transfer_step: "store_step w (effect (stage_backup_transfer actor plan approval_package) w)"
| get_backup_transfer_step: "store_step w (effect (get_backup_transfer actor plan_sha256) w)"
| list_backup_transfers_step: "store_step w (effect (list_backup_transfers actor status_filter) w)"
| record_backup_transfer_preflight_step: "store_step w (effect (record_backup_transfer_preflight actor plan_sha256 receipt) w)"
| request_backup_transfer_approval_step: "store_step w (effect (request_backup_transfer_approval actor plan_sha256 max_impact expires_at) w)"
| authorize_backup_transfer_step: "store_step w (effect (authorize_backup_transfer actor plan_sha256 approval_id) w)"
| claim_authorized_backup_transfer_step: "store_step w (effect (claim_authorized_backup_transfer actor worker_id lease_seconds) w)"
| assert_backup_transfer_execution_allowed_step: "store_step w (effect (assert_backup_transfer_execution_allowed actor plan_sha256 worker_id at_time) w)"
| fail_claimed_backup_transfer_step: "store_step w (effect (fail_claimed_backup_transfer actor plan_sha256 worker_id error retry_seconds) w)"
| hold_claimed_backup_transfer_for_reconciliation_step: "store_step w (effect (hold_claimed_backup_transfer_for_reconciliation actor plan_sha256 worker_id error) w)"
| complete_claimed_backup_transfer_step: "store_step w (effect (complete_claimed_backup_transfer actor plan_sha256 worker_id receipt) w)"
| stage_backup_restore_step: "store_step w (effect (stage_backup_restore actor plan upload_plan given_receipt restore_key_package) w)"
| get_backup_restore_step: "store_step w (effect (get_backup_restore actor plan_sha256) w)"
| list_backup_restores_step: "store_step w (effect (list_backup_restores actor status_filter) w)"
| record_backup_restore_preflight_step: "store_step w (effect (record_backup_restore_preflight actor plan_sha256 receipt) w)"
| request_backup_restore_approval_step: "store_step w (effect (request_backup_restore_approval actor plan_sha256 max_impact expires_at) w)"
| authorize_backup_restore_step: "store_step w (effect (authorize_backup_restore actor plan_sha256 approval_id at_time) w)"
| claim_authorized_backup_restore_step: "store_step w (effect (claim_authorized_backup_restore actor worker_id lease_seconds at_time) w)"
| assert_backup_restore_execution_allowed_step: "store_step w (effect (assert_backup_restore_execution_allowed actor plan_sha256 worker_id at_time) w)"
| fail_claimed_backup_restore_step: "store_step w (effect (fail_claimed_backup_restore actor plan_sha256 worker_id error retry_seconds) w)"
| complete_claimed_backup_restore_step: "store_step w (effect (complete_claimed_backup_restore actor plan_sha256 worker_id receipt at_time) w)"
| hold_claimed_backup_restore_for_reconciliation_step: "store_step w (effect (hold_claimed_backup_restore_for_reconciliation actor plan_sha256 worker_id error) w)"
| record_alert_observation_step: "store_step w (effect (record_alert_observation actor alert_plan) w)"
| get_alert_incident_step: "store_step w (effect (get_alert_incident actor incident_id) w)"
| get_alert_observation_step: "store_step w (effect (get_alert_observation actor plan_id) w)"
| active_alert_incidents_step: "store_step w (effect (active_alert_incidents actor scope) w)"
| resolve_alert_incident_step: "store_step w (effect (resolve_alert_incident actor incident_id reason) w)"
| acknowledge_alert_observation_step: "store_step w (effect (acknowledge_alert_observation actor evidence) w)"
| stage_alert_delivery_step: "store_step w (effect (stage_alert_delivery actor plan_id) w)"
| get_alert_delivery_step: "store_step w (effect (get_alert_delivery actor delivery_id) w)"
| list_alert_deliveries_step: "store_step w (effect (list_alert_deliveries actor scope status_filter) w)"
| alert_delivery_diagnostics_step: "store_step w (effect (alert_delivery_diagnostics actor scope) w)"
| reset_failed_alert_delivery_step: "store_step w (effect (reset_failed_alert_delivery actor delivery_id reason) w)"
| request_alert_delivery_approval_step: "store_step w (effect (request_alert_delivery_approval actor delivery_id max_impact expires_at) w)"
| authorize_alert_delivery_step: "store_step w (effect (authorize_alert_delivery actor delivery_id approval_id) w)"
| record_synthetic_alert_delivery_step: "store_step w (effect (record_synthetic_alert_delivery actor delivery_id evidence) w)"
| claim_authorized_alert_delivery_step: "store_step w (effect (claim_authorized_alert_delivery actor worker_id lease_seconds) w)"
| complete_claimed_synthetic_alert_delivery_step: "store_step w (effect (complete_claimed_synthetic_alert_delivery actor delivery_id worker_id evidence) w)"
| fail_claimed_alert_delivery_step: "store_step w (effect (fail_claimed_alert_delivery actor delivery_id worker_id error retry_seconds) w)"

inductive reachable :: "world \<Rightarrow> bool" where
  reachable_open: "profile \<in> {''DEVELOPMENT'', ''IAC'', ''PERSONAL''} \<Longrightarrow>
    reachable (opened profile clock uuid sha)"
| reachable_step: "reachable w \<Longrightarrow> store_step w w' \<Longrightarrow> reachable w'"

abbreviation runs_to :: "world \<Rightarrow> world \<Rightarrow> bool" where
  "runs_to \<equiv> store_step\<^sup>*\<^sup>*"

section \<open>Every run respects the laws\<close>

lemma lawful_effect: "lawful (w_profile w) (\<lambda>_. True) m \<Longrightarrow> store.evolves (w_profile w) w (effect m w)"
  by (simp add: store.lawful_def effect_def)

lemma evolves_interface: "interface_step w w' \<Longrightarrow> store.evolves (w_profile w) w w'"
  by (induction rule: interface_step.induct) (rule lawful_effect, rule legal_ops)+

lemma evolves_agent: "agent_step w w' \<Longrightarrow> store.evolves (w_profile w) w w'"
  by (induction rule: agent_step.induct)
    (rule lawful_effect, rule legal_ops lawful_execute lawful_worker_loop, (rule chief_registry_lawful)?)+

lemma evolves_operator: "operator_step w w' \<Longrightarrow> store.evolves (w_profile w) w w'"
  by (induction rule: operator_step.induct) (rule lawful_effect, rule legal_ops)+

lemma evolves_step: "store_step w w' \<Longrightarrow> store.evolves (w_profile w) w w'"
  by (induction rule: store_step.induct) (rule store.evolves_rollback | erule evolves_interface | erule evolves_agent | erule evolves_operator | (rule lawful_effect, rule legal_ops))+

lemma evolves_run: "runs_to w w' \<Longrightarrow> store.evolves (w_profile w) w w'"
proof (induction rule: rtranclp_induct)
  case base
  show ?case by (rule store.evolves_refl)
next
  case (step u v)
  have "w_profile u = w_profile w" using step.IH by (simp add: store.evolves_def)
  then show ?case using step.IH evolves_step [OF step.hyps(2)] store.evolves_trans by metis
qed

text \<open>What holds of every table of a reachable store.\<close>

definition store_ok :: "string \<Rightarrow> db \<Rightarrow> bool" where
  "store_ok prof d \<longleftrightarrow>
     table_ok rec_id (record_ok prof) (db_records d) \<and>
     table_ok (\<lambda>r. (rel_from r, rel_type r, rel_to r)) (\<lambda>_. True) (db_links d) \<and>
     table_ok prj_id project_ok (db_projects d) \<and>
     table_ok ap_id (approval_ok prof) (db_approvals d) \<and> list_all audit_ok (db_audit d) \<and>
     table_ok wk_id (work_ok prof) (db_work d) \<and> table_ok ex_work execution_ok (db_executions d) \<and>
     table_ok bx_id (transfer_ok prof) (db_transfers d) \<and>
     table_ok bx_id (restore_ok prof) (db_restores d) \<and>
     table_ok bx_id (delivery_ok prof) (db_deliveries d) \<and>
     table_ok ob_plan (observation_ok prof) (db_observations d) \<and>
     table_ok ic_id (incident_ok prof) (db_incidents d) \<and>
     table_ok dispatch_key (\<lambda>_. True) (db_dispatches d) \<and>
     table_ok cq_external (\<lambda>_. True) (db_commands d) \<and>
     table_ok cd_work (\<lambda>_. True) (db_coding_requests d) \<and>
     table_ok cn_name connector_ok (db_connectors d) \<and>
     table_ok import_key (\<lambda>_. True) (db_imports d) \<and>
     table_ok cg_external coding_ok (db_codings d) \<and>
     table_ok report_key (\<lambda>_. True) (db_reports d) \<and>
     table_ok ac_plan activation_ok (db_activations d)"

lemma store_ok_le: "store_le prof d d' \<Longrightarrow> store_ok prof d \<Longrightarrow> store_ok prof d'"
  unfolding store_le_def store_ok_def table_step_def audit_step_def
  by (elim conjE, intro conjI; simp only: simp_thms)

lemma store_ok_empty: "store_ok prof empty_db"
  by (simp add: store_ok_def table_ok_def empty_db_def initial_connectors_def initial_connector_def connector_ok_def)

lemma store_ok_runtime: "store_ok prof (db_runtime_update f d) = store_ok prof d"
  by (simp add: store_ok_def)

lemma upper_profiles:
  "upper ''DEVELOPMENT'' = ''DEVELOPMENT''" "upper ''IAC'' = ''IAC''" "upper ''PERSONAL'' = ''PERSONAL''"
  by code_simp+

lemma opened_world:
  assumes "profile \<in> {''DEVELOPMENT'', ''IAC'', ''PERSONAL''}"
  shows "\<exists>f. opened profile clock uuid sha = (new_world clock uuid sha)
    \<lparr>w_db := db_runtime_update f empty_db, w_committed := db_runtime_update f empty_db,
     w_tick := 1, w_profile := profile\<rparr>"
proof -
  have up: "upper profile = profile" using assms upper_profiles by auto
  have row: "row_by rt_key ''scope_profile'' (db_runtime (w_db (new_world clock uuid sha))) =
      Some \<lparr>rt_key = ''scope_profile'', rt_value = ''UNBOUND'', rt_updated_at = ''1970-01-01T00:00:00+00:00''\<rparr>"
    by (simp add: new_world_def empty_db_def initial_runtime_def table_simps)
  let ?f = "update_where (\<lambda>r. rt_key r = ''scope_profile'')
    (\<lambda>r. r\<lparr>rt_value := profile, rt_updated_at := iso_utc (clock 0)\<rparr>)"
  have "opened profile clock uuid sha = (new_world clock uuid sha)
    \<lparr>w_db := db_runtime_update ?f empty_db, w_committed := db_runtime_update ?f empty_db,
     w_tick := 1, w_profile := profile\<rparr>"
    using assms unfolding opened_def effect_def open_store_def up
    by (auto simp: py_run row table_def now_def now_instant_def sql_update_def dml_def put_db_def
        commit_def commit_world_def tick_world_def) (simp_all add: new_world_def)
  then show ?thesis by blast
qed

lemma reachable_coherent:
  "reachable w \<Longrightarrow> store.coherent (w_profile w) w \<and> store_ok (w_profile w) (w_committed w)"
proof (induction rule: reachable.induct)
  case (reachable_open profile clock uuid sha)
  then obtain f where o: "opened profile clock uuid sha = (new_world clock uuid sha)
      \<lparr>w_db := db_runtime_update f empty_db, w_committed := db_runtime_update f empty_db,
       w_tick := 1, w_profile := profile\<rparr>"
    using opened_world by blast
  show ?case unfolding o by (simp add: store.coherent_def store_le_refl store_ok_runtime store_ok_empty)
next
  case (reachable_step w w')
  then have "store.evolves (w_profile w) w w'" by (simp add: evolves_step)
  then show ?case using reachable_step.IH store_ok_le by (auto simp: store.evolves_def)
qed

lemma reachable_run: "reachable w \<Longrightarrow> runs_to w w' \<Longrightarrow> reachable w'"
  by (rotate_tac, induction rule: rtranclp_induct) (auto intro: reachable_step)

lemma run_le:
  assumes "reachable w" and "runs_to w w'"
  shows "w_profile w' = w_profile w \<and> store_le (w_profile w) (w_committed w) (w_committed w')"
  using evolves_run [OF assms(2)] reachable_coherent [OF assms(1)] by (simp add: store.evolves_def)

lemma reachable_ok:
  assumes "reachable w" and "d = w_db w \<or> d = w_committed w"
  shows "store_ok (w_profile w) d"
  using reachable_coherent [OF assms(1)] assms(2) store_ok_le by (auto simp: store.coherent_def)

section \<open>What no run can do\<close>

lemma table_stepD: "table_step key P R rows rows' \<Longrightarrow> table_ok key P rows \<Longrightarrow> table_evo R rows rows'"
  by (simp add: table_step_def)

lemma table_step_prefix: "table_step key P (=) rows rows' \<Longrightarrow> table_ok key P rows \<Longrightarrow> prefix rows rows'"
  by (metis append_take_drop_id list.rel_eq prefixI table_evo_def table_stepD)

lemma audit_stepD: "audit_step rows rows' \<Longrightarrow> prefix rows rows'"
  by (simp add: audit_step_def)

lemma store_leD:
  assumes "store_le prof d d'"
  shows
    "table_step rec_id (record_ok prof) record_step (db_records d) (db_records d')"
    "table_step (\<lambda>r. (rel_from r, rel_type r, rel_to r)) (\<lambda>_. True) (=) (db_links d) (db_links d')"
    "table_step ap_id (approval_ok prof) approval_step (db_approvals d) (db_approvals d')"
    "table_step wk_id (work_ok prof) work_step (db_work d) (db_work d')"
    "table_step ex_work execution_ok (=) (db_executions d) (db_executions d')"
    "table_step bx_id (transfer_ok prof) transfer_step (db_transfers d) (db_transfers d')"
    "table_step bx_id (restore_ok prof) restore_step (db_restores d) (db_restores d')"
    "table_step bx_id (delivery_ok prof) delivery_step (db_deliveries d) (db_deliveries d')"
    "table_step ob_plan (observation_ok prof) observation_step (db_observations d) (db_observations d')"
    "table_step ic_id (incident_ok prof) incident_step (db_incidents d) (db_incidents d')"
    "audit_step (db_audit d) (db_audit d')"
    "table_step dispatch_key (\<lambda>_. True) (=) (db_dispatches d) (db_dispatches d')"
    "table_step cq_external (\<lambda>_. True) (=) (db_commands d) (db_commands d')"
    "table_step cd_work (\<lambda>_. True) (=) (db_coding_requests d) (db_coding_requests d')"
    "table_step cn_name connector_ok connector_step (db_connectors d) (db_connectors d')"
    "table_step import_key (\<lambda>_. True) (=) (db_imports d) (db_imports d')"
    "table_step cg_external coding_ok (=) (db_codings d) (db_codings d')"
    "table_step report_key (\<lambda>_. True) (=) (db_reports d) (db_reports d')"
    "table_step ac_plan activation_ok (=) (db_activations d) (db_activations d')"
  using assms unfolding store_le_def by simp_all

lemma store_okD:
  assumes "store_ok prof d"
  shows
    "table_ok rec_id (record_ok prof) (db_records d)"
    "table_ok (\<lambda>r. (rel_from r, rel_type r, rel_to r)) (\<lambda>_. True) (db_links d)"
    "table_ok ap_id (approval_ok prof) (db_approvals d)"
    "table_ok wk_id (work_ok prof) (db_work d)"
    "table_ok ex_work execution_ok (db_executions d)"
    "table_ok bx_id (transfer_ok prof) (db_transfers d)"
    "table_ok bx_id (restore_ok prof) (db_restores d)"
    "table_ok bx_id (delivery_ok prof) (db_deliveries d)"
    "table_ok ob_plan (observation_ok prof) (db_observations d)"
    "table_ok ic_id (incident_ok prof) (db_incidents d)"
    "table_ok dispatch_key (\<lambda>_. True) (db_dispatches d)"
    "table_ok cq_external (\<lambda>_. True) (db_commands d)"
    "table_ok cd_work (\<lambda>_. True) (db_coding_requests d)"
    "table_ok cn_name connector_ok (db_connectors d)"
    "table_ok import_key (\<lambda>_. True) (db_imports d)"
    "table_ok cg_external coding_ok (db_codings d)"
    "table_ok report_key (\<lambda>_. True) (db_reports d)"
    "table_ok ac_plan activation_ok (db_activations d)"
  using assms unfolding store_ok_def by simp_all

lemma store_le_steps:
  assumes le: "store_le prof d d'" and ok: "store_ok prof d"
  shows
    "table_evo record_step (db_records d) (db_records d')"
    "prefix (db_links d) (db_links d')"
    "table_evo approval_step (db_approvals d) (db_approvals d')"
    "table_evo work_step (db_work d) (db_work d')"
    "prefix (db_executions d) (db_executions d')"
    "table_evo transfer_step (db_transfers d) (db_transfers d')"
    "table_evo restore_step (db_restores d) (db_restores d')"
    "table_evo delivery_step (db_deliveries d) (db_deliveries d')"
    "table_evo observation_step (db_observations d) (db_observations d')"
    "table_evo incident_step (db_incidents d) (db_incidents d')"
    "prefix (db_audit d) (db_audit d')"
    "prefix (db_dispatches d) (db_dispatches d')"
    "prefix (db_commands d) (db_commands d')"
    "prefix (db_coding_requests d) (db_coding_requests d')"
    "table_evo connector_step (db_connectors d) (db_connectors d')"
    "prefix (db_imports d) (db_imports d')"
    "prefix (db_codings d) (db_codings d')"
    "prefix (db_reports d) (db_reports d')"
    "prefix (db_activations d) (db_activations d')"
  by (fact table_stepD [OF store_leD(1) [OF le] store_okD(1) [OF ok]]
      table_step_prefix [OF store_leD(2) [OF le] store_okD(2) [OF ok]]
      table_stepD [OF store_leD(3) [OF le] store_okD(3) [OF ok]]
      table_stepD [OF store_leD(4) [OF le] store_okD(4) [OF ok]]
      table_step_prefix [OF store_leD(5) [OF le] store_okD(5) [OF ok]]
      table_stepD [OF store_leD(6) [OF le] store_okD(6) [OF ok]]
      table_stepD [OF store_leD(7) [OF le] store_okD(7) [OF ok]]
      table_stepD [OF store_leD(8) [OF le] store_okD(8) [OF ok]]
      table_stepD [OF store_leD(9) [OF le] store_okD(9) [OF ok]]
      table_stepD [OF store_leD(10) [OF le] store_okD(10) [OF ok]]
      audit_stepD [OF store_leD(11) [OF le]]
      table_step_prefix [OF store_leD(12) [OF le] store_okD(11) [OF ok]]
      table_step_prefix [OF store_leD(13) [OF le] store_okD(12) [OF ok]]
      table_step_prefix [OF store_leD(14) [OF le] store_okD(13) [OF ok]]
      table_stepD [OF store_leD(15) [OF le] store_okD(14) [OF ok]]
      table_step_prefix [OF store_leD(16) [OF le] store_okD(15) [OF ok]]
      table_step_prefix [OF store_leD(17) [OF le] store_okD(16) [OF ok]]
      table_step_prefix [OF store_leD(18) [OF le] store_okD(17) [OF ok]]
      table_step_prefix [OF store_leD(19) [OF le] store_okD(18) [OF ok]])+

text \<open>Between the committed databases of a run, and from a committed one to the later open one.\<close>

lemma run_steps:
  assumes "reachable w" and "runs_to w w'"
  defines "d \<equiv> w_committed w" and "d' \<equiv> w_committed w'"
  shows
    "table_evo record_step (db_records d) (db_records d')"
    "prefix (db_links d) (db_links d')"
    "table_evo approval_step (db_approvals d) (db_approvals d')"
    "table_evo work_step (db_work d) (db_work d')"
    "prefix (db_executions d) (db_executions d')"
    "table_evo transfer_step (db_transfers d) (db_transfers d')"
    "table_evo restore_step (db_restores d) (db_restores d')"
    "table_evo delivery_step (db_deliveries d) (db_deliveries d')"
    "table_evo observation_step (db_observations d) (db_observations d')"
    "table_evo incident_step (db_incidents d) (db_incidents d')"
    "prefix (db_audit d) (db_audit d')"
    "prefix (db_dispatches d) (db_dispatches d')"
    "prefix (db_commands d) (db_commands d')"
    "prefix (db_coding_requests d) (db_coding_requests d')"
    "table_evo connector_step (db_connectors d) (db_connectors d')"
    "prefix (db_imports d) (db_imports d')"
    "prefix (db_codings d) (db_codings d')"
    "prefix (db_reports d) (db_reports d')"
    "prefix (db_activations d) (db_activations d')"
  unfolding d_def d'_def
  by (rule store_le_steps [OF conjunct2 [OF run_le [OF assms(1,2)]]
        conjunct2 [OF reachable_coherent [OF assms(1)]]])+

lemma run_view:
  assumes "reachable w" and "runs_to w w'"
  shows "store_le (w_profile w) (w_committed w) (w_db w')"
  using run_le [OF assms] reachable_coherent [OF reachable_run [OF assms]] store_le_trans
  by (auto simp: store.coherent_def)

lemmas view_steps = store_le_steps [OF run_view]

lemma approval_persists:
  assumes "reachable w" and "runs_to w w'" and "row_by ap_id i (db_approvals (w_committed w)) = Some a"
  shows "\<exists>a'. row_by ap_id i (db_approvals (w_db w')) = Some a' \<and> approval_step a a'"
  using approvals.evo_row_by view_steps(3) [OF assms(1,2)] reachable_coherent [OF assms(1)] assms(3) by blast

lemma consume_commits:
  assumes "consume_approval actor i action_type target at_time scope conditions True w = (Inr (), v)"
    and "row_by ap_id i (db_approvals (w_db w)) = Some r" and "\<not> ap_reusable r"
  shows "row_by ap_id i (db_approvals (w_committed v)) = Some (r\<lparr>ap_status := AP_CONSUMED\<rparr>)"
  using wp_result [OF assms(1) wp_consume_approval] assms(2,3)
  by (auto simp: row_by_update_where dest: row_by_SomeD)

end
