(* ===== verification/Scenario.thy ===== *)
theory Scenario
  imports Store_Lifecycle
begin

text \<open>
  Two concrete runs for the witnesses, on a clock that counts seconds of year 1, numbered
  identifiers and a stand-in for the digest: Sean records an approval and consumes it, and
  Sean queues work that a worker claims and fails.
\<close>

definition demo_clock :: "nat \<Rightarrow> instant" where
  "demo_clock n = 1000000 * int n"

definition demo_uuid :: "nat \<Rightarrow> string" where
  "demo_uuid n = ''id-'' @ dec n"

definition demo_sha :: "string \<Rightarrow> string" where
  "demo_sha s = padded 64 (length s)"

definition demo_start :: world where
  "demo_start = opened ''IAC'' demo_clock demo_uuid demo_sha"

lemma reachable_start: "reachable demo_start"
  unfolding demo_start_def by (rule reachable_open) simp

text \<open>What the witnesses read of a world, evaluated once.\<close>

definition approval_view :: "world \<Rightarrow> approval_row list \<times> approval_row list \<times> string \<times> string \<times> instant" where
  "approval_view w = (db_approvals (w_db w), db_approvals (w_committed w), iso_utc (w_clock w (w_tick w)),
     w_profile w, w_clock w (w_tick w))"

section \<open>An approval\<close>

definition demo_granted :: world where
  "demo_granted = effect (create_approval sean ''DEPLOY'' ''prod'' ''IAC'' ''low'' ''sean''
     ''0001-01-02T00:00:00+00:00'' [] False) demo_start"

definition demo_consume :: "unit py" where
  "demo_consume = consume_approval sean ''id-0'' ''DEPLOY'' ''prod'' None None None True"

definition demo_used :: world where
  "demo_used = effect demo_consume demo_granted"

lemma reachable_granted: "reachable demo_granted"
  unfolding demo_granted_def by (rule reachable_step [OF reachable_start create_approval_step])

lemma demo_run: "runs_to demo_granted demo_used"
  unfolding demo_used_def demo_consume_def by (rule r_into_rtranclp) (rule consume_approval_step)

definition demo_approval :: approval_row where
  "demo_approval = \<lparr>ap_id = ''id-0'', ap_action = ''DEPLOY'', ap_target = ''prod'', ap_scope = ''IAC'',
     ap_impact = ''low'', ap_conditions = PDict [], ap_approver = ''sean'', ap_status = AP_APPROVED,
     ap_expires_at = ''0001-01-02T00:00:00+00:00'', ap_reusable = False\<rparr>"

lemma demo_granted_facts:
  "approval_view demo_granted = ([demo_approval], [demo_approval], ''0001-01-01T00:00:04+00:00'', ''IAC'', 4000000)"
  by code_simp

section \<open>A work item\<close>

definition demo_queued :: world where
  "demo_queued = effect (enqueue_work sean ''T'' ''IAC'' [] 100 1 None) demo_start"

definition demo_claim :: "work_row option py" where
  "demo_claim = claim_work sean ''w'' 60"

definition demo_leased :: world where
  "demo_leased = effect demo_claim demo_queued"

definition demo_failed :: world where
  "demo_failed = effect (fail_work sean ''id-0'' ''w'' ''e'' 5) demo_leased"

definition work_view :: "world \<Rightarrow> (work_status \<times> int) list" where
  "work_view w = map (\<lambda>r. (wk_status r, wk_attempts r)) (db_work (w_committed w))"

lemma reachable_queued: "reachable demo_queued"
  unfolding demo_queued_def by (rule reachable_step [OF reachable_start enqueue_work_step])

lemma reachable_leased: "reachable demo_leased"
  unfolding demo_leased_def demo_claim_def by (rule reachable_step [OF reachable_queued claim_work_step])

lemma demo_work_run: "runs_to demo_leased demo_failed"
  unfolding demo_failed_def by (rule r_into_rtranclp) (rule fail_work_step)

definition lease_view :: "world \<Rightarrow> work_row list \<times> work_row list \<times> instant" where
  "lease_view w = (db_work (w_db w), db_work (w_committed w), w_clock w (w_tick w))"

definition demo_item :: work_row where
  "demo_item = \<lparr>wk_id = ''id-0'', wk_type = ''T'', wk_scope = ''IAC'', wk_payload = PDict [],
     wk_status = WK_RUNNING, wk_priority = 100, wk_attempts = 1, wk_max = 1,
     wk_available_at = ''0001-01-01T00:00:01+00:00'', wk_owner = Some ''w'',
     wk_lease = Some ''0001-01-01T00:01:04+00:00'', wk_error = None,
     wk_created_at = ''0001-01-01T00:00:01+00:00'', wk_updated_at = ''0001-01-01T00:00:03+00:00''\<rparr>"

definition gate_view :: "world \<Rightarrow> execution_row list \<times> string option" where
  "gate_view w = (db_executions (w_db w), map_option rt_value (row_by rt_key ''kill_switch'' (db_runtime (w_db w))))"

lemma demo_leased_views: "(lease_view demo_leased, gate_view demo_leased) = (([demo_item], [demo_item], 6000000), ([], Some ''OFF''))"
  by code_simp

lemma demo_lease_facts: "lease_view demo_leased = ([demo_item], [demo_item], 6000000)"
  using demo_leased_views by simp

lemma demo_gate_facts:
  "(db_executions (w_db demo_leased), map_option rt_value (row_by rt_key ''kill_switch'' (db_runtime (w_db demo_leased)))) =
     ([], Some ''OFF'')"
  using demo_leased_views by (simp add: gate_view_def)

lemma demo_work_facts:
  "work_view demo_leased = [(WK_RUNNING, 1)]"
  "work_view demo_failed = [(WK_DEAD_LETTER, 1)]"
proof -
  show "work_view demo_leased = [(WK_RUNNING, 1)]"
    using demo_lease_facts by (simp add: lease_view_def work_view_def demo_item_def)
  show "work_view demo_failed = [(WK_DEAD_LETTER, 1)]"
    by code_simp
qed

section \<open>A record and the kill switch\<close>

definition demo_recorded :: world where
  "demo_recorded = effect (create_record sean ''PROJECT'' ''IAC'' [] defaults) demo_start"

definition demo_update :: "int py" where
  "demo_update = update_record sean ''id-0'' [] 1 None"

definition demo_updated :: world where
  "demo_updated = effect demo_update demo_recorded"

lemma reachable_recorded: "reachable demo_recorded"
  unfolding demo_recorded_def by (rule reachable_step [OF reachable_start create_record_step])

lemma demo_update_runs: "demo_update demo_recorded = (Inr 2, demo_updated)"
proof -
  have "fst (demo_update demo_recorded) = Inr 2" by code_simp
  then show ?thesis by (simp add: demo_updated_def effect_def prod_eq_iff)
qed

definition demo_stopped :: world where
  "demo_stopped = effect (set_kill_switch sean True) demo_start"

lemma demo_stopped_row:
  "map_option rt_value (row_by rt_key ''kill_switch'' (db_runtime (w_db demo_stopped))) = Some ''ON''"
  by code_simp

end
