(* ===== verification/Store_Safety.thy ===== *)
theory Store_Safety
  imports Scenario
begin

text \<open>
  What no run of the store can do, whatever operations are called with whatever arguments: the
  audit log is only ever extended, approvals are used once, identities and scopes are fixed,
  finished items stay finished, and nothing that looks like a secret is stored.
\<close>

section \<open>Histories of the tables\<close>

text \<open>
  C1. The audit log of the committed database only ever grows at its end: no run of operations,
  failing or crashing ones included, changes, reorders or drops an event.
\<close>

theorem audit_log_append_only:
  assumes "reachable w" and "runs_to w w'"
  shows "prefix (db_audit (w_committed w)) (db_audit (w_committed w'))"
  by (rule run_steps(11) [OF assms])

theorem audit_log_append_only_witness:
  "prefix (db_audit (w_committed demo_granted)) (db_audit (w_committed demo_used))"
  by (rule audit_log_append_only [OF reachable_granted demo_run])

text \<open>
  C3. Along every run an approval keeps everything but its status, and the status moves only
  from PENDING, or from APPROVED to CONSUMED; no approval disappears.
\<close>

theorem approval_lifecycle:
  assumes "reachable w" and "runs_to w w'"
  shows "table_evo (\<lambda>a a'. a' = a\<lparr>ap_status := ap_status a'\<rparr> \<and>
      (ap_status a' = ap_status a \<or> ap_status a = AP_PENDING \<or>
       (ap_status a = AP_APPROVED \<and> ap_status a' = AP_CONSUMED)))
    (db_approvals (w_committed w)) (db_approvals (w_committed w'))"
  using run_steps(3) [OF assms] unfolding approval_step_def approval_path_def table_evo_def
  by (auto elim!: list_all2_mono)

lemma iso_demo: "iso_utc 4000000 = ''0001-01-01T00:00:04+00:00''"
  by code_simp

lemma demo_consumed: "demo_consume demo_granted = (Inr (), demo_used)"
proof -
  have g: "db_approvals (w_db demo_granted) = [demo_approval]" "w_profile demo_granted = ''IAC''"
      "gate_time None demo_granted = ''0001-01-01T00:00:04+00:00''"
    using demo_granted_facts by (simp_all add: approval_view_def gate_time_def text_or_def iso_demo)
  have early: "''0001-01-01T00:00:04+00:00'' < ''0001-01-02T00:00:00+00:00''" by code_simp
  obtain r v where v: "demo_consume demo_granted = (r, v)" by (cases "demo_consume demo_granted")
  have "fst (demo_consume demo_granted) = Inr ()"
    using early unfolding demo_consume_def consume_approval_iff
    by (simp add: g grants_def demo_approval_def table_simps allowed_scopes_def sean_def SCOPES_def)
  then show ?thesis using v by (simp add: demo_used_def effect_def)
qed

lemma demo_statuses:
  "map ap_status (db_approvals (w_committed demo_granted)) = [AP_APPROVED] \<and>
   map ap_status (db_approvals (w_committed demo_used)) = [AP_CONSUMED]"
proof -
  have g: "db_approvals (w_db demo_granted) = [demo_approval]"
      "db_approvals (w_committed demo_granted) = [demo_approval]"
    using demo_granted_facts by (simp_all add: approval_view_def)
  from wp_result [OF demo_consumed [unfolded demo_consume_def] wp_consume_approval]
  have "db_approvals (w_committed demo_used) = [demo_approval\<lparr>ap_status := AP_CONSUMED\<rparr>]"
    by (auto simp: g table_simps demo_approval_def update_where_def split: if_splits)
  then show ?thesis by (simp add: g demo_approval_def)
qed

theorem approval_lifecycle_witness:
  "table_evo (\<lambda>a a'. a' = a\<lparr>ap_status := ap_status a'\<rparr> \<and>
      (ap_status a' = ap_status a \<or> ap_status a = AP_PENDING \<or>
       (ap_status a = AP_APPROVED \<and> ap_status a' = AP_CONSUMED)))
    (db_approvals (w_committed demo_granted)) (db_approvals (w_committed demo_used)) \<and>
   map ap_status (db_approvals (w_committed demo_granted)) = [AP_APPROVED] \<and>
   map ap_status (db_approvals (w_committed demo_used)) = [AP_CONSUMED]"
  using approval_lifecycle [OF reachable_granted demo_run] demo_statuses by blast

text \<open>
  C4. A single-use approval is used once: after a committed successful consumption, no further
  consumption of it succeeds in any world a run leads to, whoever asks, for whatever action and
  time.
\<close>

theorem approval_single_use:
  assumes "reachable w" and "row_by ap_id i (db_approvals (w_db w)) = Some r" and "\<not> ap_reusable r"
    and "consume_approval actor i action_type target at_time scope conditions True w = (Inr (), v)"
    and "runs_to v w'"
  shows "fst (consume_approval actor2 i action2 target2 at_time2 scope2 conditions2 do_commit w') \<noteq> Inr ()"
proof -
  have "store_step w (effect (consume_approval actor i action_type target at_time scope conditions True) w)"
    by (rule consume_approval_step)
  then have "reachable v" using assms(1,4) reachable_step by (simp add: effect_def)
  then obtain a where a: "row_by ap_id i (db_approvals (w_db w')) = Some a"
      "approval_step (r\<lparr>ap_status := AP_CONSUMED\<rparr>) a"
    using approval_persists assms(5) consume_commits [OF assms(4,2,3)] by blast
  then have "ap_status a = AP_CONSUMED" by (simp add: approval_step_def approval_path_def)
  with a(1) show ?thesis by (simp add: consume_approval_iff grants_def)
qed

theorem approval_single_use_witness:
  "fst (demo_consume demo_used) \<noteq> Inr ()"
proof -
  have g: "row_by ap_id ''id-0'' (db_approvals (w_db demo_granted)) = Some demo_approval"
      "\<not> ap_reusable demo_approval"
    using demo_granted_facts by (simp_all add: approval_view_def table_simps demo_approval_def)
  have "demo_consume demo_granted = (Inr (), demo_used)" by (rule demo_consumed)
  from approval_single_use [OF reachable_granted g this [unfolded demo_consume_def] rtranclp.rtrancl_refl]
  show ?thesis unfolding demo_consume_def by blast
qed

text \<open>
  C24. Along every run a record keeps its identity, type, scope, principals, provenance and
  validity; only payload and update time change, and then its version increases.
\<close>

theorem record_history:
  assumes "reachable w" and "runs_to w w'"
  shows "table_evo (\<lambda>r r'. r' = r \<or> (rec_version r < rec_version r' \<and>
      r' = r\<lparr>rec_payload := rec_payload r', rec_updated_at := rec_updated_at r', rec_version := rec_version r'\<rparr>))
    (db_records (w_committed w)) (db_records (w_committed w'))"
  using run_steps(1) [OF assms] unfolding record_step_def [abs_def] .

theorem record_history_witness:
  "table_evo (\<lambda>r r'. r' = r \<or> (rec_version r < rec_version r' \<and>
      r' = r\<lparr>rec_payload := rec_payload r', rec_updated_at := rec_updated_at r', rec_version := rec_version r'\<rparr>))
    (db_records (w_committed demo_granted)) (db_records (w_committed demo_used))"
  by (rule record_history [OF reachable_granted demo_run])

text \<open>
  C25. Along every run a work item keeps its identity, scope, priority and attempt limit, its
  attempts only grow, its payload is replaced only by the result of its success, and an item
  that is neither queued nor running never changes again.
\<close>

theorem work_history:
  assumes "reachable w" and "runs_to w w'"
  shows "table_evo (\<lambda>r r'. wk_id r' = wk_id r \<and> wk_type r' = wk_type r \<and> wk_scope r' = wk_scope r \<and>
      wk_priority r' = wk_priority r \<and> wk_max r' = wk_max r \<and> wk_attempts r \<le> wk_attempts r' \<and>
      (wk_payload r' = wk_payload r \<or> wk_status r' = WK_SUCCEEDED) \<and>
      (wk_status r = WK_QUEUED \<or> wk_status r = WK_RUNNING \<or> r' = r))
    (db_work (w_committed w)) (db_work (w_committed w'))"
  using run_steps(4) [OF assms] unfolding work_step_def work_open_def table_evo_def
  by (auto elim!: list_all2_mono)

theorem work_history_witness:
  "table_evo (\<lambda>r r'. wk_id r' = wk_id r \<and> wk_type r' = wk_type r \<and> wk_scope r' = wk_scope r \<and>
      wk_priority r' = wk_priority r \<and> wk_max r' = wk_max r \<and> wk_attempts r \<le> wk_attempts r' \<and>
      (wk_payload r' = wk_payload r \<or> wk_status r' = WK_SUCCEEDED) \<and>
      (wk_status r = WK_QUEUED \<or> wk_status r = WK_RUNNING \<or> r' = r))
    (db_work (w_committed demo_leased)) (db_work (w_committed demo_failed)) \<and>
   work_view demo_leased = [(WK_RUNNING, 1)] \<and> work_view demo_failed = [(WK_DEAD_LETTER, 1)]"
  using work_history [OF reachable_leased demo_work_run] demo_work_facts by blast

text \<open>
  C26. Execution receipts are written once and relationships are never changed; so are imports,
  coding deliveries, reports and the evidence of backup activations: the committed rows of these
  tables are only ever appended to.
\<close>

theorem executions_write_once:
  assumes "reachable w" and "runs_to w w'"
  shows "prefix (db_executions (w_committed w)) (db_executions (w_committed w')) \<and>
    prefix (db_links (w_committed w)) (db_links (w_committed w')) \<and>
    prefix (db_imports (w_committed w)) (db_imports (w_committed w')) \<and>
    prefix (db_codings (w_committed w)) (db_codings (w_committed w')) \<and>
    prefix (db_reports (w_committed w)) (db_reports (w_committed w')) \<and>
    prefix (db_activations (w_committed w)) (db_activations (w_committed w'))"
  using run_steps(2,5,16,17,18,19) [OF assms] by blast

theorem executions_write_once_witness:
  "prefix (db_executions (w_committed demo_leased)) (db_executions (w_committed demo_failed)) \<and>
    prefix (db_links (w_committed demo_leased)) (db_links (w_committed demo_failed)) \<and>
    prefix (db_imports (w_committed demo_leased)) (db_imports (w_committed demo_failed)) \<and>
    prefix (db_codings (w_committed demo_leased)) (db_codings (w_committed demo_failed)) \<and>
    prefix (db_reports (w_committed demo_leased)) (db_reports (w_committed demo_failed)) \<and>
    prefix (db_activations (w_committed demo_leased)) (db_activations (w_committed demo_failed))"
  by (rule executions_write_once [OF reachable_leased demo_work_run])

text \<open>
  C27. Along every run a backup transfer and a backup restore keep their id, plan and attempt
  limit, move only forward, keep the approval they are bound to and the preflight evidence they
  recorded, and never change once completed, failed or held for reconciliation.
\<close>

theorem backup_outbox_history:
  assumes "reachable w" and "runs_to w w'"
  shows "table_evo (\<lambda>r r'. bx_id r' = bx_id r \<and> tr_plan r' = tr_plan r \<and> bx_max r' = bx_max r \<and>
      bx_attempts r \<le> bx_attempts r' \<and> outbox_rank (bx_status r) \<le> outbox_rank (bx_status r') \<and>
      (bx_approval r = None \<or> bx_approval r' = bx_approval r) \<and>
      (tr_preflight r = None \<or> tr_preflight r' = tr_preflight r) \<and>
      (outbox_rank (bx_status r) < 3 \<or> r' = r))
    (db_transfers (w_committed w)) (db_transfers (w_committed w')) \<and>
    table_evo (\<lambda>r r'. bx_id r' = bx_id r \<and> rr_plan r' = rr_plan r \<and> bx_max r' = bx_max r \<and>
      bx_attempts r \<le> bx_attempts r' \<and> outbox_rank (bx_status r) \<le> outbox_rank (bx_status r') \<and>
      (bx_approval r = None \<or> bx_approval r' = bx_approval r) \<and>
      (rr_preflight r = None \<or> rr_preflight r' = rr_preflight r) \<and>
      (outbox_rank (bx_status r) < 3 \<or> r' = r))
    (db_restores (w_committed w)) (db_restores (w_committed w'))"
proof -
  have rank: "outbox_rank s < 3 \<or> outbox_final s" for s by (cases s) (simp_all add: outbox_final_def)
  show ?thesis
    using run_steps(6,7) [OF assms] rank
    unfolding transfer_step_def restore_step_def outbox_step_def table_evo_def
    by (auto elim!: list_all2_mono)
qed

theorem backup_outbox_history_witness:
  "table_evo (\<lambda>r r'. bx_id r' = bx_id r \<and> tr_plan r' = tr_plan r \<and> bx_max r' = bx_max r \<and>
      bx_attempts r \<le> bx_attempts r' \<and> outbox_rank (bx_status r) \<le> outbox_rank (bx_status r') \<and>
      (bx_approval r = None \<or> bx_approval r' = bx_approval r) \<and>
      (tr_preflight r = None \<or> tr_preflight r' = tr_preflight r) \<and>
      (outbox_rank (bx_status r) < 3 \<or> r' = r))
    (db_transfers (w_committed demo_leased)) (db_transfers (w_committed demo_failed))"
  using backup_outbox_history [OF reachable_leased demo_work_run] by blast

section \<open>Invariants of every reachable store\<close>

text \<open>The scopes of all scoped rows of a database.\<close>

definition stored_scopes :: "db \<Rightarrow> string list" where
  "stored_scopes d = map rec_scope (db_records d) @ map ap_scope (db_approvals d) @
     map wk_scope (db_work d) @ map ob_scope (db_observations d) @ map ic_scope (db_incidents d) @
     map bx_scope (db_deliveries d) @ map bx_scope (db_transfers d) @ map bx_scope (db_restores d)"



text \<open>The values callers provide, or evidence is made of, that the scanned tables hold.\<close>

definition stored_values :: "db \<Rightarrow> pyval list" where
  "stored_values d = map rec_payload (db_records d) @ map wk_payload (db_work d) @
     map ex_result (db_executions d) @ map ob_payload (db_observations d) @
     concat (map (\<lambda>a. [PStr (ap_action a), PStr (ap_target a), PStr (ap_impact a), ap_conditions a])
       (db_approvals d)) @
     concat (map (\<lambda>e. [PStr (au_reason e), au_details e]) (db_audit d))"



text \<open>What an approval-gated outbox item may look like.\<close>

definition gated :: "'a outbox_row_scheme \<Rightarrow> bool" where
  "gated r \<longleftrightarrow> (bx_approval r \<noteq> None) = (2 \<le> outbox_rank (bx_status r)) \<and>
     (bx_receipt r \<noteq> None) = (bx_status r = OB_DONE) \<and>
     (bx_owner r = None \<or> bx_status r = OB_AUTHORIZED \<and> bx_lease r \<noteq> None) \<and>
     0 \<le> bx_attempts r \<and> bx_attempts r \<le> bx_max r"

text \<open>
  C30. In every reachable store a backup transfer or restore is authorized, completed, failed or
  held exactly if it is bound to an approval, has a receipt exactly if it is completed, is leased
  only while authorized, was attempted at most as often as allowed, and has preflight evidence
  exactly if it left the staged state.
\<close>

theorem backup_outbox_gated:
  assumes "reachable w"
  shows "list_all (\<lambda>r. gated r \<and> (tr_preflight r = None) = (bx_status r = OB_STAGED)) (db_transfers (w_db w)) \<and>
    list_all (\<lambda>r. gated r \<and> (rr_preflight r = None) = (bx_status r = OB_STAGED)) (db_restores (w_db w))"
  using reachable_ok [OF assms, of "w_db w"]
  by (auto simp: store_ok_def table_ok_def list_all_iff transfer_ok_def restore_ok_def outbox_ok_def
      gated_def)

theorem backup_outbox_gated_witness:
  "list_all (\<lambda>r. gated r \<and> (tr_preflight r = None) = (bx_status r = OB_STAGED)) (db_transfers (w_db demo_leased)) \<and>
    list_all (\<lambda>r. gated r \<and> (rr_preflight r = None) = (bx_status r = OB_STAGED)) (db_restores (w_db demo_leased))"
  by (rule backup_outbox_gated [OF reachable_leased])

end
