(* ===== verification/Store_Behaviour.thy ===== *)
theory Store_Behaviour
  imports Work_Behaviour Calendar Store_Safety
begin

text \<open>
  What the operations of the store do, on every branch: who is authorized, what a creation and a
  versioned update leave, which item a worker gets and for how long, and what finishing it does.
\<close>

section \<open>Authorization and records\<close>

text \<open>
  Authorization is exactly the scope policy: it succeeds if and only if the scope exists, the
  profile of the database allows it, and the actor is Sean or holds the scope, is a principal of a
  SHARED record, and does not write PERSONAL data; and it never changes the world.
\<close>

lemma authorize_exact:
  "(fst (authorize actor scope principals action w) = Inr ()) =
     (List.member SCOPES scope \<and> List.member (allowed_scopes (w_profile w)) scope \<and>
      (actor_is_sean actor \<or> List.member (actor_scopes actor) scope \<and>
        (if scope = ''SHARED'' then List.member principals (actor_id actor) else True) \<and>
        (if scope = ''PERSONAL'' \<and> action = ''write'' then actor_id actor = ''sean'' else True))) \<and>
   snd (authorize actor scope principals action w) = w"
  by (simp add: run_authorize denial_def split: option.split)

text \<open>
  C35. A creation either appends exactly one row, with a fresh id, version 1, the canonical payload
  and the actor as author, to a database that allows the actor to write the scope, and commits it;
  or it fails and leaves the committed records as they were, with no transaction's changes behind.
\<close>

theorem create_record_outcome:
  "case create_record actor entity_type scope payload nr w of
     (Inr i, v) \<Rightarrow> i = w_uuid w (w_fresh w) \<and> w_committed v = w_db v \<and>
       denial (w_profile w) actor (upper scope) (sort (remdups (nr_principals nr))) ''write'' = None \<and>
       (\<exists>r. db_records (w_db v) = db_records (w_db w) @ [r] \<and> rec_id r = i \<and>
          rec_type r = upper entity_type \<and> rec_scope r = upper scope \<and> rec_payload r = PDict (canon_dict payload) \<and>
          rec_version r = 1 \<and> rec_created_by r = actor_id actor)
   | (Inl e, v) \<Rightarrow> db_records (w_db v) = db_records (w_committed w) \<and> w_committed v = w_db v"
  using wp_create_record [of actor entity_type scope payload nr w]
  by (simp add: wp_def new_row_of_def split: prod.splits sum.splits)

lemma record_persists:
  assumes "reachable w" and "runs_to w w'" and "row_by rec_id i (db_records (w_committed w)) = Some r"
  shows "\<exists>r'. row_by rec_id i (db_records (w_db w')) = Some r' \<and> record_step r r'"
  using records.evo_row_by view_steps(1) [OF assms(1,2)] reachable_coherent [OF assms(1)] assms(3) by blast

lemma reachable_ids:
  assumes "reachable w"
  shows "distinct (map rec_id (db_records (w_db w)))" "distinct (map wk_id (db_work (w_db w)))"
  using reachable_ok [OF assms] by (auto simp: store_ok_def table_ok_def)

text \<open>
  C23. No lost update: after a successful update of version \<open>n\<close>, which produces version \<open>n + 1\<close>, no
  further update that expects version \<open>n\<close> succeeds in any world a run leads to, whoever tries.
\<close>

theorem no_lost_update:
  assumes "reachable w" and "update_record actor i payload n correlation w = (Inr m, v)" and "runs_to v w'"
  shows "m = n + 1 \<and> (\<nexists>k u. update_record actor2 i payload2 n correlation2 w' = (Inr k, u))"
proof
  have v: "reachable v"
    using reachable_step [OF assms(1) update_record_step [of w actor i payload n correlation]] assms(2)
    by (simp add: effect_def)
  from wp_result [OF assms(2) wp_update_record [OF reachable_ids(1) [OF assms(1)]]]
  obtain r where m: "m = n + 1" and r: "row_by rec_id i (db_records (w_committed v)) = Some r" "rec_version r = n + 1"
    by auto
  show "m = n + 1" by (rule m)
  obtain r' where r': "row_by rec_id i (db_records (w_db w')) = Some r'" "n < rec_version r'"
    using record_persists [OF v assms(3) r(1)] r(2) by (auto simp: record_step_def)
  have ids: "distinct (map rec_id (db_records (w_db w')))"
    by (rule reachable_ids [OF reachable_run [OF v assms(3)]])
  show "\<nexists>k u. update_record actor2 i payload2 n correlation2 w' = (Inr k, u)"
    using wp_result [OF _ wp_update_record [OF ids]] r' by fastforce
qed

theorem no_lost_update_witness:
  "demo_update demo_recorded = (Inr 2, demo_updated) \<and> (\<nexists>k u. demo_update demo_updated = (Inr k, u))"
  using no_lost_update [OF reachable_recorded demo_update_runs [unfolded demo_update_def] rtranclp.rtrancl_refl]
    demo_update_runs unfolding demo_update_def by blast

section \<open>The kill switch\<close>

text \<open>
  C31. While the kill switch is on, no worker gets anything: each of the four claim operations of the
  store returns no item, or raises, and changes nothing but the audit log.
\<close>

theorem kill_switch_stops_claims:
  assumes "switch_on (w_db w)"
  shows "refuses w (claim_work actor worker n) \<and> refuses w (claim_authorized_alert_delivery actor worker n) \<and>
    refuses w (claim_authorized_backup_transfer actor worker n) \<and>
    refuses w (claim_authorized_backup_restore actor worker n at_time)"
  using stopped_claims [OF assms] by blast

lemma demo_stopped_on: "switch_on (w_db demo_stopped)"
  using demo_stopped_row by (auto simp: switch_on_def split: option.splits)

theorem kill_switch_stops_claims_witness:
  "refuses demo_stopped (claim_work sean ''w'' 60) \<and> refuses demo_stopped (claim_authorized_alert_delivery sean ''w'' 60) \<and>
    refuses demo_stopped (claim_authorized_backup_transfer sean ''w'' 60) \<and>
    refuses demo_stopped (claim_authorized_backup_restore sean ''w'' 60 None)"
  by (rule kill_switch_stops_claims [OF demo_stopped_on])

section \<open>Leases\<close>

text \<open>The order of the queue: lowest priority number first, then first created.\<close>

lemma sorted_head:
  assumes "sorted (map f (x # xs))" and "y \<in> set (x # xs)"
  shows "f x \<le> f y"
  using assms by auto

text \<open>
  The queue hands out the claimable item with the smallest priority number and, among those, the
  earliest creation time; it hands out nothing exactly if no item is claimable.
\<close>

lemma next_work_order:
  "case next_work stamp scopes rows of
     None \<Rightarrow> filter (claimable stamp scopes) rows = []
   | Some r \<Rightarrow> r \<in> set rows \<and> claimable stamp scopes r \<and>
       list_all (\<lambda>x. wk_priority r < wk_priority x \<or>
           wk_priority r = wk_priority x \<and> wk_created_at r \<le> wk_created_at x)
         (filter (claimable stamp scopes) rows)"
proof -
  let ?c = "filter (claimable stamp scopes) rows"
  let ?s = "sort_key wk_created_at ?c"
  show ?thesis
  proof (cases "sort_key wk_priority ?s")
    case Nil
    then have "?c = []" by (metis set_empty set_sort)
    then show ?thesis by (simp add: next_work_def order_by_def)
  next
    case (Cons r rs)
    then have hd: "next_work stamp scopes rows = Some r" by (simp add: next_work_def order_by_def)
    have set_s: "set (r # rs) = set ?c" by (simp flip: Cons)
    have in_c: "r \<in> set ?c" using set_s by auto
    have first: "wk_priority r < wk_priority x \<or> wk_priority r = wk_priority x \<and> wk_created_at r \<le> wk_created_at x"
      if x: "x \<in> set ?c" for x
    proof -
      have "sorted (map wk_priority (r # rs))" by (simp flip: Cons)
      from sorted_head [OF this] have p: "wk_priority r \<le> wk_priority x" using x set_s by auto
      show ?thesis
      proof (cases "wk_priority r = wk_priority x")
        case True
        let ?same = "filter (\<lambda>y. wk_priority y = wk_priority r)"
        have "?same (r # rs) = ?same ?s"
          using sort_key_stable [of wk_priority "wk_priority r" ?s] by (simp add: Cons)
        moreover have "sorted (map wk_created_at (?same ?s))"
          by (simp add: sorted_filter)
        ultimately have "sorted (map wk_created_at (r # ?same rs))" by simp
        moreover have "x \<in> set (r # ?same rs)" using x set_s True by auto
        ultimately have "wk_created_at r \<le> wk_created_at x" by (rule sorted_head)
        then show ?thesis using True by simp
      next
        case False
        then show ?thesis using p by simp
      qed
    qed
    show ?thesis unfolding hd using in_c first by (auto simp: list_all_iff)
  qed
qed

text \<open>
  C32. A claim leases exactly the item the queue selects: the claimed row is that item, now running,
  owned by the worker, with one more attempt and a lease that ends the given number of seconds after
  the claim; it is committed. Without an item, no row gets an owner, and a failure changes no row.
\<close>

theorem claim_work_leases_next:
  assumes "reachable w"
  shows "case claim_work actor worker n w of
      (Inl e, v) \<Rightarrow> db_work (w_db v) = db_work (w_db w) \<and> w_committed v = w_committed w
    | (Inr None, v) \<Rightarrow> w_committed v = w_db v \<and> map wk_owner (db_work (w_db v)) = map wk_owner (db_work (w_db w))
    | (Inr (Some c), v) \<Rightarrow> w_committed v = w_db v \<and> \<not> switch_on (w_db w) \<and>
        row_by wk_id (wk_id c) (db_work (w_db v)) = Some c \<and>
        (\<exists>r. next_work (iso_utc (w_clock w (w_tick w))) (claim_scopes actor) (db_work (w_db w)) = Some r \<and>
          c = r\<lparr>wk_status := WK_RUNNING, wk_owner := Some worker,
            wk_lease := Some (iso_utc (w_clock w (Suc (w_tick w)) + seconds n)),
            wk_attempts := wk_attempts r + 1, wk_updated_at := iso_utc (w_clock w (w_tick w))\<rparr>)"
  using wp_claim_work [OF reachable_ids(2) [OF assms], of actor worker n]
  by (auto simp: wp_def leased_def split: prod.splits sum.splits option.splits)

theorem claim_work_leases_next_witness:
  "case demo_claim demo_queued of
      (Inl e, v) \<Rightarrow> db_work (w_db v) = db_work (w_db demo_queued) \<and> w_committed v = w_committed demo_queued
    | (Inr None, v) \<Rightarrow> w_committed v = w_db v \<and>
        map wk_owner (db_work (w_db v)) = map wk_owner (db_work (w_db demo_queued))
    | (Inr (Some c), v) \<Rightarrow> w_committed v = w_db v \<and> \<not> switch_on (w_db demo_queued) \<and>
        row_by wk_id (wk_id c) (db_work (w_db v)) = Some c \<and>
        (\<exists>r. next_work (iso_utc (w_clock demo_queued (w_tick demo_queued))) (claim_scopes sean)
            (db_work (w_db demo_queued)) = Some r \<and>
          c = r\<lparr>wk_status := WK_RUNNING, wk_owner := Some ''w'',
            wk_lease := Some (iso_utc (w_clock demo_queued (Suc (w_tick demo_queued)) + seconds 60)),
            wk_attempts := wk_attempts r + 1, wk_updated_at := iso_utc (w_clock demo_queued (w_tick demo_queued))\<rparr>)"
  using claim_work_leases_next [OF reachable_queued] unfolding demo_claim_def .

text \<open>
  C5. A lease is exclusive until it ends: while the clock is before the end of the lease of a running
  item, no claim, by whatever worker, returns that item.
\<close>

theorem lease_exclusive:
  assumes "reachable w" and "row_by wk_id i (db_work (w_db w)) = Some r" and "wk_status r = WK_RUNNING"
    and "wk_lease r = Some (iso_utc until)" and "until < max_instant"
    and "0 \<le> w_clock w (w_tick w)" and "w_clock w (w_tick w) < until"
  shows "\<nexists>c v. claim_work actor worker n w = (Inr (Some c), v) \<and> wk_id c = i"
proof
  let ?stamp = "iso_utc (w_clock w (w_tick w))"
  assume "\<exists>c v. claim_work actor worker n w = (Inr (Some c), v) \<and> wk_id c = i"
  then obtain c v where run: "claim_work actor worker n w = (Inr (Some c), v)" and i: "wk_id c = i" by blast
  note ids = reachable_ids(2) [OF assms(1)]
  from wp_result [OF run wp_claim_work [OF ids]] obtain x
    where x: "next_work ?stamp (claim_scopes actor) (db_work (w_db w)) = Some x" "wk_id c = wk_id x"
    by (auto simp: leased_def)
  have "x \<in> set (db_work (w_db w))" "claimable ?stamp (claim_scopes actor) x"
    using next_work_claimable [OF x(1)] by auto
  then have "x = r" using row_by_unique [OF ids] assms(2) i x(2) by fastforce
  then have "iso_utc until \<le> ?stamp"
    using \<open>claimable _ _ x\<close> assms(3,4) by (simp add: claimable_def lease_expired_def)
  moreover have "?stamp < iso_utc until" using iso_utc_less assms by simp
  ultimately show False by simp
qed

lemma demo_item_lease: "wk_lease demo_item = Some (iso_utc 64000000)"
  unfolding demo_item_def by code_simp

theorem lease_exclusive_witness:
  "\<nexists>c v. claim_work sean ''other'' 60 demo_leased = (Inr (Some c), v) \<and> wk_id c = ''id-0''"
  by (rule lease_exclusive [OF reachable_leased _ _ demo_item_lease])
    (use demo_lease_facts in \<open>simp_all add: lease_view_def table_simps demo_item_def max_instant_def usec_of_day_def\<close>)

text \<open>
  C33. Only the holder of the lease fails an item, and the failure is committed: the item is queued
  again with the scrubbed error, or is a dead letter once its attempts are used up; in both cases the
  lease is gone. Any other failure of the call commits nothing.
\<close>

theorem fail_work_outcome:
  assumes "reachable w"
  shows "case fail_work actor i worker error n w of
      (Inl e, v) \<Rightarrow> w_committed v = w_committed w
    | (Inr s, v) \<Rightarrow> w_committed v = w_db v \<and> (\<exists>r available stamp.
        row_by wk_id i (db_work (w_db w)) = Some r \<and> wk_status r = WK_RUNNING \<and> wk_owner r = Some worker \<and>
        s = (if wk_max r \<le> wk_attempts r then WK_DEAD_LETTER else WK_QUEUED) \<and>
        row_by wk_id i (db_work (w_db v)) = Some (r\<lparr>wk_status := s, wk_available_at := available,
          wk_owner := None, wk_lease := None, wk_error := Some (safe_persisted_text error), wk_updated_at := stamp\<rparr>))"
  using wp_fail_work [OF reachable_ids(2) [OF assms], of actor i worker error n]
  by (auto simp: wp_def failed_def held_by_def split: prod.splits sum.splits; blast)

theorem fail_work_outcome_witness:
  "case fail_work sean ''id-0'' ''w'' ''e'' 5 demo_leased of
      (Inl e, v) \<Rightarrow> w_committed v = w_committed demo_leased
    | (Inr s, v) \<Rightarrow> w_committed v = w_db v \<and> (\<exists>r available stamp.
        row_by wk_id ''id-0'' (db_work (w_db demo_leased)) = Some r \<and> wk_status r = WK_RUNNING \<and> wk_owner r = Some ''w'' \<and>
        s = (if wk_max r \<le> wk_attempts r then WK_DEAD_LETTER else WK_QUEUED) \<and>
        row_by wk_id ''id-0'' (db_work (w_db v)) = Some (r\<lparr>wk_status := s, wk_available_at := available,
          wk_owner := None, wk_lease := None, wk_error := Some (safe_persisted_text ''e''), wk_updated_at := stamp\<rparr>))"
  by (rule fail_work_outcome [OF reachable_leased])

text \<open>
  Only the holder of the lease completes an item; the committed item is then succeeded, holds the
  canonical result, and has neither owner nor lease. A failing call commits no change of any item.
\<close>

lemma complete_work_outcome:
  assumes "reachable w"
  shows "case complete_work actor i worker result w of
      (Inl e, v) \<Rightarrow> db_work (w_committed v) = db_work (w_committed w) \<or>
        w_committed v = w_db v \<and> db_work (w_db v) = db_work (w_db w)
    | (Inr x, v) \<Rightarrow> w_committed v = w_db v \<and> (\<exists>r stamp.
        row_by wk_id i (db_work (w_db w)) = Some r \<and> wk_status r = WK_RUNNING \<and> wk_owner r = Some worker \<and>
        row_by wk_id i (db_work (w_db v)) = Some (r\<lparr>wk_status := WK_SUCCEEDED,
          wk_payload := PDict (canon_dict result), wk_owner := None, wk_lease := None, wk_updated_at := stamp\<rparr>))"
  using wp_complete_work [OF reachable_ids(2) [OF assms], of actor i worker result]
  by (auto simp: wp_def held_by_def split: prod.splits sum.splits; blast)

lemma complete_work_outcome_witness:
  "case complete_work sean ''id-0'' ''w'' [(''ok'', PBool True)] demo_leased of
      (Inl e, v) \<Rightarrow> db_work (w_committed v) = db_work (w_committed demo_leased) \<or>
        w_committed v = w_db v \<and> db_work (w_db v) = db_work (w_db demo_leased)
    | (Inr x, v) \<Rightarrow> w_committed v = w_db v \<and> (\<exists>r stamp.
        row_by wk_id ''id-0'' (db_work (w_db demo_leased)) = Some r \<and> wk_status r = WK_RUNNING \<and> wk_owner r = Some ''w'' \<and>
        row_by wk_id ''id-0'' (db_work (w_db v)) = Some (r\<lparr>wk_status := WK_SUCCEEDED,
          wk_payload := PDict (canon_dict [(''ok'', PBool True)]), wk_owner := None, wk_lease := None,
          wk_updated_at := stamp\<rparr>))"
  by (rule complete_work_outcome [OF reachable_leased])

section \<open>Budgets\<close>

lemma only_budget:
  assumes "distinct (map budget_key bs)" and "row_by budget_key k bs = Some b"
  shows "list_all (\<lambda>x. budget_key x = k \<longrightarrow> P x) bs = P b"
proof -
  have "x = b" if "x \<in> set bs" "budget_key x = k" for x
    using row_by_unique [OF assms(1) that(1)] that(2) assms(2) by simp
  then show ?thesis using row_by_SomeD [OF assms(2)] by (auto simp: list_all_iff)
qed

lemma wp_only_budget:
  assumes "distinct (map budget_key (db_budgets (w_db w)))"
    and "row_by budget_key (s, p) (db_budgets (w_db w)) = Some b" and "budget_ok (f b)"
    and "\<And>x. budget_key (f x) = budget_key x"
    and "\<And>v. row_by budget_key (s, p) (db_budgets (w_db v)) = Some (f b) \<Longrightarrow> Q () v"
  shows "wp (update_budget s p f) Q E w"
proof -
  have "row_by budget_key (s, p) (update_where (\<lambda>x. budget_key x = (s, p)) f (db_budgets (w_db w))) = Some (f b)"
    using assms(2) by (subst row_by_update_where) (auto simp: assms(4) dest: row_by_SomeD)
  then show ?thesis
    using assms(3) by (simp add: wp_update_budget only_budget [OF assms(1,2)] assms(5))
qed

lemma real_ok_int: "0 \<le> n \<Longrightarrow> real_ok (Fin (of_int n))"
  by (simp add: real_ok_def)

text \<open>
  C34. Settling conserves cost units as long as they are whole numbers that doubles represent: the
  reserved units of the reservation leave the reserved total and, if consumed, enter the used total,
  nothing is created or lost, the reservation is gone, and the operation cannot fail.
\<close>

theorem settle_cost_conserves:
  assumes "distinct (map budget_key (db_budgets (w_db w)))"
    and "row_by rs_work i (db_reservations (w_db w)) = Some r"
    and "row_by budget_key (rs_scope r, rs_period r) (db_budgets (w_db w)) = Some b"
    and "rs_units r = Fin (of_int n)" and "bg_reserved b = Fin (of_int p)" and "bg_used b = Fin (of_int q)"
    and "real_ok (bg_limit b)" and "0 \<le> n" and "n \<le> p" and "0 \<le> q" and "p + q \<le> 2 ^ 53"
  shows "case settle_cost i consume w of (Inl e, v) \<Rightarrow> False
    | (Inr x, v) \<Rightarrow> row_by rs_work i (db_reservations (w_db v)) = None \<and>
        (\<exists>c. row_by budget_key (rs_scope r, rs_period r) (db_budgets (w_db v)) = Some c \<and>
          bg_limit c = bg_limit b \<and> bg_reserved c = Fin (of_int (p - n)) \<and>
          bg_used c = Fin (of_int (if consume then q + n else q)))"
proof -
  have f: "fsub (bg_reserved b) (rs_units r) = Fin (of_int (p - n))" "fadd (bg_used b) (rs_units r) = Fin (of_int (q + n))"
    using fsub_int [of p n] fadd_int [of q n] assms by auto
  have ok: "real_ok (Fin (of_int (p - n)))" "real_ok (Fin (of_int q))" "real_ok (Fin (of_int (q + n)))"
    by (intro real_ok_int; use assms(8-10) in simp)+
  have gone: "row_by rs_work i (filter (\<lambda>x. rs_work x \<noteq> i) xs) = None" for xs
    by (auto simp: row_by_None_iff)
  have "wp (settle_cost i consume)
      (\<lambda>_ v. row_by rs_work i (db_reservations (w_db v)) = None \<and>
        (\<exists>c. row_by budget_key (rs_scope r, rs_period r) (db_budgets (w_db v)) = Some c \<and>
          bg_limit c = bg_limit b \<and> bg_reserved c = Fin (of_int (p - n)) \<and>
          bg_used c = Fin (of_int (if consume then q + n else q)))) (\<lambda>_ _. False) w"
    unfolding settle_cost_def wp_bind wp_seq wp_table assms(2) option.case
    using f ok assms(6,7)
    by (cases consume; simp add: wp_bind wp_seq wp_now;
        intro wp_only_budget [where b = b]; simp add: assms(1,3) budget_key_def budget_ok_def py_wp gone)
  then show ?thesis unfolding wp_def .
qed

definition budget_of :: "pyfloat \<Rightarrow> budget_row" where
  "budget_of reserved = \<lparr>bg_scope = ''IAC'', bg_period = ''2026-01'', bg_limit = Fin 100, bg_used = Fin 0,
     bg_reserved = reserved, bg_updated_at = []\<rparr>"

definition reservation_of :: "string \<Rightarrow> pyfloat \<Rightarrow> reservation_row" where
  "reservation_of work units = \<lparr>rs_work = work, rs_scope = ''IAC'', rs_period = ''2026-01'', rs_units = units,
     rs_created_at = []\<rparr>"

definition with_budget :: "pyfloat \<Rightarrow> reservation_row list \<Rightarrow> world" where
  "with_budget reserved held = demo_start\<lparr>w_db := (w_db demo_start)
     \<lparr>db_budgets := [budget_of reserved], db_reservations := held\<rparr>\<rparr>"

lemma budget_view [simp]:
  "db_budgets (w_db (with_budget p held)) = [budget_of p]" "db_reservations (w_db (with_budget p held)) = held"
  "budget_key (budget_of p) = (''IAC'', ''2026-01'')" "bg_limit (budget_of p) = Fin 100"
  "bg_used (budget_of p) = Fin 0" "bg_reserved (budget_of p) = p"
  "rs_work (reservation_of i u) = i" "rs_scope (reservation_of i u) = ''IAC''"
  "rs_period (reservation_of i u) = ''2026-01''" "rs_units (reservation_of i u) = u"
  by (simp_all add: with_budget_def budget_of_def reservation_of_def budget_key_def)

theorem settle_cost_conserves_witness:
  "case settle_cost ''a'' True (with_budget (Fin 5) [reservation_of ''a'' (Fin 3)]) of (Inl e, v) \<Rightarrow> False
    | (Inr x, v) \<Rightarrow> row_by rs_work ''a'' (db_reservations (w_db v)) = None \<and>
        (\<exists>c. row_by budget_key (''IAC'', ''2026-01'') (db_budgets (w_db v)) = Some c \<and>
          bg_limit c = Fin 100 \<and> bg_reserved c = Fin 2 \<and> bg_used c = Fin 3)"
  using settle_cost_conserves [of "with_budget (Fin 5) [reservation_of ''a'' (Fin 3)]" "''a''"
      "reservation_of ''a'' (Fin 3)" "budget_of (Fin 5)" 3 5 0 True]
  by (simp add: table_simps real_ok_def cong del: prod.case_cong_weak sum.case_cong_weak)

text \<open>The reservations of two items, of 0.1 and 0.4 units, as the claims leave them.\<close>

definition tenth :: pyfloat where
  "tenth = dbl (1 / 10)"

definition two_fifths :: pyfloat where
  "two_fifths = dbl (2 / 5)"

definition drifting :: world where
  "drifting = with_budget (fadd tenth two_fifths) [reservation_of ''a'' tenth, reservation_of ''b'' two_fifths]"

lemma drift_values:
  "fadd tenth two_fifths = Fin (1 / 2)"
  "fsub (Fin (1 / 2)) two_fifths = Fin (900719925474099 / 9007199254740992)"
  "fadd (Fin 0) two_fifths = two_fifths"
  "fadd two_fifths tenth = Fin (1 / 2)"
  "fsub (Fin (900719925474099 / 9007199254740992)) tenth = Fin (- (1 / 36028797018963968))"
  "fle (Fin 0) two_fifths"
  by code_simp+


section \<open>Approval expiry\<close>

text \<open>
  C37. An approval whose expiry is written in UTC is consumed only before it expires: if the
  consumption succeeds at the clock's time, that instant is before the expiry.
\<close>

theorem approval_not_expired:
  assumes "consume_approval actor i action_type target None scope conditions do_commit w = (Inr (), v)"
    and "row_by ap_id i (db_approvals (w_db w)) = Some r" and "ap_expires_at r = iso_utc e"
    and "0 \<le> e" and "w_clock w (w_tick w) < max_instant"
  shows "w_clock w (w_tick w) < e"
proof (rule ccontr)
  assume "\<not> ?thesis"
  then have "iso_utc e \<le> iso_utc (w_clock w (w_tick w))"
    using iso_utc_less [of e "w_clock w (w_tick w)"] assms(4,5) by (cases "e = w_clock w (w_tick w)") auto
  moreover have "iso_utc (w_clock w (w_tick w)) < ap_expires_at r"
    using wp_result [OF assms(1) wp_consume_approval] assms(2)
    by (auto simp: grants_def gate_time_def text_or_def)
  ultimately show False using assms(3) by simp
qed

lemma demo_expiry: "ap_expires_at demo_approval = iso_utc 86400000000"
  unfolding demo_approval_def by code_simp

theorem approval_not_expired_witness:
  "w_clock demo_granted (w_tick demo_granted) < 86400000000"
  by (rule approval_not_expired [OF demo_consumed [unfolded demo_consume_def] _ demo_expiry])
    (use demo_granted_facts in \<open>simp_all add: approval_view_def table_simps demo_approval_def max_instant_def
      usec_of_day_def\<close>)


end
