(* ===== verification/Runtime_Behaviour.thy ===== *)
theory Runtime_Behaviour
  imports Store_Behaviour Runtime_Policy
begin

text \<open>
  What the policy gate does: an action runs only if it is permitted, and at most once.
\<close>

section \<open>The policy gate\<close>

lemma wp_gate_or_denied:
  "wp (try_except (policy_gate reg actor work) (gate_denied actor work))
    (\<lambda>(p, h, payload, units) v. policy_for reg (request_type work) = Inr (p, h) \<and> permitted w actor work p payload)
    (\<lambda>e v. True) w"
  unfolding wp_try_except
  by (rule wp_mono [OF wp_policy_gate])
    (auto simp: gate_denied_def record_policy_decision_def py_wp split: option.splits)

definition stored :: "string \<Rightarrow> world \<Rightarrow> bool" where
  "stored i v \<longleftrightarrow> row_by ex_work i (db_executions (w_committed v)) \<noteq> None"

lemma wp_store_result:
  assumes "given (rq_id work) = Some i"
  shows "wp (run_handler actor work p h payload units) (\<lambda>r v. stored i v) (\<lambda>e v. True) w"
proof -
  have "wp (seq (record_action_result actor i (pol_name p) result) (ret (PDict result)))
      (\<lambda>r v. stored i v) (\<lambda>e v. True) v" for result v
    unfolding wp_seq wp_ret stored_def
    by (rule wp_mono [OF wp_record_result]) (auto split: option.splits)
  then show ?thesis
    unfolding run_handler_def assms option.case
    by (intro wp_step_seq_any [where m = "record_policy_decision a b c d e" for a b c d e] wp_step_any TrueI)
qed

lemma wp_execute_new:
  assumes "case given (rq_id work) of None \<Rightarrow> True | Some i \<Rightarrow> row_by ex_work i (db_executions (w_db w)) = None"
  shows "wp (execute reg actor work) Q E w =
    wp (bind (try_except (policy_gate reg actor work) (gate_denied actor work))
      (\<lambda>(p, h, payload, units). run_handler actor work p h payload units)) Q E w"
  unfolding execute_def
  by (subst wp_bind) (use assms in \<open>simp add: completed_action_result_def wp_bind [of "table f" for f] wp_table wp_ret
    split: option.splits\<close>)

lemma wp_run_handler:
  "wp (run_handler actor work p h payload units)
    (\<lambda>r v. case given (rq_id work) of None \<Rightarrow> True | Some i \<Rightarrow> stored i v) (\<lambda>e v. True) w"
  by (cases "given (rq_id work)") (simp_all add: wp_store_result, simp add: wp_def split: prod.splits sum.splits)

lemma wp_new_execution:
  assumes "case given (rq_id work) of None \<Rightarrow> True | Some i \<Rightarrow> row_by ex_work i (db_executions (w_db w)) = None"
  shows "wp (execute reg actor work)
    (\<lambda>r v. (\<exists>p h payload. policy_for reg (request_type work) = Inr (p, h) \<and> permitted w actor work p payload) \<and>
      (case given (rq_id work) of None \<Rightarrow> True | Some i \<Rightarrow> stored i v)) (\<lambda>e v. True) w"
  unfolding wp_execute_new [OF assms] wp_bind
proof (rule wp_mono [OF wp_gate_or_denied], goal_cases)
  case (1 x v)
  then show ?case by (cases x) (auto intro: wp_mono [OF wp_run_handler])
qed simp

lemma wp_replay:
  assumes "given (rq_id work) = Some i" and "row_by ex_work i (db_executions (w_db w)) = Some row"
  shows "wp (execute reg actor work)
    (\<lambda>r v. ex_type row = request_type work \<and> r = ex_result row \<and> audited_only (w_db w) (w_db v) \<and> w_committed v = w_db v)
    (\<lambda>e v. ex_type row \<noteq> request_type work \<and> v = w) w"
  using assms by (simp add: execute_def completed_action_result_def record_policy_decision_def py_wp)

lemma audited_executions: "audited_only d d' \<Longrightarrow> db_executions d' = db_executions d"
  unfolding audited_only_def by (erule ssubst) simp

lemma execute_stored:
  assumes "execute reg actor work w = (Inr r, v)" and "given (rq_id work) = Some i"
  shows "stored i v"
proof (cases "row_by ex_work i (db_executions (w_db w))")
  case None
  then show ?thesis using wp_result [OF assms(1) wp_new_execution] assms(2) by simp
next
  case (Some row)
  from wp_result [OF assms(1) wp_replay [OF assms(2) Some]] show ?thesis
    using Some audited_executions by (fastforce simp: stored_def)
qed

text \<open>
  C7. An action that returns a result was permitted: either its durable result was already stored
  and is returned, or the kill switch was off, a policy for its type was registered and not
  prohibited, its scope and cost fit the policy, and, if the policy needs approval, which every
  policy with an external or irreversible effect does, an approval in the queue granted exactly
  this action, target and scope to this actor at this time.
\<close>

theorem action_permitted:
  "case execute reg actor work w of (Inl e, v) \<Rightarrow> True
   | (Inr r, v) \<Rightarrow>
      (\<exists>i row. given (rq_id work) = Some i \<and> row_by ex_work i (db_executions (w_db w)) = Some row \<and> r = ex_result row) \<or>
      (\<exists>p h payload. policy_for reg (request_type work) = Inr (p, h) \<and> permitted w actor work p payload)"
proof (cases "\<exists>i row. given (rq_id work) = Some i \<and> row_by ex_work i (db_executions (w_db w)) = Some row")
  case True
  then obtain i row where "given (rq_id work) = Some i" "row_by ex_work i (db_executions (w_db w)) = Some row" by blast
  from wp_replay [OF this, of reg actor] this show ?thesis by (auto simp: wp_def split: prod.splits sum.splits)
next
  case False
  then have "case given (rq_id work) of None \<Rightarrow> True | Some i \<Rightarrow> row_by ex_work i (db_executions (w_db w)) = None"
    by (auto split: option.splits)
  from wp_new_execution [OF this, of reg actor] show ?thesis by (auto simp: wp_def split: prod.splits sum.splits)
qed

lemma execution_persists:
  assumes "reachable w" and "runs_to w w'" and "row_by ex_work i (db_executions (w_committed w)) = Some r"
  shows "row_by ex_work i (db_executions (w_db w')) = Some r"
proof -
  obtain rows where "db_executions (w_db w') = db_executions (w_committed w) @ rows"
    using view_steps(5) [OF assms(1,2)] reachable_coherent [OF assms(1)] by (auto simp: prefix_def)
  then show ?thesis using assms(3) by (simp add: table_simps)
qed

text \<open>
  C6. A work item is executed at most once: after a successful execution of an item, every later
  execution of it, in any world a run leads to, with any registry and by any actor, runs no handler:
  it changes nothing but the audit log and returns the stored result, or raises because the type of
  the stored action differs and changes nothing at all.
\<close>

theorem action_at_most_once:
  assumes "execute reg actor work w = (Inr r, v)" and "given (rq_id work) = Some i"
    and "reachable v" and "runs_to v w'" and "given (rq_id work2) = Some i"
  shows "\<exists>row. row_by ex_work i (db_executions (w_db w')) = Some row \<and>
    (case execute reg2 actor2 work2 w' of
       (Inl e, u) \<Rightarrow> ex_type row \<noteq> request_type work2 \<and> u = w'
     | (Inr r2, u) \<Rightarrow> r2 = ex_result row \<and> audited_only (w_db w') (w_db u))"
proof -
  obtain row where "row_by ex_work i (db_executions (w_committed v)) = Some row"
    using execute_stored [OF assms(1,2)] by (auto simp: stored_def)
  then have row: "row_by ex_work i (db_executions (w_db w')) = Some row"
    by (rule execution_persists [OF assms(3,4)])
  with wp_replay [OF assms(5) row, of reg2 actor2] show ?thesis
    by (auto simp: wp_def split: prod.splits sum.splits)
qed

definition demo_request :: action_request where
  "demo_request = \<lparr>rq_id = Some ''id-0'', rq_type = Some ''NOOP'', rq_scope = Some ''IAC'', rq_payload = Some (PDict [])\<rparr>"

definition demo_executed :: world where
  "demo_executed = effect (execute default_registry sean demo_request) demo_leased"

definition noop_result :: pydict where
  "noop_result = [(''ok'', PBool True), (''echo'', PDict [])]"

definition demo_decision :: "unit py" where
  "demo_decision = record_policy_decision sean (Some ''id-0'') True ''Registered action policy satisfied''
     [(''task_type'', PStr ''NOOP''), (''tool'', PStr ''registered_handler''), (''cost_units'', PFloat (Fin 0)),
      (''evidence'', PList []), (''rollback_status'', PStr ''AVAILABLE''), (''outcome'', PStr ''AUTHORIZED'')]"

lemma demo_registry:
  "policy_for default_registry ''NOOP'' = Inr (noop_policy, noop_handler)"
  by (simp add: policy_for_def entry_for_def default_registry_def register_def noop_policy_def)

lemma demo_estimate: "estimated_cost (PDict []) = Inr (Fin 0)" "cost_refusal noop_policy (Fin 0) = None"
  by code_simp+

lemma demo_gate:
  "policy_gate default_registry sean demo_request demo_leased = (Inr (noop_policy, noop_handler, PDict [], Fin 0), demo_leased)"
  unfolding policy_gate_def
  using demo_gate_facts
  by (auto simp: py_run table_def kill_switch_enabled_def demo_request_def request_type_def demo_registry need_key_def
      demo_estimate payload_get_def split: option.splits) (simp_all add: noop_policy_def)

lemma demo_execute:
  "execute default_registry sean demo_request demo_leased =
     (case effect demo_decision demo_leased of w \<Rightarrow>
      case record_action_result sean ''id-0'' ''NOOP'' noop_result w of
        (Inl e, v) \<Rightarrow> (Inl e, v) | (Inr x, v) \<Rightarrow> (Inr (PDict noop_result), v))"
proof -
  have id: "given (Some ''id-0'') = Some ''id-0''" "rq_id demo_request = Some ''id-0''"
    by (simp_all add: demo_request_def given_def)
  have new_item: "completed_action_result ''id-0'' t demo_leased = (Inr None, demo_leased)" for t
    using demo_gate_facts by (simp add: completed_action_result_def py_run table_def table_simps)
  have handle: "run_handler sean demo_request noop_policy noop_handler (PDict []) (Fin 0) =
      seq demo_decision (seq (record_action_result sean ''id-0'' ''NOOP'' noop_result) (ret (PDict noop_result)))"
    by (simp add: run_handler_def id demo_decision_def id_evidence_def noop_policy_def noop_handler_def noop_result_def
        given_def bind_def ret_def seq_def)
  show ?thesis
    by (simp add: execute_def id new_item run_bind run_try_except demo_gate handle)
      (simp add: demo_decision_def record_policy_decision_def effect_def run_seq run_audit run_ret
        split: prod.splits sum.splits)
qed

lemma demo_result_clean: "secret_findings (PDict noop_result) = []"
  unfolding noop_result_def by code_simp

lemma demo_recording:
  "wp (record_action_result sean ''id-0'' ''NOOP'' noop_result) (\<lambda>_ _. True) (\<lambda>_ _. False) (effect demo_decision demo_leased)"
proof -
  have db: "db_executions (w_db demo_leased) = []" "db_work (w_db demo_leased) = [demo_item]"
    using demo_gate_facts demo_lease_facts by (simp_all add: lease_view_def)
  have item: "wk_id demo_item = ''id-0''" "wk_payload demo_item = PDict []" by (simp_all add: demo_item_def)
  show ?thesis
    unfolding record_action_result_def
    by (simp add: demo_result_clean effect_def demo_decision_def record_policy_decision_def run_audit py_wp db item
        demo_estimate table_simps)
qed

lemma demo_execute_runs: "execute default_registry sean demo_request demo_leased = (Inr (PDict noop_result), demo_executed)"
  using demo_recording unfolding demo_executed_def effect_def [of "execute r a q" for r a q] demo_execute
  by (simp add: wp_def split: prod.splits sum.splits)

lemma reachable_executed: "reachable demo_executed"
proof -
  have "reachable (effect demo_decision demo_leased)"
    unfolding demo_decision_def by (rule reachable_step [OF reachable_leased record_policy_decision_step])
  then have "reachable (effect (record_action_result sean ''id-0'' ''NOOP'' noop_result) (effect demo_decision demo_leased))"
    by (rule reachable_step [OF _ record_action_result_step])
  then show ?thesis
    using demo_execute_runs unfolding demo_execute
    by (auto simp: effect_def [of "record_action_result a i t r" for a i t r] split: prod.splits sum.splits)
qed

theorem action_at_most_once_witness:
  "\<exists>row. row_by ex_work ''id-0'' (db_executions (w_db demo_executed)) = Some row \<and>
    (case execute default_registry sean demo_request demo_executed of
       (Inl e, u) \<Rightarrow> ex_type row \<noteq> request_type demo_request \<and> u = demo_executed
     | (Inr r2, u) \<Rightarrow> r2 = ex_result row \<and> audited_only (w_db demo_executed) (w_db u))"
  by (rule action_at_most_once [OF demo_execute_runs _ reachable_executed rtranclp.rtrancl_refl])
    (simp_all add: demo_request_def given_def)

end
