(* ===== verification/Interface_Behaviour.thy ===== *)
theory Interface_Behaviour
  imports Store_Behaviour
begin

text \<open>
  What the interfaces in front of the store do: the scheduler dispatches once per local period,
  the gateway queues a request once, and the bridge accepts only what its contract allows.
\<close>

section \<open>The scheduler\<close>

lemma schedules_day: "t div usec_of_day = t2 div usec_of_day \<Longrightarrow> schedules t = schedules t2"
  by (simp add: schedules_def day_key_def week_key_def weekday_def)

definition dispatched :: "schedule \<Rightarrow> db \<Rightarrow> bool" where
  "dispatched s d = (case s of (name, period, rest) \<Rightarrow> row_by dispatch_key (name, period) (db_dispatches d) \<noteq> None)"

lemma dispatched_prefix: "dispatched s d \<Longrightarrow> prefix (db_dispatches d) (db_dispatches d') \<Longrightarrow> dispatched s d'"
  by (auto simp: dispatched_def prefix_def table_simps split: prod.splits option.splits)

lemma wp_dispatch_schedule:
  "wp (dispatch_schedule actor s)
    (\<lambda>x v. w_committed v = w_db v \<and> dispatched s (w_db v) \<and> prefix (db_dispatches (w_db w)) (db_dispatches (w_db v)) \<and>
       (x \<noteq> None \<longrightarrow> \<not> dispatched s (w_db w)) \<and> (x = None \<longrightarrow> w_db v = w_db w))
    (\<lambda>e v. w_committed v = w_committed w) w"
proof (cases s)
  case (fields name period task payload priority)
  show ?thesis
    unfolding fields dispatch_schedule_def prod.case
    by (rule wp_mono [OF wp_dispatch_once]) (auto simp: dispatched_def table_simps split: option.splits)
qed

lemma wp_dispatch_all:
  "wp (collect ss (dispatch_schedule actor))
    (\<lambda>xs v. (ss \<noteq> [] \<or> w_committed w = w_db w \<longrightarrow> w_committed v = w_db v) \<and> (\<forall>s\<in>set ss. dispatched s (w_db v)) \<and>
       prefix (db_dispatches (w_db w)) (db_dispatches (w_db v)) \<and>
       ((\<forall>s\<in>set ss. dispatched s (w_db w)) \<longrightarrow> List.map_filter id xs = [] \<and> w_db v = w_db w))
    (\<lambda>e v. (\<forall>s\<in>set ss. dispatched s (w_db w)) \<longrightarrow> w_committed v = w_committed w \<or> w_committed v = w_db w) w"
proof (induction ss arbitrary: w)
  case Nil
  then show ?case by (simp add: py_wp map_filter_simps)
next
  case (Cons s ss)
  show ?case
    unfolding collect.simps wp_bind wp_ret
    by (rule wp_mono [OF wp_dispatch_schedule], rule wp_mono [OF Cons.IH])
      (auto simp: map_filter_simps id_def intro: dispatched_prefix)
qed

definition tick_instant :: "world \<Rightarrow> instant option \<Rightarrow> instant" where
  "tick_instant w at_time = (case at_time of None \<Rightarrow> w_clock w (w_tick w) | Some t \<Rightarrow> t)"

lemma schedules_nonempty [simp]: "schedules t \<noteq> []"
  by (simp add: schedules_def Let_def)

lemma wp_scheduler_tick:
  assumes "ss = schedules (tick_instant w at_time + offset (tick_instant w at_time))"
  shows "wp (scheduler_tick offset actor at_time)
    (\<lambda>ids v. w_committed v = w_db v \<and> (\<forall>s\<in>set ss. dispatched s (w_db v)) \<and>
       ((\<forall>s\<in>set ss. dispatched s (w_db w)) \<longrightarrow> ids = [] \<and> w_db v = w_db w))
    (\<lambda>e v. (\<forall>s\<in>set ss. dispatched s (w_db w)) \<longrightarrow> w_committed v = w_committed w \<or> w_committed v = w_db w) w"
  unfolding scheduler_tick_def assms
  by (cases at_time; simp add: wp_bind wp_now_instant wp_ret tick_instant_def; rule wp_mono [OF wp_dispatch_all]; simp add: py_wp)

text \<open>
  C9. The scheduler dispatches a local day once: after a successful tick, every later tick that falls
  on the same local day, by whatever actor and with whatever clock and time zone, in any world a run
  leads to, returns no new work item and changes nothing, or raises and commits no new change.
\<close>

theorem scheduler_once_per_day:
  assumes "reachable w" and "scheduler_tick offset actor at_time w = (Inr ids, v)" and "runs_to v w'"
    and "(tick_instant w at_time + offset (tick_instant w at_time)) div usec_of_day =
      (tick_instant w' at_time2 + offset2 (tick_instant w' at_time2)) div usec_of_day"
  shows "case scheduler_tick offset2 actor2 at_time2 w' of
      (Inl e, u) \<Rightarrow> w_committed u = w_committed w' \<or> w_committed u = w_db w'
    | (Inr ids2, u) \<Rightarrow> ids2 = [] \<and> w_db u = w_db w'"
proof -
  let ?ss = "schedules (tick_instant w' at_time2 + offset2 (tick_instant w' at_time2))"
  have v: "reachable v"
    using reachable_step [OF assms(1) interface_operation [OF scheduler_tick_step [of w offset actor at_time]]] assms(2)
    by (simp add: effect_def)
  have "w_committed v = w_db v \<and> (\<forall>s\<in>set ?ss. dispatched s (w_db v))"
    using wp_result [OF assms(2) wp_scheduler_tick [where ss = ?ss and w = w and at_time = at_time and offset = offset,
      OF schedules_day [OF assms(4) [symmetric]]]] by simp
  then have "\<forall>s\<in>set ?ss. dispatched s (w_db w')"
    using dispatched_prefix view_steps(12) [OF v assms(3)] reachable_coherent [OF v] by metis
  with wp_scheduler_tick [of ?ss w' at_time2 offset2 actor2, OF refl] show ?thesis
    by (auto simp: wp_def split: prod.splits sum.splits)
qed

definition demo_tick :: "string list py" where
  "demo_tick = scheduler_tick (\<lambda>t. 0) sean (Some 0)"

definition demo_ticked :: world where
  "demo_ticked = effect demo_tick demo_start"

lemma demo_tick_runs: "\<exists>ids. demo_tick demo_start = (Inr ids, demo_ticked)"
proof -
  have "\<not> isl (fst (demo_tick demo_start))" by code_simp
  then show ?thesis by (cases "fst (demo_tick demo_start)") (simp_all add: demo_ticked_def effect_def prod_eq_iff)
qed

theorem scheduler_once_per_day_witness:
  "case scheduler_tick (\<lambda>t. 0) sean (Some 1000) demo_ticked of
      (Inl e, u) \<Rightarrow> w_committed u = w_committed demo_ticked \<or> w_committed u = w_db demo_ticked
    | (Inr ids2, u) \<Rightarrow> ids2 = [] \<and> w_db u = w_db demo_ticked"
proof -
  obtain ids where "scheduler_tick (\<lambda>t. 0) sean (Some 0) demo_start = (Inr ids, demo_ticked)"
    using demo_tick_runs unfolding demo_tick_def by blast
  from scheduler_once_per_day [OF reachable_start this rtranclp.rtrancl_refl] show ?thesis
    by (simp add: tick_instant_def usec_of_day_def cong del: prod.case_cong_weak sum.case_cong_weak)
qed

section \<open>The gateway\<close>

lemma wp_command_status:
  "wp (command_status actor i) (\<lambda>s v. v = w \<and> row_by wk_id i (db_work (w_db w)) \<noteq> None) (\<lambda>e v. v = w) w"
  unfolding command_status_def by (intro wp_steps) (auto split: if_splits)

lemma wp_step_status:
  assumes "\<And>s. row_by wk_id i (db_work (w_db w)) \<noteq> None \<Longrightarrow> wp (f s) Q E w" and "\<And>e. E e w"
  shows "wp (bind (command_status actor i) f) Q E w"
  unfolding wp_bind by (rule wp_mono [OF wp_command_status]) (use assms in auto)

lemma wp_submit_again:
  assumes "row_by cq_external external (db_commands (w_db w)) = Some c"
  shows "wp (submit actor external command payload scope)
    (\<lambda>s v. v = w \<and> su_work s = cq_work c \<and> su_deduplicated s \<and>
       w_sha256 w (canonical_command (upper command) scope payload) = cq_sha256 c)
    (\<lambda>e v. v = w) w"
  unfolding submit_def
  by (intro wp_step_sha256 wp_step_status wp_steps) (use assms in \<open>auto\<close>)

definition queued_as :: "string \<Rightarrow> string \<Rightarrow> submission \<Rightarrow> db \<Rightarrow> bool" where
  "queued_as external digest s d \<longleftrightarrow> row_by wk_id (su_work s) (db_work d) \<noteq> None \<and>
     (\<exists>c. row_by cq_external external (db_commands d) = Some c \<and> cq_work c = su_work s \<and> cq_sha256 c = digest)"

lemma wp_step_delivery_request:
  assumes "\<And>v. db_commands (w_db v) = db_commands (w_db w) \<Longrightarrow> db_work (w_db v) = db_work (w_db w) \<Longrightarrow> wp n Q E v"
    and "\<And>e v. E e v"
  shows "wp (seq (insert_delivery_request e digest i stamp) n) Q E w"
  unfolding insert_delivery_request_def using assms by (simp add: py_wp)

lemma wp_queue_command:
  assumes "row_by cq_external external (db_commands (w_db w)) = None"
  shows "wp (queue_command actor external command scope spec payload digest request_id work_id stamp)
    (\<lambda>_ v. w_committed v = w_db v \<and> row_by wk_id work_id (db_work (w_db v)) \<noteq> None \<and>
      (\<exists>c. row_by cq_external external (db_commands (w_db v)) = Some c \<and> cq_work c = work_id \<and> cq_sha256 c = digest))
    (\<lambda>e v. True) w"
  unfolding queue_command_def
  by (intro wp_step_delivery_request wp_steps wp_step_seq_bind) (use assms in \<open>auto simp: table_simps py_wp split: option.split\<close>)

lemma wp_queue_new:
  assumes "row_by cq_external external (db_commands (w_db w)) = None"
  shows "wp (queue_new actor external command scope spec payload digest)
    (\<lambda>s v. \<not> su_deduplicated s \<and> w_committed v = w_db v \<and> queued_as external digest s (w_db v)) (\<lambda>e v. True) w"
  unfolding queue_new_def record_policy_decision_def wp_bind wp_uuid4 wp_now wp_seq wp_try_except wp_audit
  by (rule wp_mono [OF wp_queue_command]) (use assms in \<open>auto simp: py_wp queued_as_def\<close>)

lemma wp_submit:
  "wp (submit actor external command payload scope)
    (\<lambda>s v. scope = ''IAC'' \<and> row_by wk_id (su_work s) (db_work (w_db v)) \<noteq> None \<and>
       (if su_deduplicated s then v = w
        else w_committed v = w_db v \<and>
          queued_as external (w_sha256 w (canonical_command (upper command) scope payload)) s (w_db v)))
    (\<lambda>e v. True) w"
  unfolding submit_def queue_delivery_def Let_def
  by (intro wp_step_sha256 wp_step_status wp_step_prod wp_steps)
    (auto simp: queued_as_def intro!: wp_mono [OF wp_queue_new])

text \<open>
  C8. Submission is idempotent: once a request has been queued, every later submission under the same
  external id that returns, in any world a run leads to, has the same canonical content, returns the
  same work item as a duplicate and changes nothing.
\<close>

theorem submit_idempotent:
  assumes "reachable w" and "submit actor external command payload scope w = (Inr s, v)" and "\<not> su_deduplicated s"
    and "runs_to v w'" and "submit actor2 external command2 payload2 scope2 w' = (Inr s2, u)"
  shows "su_work s2 = su_work s \<and> su_deduplicated s2 \<and> u = w' \<and>
    w_sha256 w' (canonical_command (upper command2) scope2 payload2) =
      w_sha256 w (canonical_command (upper command) scope payload)"
proof -
  have v: "reachable v"
    using reachable_step [OF assms(1) interface_operation [OF submit_step [of w actor external command payload scope]]]
      assms(2) by (simp add: effect_def)
  obtain c where c: "row_by cq_external external (db_commands (w_committed v)) = Some c" "cq_work c = su_work s"
      "cq_sha256 c = w_sha256 w (canonical_command (upper command) scope payload)"
    using wp_result [OF assms(2) wp_submit] assms(3) by (auto simp: queued_as_def)
  obtain rows where "db_commands (w_db w') = db_commands (w_committed v) @ rows"
    using view_steps(13) [OF v assms(4)] reachable_coherent [OF v] by (auto simp: prefix_def)
  then have "row_by cq_external external (db_commands (w_db w')) = Some c" using c(1) by (simp add: table_simps)
  from wp_result [OF assms(5) wp_submit_again [OF this]] c show ?thesis by simp
qed

definition demo_submit :: "submission py" where
  "demo_submit = submit sean ''r-1'' ''review_portfolio'' [(''project_ids'', PList [])] ''IAC''"

definition demo_submitted :: world where
  "demo_submitted = effect demo_submit demo_start"

lemma demo_submit_runs:
  "demo_submit demo_start = (Inr \<lparr>su_work = ''id-1'', su_deduplicated = False, su_status = ''QUEUED''\<rparr>, demo_submitted)"
proof -
  have "fst (demo_submit demo_start) = Inr \<lparr>su_work = ''id-1'', su_deduplicated = False, su_status = ''QUEUED''\<rparr>"
    by code_simp
  then show ?thesis by (simp add: demo_submitted_def effect_def prod_eq_iff)
qed

lemma demo_submit_again:
  "\<exists>s u. demo_submit demo_submitted = (Inr s, u)"
proof -
  have "\<not> isl (fst (demo_submit demo_submitted))" by code_simp
  then show ?thesis by (metis isl_def prod.collapse sum.collapse(2))
qed

theorem submit_idempotent_witness:
  "\<exists>s u. demo_submit demo_submitted = (Inr s, u) \<and> su_work s = ''id-1'' \<and> su_deduplicated s \<and> u = demo_submitted"
  using demo_submit_again
    submit_idempotent [OF reachable_start demo_submit_runs [unfolded demo_submit_def] _ rtranclp.rtrancl_refl]
  unfolding demo_submit_def by fastforce

section \<open>The bridge\<close>

text \<open>
  C10. The bridge lets through only what its contract allows: if it accepts an envelope, the fields
  are exactly those of the contract, at the right version and target, declared free of personal data;
  the command is an exposed one, no key of the payload at any depth names personal data, nothing in
  it looks like a secret, its digest is the declared one; and the receipt names a stored work item.
\<close>

theorem bridge_accepts_contract:
  "case bridge_accept envelope w of
     (Inl e, v) \<Rightarrow> True
   | (Inr receipt, v) \<Rightarrow>
       fields_are envelope BRIDGE_FIELDS \<and> dget envelope ''contract_version'' = PStr BRIDGE_VERSION \<and>
       dget envelope ''target'' = PStr ''IAC'' \<and> dget envelope ''personal_data_included'' = PBool False \<and>
       upper (py_str (dget envelope ''command_type'')) \<in> set ALLOWED_COMMANDS \<and>
       (\<exists>payload. dget envelope ''payload'' = PDict payload \<and> \<not> has_personal_key (PDict payload) \<and>
          clean_value (PDict payload) \<and>
          dget envelope ''payload_sha256'' = PStr (w_sha256 w (dumps (PDict payload)))) \<and>
       row_by wk_id (br_work receipt) (db_work (w_db v)) \<noteq> None"
proof -
  have check: "fields_are envelope BRIDGE_FIELDS \<and> dget envelope ''contract_version'' = PStr BRIDGE_VERSION \<and>
       dget envelope ''target'' = PStr ''IAC'' \<and> dget envelope ''personal_data_included'' = PBool False \<and>
       upper (py_str (dget envelope ''command_type'')) \<in> set ALLOWED_COMMANDS \<and>
       (\<exists>payload. dget envelope ''payload'' = PDict payload \<and> \<not> has_personal_key (PDict payload) \<and>
          clean_value (PDict payload) \<and>
          dget envelope ''payload_sha256'' = PStr (sha (dumps (PDict payload))))"
    if "bridge_check sha envelope = Inr x" for sha x
    using that
    by (auto simp: bridge_check_def personal_paths_empty_iff secret_findings_empty_iff Let_def
        simp del: clean_value.simps has_personal_key.simps split: if_splits pyval.splits)
  have "wp (bridge_accept envelope)
    (\<lambda>receipt v. (\<exists>x. bridge_check (w_sha256 w) envelope = Inr x) \<and>
       row_by wk_id (br_work receipt) (db_work (w_db v)) \<noteq> None) (\<lambda>e v. True) w"
    unfolding bridge_accept_def Let_def
    by (intro wp_steps wp_step_prod TrueI) (auto simp: wp_bind wp_ret intro!: wp_mono [OF wp_submit])
  then show ?thesis
    using check by (auto simp: wp_def simp del: clean_value.simps has_personal_key.simps split: prod.splits sum.splits)
qed

end
