(* ===== verification/Alert_Behaviour.thy ===== *)
theory Alert_Behaviour
  imports Store_Behaviour
begin

text \<open>
  What the monitor reports: its alerts are exact, its plans are the alerts of the route's severity
  and never authorize a delivery, and the store accepts them.
\<close>

section \<open>Alerts\<close>

text \<open>The health verdict, in terms of the counts it is reported with.\<close>

definition health_verdict :: "bool \<Rightarrow> bool \<Rightarrow> health \<Rightarrow> bool" where
  "health_verdict integrity_ok require_active h \<longleftrightarrow> integrity_ok \<and> \<not> he_kill_switch h \<and> \<not> list_ex snd (he_workers h) \<and>
     count_of (he_queue h) WK_DEAD_LETTER = 0 \<and> count_of (he_queue h) WK_POLICY_BLOCKED = 0 \<and>
     count_of (he_deliveries h) OB_FAILED = 0 \<and> count_of (he_transfers h) OB_FAILED = 0 \<and>
     count_of (he_transfers h) OB_RECONCILE = 0 \<and> count_of (he_restores h) OB_FAILED = 0 \<and>
     count_of (he_restores h) OB_RECONCILE = 0 \<and> (require_active \<longrightarrow> he_active h \<noteq> 0)"

lemma wp_runtime_health:
  "wp (runtime_health integrity_ok stale_after require_active scope)
    (\<lambda>h v. he_healthy h = health_verdict integrity_ok require_active h) (\<lambda>e v. True) w"
  unfolding runtime_health_def
  by (simp only: Let_def, intro wp_step_seq_any wp_step_any wp_step_ret TrueI) (auto simp: health_verdict_def simp del: length_filter_map)

lemma no_alerts_iff:
  "classify_alerts integrity_ok h backup_ok = [] \<longleftrightarrow> health_verdict integrity_ok True h \<and> backup_ok \<noteq> Some False \<and>
     count_of (he_queue h) WK_BUDGET_BLOCKED = 0 \<and> count_of (he_queue h) WK_APPROVAL_BLOCKED = 0"
  by (auto simp: classify_alerts_def health_verdict_def queue_alert_def Let_def split: if_splits)

text \<open>
  C11. The monitor neither misses nor invents a fault: a snapshot has no alert exactly if it is healthy
  and no work is blocked by a budget or waiting for an approval.
\<close>

theorem alerts_exact:
  "case capture_monitor_snapshot integrity_ok stale_after backup_ok route w of
     (Inl e, v) \<Rightarrow> True
   | (Inr s, v) \<Rightarrow> (sn_alerts s = []) = (sn_healthy s \<and> count_of (he_queue (sn_health s)) WK_BUDGET_BLOCKED = 0 \<and>
       count_of (he_queue (sn_health s)) WK_APPROVAL_BLOCKED = 0)"
proof -
  have rest: "wp (bind m (\<lambda>obs. ret (f obs))) Q (\<lambda>e v. True) u" if "\<And>x v. Q (f x) v"
    for m :: "'c py" and f :: "'c \<Rightarrow> snapshot" and Q u
    using that by (auto simp: wp_def bind_def ret_def split: prod.splits sum.splits)
  have "wp (capture_monitor_snapshot integrity_ok stale_after backup_ok route)
    (\<lambda>s v. (sn_alerts s = []) = (sn_healthy s \<and> count_of (he_queue (sn_health s)) WK_BUDGET_BLOCKED = 0 \<and>
       count_of (he_queue (sn_health s)) WK_APPROVAL_BLOCKED = 0)) (\<lambda>e v. True) w"
    unfolding capture_monitor_snapshot_def Let_def
    by (subst wp_bind, rule wp_mono [OF wp_runtime_health], rule rest) (auto simp: no_alerts_iff)
  then show ?thesis by (simp add: wp_def split: prod.splits sum.splits)
qed

section \<open>Plans\<close>

definition known_alert :: "pydict \<Rightarrow> bool" where
  "known_alert a \<longleftrightarrow> (\<exists>code severity summary. a = alert code severity summary \<and>
     severity \<in> set SEVERITIES \<and> \<not> blank code \<and> \<not> blank summary)"

lemma alert_severity [simp]:
  "dget (alert code severity summary) ''code'' = PStr code" "dget (alert code severity summary) ''severity'' = PStr severity"
  "dget (alert code severity summary) ''summary'' = PStr summary"
  "dget_or (alert code severity summary) ''severity'' x = PStr severity"
  by (simp_all add: alert_def dget_def dget_or_def)

lemma strip_empty_iff: "strip s = [] \<longleftrightarrow> (\<forall>c\<in>set s. is_space c)"
proof
  assume "strip s = []"
  then have all: "\<forall>c\<in>set (lstrip s). is_space c" by (simp add: strip_def lstrip_def dropWhile_eq_Nil_conv)
  show "\<forall>c\<in>set s. is_space c"
  proof (cases "lstrip s")
    case Nil
    then show ?thesis by (simp add: lstrip_def dropWhile_eq_Nil_conv)
  next
    case (Cons c cs)
    then have "\<not> is_space c" unfolding lstrip_def by (metis dropWhile_eq_Cons_conv)
    then show ?thesis using all Cons by simp
  qed
qed (auto simp: strip_def lstrip_def dropWhile_eq_Nil_conv dest: set_dropWhileD)

lemma blank_append: "blank (a @ b) = (blank a \<and> blank b)"
  by (auto simp: blank_def strip_empty_iff)

lemma blank_Cons: "blank (c # s) = (is_space c \<and> blank s)"
  by (simp add: blank_def strip_empty_iff)

lemma known_alertI: "severity \<in> set SEVERITIES \<Longrightarrow> \<not> blank code \<Longrightarrow> \<not> blank summary \<Longrightarrow> known_alert (alert code severity summary)"
  by (auto simp: known_alert_def)

lemma status_not_blank: "\<not> blank (work_status_str s)"
  by (cases s; simp only:; code_simp)

lemma known_queue_alert:
  assumes "a \<in> set (queue_alert h (status, severity, summary))" "severity \<in> set SEVERITIES" "\<not> blank summary"
  shows "known_alert a"
proof -
  have "a = alert (work_status_str status) severity (dec (count_of (he_queue h) status) @ '' work item(s): '' @ summary)"
    using assms(1) by (simp add: queue_alert_def Let_def split: if_splits)
  then show ?thesis using assms(2,3) by (auto intro!: known_alertI simp: status_not_blank blank_append blank_Cons)
qed

lemma known_alerts: "list_all known_alert (classify_alerts integrity_ok h backup_ok)"
proof -
  have "known_alert (alert ''DATABASE_INTEGRITY_FAILED'' ''CRITICAL'' ''Database integrity check failed'')"
    "known_alert (alert ''KILL_SWITCH_ACTIVE'' ''CRITICAL'' ''Runtime kill switch is active'')"
    "known_alert (alert ''STALE_WORKER'' ''CRITICAL'' ''At least one runtime worker is stale'')"
    "known_alert (alert ''NO_ACTIVE_WORKER'' ''CRITICAL'' ''No active runtime worker is reporting'')"
    "known_alert (alert ''ALERT_DELIVERY_FAILED'' ''CRITICAL'' ''Synthetic alert delivery exhausted retries'')"
    "known_alert (alert ''BACKUP_TRANSFER_FAILED'' ''CRITICAL'' ''Backup transfer exhausted retries'')"
    "known_alert (alert ''BACKUP_TRANSFER_RECONCILIATION_REQUIRED'' ''CRITICAL''
       ''Backup provider write result requires manual reconciliation'')"
    "known_alert (alert ''BACKUP_RESTORE_FAILED'' ''CRITICAL''
       ''Isolated backup restore exhausted retries or its approved window'')"
    "known_alert (alert ''BACKUP_RESTORE_RECONCILIATION_REQUIRED'' ''CRITICAL''
       ''Isolated restore artifact requires manual reconciliation'')"
    "known_alert (alert ''BACKUP_FAILED'' ''CRITICAL'' ''Latest verified backup failed'')"
    by (rule known_alertI; code_simp)+
  moreover have "list_all known_alert (queue_alert h (WK_DEAD_LETTER, ''CRITICAL'', ''Work reached the dead-letter queue''))"
    "list_all known_alert (queue_alert h (WK_POLICY_BLOCKED, ''HIGH'', ''Work was blocked by runtime policy''))"
    "list_all known_alert (queue_alert h (WK_BUDGET_BLOCKED, ''HIGH'', ''Work was blocked by its budget ceiling''))"
    "list_all known_alert (queue_alert h (WK_APPROVAL_BLOCKED, ''ATTENTION'', ''Work requires an exact approval''))"
    unfolding list_all_iff by (intro ballI, erule known_queue_alert; code_simp)+
  ultimately show ?thesis
    by (simp add: classify_alerts_def)
qed

lemma plan_alerts_exact:
  assumes "list_all known_alert alerts"
  shows "plan_alerts sha r scope alerts = Inr (map (delivery_plan sha r scope)
    (filter (\<lambda>a. severity_level (er_minimum r) \<le> severity_level (sval (dget a ''severity''))) alerts))"
  using assms
  by (induction alerts) (auto simp: known_alert_def)

text \<open>
  The monitor plans exactly the alerts that reach the minimum severity of its route, in order, and
  planning never fails on the alerts it classifies.
\<close>

lemma alert_plans_exact:
  "plan_alert_deliveries sha (classify_alerts integrity_ok h backup_ok) r (er_scope r) =
     Inr (map (delivery_plan sha r (er_scope r))
       (filter (\<lambda>a. severity_level (er_minimum r) \<le> severity_level (sval (dget a ''severity'')))
         (classify_alerts integrity_ok h backup_ok)))"
  by (simp add: plan_alert_deliveries_def plan_alerts_exact known_alerts)

text \<open>
  Every planned alert is one the store records: with a digest of 64 characters and a valid route,
  a plan made of a classified alert passes the check on observations unless it looks like a secret,
  and it never authorizes its own delivery.
\<close>

lemma planned_alerts_recordable:
  assumes "make_route r0 = Inr r" and "plan_alert_deliveries sha (classify_alerts integrity_ok h backup_ok) r (er_scope r) = Inr plans"
    and "plan \<in> set plans" and "length (sha (dumps (PDict [(''owner_scope'', PStr (er_scope r)),
       (''route_id'', PStr (er_id r)), (''alert'', dget plan ''alert'')]))) = 64"
  shows "dget plan ''delivery_authorized'' = PBool False \<and>
    check_alert_plan plan = (if clean_value (PDict plan) then Inr ()
      else Inl (ValidationError ''Secret-like material is prohibited in alert evidence''))"
proof -
  obtain a where a: "plan = delivery_plan sha r (er_scope r) a" "a \<in> set (classify_alerts integrity_ok h backup_ok)"
    using assms(2,3) by (auto simp: plan_alert_deliveries_def plan_alerts_exact known_alerts)
  then have known: "known_alert a" using known_alerts by (auto simp: list_all_iff)
  have r: "\<not> blank (er_id r)" using assms(1) by (auto simp: make_route_def split: if_splits)
  have get: "dget plan ''alert'' = PDict a" "dget plan ''action_target'' = PStr (er_id r)"
    "dget plan ''delivery_authorized'' = PBool False"
    "dget plan ''plan_id'' = PStr (sha (dumps (PDict [(''owner_scope'', PStr (er_scope r)),
       (''route_id'', PStr (er_id r)), (''alert'', PDict a)])))"
    by (simp_all add: a(1) delivery_plan_def dget_def)
  show ?thesis
    using known r assms(4)
    by (auto simp: check_alert_plan_def get secret_findings_empty_iff Let_def known_alert_def nonblank_str_def SEVERITIES_def
        simp del: clean_value.simps)
qed

definition demo_route :: escalation_route where
  "demo_route = \<lparr>er_id = ''r'', er_scope = ''IAC'', er_kind = ''EMAIL'', er_ref = ''ops'', er_minimum = ''CRITICAL''\<rparr>"

definition demo_health :: health where
  "demo_health = \<lparr>he_healthy = False, he_kill_switch = False, he_queue = [], he_workers = [], he_deliveries = [],
     he_transfers = [], he_restores = [], he_budgets = [], he_attention = 0, he_active = 1\<rparr>"

definition demo_alert :: pydict where
  "demo_alert = alert ''DATABASE_INTEGRITY_FAILED'' ''CRITICAL'' ''Database integrity check failed''"

definition demo_plan :: pydict where
  "demo_plan = delivery_plan demo_sha demo_route ''IAC'' demo_alert"

lemma demo_plan_facts:
  "make_route demo_route = Inr demo_route"
  "plan_alert_deliveries demo_sha (classify_alerts False demo_health None) demo_route (er_scope demo_route) = Inr [demo_plan]"
  "length (demo_sha (dumps (PDict [(''owner_scope'', PStr (er_scope demo_route)),
       (''route_id'', PStr (er_id demo_route)), (''alert'', dget demo_plan ''alert'')]))) = 64"
  "clean_value (PDict demo_plan)"
  unfolding demo_plan_def by code_simp+

lemma planned_alerts_recordable_witness:
  "dget demo_plan ''delivery_authorized'' = PBool False \<and> check_alert_plan demo_plan = Inr ()"
  using planned_alerts_recordable [OF demo_plan_facts(1,2) _ demo_plan_facts(3)] demo_plan_facts(4) by simp

section \<open>Work is handed out\<close>

text \<open>
  C22. The queue makes progress: with the kill switch off and no transaction open, an actor of some
  scope that claims while a claimable item is next, and that item costs nothing, gets exactly that item.
\<close>

theorem claim_work_progress:
  assumes "reachable w" and "\<not> w_in_tx w" and "row_by rt_key ''kill_switch'' (db_runtime (w_db w)) = Some k" and "rt_value k \<noteq> ''ON''"
    and "next_work (iso_utc (w_clock w (w_tick w))) (claim_scopes actor) (db_work (w_db w)) = Some r"
    and "estimated_cost (wk_payload r) = Inr (Fin 0)" and "add_seconds (w_clock w (Suc (w_tick w))) n = Inr until"
  shows "\<exists>c v. claim_work actor worker n w = (Inr (Some c), v) \<and> wk_id c = wk_id r \<and> wk_owner c = Some worker \<and>
    wk_lease c = Some (iso_utc until)"
proof -
  have "r \<in> set (db_work (w_db w))" "claimable (iso_utc (w_clock w (w_tick w))) (claim_scopes actor) r"
    using next_work_claimable [OF assms(5)] by auto
  then have row: "row_by wk_id (wk_id r) (db_work (w_db w)) = Some r" and scopes: "claim_scopes actor \<noteq> []"
    using row_by_unique reachable_ids(2) [OF assms(1)] by (auto simp: claimable_def)
  have "wp (claim_work actor worker n) (\<lambda>x v. \<exists>c. x = Some c \<and> wk_id c = wk_id r \<and> wk_owner c = Some worker \<and>
      wk_lease c = Some (iso_utc until)) (\<lambda>e v. False) w"
    unfolding claim_work_def kill_switch_enabled_def lease_row_def reserve_cost_def
    using assms scopes
    by (simp add: py_wp Let_def row_by_update_where row)
  then show ?thesis by (auto simp: wp_def split: prod.splits sum.splits)
qed

definition queue_view ::
  "world \<Rightarrow> bool \<times> string option \<times> (string \<times> (exn + pyfloat)) option \<times> (exn + instant)" where
  "queue_view w = (w_in_tx w, map_option rt_value (row_by rt_key ''kill_switch'' (db_runtime (w_db w))),
     map_option (\<lambda>r. (wk_id r, estimated_cost (wk_payload r)))
       (next_work (iso_utc (w_clock w (w_tick w))) (claim_scopes sean) (db_work (w_db w))),
     add_seconds (w_clock w (Suc (w_tick w))) 60)"

lemma demo_queue_facts:
  "queue_view demo_queued = (False, Some ''OFF'', Some (''id-0'', Inr (Fin 0)), Inr 64000000)"
  by code_simp

theorem claim_work_progress_witness:
  "\<exists>c v. claim_work sean ''w'' 60 demo_queued = (Inr (Some c), v) \<and> wk_id c = ''id-0'' \<and> wk_owner c = Some ''w'' \<and>
    wk_lease c = Some (iso_utc 64000000)"
proof -
  obtain k r where k: "row_by rt_key ''kill_switch'' (db_runtime (w_db demo_queued)) = Some k" "rt_value k = ''OFF''"
    and r: "next_work (iso_utc (w_clock demo_queued (w_tick demo_queued))) (claim_scopes sean) (db_work (w_db demo_queued)) = Some r"
      "wk_id r = ''id-0''" "estimated_cost (wk_payload r) = Inr (Fin 0)"
    using demo_queue_facts by (auto simp: queue_view_def)
  show ?thesis
    using claim_work_progress [OF reachable_queued _ k(1) _ r(1,3)] k(2) r(2) demo_queue_facts
    by (simp add: queue_view_def)
qed

end
