(* ===== verification/Worker_Scenario.thy ===== *)
theory Worker_Scenario
  imports Worker Scenario
begin

text \<open>
  One claimed transfer that passes every check up to the upload port, evaluated part by part, and one
  leased restore. The stand-in for the digest is constant.
\<close>

section \<open>A transfer\<close>

definition demo_digest :: string where
  "demo_digest = replicate 64 CHR ''a''"

definition demo_transfer_plan :: pydict where
  "demo_transfer_plan = [
     (''approval_target'', PStr ''t''), (''backup_bytes'', PInt 1), (''backup_sha256'', PStr demo_digest),
     (''client_encryption_key_ref'', PStr ''k''),
     (''client_encryption_required'', PStr ''IAC_MANAGED_AUTHENTICATED_ENCRYPTION''),
     (''credentials_included'', PBool False), (''data_region'', PStr ''CA_EAST''),
     (''destination_kind'', PStr ''ENCRYPTED_OBJECT_STORAGE''), (''destination_ref'', PStr ''d''),
     (''execution_authorized'', PBool False), (''format'', PStr TRANSFER_PLAN_FORMAT),
     (''max_cost_cad'', PFloat (Fin 0)), (''network_enabled'', PBool False),
     (''object_lock_required'', PBool True), (''object_ref'', PStr ''o''), (''owner_scope'', PStr ''IAC''),
     (''plan_sha256'', PStr demo_digest), (''proposal_sha256'', PStr demo_digest),
     (''provider'', PStr ''BACKBLAZE_B2''), (''provider_encryption_required'', PStr ''AES256''),
     (''provider_endpoint'', PStr ''s3.ca-east-1.backblazeb2.com''), (''provider_interface'', PStr PROVIDER_INTERFACE),
     (''provider_writer_identity_ref'', PStr ''w''), (''retention_days'', PInt 7),
     (''retention_mode'', PStr ''COMPLIANCE''), (''schema_version'', PInt 18),
     (''window_end'', PStr ''0001-01-01T04:00:00+00:00''), (''window_start'', PStr ''0001-01-01T00:00:00+00:00'')]"

lemma plan_verified: "verify_stored_backup_transfer_plan (\<lambda>_. demo_digest) (PDict demo_transfer_plan) = Inr demo_transfer_plan"
  by code_simp

definition demo_preflight :: pydict where
  "demo_preflight = [
     (''adapter'', PStr ''SYNTHETIC_NO_NETWORK''), (''artifact_encrypted'', PBool False),
     (''execution_authorized'', PBool False), (''format'', PStr SYNTHETIC_RECEIPT_FORMAT),
     (''network_performed'', PBool False), (''plan_sha256'', PStr demo_digest),
     (''provider_receipt_included'', PBool False), (''receipt_sha256'', PStr demo_digest),
     (''status'', PStr ''READY_FOR_ENCRYPTION_AND_EXACT_APPROVAL''), (''uploaded'', PBool False),
     (''validated'', PBool True)]"

definition demo_transfer :: transfer_row where
  "demo_transfer = \<lparr>bx_id = demo_digest, bx_scope = ''IAC'', bx_status = OB_AUTHORIZED, bx_approval = Some ''a'',
     bx_attempts = 1, bx_max = 3, bx_available_at = ''0001-01-01T00:00:00+00:00'', bx_owner = Some ''w'',
     bx_lease = Some ''0001-01-02T00:00:00+00:00'', bx_error = None, bx_receipt = None,
     bx_created_at = ''0001-01-01T00:00:00+00:00'', bx_updated_at = ''0001-01-01T00:00:00+00:00'', bx_done_at = None,
     tr_target = ''t'', tr_proposal = demo_digest, tr_plan = demo_transfer_plan, tr_preflight = Some (PDict demo_preflight)\<rparr>"

definition demo_outbox :: world where
  "demo_outbox = (new_world demo_clock demo_uuid (\<lambda>_. demo_digest))
     \<lparr>w_profile := ''IAC'', w_db := empty_db\<lparr>db_transfers := [demo_transfer]\<rparr>\<rparr>"

definition demo_config :: runtime_config where
  "demo_config = \<lparr>rc_enabled = True, rc_provider = Some ''BACKBLAZE_B2'', rc_region = Some ''CA_EAST'',
     rc_endpoint = Some ''s3.ca-east-1.backblazeb2.com'', rc_destination = Some ''d'', rc_identity = Some ''w'',
     rc_key = Some ''k'', rc_max_bytes = Some 10, rc_max_cost = Some (Fin 0)\<rparr>"

definition demo_manifest :: pyval where
  "demo_manifest = PDict [(''path'', PStr ''b''), (''sha256'', PStr demo_digest), (''bytes'', PInt 1),
     (''schema_version'', PInt 18), (''integrity_ok'', PBool True)]"

definition demo_file :: "string \<Rightarrow> file_probe" where
  "demo_file p = \<lparr>fp_regular = True, fp_bytes = 1, fp_sha256 = demo_digest,
     fp_database = Some (PStr ''ok'', False, PInt 18, PStr ''IAC'')\<rparr>"

definition demo_artifact :: artifact where
  "demo_artifact = \<lparr>art_path = ''c'', art_evidence = [
     (''format'', PStr ENCRYPTED_ARTIFACT_FORMAT), (''plan_sha256'', PStr demo_digest),
     (''plaintext_sha256'', PStr demo_digest), (''plaintext_bytes'', PInt 1),
     (''ciphertext_sha256'', PStr demo_digest), (''ciphertext_bytes'', PInt 1),
     (''algorithm'', PStr ''AES_256_GCM''), (''key_owner'', PStr ''IAC''), (''key_ref'', PStr ''k''),
     (''authenticated'', PBool True), (''aad_plan_sha256'', PStr demo_digest),
     (''credentials_persisted'', PBool False), (''source_path_included'', PBool False)]\<rparr>"

definition demo_ports :: upload_ports where
  "demo_ports = \<lparr>up_manifest_probe = demo_file, up_encrypt = (\<lambda>source plan key. Inr demo_artifact),
     up_artifact_probe = demo_file, up_upload = (\<lambda>a plan config. Inr [])\<rparr>"

definition demo_place :: path_probe where
  "demo_place = \<lparr>pb_link = False, pb_inside = True, pb_there = True, pb_private = True\<rparr>"

definition demo_host :: transfer_host where
  "demo_host = \<lparr>th_manifest = demo_place, th_content = Some demo_manifest, th_source = (\<lambda>p. demo_place),
     th_probe = demo_file, th_output = demo_place, th_output_made = Inr (),
     th_adapters = (\<lambda>env config. Inr demo_ports)\<rparr>"

lemma preflight_verified: "verify_synthetic_backup_adapter_receipt (\<lambda>_. demo_digest) (PDict demo_preflight) = Inr demo_preflight"
  by code_simp

lemma demo_mismatch: "\<not> config_mismatch demo_config demo_transfer_plan"
  by code_simp

lemma lease_valid: "validate_lease (\<lambda>_. demo_digest) demo_transfer ''w'' demo_config = Inr demo_transfer_plan"
  by (simp add: validate_lease_def demo_transfer_def demo_config_def missing_def plan_verified preflight_verified
     demo_mismatch [unfolded demo_config_def] given_def)
   (simp add: demo_transfer_plan_def demo_preflight_def dget_def)

lemma demo_source:
  assumes "t = 0 \<or> t = 1000000"
  shows "validate_source demo_file demo_manifest demo_config demo_transfer_plan t =
    Inr [(''owner_scope'', PStr ''IAC''), (''backup_sha256'', PStr demo_digest), (''backup_bytes'', PInt 1),
      (''schema_version'', PInt 18)]"
  using assms by (elim disjE; (hypsubst, code_simp))

lemma demo_encryption:
  "verify_encrypted_artifact demo_file demo_artifact demo_transfer_plan demo_config ''b'' = Inr (art_evidence demo_artifact)"
  by code_simp

abbreviation demo_at :: "nat \<Rightarrow> world" where
  "demo_at n \<equiv> demo_outbox\<lparr>w_tick := n\<rparr>"

lemma demo_validate:
  assumes "n = 0 \<or> n = 1"
  shows "validate_claimed_backup_transfer demo_file demo_transfer demo_manifest ''w'' demo_config (demo_at n) =
    (Inr demo_transfer_plan, demo_at (Suc n))"
proof -
  have fields: "w_sha256 (demo_at n) = (\<lambda>_. demo_digest)" "\<And>m. w_clock demo_outbox m = 1000000 * int m"
    "tick_world (demo_at n) = demo_at (Suc n)"
    by (simp_all add: demo_outbox_def new_world_def demo_clock_def tick_world_def)
  have "wp (validate_claimed_backup_transfer demo_file demo_transfer demo_manifest ''w'' demo_config)
      (\<lambda>r v. r = demo_transfer_plan \<and> v = demo_at (Suc n)) (\<lambda>e v. False) (demo_at n)"
    unfolding validate_claimed_backup_transfer_def
    using assms by (auto simp: py_wp fields lease_valid demo_source)
  then show ?thesis by (auto simp: wp_def split: prod.splits sum.splits)
qed

lemma demo_stamps:
  "guard_time what (iso_utc 2000000) = Inr (2000000, Some 0)"
  "guard_time what (iso_utc 3000000) = Inr (3000000, Some 0)"
  "fromisoformat ''0001-01-02T00:00:00+00:00'' = Inr (86400000000, Some 0)"
proof -
  have "fromisoformat (iso_utc 2000000) = Inr (2000000, Some 0)" "fromisoformat (iso_utc 3000000) = Inr (3000000, Some 0)"
    by code_simp+
  then show "guard_time what (iso_utc 2000000) = Inr (2000000, Some 0)"
    "guard_time what (iso_utc 3000000) = Inr (3000000, Some 0)" by (simp_all add: guard_time_def is_aware_def)
qed code_simp

lemma wp_step_not_killed:
  assumes "map_option rt_value (row_by rt_key ''kill_switch'' (db_runtime (w_db w))) = Some ''OFF''" and "wp (f False) Q E w"
  shows "wp (bind kill_switch_enabled f) Q E w"
  using assms by (auto simp: wp_bind run_switch_off)

lemma demo_guard:
  assumes "n = 2 \<or> n = 3"
  shows "assert_backup_transfer_execution_allowed sean demo_digest ''w'' None (demo_at n) = (Inr demo_transfer, demo_at (Suc n))"
proof -
  have allowed: "denial ''IAC'' sean ''IAC'' [] a = None" for a
    by (simp add: denial_def sean_def SCOPES_def allowed_scopes_def)
  have fields: "\<And>m. w_clock demo_outbox m = 1000000 * int m" "w_profile demo_outbox = ''IAC''"
    "tick_world (demo_at n) = demo_at (Suc n)" "db_transfers (w_db demo_outbox) = [demo_transfer]"
    "row_by rt_key ''kill_switch'' (db_runtime (w_db demo_outbox)) =
      Some \<lparr>rt_key = ''kill_switch'', rt_value = ''OFF'', rt_updated_at = ''1970-01-01T00:00:00+00:00''\<rparr>" for m
    by (simp_all add: demo_outbox_def new_world_def demo_clock_def tick_world_def empty_db_def initial_runtime_def row_by_Cons)
  have row: "row_by bx_id demo_digest [demo_transfer] = Some demo_transfer"
    "bx_status demo_transfer = OB_AUTHORIZED" "bx_owner demo_transfer = Some ''w''" "bx_scope demo_transfer = ''IAC''"
    "\<not> missing (bx_approval demo_transfer)" "\<not> missing (bx_lease demo_transfer)"
    "text_or (bx_lease demo_transfer) [] = ''0001-01-02T00:00:00+00:00''"
    by (simp_all add: demo_transfer_def missing_def given_def text_or_def row_by_Cons)
  have plain: "dt_le (a, Some 0) (b, Some 0) = Inr (a \<le> b)" "text_or None s = s" for a b s
    by (simp_all add: dt_le_def dt_cmp_def text_or_def)
  have "wp (assert_backup_transfer_execution_allowed sean demo_digest ''w'' None)
      (\<lambda>r v. r = demo_transfer \<and> v = demo_at (Suc n)) (\<lambda>e v. False) (demo_at n)"
    unfolding assert_backup_transfer_execution_allowed_def get_backup_transfer_def
    by (intro wp_step_at_or_now wp_step_not_killed wp_steps)
      (use assms in \<open>auto simp: fields allowed row demo_stamps given_def plain gate_time_def\<close>)
  then show ?thesis by (auto simp: wp_def split: prod.splits sum.splits)
qed

section \<open>A restore\<close>

definition demo_restore :: restore_row where
  "demo_restore = \<lparr>bx_id = ''r'', bx_scope = ''IAC'', bx_status = OB_AUTHORIZED, bx_approval = Some ''a'',
     bx_attempts = 1, bx_max = 3, bx_available_at = ''0001-01-01T00:00:00+00:00'', bx_owner = Some ''w'',
     bx_lease = Some ''0001-01-02T00:00:00+00:00'', bx_error = None, bx_receipt = None,
     bx_created_at = ''0001-01-01T00:00:00+00:00'', bx_updated_at = ''0001-01-01T00:00:00+00:00'', bx_done_at = None,
     rr_target = ''t'', rr_upload_plan = ''u'', rr_upload_receipt = ''x'', rr_key_proposal = ''k'', rr_plan = [],
     rr_preflight = None\<rparr>"

definition demo_restoring :: world where
  "demo_restoring = (new_world demo_clock demo_uuid (\<lambda>_. demo_digest))
     \<lparr>w_profile := ''IAC'', w_db := empty_db\<lparr>db_restores := [demo_restore]\<rparr>\<rparr>"

definition demo_restore_host :: restore_host where
  "demo_restore_host = \<lparr>rh_downloads = demo_place, rh_downloads_made = Inr (), rh_restores = demo_place,
     rh_restores_made = Inr (), rh_destination = demo_place, rh_path = ''p'', rh_exists_after = True,
     rh_adapters = (\<lambda>env config. Inl (PortError ''OSError'' ''down''))\<rparr>"

lemma demo_restore_held: "fst (handle_restore sean ''w'' Map.empty demo_config demo_restore_host demo_restore demo_restoring) =
    Inr (Settled ''r'' ''RECONCILIATION_REQUIRED'')"
proof -
  have clean: "secret_findings (PDict [(''error'', PStr PUBLISHED_RESTORE)]) = []" "\<not> blank PUBLISHED_RESTORE"
    by code_simp+
  have allowed: "denial ''IAC'' sean ''IAC'' [] a = None" for a
    by (simp add: denial_def sean_def SCOPES_def allowed_scopes_def)
  have "wp (hold_restore sean ''r'' ''w'') (\<lambda>r v. r = Settled ''r'' ''RECONCILIATION_REQUIRED'') (\<lambda>e v. False) demo_restoring"
    unfolding hold_restore_def wp_bind wp_ret hold_claimed_backup_restore_for_reconciliation_def
    by (intro wp_steps)
      (auto simp: clean allowed demo_restoring_def new_world_def demo_restore_def leased_to_def)
  then show ?thesis
    by (auto simp: handle_restore_def restore_claimed_def settle_restore_def demo_restore_host_def demo_restore_def
      attempt_def try_except_def bind_def lift_result_def raise_def ret_def wp_def split: prod.splits sum.splits)
qed

section \<open>A monitor\<close>

definition demo_monitor_route :: escalation_route where
  "demo_monitor_route = \<lparr>er_id = ''r'', er_scope = ''IAC'', er_kind = ''EMAIL'', er_ref = ''ops'', er_minimum = ''CRITICAL''\<rparr>"

end
