(* ===== verification/Worker_Behaviour.thy ===== *)
theory Worker_Behaviour
  imports Store_Behaviour Worker_Scenario
begin

text \<open>
  What the workers promise: no lease survives the processing of an item, and a provider write is
  never retried on its own.
\<close>

section \<open>Work items\<close>

definition released :: "string \<Rightarrow> string \<Rightarrow> world \<Rightarrow> bool" where
  "released i worker v \<longleftrightarrow> w_committed v = w_db v \<and> \<not> list_ex (held_by i worker) (db_work (w_db v))"

lemma none_held:
  "\<lbrakk>\<And>r. held_by i worker r \<Longrightarrow> p r; \<And>r. wk_owner (f r) = None\<rbrakk> \<Longrightarrow>
   \<not> list_ex (held_by i worker) (update_where p f rows)"
  by (auto simp: list_ex_iff set_update_where held_by_def)

lemma held_by_id: "held_by i worker r \<Longrightarrow> wk_id r = i"
  by (simp add: held_by_def)

lemma wp_complete_releases:
  "wp (complete_work actor i worker result) (\<lambda>_. released i worker) (\<lambda>e v. True) w"
  unfolding complete_work_def
  by (intro wp_step_settle wp_steps) (auto simp: wp_audit released_def none_held)

lemma wp_block_releases:
  "wp (seq (block_work actor i worker reason flag) (ret ())) (\<lambda>_. released i worker) (\<lambda>e v. True) w"
  unfolding wp_seq wp_ret block_work_def
  by (intro wp_step_settle wp_steps) (auto simp: wp_audit released_def none_held)

lemma wp_fail_releases:
  "wp (seq (fail_work actor i worker error n) (ret ())) (\<lambda>_. released i worker) (\<lambda>e v. True) w"
  unfolding wp_seq wp_ret fail_work_def
  by (intro wp_step_settle wp_steps) (auto simp: wp_audit released_def none_held held_by_id)

lemma wp_settle_item:
  "wp (settle_item actor worker row e) (\<lambda>_. released (wk_id row) worker) (\<lambda>e v. True) w"
proof -
  have fails: "wp (seq (heartbeat worker ''IAC'' ''ERROR'' (Some (wk_id row)) d)
      (seq (fail_work actor (wk_id row) worker s n) (ret ()))) (\<lambda>_. released (wk_id row) worker) (\<lambda>e v. True) w" for d s n
    by (intro wp_step_seq_any TrueI wp_fail_releases)
  show ?thesis
    by (cases e) (simp_all add: settle_item_def Let_def wp_block_releases fails)
qed

lemma wp_process_item:
  "wp (process_item reg actor worker row) (\<lambda>_. released (wk_id row) worker) (\<lambda>e v. True) w"
  unfolding process_item_def wp_try_except
proof (rule wp_mono)
  show "wp (seq (heartbeat worker ''IAC'' ''WORKING'' (Some (wk_id row)) [])
      (bind (execute reg actor (request_of row)) (\<lambda>result. complete_work actor (wk_id row) worker (dval result))))
      (\<lambda>_. released (wk_id row) worker) (\<lambda>e v. True) w"
    by (intro wp_step_seq_any wp_step_any TrueI wp_complete_releases)
qed (auto intro: wp_settle_item)


text \<open>
  C13. The worker keeps no lease behind: when the processing of an item returns, its outcome is
  committed and no row of that item is still running for this worker. A handler's error, a denied
  action and a lost completion all end in a settled row or in an exception, never in silence.
\<close>

theorem worker_releases_item:
  "case process_item reg actor worker row w of
      (Inl e, v) \<Rightarrow> True
    | (Inr u, v) \<Rightarrow> w_committed v = w_db v \<and> \<not> list_ex (held_by (wk_id row) worker) (db_work (w_committed v))"
  using wp_process_item [of reg actor worker row w]
  by (auto simp: wp_def released_def split: prod.splits sum.splits)

section \<open>Provider writes\<close>

text \<open>An outbox item that no claim selects again.\<close>

definition closed_item :: "string \<Rightarrow> 'a outbox_row_scheme list \<Rightarrow> bool" where
  "closed_item i rows \<longleftrightarrow> (\<exists>r \<in> set rows. bx_id r = i \<and> (bx_status r = OB_DONE \<or> bx_status r = OB_RECONCILE))"

lemma closed_update:
  assumes "find p rows = Some r" and "\<And>x. p x \<Longrightarrow> q x" and "q r \<Longrightarrow> bx_id (f r) = i"
    and "bx_status (f r) = OB_DONE \<or> bx_status (f r) = OB_RECONCILE"
  shows "closed_item i (update_where q f rows)"
proof -
  have "r \<in> set rows" "p r" using find_SomeD [OF assms(1)] by auto
  then show ?thesis using assms(2-4) by (auto simp: closed_item_def set_update_where)
qed

lemma wp_hold_transfer:
  "wp (hold_transfer actor i worker reason)
    (\<lambda>r v. r = Settled i ''RECONCILIATION_REQUIRED'' \<and> closed_item i (db_transfers (w_db v))) (\<lambda>e v. True) w"
  unfolding hold_transfer_def wp_bind wp_ret hold_claimed_backup_transfer_for_reconciliation_def
  by (intro wp_steps) (auto simp: leased_to_def intro!: closed_update)

lemma wp_reader:
  assumes "reader m" and "\<And>x v. w_db v = w_db w \<Longrightarrow> Q x v" and "\<And>e v. E e v"
  shows "wp m Q E w"
proof (cases "m w")
  case (Pair r v)
  moreover have "w_db v = w_db w" using assms(1) by (simp add: reader_def Pair split: prod.splits) (metis Pair snd_conv)
  ultimately show ?thesis using assms(2,3) by (auto simp: wp_def split: sum.splits)
qed

lemmas wp_got = wp_reader [OF reader_get_backup_transfer] wp_reader [OF reader_get_backup_restore]

lemma closed_row: "row_by bx_id i rows = Some r \<Longrightarrow> bx_status r = OB_DONE \<Longrightarrow> closed_item i rows"
  by (auto simp: closed_item_def dest: row_by_SomeD)

lemma wp_complete_transfer:
  "wp (complete_claimed_backup_transfer actor i worker receipt)
    (\<lambda>r v. closed_item i (db_transfers (w_db v))) (\<lambda>e v. True) w"
  unfolding complete_claimed_backup_transfer_def
  by (intro wp_step_kill wp_got wp_steps)
    (auto simp: leased_to_def closed_row intro!: closed_update)

lemma wp_complete_restore:
  "wp (complete_claimed_backup_restore actor i worker receipt t)
    (\<lambda>r v. closed_item i (db_restores (w_db v))) (\<lambda>e v. True) w"
  unfolding complete_claimed_backup_restore_def
  by (intro wp_step_kill wp_step_at_or_now wp_got wp_steps)
    (auto simp: leased_to_def closed_row intro!: closed_update)

lemma wp_hold_restore:
  "wp (hold_restore actor i worker)
    (\<lambda>r v. r = Settled i ''RECONCILIATION_REQUIRED'' \<and> closed_item i (db_restores (w_db v))) (\<lambda>e v. True) w"
  unfolding hold_restore_def wp_bind wp_ret hold_claimed_backup_restore_for_reconciliation_def
  by (intro wp_steps) (auto simp: leased_to_def intro!: closed_update)

text \<open>Up to the call of the upload port, and from it on.\<close>

definition reach_upload ::
  "actor \<Rightarrow> string \<Rightarrow> runtime_config \<Rightarrow> pyval \<Rightarrow> transfer_host \<Rightarrow> upload_ports \<Rightarrow> transfer_row \<Rightarrow>
   (artifact \<times> pydict \<times> pydict) py" where
  "reach_upload actor worker_id config manifest host ports claimed =
     seq (validate_claimed_backup_transfer (th_probe host) claimed manifest worker_id config)
    (seq (lift_result (private_output_directory (th_output host) (th_output_made host)))
    (prepare_upload claimed manifest worker_id config ports
       (assert_backup_transfer_execution_allowed actor (bx_id claimed) worker_id None)))"

lemma bind_assoc: "bind (bind m f) g = bind m (\<lambda>x. bind (f x) g)"
  by (rule ext) (simp add: bind_def split: prod.splits sum.splits)

lemma upload_claimed_split:
  assumes "th_adapters host env config = Inr ports"
  shows "upload_claimed actor worker_id env config manifest host claimed =
     bind (reach_upload actor worker_id config manifest host ports claimed) (\<lambda>(a, encryption, plan).
     bind (lift_result (up_upload ports a plan config)) (\<lambda>provider.
     finish_upload (assert_backup_transfer_execution_allowed actor (bx_id claimed) worker_id None)
       provider encryption plan config))"
proof -
  have adapted: "bind (lift_result (th_adapters host env config)) f = f ports" for f :: "upload_ports \<Rightarrow> 'y py"
    by (rule ext) (simp add: bind_def lift_result_def ret_def assms)
  show ?thesis
    unfolding upload_claimed_def reach_upload_def execute_claimed_backup_transfer_def seq_def adapted
    by (simp add: bind_assoc split_def)
qed

lemma wp_finish_upload:
  "wp (finish_upload guard provider encryption plan config) (\<lambda>r v. True) (\<lambda>e v. is_reconciliation e) w"
  unfolding finish_upload_def wp_try_except
  by (auto simp: wp_def raise_def split: prod.splits sum.splits)

lemma wp_settle_upload:
  assumes "case outcome of Inl e \<Rightarrow> is_reconciliation e | Inr receipt \<Rightarrow> True"
  shows "wp (settle_upload actor worker i outcome)
    (\<lambda>r v. closed_item i (db_transfers (w_db v)) \<and>
      (case r of Completed row \<Rightarrow> True | Settled p s \<Rightarrow> p = i \<and> s = ''RECONCILIATION_REQUIRED''))
    (\<lambda>e v. True) w"
proof -
  have hold: "wp (hold_transfer actor i worker reason)
    (\<lambda>r v. closed_item i (db_transfers (w_db v)) \<and>
      (case r of Completed row \<Rightarrow> True | Settled p s \<Rightarrow> p = i \<and> s = ''RECONCILIATION_REQUIRED''))
    (\<lambda>e v. True) v" for reason v
    by (rule wp_mono [OF wp_hold_transfer]) auto
  show ?thesis
  proof (cases outcome)
    case (Inl e)
    then show ?thesis using assms by (simp add: settle_upload_def hold)
  next
    case (Inr receipt)
    then show ?thesis
      by (simp add: settle_upload_def wp_bind wp_attempt)
        (rule wp_mono [OF wp_complete_transfer]; simp add: wp_ret hold)
  qed
qed


lemma demo_reach:
  "fst (reach_upload sean ''w'' demo_config demo_manifest demo_host demo_ports demo_transfer demo_outbox) =
     Inr (demo_artifact, art_evidence demo_artifact, demo_transfer_plan)"
proof -
  have start: "demo_outbox = demo_at 0" by (simp add: demo_outbox_def new_world_def)
  have names: "bx_id demo_transfer = demo_digest" "sval (dget (dval demo_manifest) ''path'') = ''b''"
    "private_output_directory (th_output demo_host) (th_output_made demo_host) = Inr ()"
    by (simp_all add: demo_transfer_def demo_manifest_def dget_def private_output_directory_def private_directory_def
      demo_host_def demo_place_def)
  have ports: "up_manifest_probe demo_ports = demo_file" "up_artifact_probe demo_ports = demo_file"
    "up_encrypt demo_ports s p k = Inr demo_artifact" "th_probe demo_host = demo_file" for s p k
    by (simp_all add: demo_ports_def demo_host_def)
  have guards: "assert_backup_transfer_execution_allowed sean demo_digest ''w'' None (demo_at 2) = (Inr demo_transfer, demo_at 3)"
    "assert_backup_transfer_execution_allowed sean demo_digest ''w'' None (demo_at 3) = (Inr demo_transfer, demo_at 4)"
    and valid: "validate_claimed_backup_transfer demo_file demo_transfer demo_manifest ''w'' demo_config (demo_at 0) = (Inr demo_transfer_plan, demo_at 1)"
    "validate_claimed_backup_transfer demo_file demo_transfer demo_manifest ''w'' demo_config (demo_at 1) = (Inr demo_transfer_plan, demo_at 2)"
    using demo_guard [of 2] demo_guard [of 3] demo_validate [of 0] demo_validate [of 1]
    by (simp_all add: eval_nat_numeral)
  have "fst (reach_upload sean ''w'' demo_config demo_manifest demo_host demo_ports demo_transfer (demo_at 0)) =
     Inr (demo_artifact, art_evidence demo_artifact, demo_transfer_plan)"
    unfolding reach_upload_def prepare_upload_def names ports seq_def
    by (simp only: bind_def lift_result_def ret_def valid guards demo_encryption prod.case sum.case Let_def names ports fst_conv)
  then show ?thesis by (simp only: start [symmetric])
qed


section \<open>Published restores\<close>

text \<open>Up to the decryption port, which publishes the restored file.\<close>

definition reach_publish ::
  "actor \<Rightarrow> string \<Rightarrow> environment \<Rightarrow> runtime_config \<Rightarrow> restore_host \<Rightarrow> restore_row \<Rightarrow>
   (restore_ports \<times> instant \<times> artifact \<times> pydict) py" where
  "reach_publish actor worker_id env config host claimed =
     bind (lift_result (rh_adapters host env config)) (\<lambda>ports.
     bind now_instant (\<lambda>t.
     bind (publish_restore claimed worker_id config ports (rh_path host)
             (assert_backup_restore_execution_allowed actor (bx_id claimed) worker_id None) t) (\<lambda>x. ret (ports, t, x))))"

lemma restore_claimed_split:
  "restore_claimed actor worker_id env config host claimed =
     bind (reach_publish actor worker_id env config host claimed) (\<lambda>(ports, t, decrypted, plan).
     confirm_restore ports (assert_backup_restore_execution_allowed actor (bx_id claimed) worker_id None) decrypted plan t)"
proof -
  have ret: "bind (ret x) f = f x" for x and f :: "'x \<Rightarrow> 'y py"
    by (rule ext) (simp add: bind_def ret_def)
  show ?thesis
    unfolding restore_claimed_def reach_publish_def execute_claimed_backup_restore_def
    by (simp add: bind_assoc ret split_def)
qed

lemma wp_confirm_restore:
  "wp (confirm_restore ports guard decrypted plan t) (\<lambda>r v. True) (\<lambda>e v. is_restore_reconciliation e) w"
  unfolding confirm_restore_def wp_try_except
  by (auto simp: wp_def raise_def split: prod.splits sum.splits)

lemma wp_settle_restore:
  assumes "exists_after \<or> (case outcome of Inl e \<Rightarrow> is_restore_reconciliation e | Inr receipt \<Rightarrow> True)"
  shows "wp (settle_restore actor worker i exists_after outcome)
    (\<lambda>r v. closed_item i (db_restores (w_db v)) \<and>
      (case r of Completed row \<Rightarrow> True | Settled p s \<Rightarrow> p = i \<and> s = ''RECONCILIATION_REQUIRED''))
    (\<lambda>e v. True) w"
proof -
  have hold: "wp (hold_restore actor i worker)
    (\<lambda>r v. closed_item i (db_restores (w_db v)) \<and>
      (case r of Completed row \<Rightarrow> True | Settled p s \<Rightarrow> p = i \<and> s = ''RECONCILIATION_REQUIRED''))
    (\<lambda>e v. True) v" for v
    by (rule wp_mono [OF wp_hold_restore]) auto
  show ?thesis
  proof (cases outcome)
    case (Inl e)
    then show ?thesis using assms by (auto simp: settle_restore_def hold)
  next
    case (Inr receipt)
    then show ?thesis
      by (simp add: settle_restore_def wp_bind wp_attempt)
        (rule wp_mono [OF wp_complete_restore]; simp add: wp_ret hold)
  qed
qed



section \<open>Runtime configuration\<close>

definition bounded_config :: "runtime_config \<Rightarrow> bool" where
  "bounded_config c \<longleftrightarrow> rc_provider c = Some ''BACKBLAZE_B2'' \<and>
     (\<exists>n. rc_max_bytes c = Some n \<and> 1 \<le> n \<and> n \<le> 10 * 1024 * 1024 * 1024) \<and>
     (\<exists>x. rc_max_cost c = Some x \<and> is_finite x \<and> fle (Fin 0) x \<and> fle x (Fin 15)) \<and>
     (\<forall>s \<in> set (List.map_filter id [rc_destination c, rc_identity c, rc_key c]).
        s \<noteq> [] \<and> length s \<le> 200 \<and> strip s = s \<and> secret_findings (PStr s) = [])"

lemma execution_ref_clean:
  "execution_ref name s = Inr t \<Longrightarrow> t = s \<and> s \<noteq> [] \<and> length s \<le> 200 \<and> strip s = s \<and> secret_findings (PStr s) = []"
  "restore_run_ref name s = Inr t \<Longrightarrow> t = s \<and> s \<noteq> [] \<and> length s \<le> 200 \<and> strip s = s \<and> secret_findings (PStr s) = []"
  by (auto simp: execution_ref_def restore_run_ref_def split: if_splits)

lemma guarded_Inr:
  "(if b then Inl e else r) = Inr c \<longleftrightarrow> \<not> b \<and> r = Inr c"
  "(case s of Inl x \<Rightarrow> Inl (g x) | Inr y \<Rightarrow> f y) = Inr c \<longleftrightarrow> (\<exists>y. s = Inr y \<and> f y = Inr c)"
  "(case q of None \<Rightarrow> Inl e | Some y \<Rightarrow> h y) = Inr c \<longleftrightarrow> (\<exists>y. q = Some y \<and> h y = Inr c)"
  by (auto split: sum.splits option.splits)

text \<open>The shape both loaders share.\<close>

lemma mode_cases:
  assumes "(if raw then Inl e0
      else if execution_mode env k = ''DISABLED'' then (if partial then Inl e1 else Inr disabled_config)
      else if execution_mode env k \<noteq> ''APPROVED'' then Inl e2
      else if lacking then Inl e3 else approved) = Inr c"
  shows "\<not> raw \<and> (if env k = Some ''APPROVED'' then approved = Inr c else c = disabled_config)"
  using assms by (cases "env k") (auto simp: execution_mode_def split: if_splits)

lemma approved_config:
  assumes "c = \<lparr>rc_enabled = True, rc_provider = Some ''BACKBLAZE_B2'', rc_region = region, rc_endpoint = endpoint,
      rc_destination = Some d, rc_identity = Some i, rc_key = Some k, rc_max_bytes = Some n, rc_max_cost = Some x\<rparr>"
    and "1 \<le> n" "n \<le> 10 * 1024 * 1024 * 1024" "is_finite x" "fle (Fin 0) x" "fle x (Fin 15)"
    and "\<And>s. s = d \<or> s = i \<or> s = k \<Longrightarrow> s \<noteq> [] \<and> length s \<le> 200 \<and> strip s = s \<and> secret_findings (PStr s) = []"
  shows "rc_enabled c \<and> bounded_config c"
  using assms(2-6) assms(7) [of d] assms(7) [of i] assms(7) [of k]
  by (simp add: assms(1) bounded_config_def map_filter_def)

lemma approved_backup_bounded:
  "approved_backup_config env = Inr c \<Longrightarrow> rc_enabled c \<and> bounded_config c"
  unfolding approved_backup_config_def Let_def guarded_Inr ebind_Inr_iff
  by (elim exE conjE, rule approved_config) (auto dest!: execution_ref_clean)

lemma approved_restore_bounded:
  "approved_restore_config env = Inr c \<Longrightarrow> rc_enabled c \<and> bounded_config c"
  unfolding approved_restore_config_def Let_def guarded_Inr ebind_Inr_iff
  by (elim exE conjE, rule approved_config) (auto dest!: execution_ref_clean)

text \<open>
  C20. Backup execution is off by default and bounded when it is on: both loaders return the disabled
  configuration, or one whose mode was \<open>APPROVED\<close>, whose bytes are between 1 and 10 GiB, whose cost is
  finite between 0 and 15, and whose references are bounded and free of secrets; and neither accepts
  an environment that holds a raw secret.
\<close>

theorem runtime_config_bounded:
  "(case load_backup_runtime_config env of Inl e \<Rightarrow> True | Inr c \<Rightarrow>
     \<not> list_ex (env_set env) FORBIDDEN_DIRECT_SECRET_ENV_KEYS \<and>
     (if env EXECUTION_MODE_KEY = Some ''APPROVED'' then rc_enabled c \<and> bounded_config c else c = disabled_config)) \<and>
   (case load_backup_restore_runtime_config env of Inl e \<Rightarrow> True | Inr c \<Rightarrow>
     \<not> list_ex (env_set env) FORBIDDEN_DIRECT_RESTORE_SECRET_KEYS \<and>
     (if env RESTORE_MODE_KEY = Some ''APPROVED'' then rc_enabled c \<and> bounded_config c else c = disabled_config))"
proof (rule conjI, goal_cases)
  case 1
  show ?case
  proof (cases "load_backup_runtime_config env")
    case (Inr c)
    show ?thesis
      unfolding Inr sum.case
      using mode_cases [OF Inr [unfolded load_backup_runtime_config_def Let_def]] approved_backup_bounded [of env c]
      by (simp split: if_split_asm)
  qed simp
next
  case 2
  show ?case
  proof (cases "load_backup_restore_runtime_config env")
    case (Inr c)
    show ?thesis
      unfolding Inr sum.case
      using mode_cases [OF Inr [unfolded load_backup_restore_runtime_config_def Let_def]] approved_restore_bounded [of env c]
      by (simp split: if_split_asm)
  qed simp
qed

section \<open>The monitor loop\<close>

lemma wp_monitor_iterations:
  assumes "int completed < m" and "m \<le> int (completed + fuel)"
  shows "wp (monitor_iterations fuel integrity_ok wait route stale_after (Some m) completed)
    (\<lambda>r v. \<exists>k. r = Some k \<and> completed < k \<and> int k \<le> m \<and> (int k = m \<or> wait k)) (\<lambda>e v. True) w"
  using assms
proof (induction fuel arbitrary: completed w)
  case (Suc fuel)
  show ?case
  proof (cases "m \<le> int (completed + 1) \<or> wait (completed + 1)")
    case True
    have "wp (bind (capture_monitor_snapshot i stale_after None (Some route)) (\<lambda>s. ret (Some (completed + 1))))
      (\<lambda>r v. \<exists>k. r = Some k \<and> completed < k \<and> int k \<le> m \<and> (int k = m \<or> wait k)) (\<lambda>e v. True) u" for i u
      using True Suc.prems(1) by (intro wp_step_any) (auto simp: wp_ret)
    then show ?thesis using True Suc.prems(1) by simp
  next
    case False
    have "wp (bind (capture_monitor_snapshot i stale_after None (Some route))
        (\<lambda>s. monitor_iterations fuel integrity_ok wait route stale_after (Some m) (completed + 1)))
      (\<lambda>r v. \<exists>k. r = Some k \<and> completed < k \<and> int k \<le> m \<and> (int k = m \<or> wait k)) (\<lambda>e v. True) u" for i u
      using False Suc.prems by (intro wp_step_any TrueI wp_mono [OF Suc.IH]) auto
    then show ?thesis using False Suc.prems(1) by simp
  qed
qed simp

text \<open>
  C21. The monitor loop with a maximum ends: with fuel for that many snapshots it never runs out. It
  returns the number of snapshots, which is the maximum unless a wait was interrupted earlier, or
  stops with the exception of an argument or of a snapshot.
\<close>

theorem monitor_loop_ends:
  assumes "m \<le> int fuel"
  shows "case run_monitor_loop fuel integrity_ok wait route interval stale_after (Some m) w of
      (Inl e, v) \<Rightarrow> True
    | (Inr r, v) \<Rightarrow> \<exists>k. r = Some k \<and> 1 \<le> k \<and> int k \<le> m \<and> (int k = m \<or> wait k)"
proof -
  have "wp (run_monitor_loop fuel integrity_ok wait route interval stale_after (Some m))
      (\<lambda>r v. \<exists>k. r = Some k \<and> 0 < k \<and> int k \<le> m \<and> (int k = m \<or> wait k)) (\<lambda>e v. True) w"
    unfolding run_monitor_loop_def using assms
    by (intro wp_step_guard TrueI wp_monitor_iterations) auto
  then show ?thesis by (auto simp: wp_def Suc_le_eq split: prod.splits sum.splits)
qed

theorem monitor_loop_ends_witness:
  "case run_monitor_loop 3 (\<lambda>k. True) (\<lambda>k. False) demo_monitor_route (Fin 30) 90 (Some 3) demo_start of
      (Inl e, v) \<Rightarrow> True
    | (Inr r, v) \<Rightarrow> \<exists>k. r = Some k \<and> 1 \<le> k \<and> int k \<le> 3 \<and> (int k = 3 \<or> False)"
  using monitor_loop_ends [where m = 3 and fuel = 3 and integrity_ok = "\<lambda>k. True" and wait = "\<lambda>k. False" and
      route = demo_monitor_route and interval = "Fin 30" and stale_after = 90 and w = demo_start] by simp

end
