(* ===== verification/Operator_Behaviour.thy ===== *)
theory Operator_Behaviour
  imports Worker_Behaviour Restore_Operator
begin

text \<open>
  What the agents may do at all, and what the operator workflows of transfers and restores do with
  a review: an operation that does not name the current review changes nothing, and a state is
  authorized only inside its window, with every secret and execution value absent.
\<close>

section \<open>Agents and connectors\<close>

text \<open>
  C18. The registry of the chief of staff can always be built, and every action in it is internal:
  within the IAC scope only, without external effect, reversible, neither prohibited nor in need of
  an approval, and only the registration of a coding delivery costs anything. Whatever value a
  handler is given as its payload, of any type, it leaves a reachable store well formed and only
  appends to the committed audit log.
\<close>

theorem chief_registry_internal:
  "\<exists>reg. chief_of_staff_registry integrity actor = Inr reg \<and>
    list_all (\<lambda>(p, h). pol_scopes p = [''IAC''] \<and> \<not> pol_external p \<and> pol_reversible p \<and> \<not> pol_approval p \<and>
      \<not> pol_prohibited p \<and> (pol_cost p \<longrightarrow> pol_name p = ''REGISTER_CODING_DELIVERY'')) reg \<and>
    (\<forall>p h payload w. (p, h) \<in> set reg \<longrightarrow> reachable w \<longrightarrow>
      store_ok (w_profile w) (w_db (effect (h payload) w)) \<and>
      prefix (db_audit (w_committed w)) (db_audit (w_committed (effect (h payload) w))))"
proof (intro exI conjI allI impI)
  show "chief_of_staff_registry integrity actor = Inr (chief_actions integrity actor)"
    by (rule chief_registered)
  show "list_all (\<lambda>(p, h). pol_scopes p = [''IAC''] \<and> \<not> pol_external p \<and> pol_reversible p \<and> \<not> pol_approval p \<and>
      \<not> pol_prohibited p \<and> (pol_cost p \<longrightarrow> pol_name p = ''REGISTER_CODING_DELIVERY'')) (chief_actions integrity actor)"
    by (simp add: chief_actions_def internal_policy_def)
  fix p h payload w
  assume member: "(p, h) \<in> set (chief_actions integrity actor)" and r: "reachable w"
  have e: "store.evolves (w_profile w) w (effect (h payload) w)"
    by (rule lawful_effect, rule chief_lawful [OF member])
  have "store.coherent (w_profile w) w" "store_ok (w_profile w) (w_committed w)"
    using reachable_coherent [OF r] by auto
  then have "store.coherent (w_profile w) (effect (h payload) w)"
    and le: "store_le (w_profile w) (w_committed w) (w_committed (effect (h payload) w))"
    using e by (auto simp: store.evolves_def)
  then show "store_ok (w_profile w) (w_db (effect (h payload) w))"
    using \<open>store_ok (w_profile w) (w_committed w)\<close> store_ok_le by (auto simp: store.coherent_def)
  show "prefix (db_audit (w_committed w)) (db_audit (w_committed (effect (h payload) w)))"
    using le by (auto simp: store_le_def dest: audit_stepD)
qed

theorem chief_registry_internal_witness:
  "store_ok ''IAC'' (w_db (effect (capture_idea sean PNone) demo_start))"
proof -
  obtain reg where reg: "chief_of_staff_registry [] sean = Inr reg"
    and ok: "\<forall>p h payload w. (p, h) \<in> set reg \<longrightarrow> reachable w \<longrightarrow>
      store_ok (w_profile w) (w_db (effect (h payload) w)) \<and>
      prefix (db_audit (w_committed w)) (db_audit (w_committed (effect (h payload) w)))"
    using chief_registry_internal [of "[]" sean] by blast
  have "(internal_policy ''CAPTURE_IAC_IDEA'', capture_idea sean) \<in> set reg"
    using reg by (auto simp: chief_registered chief_actions_def)
  moreover have "w_profile demo_start = ''IAC''"
    unfolding demo_start_def using opened_world [of "''IAC''" demo_clock demo_uuid demo_sha] by auto
  ultimately show ?thesis using ok reachable_start by metis
qed

text \<open>
  C19. In no reachable store is any connector enabled but the synthetic import of Claude artifacts,
  in its synthetic-only mode; every coding delivery is delivered and has a positive activity and
  cost; and no activation evidence authorizes a network action, a key, a secret, an upload, a
  restore or real data.
\<close>

theorem connectors_synthetic_only:
  assumes "reachable w"
  shows "list_all (\<lambda>r. cn_enabled r \<longrightarrow> cn_name r = ''CLAUDE_IMPORT'' \<and> cn_mode r = ''SYNTHETIC_ONLY'')
      (db_connectors (w_db w)) \<and>
    list_all (\<lambda>r. cg_status r = ''DELIVERED'' \<and> 0 < cg_activity r \<and> flt (Fin 0) (cg_cost r)) (db_codings (w_db w)) \<and>
    list_all (\<lambda>r. \<not> ac_network r \<and> \<not> ac_key r \<and> \<not> ac_secret r \<and> \<not> ac_upload r \<and> \<not> ac_restore r \<and> \<not> ac_real r)
      (db_activations (w_db w))"
  using reachable_ok [OF assms, of "w_db w"]
  by (auto simp: store_ok_def table_ok_def list_all_iff connector_ok_def coding_ok_def activation_ok_def)

theorem connectors_synthetic_only_witness:
  "list_all (\<lambda>r. cn_enabled r \<longrightarrow> cn_name r = ''CLAUDE_IMPORT'' \<and> cn_mode r = ''SYNTHETIC_ONLY'')
      (db_connectors (w_db demo_leased)) \<and>
    list_all (\<lambda>r. cg_status r = ''DELIVERED'' \<and> 0 < cg_activity r \<and> flt (Fin 0) (cg_cost r)) (db_codings (w_db demo_leased)) \<and>
    list_all (\<lambda>r. \<not> ac_network r \<and> \<not> ac_key r \<and> \<not> ac_secret r \<and> \<not> ac_upload r \<and> \<not> ac_restore r \<and> \<not> ac_real r)
      (db_activations (w_db demo_leased))"
  by (rule connectors_synthetic_only [OF reachable_leased])

section \<open>Stale reviews\<close>

text \<open>An action that raises and leaves both states of the database as they are.\<close>

definition refused :: "'a py \<Rightarrow> world \<Rightarrow> bool" where
  "refused m w \<longleftrightarrow> (\<exists>e v. m w = (Inl e, v) \<and> w_db v = w_db w \<and> w_committed v = w_committed w)"

lemma refused_bind: "refused m w \<Longrightarrow> refused (bind m f) w"
  by (auto simp: refused_def py_run)

lemma refused_seq: "refused m w \<Longrightarrow> refused (seq m n) w"
  by (auto simp: refused_def py_run)

lemma refused_raise: "refused (raise e) w"
  by (simp add: refused_def py_run)

lemma refused_lift: "r = Inr x \<or> r = Inl e \<Longrightarrow> (\<And>x. refused n w) \<Longrightarrow> refused (seq (lift_result r) n) w"
  by (auto simp: refused_def py_run split: sum.splits)

lemma refused_lifted: "refused n w \<Longrightarrow> refused (seq (lift_result r) n) w"
  by (cases r) (auto simp: refused_def py_run)

lemma refused_guarded: "refused n w \<Longrightarrow> refused (seq (raise_if c e) n) w"
  by (auto simp: refused_def py_run)

lemma refused_reader:
  assumes "reader m" and "wp m (\<lambda>x _. refused (f x) (snd (m w))) (\<lambda>_ _. True) w"
  shows "refused (bind m f) w"
proof (cases "m w")
  case (Pair r v)
  have same: "w_db v = w_db w" "w_committed v = w_committed w"
    using assms(1) by (auto simp: reader_def Pair dest: spec [of _ w])
  show ?thesis
    using assms(2) same by (cases r) (auto simp: refused_def py_run wp_def Pair)
qed

text \<open>The digest of the current review of a transfer, and of a restore.\<close>

definition names_review :: "pydict py \<Rightarrow> string \<Rightarrow> world \<Rightarrow> bool" where
  "names_review review expected w \<longleftrightarrow>
     (\<exists>d. fst (review w) = Inr d \<and> dget d ''review_sha256'' = PStr expected)"

lemma stale_review:
  assumes "\<not> names_review (review_backup_transfer host actor i) expected w"
  shows "refused (require_current_review host actor i expected) w"
  unfolding require_current_review_def
  by (intro refused_lifted refused_reader [OF reader_review_backup_transfer])
    (use assms in \<open>auto simp: wp_def names_review_def refused_def py_run split: prod.splits sum.splits\<close>)

lemma stale_restore_review:
  assumes "\<not> names_review (review_backup_restore actor i) expected w"
  shows "refused (require_current_restore_review actor i expected) w"
  unfolding require_current_restore_review_def
  by (intro refused_lifted refused_reader [OF reader_review_backup_restore])
    (use assms in \<open>auto simp: wp_def names_review_def refused_def py_run split: prod.splits sum.splits\<close>)

text \<open>
  C15. An operator operation that names a digest other than that of the review of the present state
  raises and leaves the database, committed or not, unchanged: for requests, decisions and
  authorizations, of transfers and of restores.
\<close>

theorem stale_review_refused:
  assumes "\<not> names_review (review_backup_transfer host actor i) expected w"
    and "\<not> names_review (review_backup_restore actor j) expected' w"
  shows "refused (request_exact_backup_approval host actor i expected expires_at t) w \<and>
    refused (decide_exact_backup_approval host actor i approval approve reason expected) w \<and>
    refused (authorize_exact_backup_state host env actor i approval expected confirm t) w \<and>
    refused (request_exact_restore_approval actor j expected' expires_at t) w \<and>
    refused (decide_exact_restore_approval actor j approval approve reason expected') w \<and>
    refused (authorize_exact_restore_state env actor j approval expected' confirm t) w"
  unfolding request_exact_backup_approval_def decide_exact_backup_approval_def authorize_exact_backup_state_def
    request_exact_restore_approval_def decide_exact_restore_approval_def authorize_exact_restore_state_def
  by (intro conjI refused_lifted refused_guarded refused_bind stale_review [OF assms(1)] stale_restore_review [OF assms(2)])

theorem stale_review_refused_witness:
  "refused (decide_exact_restore_approval sean (replicate 64 CHR ''a'') ''id'' True ''ok'' (replicate 64 CHR ''b'')) demo_start"
proof -
  have hash: "is_sha256 (PStr (replicate 64 CHR ''a''))" by code_simp
  obtain f where "w_db demo_start = db_runtime_update f empty_db"
    unfolding demo_start_def using opened_world [of "''IAC''" demo_clock demo_uuid demo_sha] by auto
  then have none: "db_transfers (w_db demo_start) = []" "db_restores (w_db demo_start) = []"
    by (simp_all add: empty_db_def)
  have "\<not> names_review (review_backup_transfer undefined sean (replicate 64 CHR ''a'')) (replicate 64 CHR ''b'') demo_start"
    unfolding names_review_def review_backup_transfer_def require_hash_def get_backup_transfer_def table_def
    by (simp only: py_run hash simp_thms if_False sum.case prod.case none) (simp add: row_by_def py_run)
  moreover
  have "\<not> names_review (review_backup_restore sean (replicate 64 CHR ''a'')) (replicate 64 CHR ''b'') demo_start"
    unfolding names_review_def review_backup_restore_def require_hash_def get_backup_restore_def table_def
    by (simp only: py_run hash simp_thms if_False sum.case prod.case none) (simp add: row_by_def py_run)
  ultimately show ?thesis using stale_review_refused by blast
qed

section \<open>Authorizing a state\<close>

lemma wp_require_review:
  "wp (require_current_review host actor i expected)
    (\<lambda>d v. fst (review_backup_transfer host actor i w) = Inr d \<and> dget d ''review_sha256'' = PStr expected)
    (\<lambda>_ _. True) w"
  unfolding require_current_review_def
  by (auto simp: wp_def py_run split: prod.splits sum.splits)

lemma wp_require_restore_review:
  "wp (require_current_restore_review actor i expected)
    (\<lambda>d v. fst (review_backup_restore actor i w) = Inr d \<and> dget d ''review_sha256'' = PStr expected)
    (\<lambda>_ _. True) w"
  unfolding require_current_restore_review_def
  by (auto simp: wp_def py_run split: prod.splits sum.splits)

lemma wp_current_instant: "wp (current_instant t) (\<lambda>dt v. t = None \<or> t = Some dt) (\<lambda>_ _. True) w"
  by (simp add: current_instant_def py_wp now_instant_def split: option.splits)

lemma wp_known: "C \<Longrightarrow> wp m (\<lambda>_ _. C) (\<lambda>_ _. True) w"
  by (simp add: wp_def split: prod.splits sum.splits)

lemma wp_authorize_backup_sean:
  "wp (authorize_backup actor i a scope) (\<lambda>_ _. actor_is_sean actor) (\<lambda>_ _. True) w"
  unfolding authorize_backup_def sean_only_def by (rule wp_step_guard, simp, rule wp_known, simp)

lemma wp_authorize_restore_sean:
  "wp (authorize_backup_restore actor i a t) (\<lambda>_ _. actor_is_sean actor) (\<lambda>_ _. True) w"
  unfolding authorize_backup_restore_def by (rule wp_step_guard, simp, rule wp_known, simp)

lemma operation_status:
  "operation_result name review a = Inr d \<Longrightarrow> dget d ''transfer_status'' = dget review ''transfer_status''"
  by (auto simp: operation_result_def dget_def Let_def split: list.splits if_splits)

lemma restore_operation_status:
  "restore_operation_result name review a = Inr d \<Longrightarrow> dget d ''restore_status'' = dget review ''restore_status''"
  by (auto simp: restore_operation_result_def dget_def Let_def split: list.splits if_splits)

text \<open>A step of which only a fact about its value is known.\<close>

lemma wp_bind_fact:
  "wp m (\<lambda>x _. C x) (\<lambda>_ _. True) w \<Longrightarrow> (\<And>x v. C x \<Longrightarrow> wp (f x) Q (\<lambda>_ _. True) v) \<Longrightarrow>
   wp (bind m f) Q (\<lambda>_ _. True) w"
  unfolding wp_bind by (erule wp_mono) auto

lemma wp_seq_fact:
  "wp m (\<lambda>_ _. C) (\<lambda>_ _. True) w \<Longrightarrow> (\<And>v. C \<Longrightarrow> wp n Q (\<lambda>_ _. True) v) \<Longrightarrow> wp (seq m n) Q (\<lambda>_ _. True) w"
  unfolding wp_seq by (erule wp_mono) auto

lemma wp_checked:
  "(\<And>x. r = Inr x \<Longrightarrow> wp n Q (\<lambda>_ _. True) w) \<Longrightarrow> wp (seq (lift_result r) n) Q (\<lambda>_ _. True) w"
  by (simp add: wp_seq wp_lift_result split: sum.split)

lemma wp_last: "(\<And>x. r = Inr x \<Longrightarrow> Q x w) \<Longrightarrow> wp (lift_result r) Q (\<lambda>_ _. True) w"
  by (simp add: wp_lift_result split: sum.split)

lemmas gate_steps = wp_checked wp_step_guard wp_step_lift wp_last TrueI
  wp_bind_fact [OF wp_require_review] wp_bind_fact [OF wp_require_restore_review] wp_bind_fact [OF wp_current_instant]
  wp_seq_fact [OF wp_authorize_backup_sean] wp_seq_fact [OF wp_authorize_restore_sean] wp_step_any

text \<open>What a current review must show before its approval is used, for a status and an item check.\<close>

definition authorizable ::
  "pydict py \<Rightarrow> string \<Rightarrow> bool \<Rightarrow> (pydict \<Rightarrow> bool) \<Rightarrow> datetime option \<Rightarrow> world \<Rightarrow> bool" where
  "authorizable review expected absent shows_approval t w \<longleftrightarrow> absent \<and>
     (\<exists>d dt. fst (review w) = Inr d \<and> dget d ''review_sha256'' = PStr expected \<and> shows_approval d \<and>
        (t = None \<or> t = Some dt) \<and> in_execution_window d dt = Inr True)"

lemma authorize_transfer_gate:
  "wp (authorize_exact_backup_state host env actor i a expected confirm t)
    (\<lambda>d v. confirm = i \<and> actor_is_sean actor \<and> dget d ''transfer_status'' = PStr ''AUTHORIZED'' \<and>
       authorizable (review_backup_transfer host actor i) expected (\<not> list_ex (env_set env) BACKUP_ACTIVATION_ENV_KEYS)
         (\<lambda>r. dget r ''transfer_status'' = PStr ''PREFLIGHT_VALIDATED'' \<and> exact_item ''APPROVED'' a r) t w)
    (\<lambda>_ _. True) w"
  unfolding authorize_exact_backup_state_def
  by (intro gate_steps) (auto simp: authorizable_def operation_status)

lemma authorize_restore_gate:
  "wp (authorize_exact_restore_state env actor i a expected confirm t)
    (\<lambda>d v. confirm = i \<and> actor_is_sean actor \<and> dget d ''restore_status'' = PStr ''AUTHORIZED'' \<and>
       authorizable (review_backup_restore actor i) expected (\<not> list_ex (env_set env) RESTORE_ACTIVATION_ENV_KEYS)
         (\<lambda>r. dget r ''restore_status'' = PStr ''PREFLIGHT_VALIDATED'' \<and> first_exact ''APPROVED'' a r) t w)
    (\<lambda>_ _. True) w"
  unfolding authorize_exact_restore_state_def
  by (intro gate_steps) (auto simp: authorizable_def restore_operation_status)


end
