(* ===== verification/Migration_Guard.thy ===== *)
theory Migration_Guard
  imports Backup_Pilot
begin

text \<open>
  \<^verbatim>\<open>sean_os/migration_guard.py\<close>: the database file is copied before its schema is migrated and is
  put back when the migration fails. The state is the directory of the database: the files by
  directory and name, each with its size, its digest and what SQLite and JSON read in it. Every
  operation that changes the directory may fail instead (\<open>gw_fault\<close>). What SQLite's backup call
  writes (\<open>gw_copy\<close>) and the migration itself are parameters.
\<close>

section \<open>The directory\<close>

text \<open>What a read-only connection reads: the integrity check, violated foreign keys and the ledger.\<close>

record db_image =
  di_integrity :: string
  di_violations :: bool
  di_ledger :: "int list option"

record stored_file =
  sf_bytes :: int
  sf_sha256 :: string
  sf_database :: "db_image option"
  sf_json :: "pyval option"

record guard_world =
  gw_files :: "path \<Rightarrow> stored_file option"
  gw_copy :: "stored_file \<Rightarrow> stored_file"
  gw_print :: "pydict \<Rightarrow> int \<times> string"
  gw_fault :: "nat \<Rightarrow> bool"
  gw_changes :: nat
  gw_clock :: "nat \<Rightarrow> instant"
  gw_tick :: nat
  gw_hex :: "nat \<Rightarrow> string"
  gw_fresh :: nat

type_synonym 'a guarded = "(guard_world, 'a) act"

definition file_at :: "path \<Rightarrow> stored_file option guarded" where
  "file_at p = reads (\<lambda>w. gw_files w p)"

definition change :: "((path \<Rightarrow> stored_file option) \<Rightarrow> path \<Rightarrow> stored_file option) \<Rightarrow> unit guarded" where
  "change f =
     bind (reads (\<lambda>w. gw_fault w (gw_changes w))) (\<lambda>bad.
     seq (modify (\<lambda>w. w\<lparr>gw_changes := gw_changes w + 1\<rparr>))
    (seq (raise_if bad (PortError ''OSError'' ''input/output error''))
      (modify (\<lambda>w. w\<lparr>gw_files := f (gw_files w)\<rparr>))))"

definition guard_now :: "instant guarded" where
  "guard_now = bind (reads (\<lambda>w. gw_clock w (gw_tick w))) (\<lambda>t.
     seq (modify (\<lambda>w. w\<lparr>gw_tick := gw_tick w + 1\<rparr>)) (ret t))"

definition guard_hex :: "string guarded" where
  "guard_hex = bind (reads (\<lambda>w. gw_hex w (gw_fresh w))) (\<lambda>u.
     seq (modify (\<lambda>w. w\<lparr>gw_fresh := gw_fresh w + 1\<rparr>)) (ret u))"

abbreviation guard_error :: "string \<Rightarrow> exn" where
  "guard_error m \<equiv> MigrationGuardError m"

section \<open>Reading a database\<close>

definition sqlite_image :: "path \<Rightarrow> db_image guarded" where
  "sqlite_image p = bind (file_at p) (\<lambda>file. case file of
     None \<Rightarrow> raise (OperationalError ''unable to open database file'')
   | Some f \<Rightarrow> (case sf_database f of
       None \<Rightarrow> raise (DatabaseError ''file is not a database'')
     | Some img \<Rightarrow> ret img))"

definition file_digest :: "path \<Rightarrow> string guarded" where
  "file_digest p = bind (file_at p) (\<lambda>file. case file of
     None \<Rightarrow> raise (PortError ''FileNotFoundError'' ''no such file'')
   | Some f \<Rightarrow> ret (sf_sha256 f))"

definition ledger_version :: "db_image \<Rightarrow> exn + int" where
  "ledger_version img = (case di_ledger img of
     None \<Rightarrow> Inl (guard_error ''Existing database has no schema migration ledger'')
   | Some rows \<Rightarrow>
       let versions = sort rows in
       if versions = [] then Inl (guard_error ''Existing database has an empty schema migration ledger'')
       else if versions \<noteq> [1 .. last versions]
       then Inl (guard_error ''Existing database has a non-contiguous migration ledger'')
       else Inr (last versions))"

definition schema_version :: "path \<Rightarrow> int guarded" where
  "schema_version p = bind (file_at p) (\<lambda>file.
     if (case file of None \<Rightarrow> True | Some f \<Rightarrow> sf_bytes f = 0) then ret 0
     else bind (sqlite_image p) (\<lambda>img. lift_result (ledger_version img)))"

definition verify_database :: "path \<Rightarrow> int \<Rightarrow> pydict guarded" where
  "verify_database p expected =
     bind (sqlite_image p) (\<lambda>img.
     bind (lift_result (ledger_version img)) (\<lambda>version.
     seq (raise_if (di_integrity img \<noteq> ''ok'' \<or> di_violations img \<or> version \<noteq> expected)
            (guard_error (''Database verification failed for expected schema v'' @ dec_int expected)))
    (bind (file_at p) (\<lambda>file. case file of
       None \<Rightarrow> raise (PortError ''FileNotFoundError'' ''no such file'')
     | Some f \<Rightarrow> ret [(''bytes'', PInt (sf_bytes f)), (''sha256'', PStr (sf_sha256 f)),
         (''schema_version'', PInt version), (''integrity_ok'', PBool True), (''foreign_key_violations'', PInt 0)]))))"

section \<open>Writing files\<close>

text \<open>\<open>path.with_name\<close> of a temporary name; \<open>os.replace\<close>; \<open>if path.exists(): path.unlink()\<close>.\<close>

definition temporary :: "path \<Rightarrow> string \<Rightarrow> string \<Rightarrow> path" where
  "temporary p kind hex = Path (path_directory p) (''.'' @ path_name p @ kind @ hex)"

definition replace_file :: "path \<Rightarrow> path \<Rightarrow> unit guarded" where
  "replace_file p q = bind (file_at p) (\<lambda>file. case file of
     None \<Rightarrow> raise (PortError ''FileNotFoundError'' ''no such file'')
   | Some f \<Rightarrow> change (\<lambda>files. files(p := None, q := Some f)))"

definition remove_existing :: "path \<Rightarrow> unit guarded" where
  "remove_existing p = bind (file_at p) (\<lambda>file. case file of
     None \<Rightarrow> ret () | Some f \<Rightarrow> change (\<lambda>files. files(p := None)))"

definition printed_file :: "(pydict \<Rightarrow> int \<times> string) \<Rightarrow> pydict \<Rightarrow> stored_file" where
  "printed_file print payload = \<lparr>sf_bytes = fst (print payload), sf_sha256 = snd (print payload), sf_database = None,
     sf_json = Some (PDict payload)\<rparr>"

definition write_json_atomic :: "path \<Rightarrow> pydict \<Rightarrow> unit guarded" where
  "write_json_atomic p payload =
     bind guard_hex (\<lambda>hex.
     let t = temporary p ''.tmp-'' hex in
     bind (reads gw_print) (\<lambda>print.
     try_finally
       (seq (change (\<lambda>files. files(t := Some (printed_file print payload))))
       (seq (change id)
         (replace_file t p)))
       (remove_existing t)))"

text \<open>A verified copy under a temporary name that then takes its place.\<close>

definition publish_copy :: "path \<Rightarrow> path \<Rightarrow> string \<Rightarrow> int \<Rightarrow> unit guarded" where
  "publish_copy source destination kind expected =
     bind guard_hex (\<lambda>hex.
     let t = temporary destination kind hex in
     bind (reads gw_copy) (\<lambda>copy.
     try_finally
       (seq (sqlite_image source)
       (bind (file_at source) (\<lambda>file. case file of
          None \<Rightarrow> raise (OperationalError ''unable to open database file'')
        | Some f \<Rightarrow>
            seq (change (\<lambda>files. files(t := Some (copy f))))
           (seq (change id)
           (seq (verify_database t expected)
             (replace_file t destination))))))
       (remove_existing t)))"

definition read_json :: "path \<Rightarrow> exn \<Rightarrow> pyval guarded" where
  "read_json p unreadable = bind (file_at p) (\<lambda>file. case file of
     None \<Rightarrow> raise unreadable
   | Some f \<Rightarrow> (case sf_json f of None \<Rightarrow> raise unreadable | Some v \<Rightarrow> ret v))"

section \<open>The backup before a migration\<close>

definition backup_path :: "path \<Rightarrow> int \<Rightarrow> int \<Rightarrow> path" where
  "backup_path p source_version target_version =
     Path (path_directory p) (path_name p @ ''.pre-migration-v'' @ dec_int source_version @ ''-to-v'' @ dec_int target_version @ ''.db'')"

definition manifest_path :: "path \<Rightarrow> path" where
  "manifest_path backup = Path (path_directory backup) (path_name backup @ ''.manifest.json'')"

definition manifest_identity :: "path \<Rightarrow> pydict \<Rightarrow> int \<Rightarrow> int \<Rightarrow> pydict" where
  "manifest_identity backup verified source_version target_version =
     [(''format'', PStr ''sean-os-pre-migration-backup/v1''), (''backup_file'', PStr (path_name backup)),
      (''sha256'', dget verified ''sha256''), (''bytes'', dget verified ''bytes''),
      (''source_schema_version'', PInt source_version), (''target_schema_version'', PInt target_version)]"

definition created_at :: "path \<Rightarrow> pydict \<Rightarrow> pyval guarded" where
  "created_at manifest identity = bind (file_at manifest) (\<lambda>file. case file of
     None \<Rightarrow> bind guard_now (\<lambda>t. ret (PStr (iso_utc t)))
   | Some f \<Rightarrow>
       bind (read_json manifest (guard_error ''Pre-migration backup manifest is unreadable'')) (\<lambda>prior.
       seq (raise_if (\<not> is_dict prior) (AttributeError ''object has no attribute get''))
      (seq (raise_if (\<not> matches (dval prior) identity)
              (guard_error ''Pre-migration backup manifest does not match backup''))
        (if truthy (dget (dval prior) ''created_at'') then ret (dget (dval prior) ''created_at'')
         else bind guard_now (\<lambda>t. ret (PStr (iso_utc t)))))))"

definition ensure_pre_migration_backup :: "path \<Rightarrow> int \<Rightarrow> int \<Rightarrow> pydict guarded" where
  "ensure_pre_migration_backup p source_version target_version =
     seq (raise_if (source_version \<le> 0 \<or> target_version \<le> source_version)
            (guard_error ''Pre-migration backup requires an older positive schema''))
    (bind (schema_version p) (\<lambda>version.
     seq (raise_if (version \<noteq> source_version) (guard_error ''Source schema changed before pre-migration backup''))
    (let backup = backup_path p source_version target_version; manifest = manifest_path backup in
     bind (file_at backup) (\<lambda>existing.
     seq (if existing \<noteq> None then ret () else publish_copy p backup ''.tmp-'' source_version)
    (bind (verify_database backup source_version) (\<lambda>verified.
     bind (created_at manifest (manifest_identity backup verified source_version target_version)) (\<lambda>stamp.
     let payload = [(''format'', PStr ''sean-os-pre-migration-backup/v1''), (''created_at'', stamp),
           (''source_schema_version'', PInt source_version), (''target_schema_version'', PInt target_version),
           (''backup_file'', PStr (path_name backup))] @ verified @
           [(''reused_existing'', PBool (existing \<noteq> None)), (''contains_record_content'', PBool True),
            (''record_content_inspected'', PBool False), (''storage_scope'', PStr ''SAME_RAILWAY_VOLUME'')] in
     seq (write_json_atomic manifest payload) (ret payload))))))))"

section \<open>Putting it back\<close>

definition sidecar :: "path \<Rightarrow> string \<Rightarrow> path" where
  "sidecar p extension = Path (path_directory p) (path_name p @ extension)"

text \<open>Moves the database and its side files away, in this order, and returns the moves made.\<close>

fun quarantine :: "path \<Rightarrow> path \<Rightarrow> string list \<Rightarrow> (path \<times> path) list guarded" where
  "quarantine p q [] = ret []"
| "quarantine p q (e # es) =
     bind (file_at (sidecar p e)) (\<lambda>file. case file of
       None \<Rightarrow> quarantine p q es
     | Some f \<Rightarrow> seq (replace_file (sidecar p e) (sidecar q e))
         (bind (quarantine p q es) (\<lambda>moves. ret ((sidecar p e, sidecar q e) # moves))))"

definition put_back :: "path \<times> path \<Rightarrow> unit guarded" where
  "put_back move = bind (file_at (fst move)) (\<lambda>original. bind (file_at (snd move)) (\<lambda>moved.
     if original = None \<and> moved \<noteq> None then replace_file (snd move) (fst move) else ret ()))"

definition restore_manifest_ok :: "pydict \<Rightarrow> path \<Rightarrow> pydict \<Rightarrow> int \<Rightarrow> int \<Rightarrow> bool" where
  "restore_manifest_ok manifest backup evidence source_version target_version \<longleftrightarrow>
     matches manifest [(''format'', PStr ''sean-os-pre-migration-backup/v1''), (''backup_file'', PStr (path_name backup)),
       (''sha256'', dget evidence ''sha256''), (''source_schema_version'', PInt source_version),
       (''target_schema_version'', PInt target_version)]"

definition quarantine_path :: "path \<Rightarrow> int \<Rightarrow> instant \<Rightarrow> string \<Rightarrow> path" where
  "quarantine_path p version t hex =
     Path (path_directory p) (path_name p @ ''.failed-migration-v'' @ dec_int version @ ''-'' @ compact_stamp t @ ''Z-'' @ take 8 hex)"

definition replace_database :: "path \<Rightarrow> path \<Rightarrow> int \<Rightarrow> int \<Rightarrow> int \<Rightarrow> string \<Rightarrow> pydict guarded" where
  "replace_database p backup source_version target_version current digest =
     bind guard_now (\<lambda>t. bind guard_hex (\<lambda>hex.
     bind (quarantine p (quarantine_path p current t hex) ['''', ''-wal'', ''-shm'']) (\<lambda>moves.
     seq (try_except (publish_copy backup p ''.restore-'' source_version)
            (\<lambda>e. seq (for_each moves put_back) (raise e)))
    (bind guard_now (\<lambda>restored_at.
     let evidence = [(''format'', PStr ''sean-os-migration-restore/v1''), (''restored'', PBool True),
           (''restored_at'', PStr (iso_utc restored_at)), (''source_schema_version'', PInt source_version),
           (''target_schema_version'', PInt target_version), (''backup_sha256'', PStr digest),
           (''quarantine_files'', PList (map (\<lambda>(a, b). PStr (path_name b)) moves)),
           (''worker_start_authorized'', PBool False)] in
     seq (write_json_atomic (sidecar p ''.migration-restore-evidence.json'') evidence) (ret evidence))))))"

definition restore_pre_migration_backup :: "path \<Rightarrow> int \<Rightarrow> int \<Rightarrow> pydict guarded" where
  "restore_pre_migration_backup p source_version target_version =
     (let backup = backup_path p source_version target_version; manifest = manifest_path backup in
      bind (file_at backup) (\<lambda>b. bind (file_at manifest) (\<lambda>m.
      seq (raise_if (b = None \<or> m = None) (guard_error ''Exact pre-migration backup and manifest are required''))
     (bind (verify_database backup source_version) (\<lambda>evidence.
      bind (read_json manifest (guard_error ''Exact pre-migration backup manifest is unreadable'')) (\<lambda>prior.
      seq (raise_if (\<not> is_dict prior) (AttributeError ''object has no attribute get''))
     (seq (raise_if (\<not> restore_manifest_ok (dval prior) backup evidence source_version target_version)
             (guard_error ''Exact pre-migration backup evidence does not match''))
     (bind (schema_version p) (\<lambda>current.
      bind (file_digest p) (\<lambda>digest.
      let expected = sval (dget evidence ''sha256'') in
      if current = source_version \<and> digest = expected
      then ret [(''restored'', PBool False), (''already_restored'', PBool True),
                (''schema_version'', PInt source_version), (''backup_sha256'', PStr expected)]
      else
        seq (raise_if (current < source_version \<or> target_version < current)
               (guard_error ''Current schema is outside the approved recovery range''))
            (replace_database p backup source_version target_version current expected)))))))))))"

section \<open>The guard\<close>

definition MIGRATION_REVERTED :: "int \<Rightarrow> string" where
  "MIGRATION_REVERTED version =
     ''Migration failed; schema v'' @ dec_int version @ '' was restored and worker start denied''"

definition MIGRATION_STUCK :: string where
  "MIGRATION_STUCK = ''Migration and automatic restoration both failed; worker start denied''"

definition run_migration :: "path \<Rightarrow> unit guarded \<Rightarrow> int \<Rightarrow> pydict guarded" where
  "run_migration p runner source_version =
     try_except (seq runner (verify_database p LATEST_SCHEMA_VERSION))
       (\<lambda>e. seq (try_except (restore_pre_migration_backup p source_version LATEST_SCHEMA_VERSION)
                   (\<lambda>e. raise (guard_error MIGRATION_STUCK)))
                (raise (guard_error (MIGRATION_REVERTED source_version))))"

definition not_migrated :: "int \<Rightarrow> pydict" where
  "not_migrated version = [(''migration_required'', PBool False), (''backup_created'', PBool False),
     (''schema_version'', PInt version)]"

definition guarded_migrate :: "path \<Rightarrow> unit guarded \<Rightarrow> pydict guarded" where
  "guarded_migrate p runner =
     bind (file_at p) (\<lambda>file.
     if (case file of None \<Rightarrow> True | Some f \<Rightarrow> sf_bytes f = 0)
     then seq runner (bind (schema_version p) (\<lambda>version. ret (not_migrated version)))
     else
       bind (schema_version p) (\<lambda>source_version.
       seq (raise_if (LATEST_SCHEMA_VERSION < source_version) (guard_error ''Database schema is newer than this runtime''))
      (if source_version = LATEST_SCHEMA_VERSION
       then seq (verify_database p LATEST_SCHEMA_VERSION) (ret (not_migrated source_version))
       else
         bind (ensure_pre_migration_backup p source_version LATEST_SCHEMA_VERSION) (\<lambda>manifest.
         bind (run_migration p runner source_version) (\<lambda>migrated.
         ret [(''migration_required'', PBool True), (''backup_created'', PBool True),
              (''source_schema_version'', PInt source_version), (''schema_version'', PInt LATEST_SCHEMA_VERSION),
              (''backup_file'', dget manifest ''backup_file''), (''backup_sha256'', dget manifest ''sha256''),
              (''integrity_ok'', dget migrated ''integrity_ok'')])))))"

end
