(* ===== verification/Migration_Behaviour.thy ===== *)
theory Migration_Behaviour
  imports Migration_Guard
begin

text \<open>
  What the migration guard promises: no outcome of a migration, and no failing operation on the
  directory of the database, loses the data of the older schema.
\<close>

section \<open>What an operation leaves alone\<close>

definition same_on :: "path set \<Rightarrow> guard_world \<Rightarrow> guard_world \<Rightarrow> bool" where
  "same_on Q w w' \<longleftrightarrow> (\<forall>q\<in>Q. gw_files w' q = gw_files w q) \<and> gw_copy w' = gw_copy w"

interpretation same: frame_relation "same_on Q" for Q
  by unfold_locales (auto simp: same_on_def)

lemma keeps_file_at: "keeps (same_on Q) (file_at p)"
  unfolding file_at_def by (rule same.keeps_reads)

lemma keeps_guard_now: "keeps (same_on Q) guard_now"
  unfolding guard_now_def by (intro same.keeps_intros same.keeps_modify) (simp add: same_on_def)

lemma keeps_guard_hex: "keeps (same_on Q) guard_hex"
  unfolding guard_hex_def by (intro same.keeps_intros same.keeps_modify) (simp add: same_on_def)

lemma keeps_change: "(\<And>files q. q \<in> Q \<Longrightarrow> f files q = files q) \<Longrightarrow> keeps (same_on Q) (change f)"
  unfolding change_def by (intro same.keeps_intros same.keeps_modify) (simp_all add: same_on_def)

lemma keeps_sqlite_image: "keeps (same_on Q) (sqlite_image p)"
  unfolding sqlite_image_def by (intro same.keeps_intros keeps_file_at)

lemma keeps_file_digest: "keeps (same_on Q) (file_digest p)"
  unfolding file_digest_def by (intro same.keeps_intros keeps_file_at)

lemma keeps_schema_version: "keeps (same_on Q) (schema_version p)"
  unfolding schema_version_def by (intro same.keeps_intros keeps_file_at keeps_sqlite_image)

lemma keeps_verify: "keeps (same_on Q) (verify_database p v)"
  unfolding verify_database_def by (intro same.keeps_intros keeps_file_at keeps_sqlite_image)

lemma keeps_read_json: "keeps (same_on Q) (read_json p e)"
  unfolding read_json_def by (intro same.keeps_intros keeps_file_at)

lemmas guard_keeps = same.keeps_intros keeps_file_at keeps_guard_now keeps_guard_hex keeps_sqlite_image
  keeps_file_digest keeps_schema_version keeps_verify keeps_read_json

lemma keeps_replace_file: "p \<notin> Q \<Longrightarrow> q \<notin> Q \<Longrightarrow> keeps (same_on Q) (replace_file p q)"
  unfolding replace_file_def by (intro guard_keeps keeps_change) auto

lemma keeps_remove_existing: "p \<notin> Q \<Longrightarrow> keeps (same_on Q) (remove_existing p)"
  unfolding remove_existing_def by (intro guard_keeps keeps_change) auto

lemma keeps_finally: "keeps (same_on Q) m \<Longrightarrow> keeps (same_on Q) f \<Longrightarrow> keeps (same_on Q) (try_finally m f)"
  unfolding try_finally_def attempt_def by (intro guard_keeps)

lemma keeps_let: "(\<And>x. x = t \<Longrightarrow> keeps R (f x)) \<Longrightarrow> keeps R (let x = t in f x)"
  by simp

lemma keeps_write_json:
  assumes "p \<notin> Q" and "\<And>hex. temporary p ''.tmp-'' hex \<notin> Q"
  shows "keeps (same_on Q) (write_json_atomic p payload)"
  unfolding write_json_atomic_def Let_def
  by (intro guard_keeps keeps_finally keeps_change keeps_replace_file keeps_remove_existing) (use assms in auto)

lemma keeps_publish:
  assumes "d \<notin> Q" and "\<And>hex. temporary d kind hex \<notin> Q"
  shows "keeps (same_on Q) (publish_copy s d kind v)"
  unfolding publish_copy_def Let_def
  by (intro guard_keeps keeps_finally keeps_change keeps_replace_file keeps_remove_existing) (use assms in auto)

lemma keeps_quarantine:
  "(\<And>e. e \<in> set es \<Longrightarrow> sidecar p e \<notin> Q \<and> sidecar q e \<notin> Q) \<Longrightarrow> keeps (same_on Q) (quarantine p q es)"
  by (induction es) (auto intro!: guard_keeps keeps_replace_file)

lemma keeps_put_back:
  assumes "fst m \<notin> Q" and "snd m \<notin> Q"
  shows "keeps (same_on Q) (put_back m)"
  unfolding put_back_def by (intro guard_keeps keeps_replace_file assms)

lemma keeps_created_at: "keeps (same_on Q) (created_at manifest identity)"
  unfolding created_at_def by (intro guard_keeps)

section \<open>The names\<close>

lemma dotted_name: "d \<noteq> CHR ''.'' \<Longrightarrow> CHR ''.'' # n @ CHR ''.'' # c # s \<noteq> n @ CHR ''.'' # d # t"
proof (induction n)
  case (Cons x n)
  then show ?case by (cases "x = CHR ''.''") auto
qed simp

lemma longer_path: "length (path_name p) < length (path_name q) \<Longrightarrow> q \<noteq> p"
  by auto

text \<open>The backup is none of the names a restoration writes.\<close>

lemma backup_name_distinct:
  fixes p :: path and v n :: int
  defines "b \<equiv> backup_path p v n"
  shows "sidecar p [] \<noteq> b" "sidecar p ''-wal'' \<noteq> b" "sidecar p ''-shm'' \<noteq> b" "p \<noteq> b"
    "sidecar (quarantine_path p c t hex) e \<noteq> b"
    "sidecar p ''.migration-restore-evidence.json'' \<noteq> b"
    "temporary p ''.restore-'' hex \<noteq> b"
    "temporary (sidecar p ''.migration-restore-evidence.json'') ''.tmp-'' hex \<noteq> b"
proof -
  show plain: "p \<noteq> b" unfolding b_def by (rule not_sym, rule longer_path) (simp add: backup_path_def)
  then show "sidecar p [] \<noteq> b" by (simp add: sidecar_def)
  show "sidecar p ''-wal'' \<noteq> b" "sidecar p ''-shm'' \<noteq> b"
    "sidecar (quarantine_path p c t hex) e \<noteq> b" "sidecar p ''.migration-restore-evidence.json'' \<noteq> b"
    by (simp_all add: b_def sidecar_def backup_path_def quarantine_path_def)
  show "temporary p ''.restore-'' hex \<noteq> b"
    using dotted_name [of "CHR ''p''" "path_name p" "CHR ''r''"] by (simp add: b_def temporary_def backup_path_def)
  show "temporary (sidecar p ''.migration-restore-evidence.json'') ''.tmp-'' hex \<noteq> b"
    using dotted_name [of "CHR ''p''" "path_name p" "CHR ''m''"] by (simp add: b_def temporary_def sidecar_def backup_path_def)
qed

lemma temporary_fresh: "temporary p kind hex \<noteq> p" "temporary (backup_path p v n) kind hex \<noteq> p"
    "temporary (manifest_path (backup_path p v n)) kind hex \<noteq> p"
    "temporary (manifest_path (backup_path p v n)) kind hex \<noteq> backup_path p v n"
    "temporary (sidecar p e) kind hex \<noteq> p"
  by (rule longer_path, simp add: temporary_def backup_path_def manifest_path_def sidecar_def)+

lemma manifest_fresh: "manifest_path (backup_path p v n) \<noteq> p" "manifest_path (backup_path p v n) \<noteq> backup_path p v n"
  "backup_path p v n \<noteq> p"
  by (rule longer_path, simp add: backup_path_def manifest_path_def)+

section \<open>The backup survives\<close>

lemma keeps_bind_result:
  assumes "keeps (same_on Q) m" and "\<And>w. wp m (\<lambda>x _. C x) (\<lambda>_ _. True) w" and "\<And>x. C x \<Longrightarrow> keeps (same_on Q) (f x)"
  shows "keeps (same_on Q) (bind m f)"
proof -
  have "same_on Q w (snd (bind m f w))" for w
  proof (cases "m w")
    case (Pair r v)
    have 1: "same_on Q w v" using same.keepsD [OF assms(1)] Pair by blast
    show ?thesis
    proof (cases r)
      case (Inr x)
      then have "C x" using assms(2) [of w] Pair by (simp add: wp_def)
      then have "same_on Q v (snd (f x v))" using assms(3) by (simp add: keeps_def)
      then show ?thesis using same.R_trans [OF 1] by (simp add: bind_def Pair Inr)
    qed (simp add: bind_def Pair 1)
  qed
  then show ?thesis by (simp add: keeps_def)
qed

lemma wp_quarantine_moves:
  "wp (quarantine p q es) (\<lambda>moves _. set moves \<subseteq> (\<lambda>e. (sidecar p e, sidecar q e)) ` set es) (\<lambda>_ _. True) w"
proof (induction es arbitrary: w)
  case (Cons e es)
  have "wp (quarantine p q es) (\<lambda>moves _. set moves \<subseteq> (\<lambda>e. (sidecar p e, sidecar q e)) ` set (e # es)) (\<lambda>_ _. True) v" for v
    by (rule wp_mono [OF Cons]) auto
  moreover have "wp (bind (quarantine p q es) (\<lambda>moves. ret ((sidecar p e, sidecar q e) # moves)))
      (\<lambda>moves _. set moves \<subseteq> (\<lambda>e. (sidecar p e, sidecar q e)) ` set (e # es)) (\<lambda>_ _. True) v" for v
    unfolding wp_bind wp_ret by (rule wp_mono [OF Cons]) auto
  ultimately show ?case
    by (auto simp: file_at_def py_wp replace_file_def change_def split: option.splits)
qed (simp add: py_wp)

lemma keeps_for_moves:
  "(\<And>m. m \<in> set moves \<Longrightarrow> keeps (same_on Q) (f m)) \<Longrightarrow> keeps (same_on Q) (for_each moves f)"
  by (induction moves) (auto intro: guard_keeps)

lemma keeps_replace_database:
  "keeps (same_on {backup_path p v n}) (replace_database p (backup_path p v n) v n current digest)"
  unfolding replace_database_def Let_def
proof (rule same.keeps_bind [OF keeps_guard_now], rule same.keeps_bind [OF keeps_guard_hex],
    rule keeps_bind_result [OF _ wp_quarantine_moves], goal_cases)
  case (1 t hex)
  show ?case
    by (intro keeps_quarantine) (use backup_name_distinct [where p = p and v = v and n = n] in auto)
next
  case (2 t hex moves)
  then have "m \<in> set moves \<Longrightarrow> fst m \<noteq> backup_path p v n \<and> snd m \<noteq> backup_path p v n" for m
    using backup_name_distinct [where p = p and v = v and n = n] by auto
  then show ?case
    using backup_name_distinct [where p = p and v = v and n = n]
    by (intro guard_keeps keeps_publish keeps_write_json keeps_for_moves keeps_put_back) auto
qed

lemma keeps_restore: "keeps (same_on {backup_path p v n}) (restore_pre_migration_backup p v n)"
  unfolding restore_pre_migration_backup_def Let_def by (intro guard_keeps keeps_replace_database)

section \<open>Outcomes\<close>

definition is_reverted :: "exn \<Rightarrow> bool" where
  "is_reverted e \<longleftrightarrow> (\<exists>v. e = guard_error (MIGRATION_REVERTED v))"

definition healthy :: "int \<Rightarrow> stored_file \<Rightarrow> bool" where
  "healthy v f \<longleftrightarrow> (\<exists>i. sf_database f = Some i \<and> ledger_version i = Inr v \<and> di_integrity i = ''ok'' \<and> \<not> di_violations i)"

lemma wp_file_at: "wp (file_at p) Q E w = Q (gw_files w p) w"
  by (simp add: file_at_def py_wp)

lemma wp_change: "wp (change f) Q E w =
    (if gw_fault w (gw_changes w) then E (PortError ''OSError'' ''input/output error'') (w\<lparr>gw_changes := gw_changes w + 1\<rparr>)
     else Q () (w\<lparr>gw_changes := gw_changes w + 1, gw_files := f (gw_files w)\<rparr>))"
  by (simp add: change_def py_wp)

lemma wp_sqlite_image: "wp (sqlite_image p) Q E w = (case gw_files w p of
     None \<Rightarrow> E (OperationalError ''unable to open database file'') w
   | Some f \<Rightarrow> (case sf_database f of None \<Rightarrow> E (DatabaseError ''file is not a database'') w | Some i \<Rightarrow> Q i w))"
  by (simp add: sqlite_image_def py_wp wp_file_at split: option.split)

lemmas guard_wp = py_wp wp_file_at wp_change wp_sqlite_image wp_try_finally

lemma ledger_error: "ledger_version i = Inl e \<Longrightarrow> \<not> is_reverted e"
  by (auto simp: ledger_version_def is_reverted_def MIGRATION_REVERTED_def Let_def split: option.splits if_splits)

lemma wp_verify_database:
  "wp (verify_database p v)
    (\<lambda>d u. u = w \<and> (\<exists>f. gw_files w p = Some f \<and> healthy v f \<and> dget d ''sha256'' = PStr (sf_sha256 f)))
    (\<lambda>e u. u = w \<and> \<not> is_reverted e) w"
  by (auto simp: verify_database_def guard_wp healthy_def dget_def is_reverted_def [where e = "MigrationGuardError m" for m]
      is_reverted_def [where e = "OperationalError m" for m] is_reverted_def [where e = "DatabaseError m" for m]
      MIGRATION_REVERTED_def ledger_error split: option.splits sum.splits)

lemma wp_schema_version:
  "wp (schema_version p) (\<lambda>v u. u = w) (\<lambda>e u. u = w \<and> \<not> is_reverted e) w"
  by (auto simp: schema_version_def guard_wp ledger_error is_reverted_def [where e = "OperationalError m" for m]
      is_reverted_def [where e = "DatabaseError m" for m] split: option.splits sum.splits)

lemma plain_errors [simp]:
  "\<not> is_reverted (PortError c m)" "\<not> is_reverted (OperationalError m)" "\<not> is_reverted (DatabaseError m)"
  "\<not> is_reverted (AttributeError m)"
  by (auto simp: is_reverted_def)

lemma wp_replace_file:
  "gw_files w p = Some f \<Longrightarrow> wp (replace_file p q)
    (\<lambda>_ u. gw_files u = (gw_files w)(p := None, q := Some f))
    (\<lambda>e u. \<not> is_reverted e \<and> gw_files u = gw_files w) w"
  by (simp add: replace_file_def guard_wp)

lemma wp_remove_existing:
  "wp (remove_existing t) (\<lambda>_ u. gw_files u = (gw_files w)(t := None)) (\<lambda>e u. \<not> is_reverted e \<and> gw_files u = gw_files w) w"
  by (auto simp: remove_existing_def guard_wp split: option.split)

text \<open>A clean-up that leaves the destination alone.\<close>

lemma wp_after_removal:
  "t \<noteq> d \<Longrightarrow> C (gw_files w d) \<Longrightarrow>
   wp (remove_existing t) (\<lambda>_ u. C (gw_files u d)) (\<lambda>e u. \<not> is_reverted e \<and> C (gw_files u d)) w"
  by (rule wp_mono [OF wp_remove_existing]) auto

lemma wp_step_change:
  assumes "\<And>u. gw_files u = gw_files w \<Longrightarrow> gw_copy u = gw_copy w \<Longrightarrow> E (PortError ''OSError'' ''input/output error'') u"
    and "\<And>u. gw_files u = f (gw_files w) \<Longrightarrow> gw_copy u = gw_copy w \<Longrightarrow> wp n Q E u"
  shows "wp (seq (change f) n) Q E w"
  using assms by (simp add: wp_seq wp_change)

lemma wp_publish_copy:
  assumes s: "gw_files w s = Some f" and t: "\<And>hex. temporary d kind hex \<noteq> d"
  shows "wp (publish_copy s d kind v) (\<lambda>_ u. gw_files u d = Some (gw_copy w f) \<and> healthy v (gw_copy w f))
    (\<lambda>e u. \<not> is_reverted e \<and> (gw_files u d = gw_files w d \<or> gw_files u d = Some (gw_copy w f) \<and> healthy v (gw_copy w f))) w"
proof -
  let ?Q = "\<lambda>u. gw_files u d = Some (gw_copy w f) \<and> healthy v (gw_copy w f)"
  define C where "C x \<longleftrightarrow> x = gw_files w d \<or> x = Some (gw_copy w f) \<and> healthy v (gw_copy w f)" for x
  let ?E = "\<lambda>e u. \<not> is_reverted e \<and> C (gw_files u d)"
  define t where "t = temporary d kind (gw_hex w (gw_fresh w))"
  have td: "t \<noteq> d" using t by (simp add: t_def)
  have removed: "wp (remove_existing t) (\<lambda>_. ?Q) ?E u"
    if "?Q u" for u
    by (rule wp_mono [OF wp_after_removal [where d = d and C = "\<lambda>x. x = Some (gw_copy w f) \<and> healthy v (gw_copy w f)"]])
      (use td that in \<open>auto simp: C_def\<close>)
  have failed: "wp (remove_existing t) (\<lambda>_ u. ?E e u) ?E u" if "?E e u" for e u
    by (rule wp_mono [OF wp_after_removal [where d = d and C = C]]) (use td that in auto)
  have move: "wp (seq (verify_database t v) (replace_file t d)) (\<lambda>_. ?Q) ?E u"
    if "gw_files u t = Some (gw_copy w f)" "gw_files u d = gw_files w d" for u
    unfolding wp_seq
    by (rule wp_mono [OF wp_verify_database]; (elim conjE exE)?)
      (use that td in \<open>auto simp: C_def intro!: wp_mono [OF wp_replace_file]\<close>)
  have stage: "wp (seq (change (\<lambda>files. files(t := Some (gw_copy w f)))) (seq (change id)
      (seq (verify_database t v) (replace_file t d)))) (\<lambda>_. ?Q) ?E u"
    if "gw_files u = gw_files w" for u
    by (intro wp_step_change move) (use that td in \<open>auto simp: C_def\<close>)
  have body: "wp (seq (sqlite_image s) (bind (file_at s) (\<lambda>file. case file of
          None \<Rightarrow> raise (OperationalError ''unable to open database file'')
        | Some f \<Rightarrow> seq (change (\<lambda>files. files(t := Some (gw_copy w f)))) (seq (change id)
           (seq (verify_database t v) (replace_file t d))))))
      (\<lambda>_. ?Q) ?E u" if "gw_files u = gw_files w" for u
    unfolding wp_seq [where m = "sqlite_image s"] wp_bind wp_sqlite_image wp_file_at
    using stage [OF that] that by (simp add: s C_def split: option.split)
  have "wp (try_finally (seq (sqlite_image s) (bind (file_at s) (\<lambda>file. case file of
          None \<Rightarrow> raise (OperationalError ''unable to open database file'')
        | Some f \<Rightarrow> seq (change (\<lambda>files. files(t := Some (gw_copy w f)))) (seq (change id)
           (seq (verify_database t v) (replace_file t d)))))) (remove_existing t))
      (\<lambda>_. ?Q) ?E (w\<lparr>gw_fresh := gw_fresh w + 1\<rparr>)"
    unfolding wp_try_finally by (rule wp_mono [OF body]) (use removed failed in auto)
  from this [unfolded t_def] show ?thesis
    by (simp add: publish_copy_def guard_hex_def Let_def wp_bind [where m = "reads g" for g] wp_bind [where m = "bind m g" for m g]
        wp_seq [where m = "modify g" for g] wp_reads wp_modify wp_ret C_def)
qed

text \<open>No operation below the guard raises the exception that reports a reverted migration.\<close>

definition clean :: "'a guarded \<Rightarrow> bool" where
  "clean m \<longleftrightarrow> (\<forall>w. wp m (\<lambda>_ _. True) (\<lambda>e _. \<not> is_reverted e) w)"

lemma clean_bind: "clean m \<Longrightarrow> (\<And>x. clean (f x)) \<Longrightarrow> clean (bind m f)"
  unfolding clean_def wp_bind by (blast intro: wp_mono)

lemma clean_seq: "clean m \<Longrightarrow> clean n \<Longrightarrow> clean (seq m n)"
  by (simp add: seq_def clean_bind)

lemma clean_raise_if: "\<not> is_reverted e \<Longrightarrow> clean (raise_if c e)"
  by (simp add: clean_def py_wp)

lemma clean_raise: "\<not> is_reverted e \<Longrightarrow> clean (raise e)"
  by (simp add: clean_def py_wp)

lemma clean_values: "clean (ret x)" "clean (reads f)" "clean (modify g)" "clean (file_at p)"
  by (simp_all add: clean_def guard_wp)

lemma clean_change: "clean (change f)"
  by (simp add: clean_def wp_change)

lemma clean_finally: "clean m \<Longrightarrow> clean f \<Longrightarrow> clean (try_finally m f)"
  unfolding clean_def wp_try_finally by (blast intro: wp_mono)

lemma clean_option: "(x = None \<Longrightarrow> clean m) \<Longrightarrow> (\<And>y. x = Some y \<Longrightarrow> clean (f y)) \<Longrightarrow> clean (case x of None \<Rightarrow> m | Some y \<Rightarrow> f y)"
  by (cases x) auto

lemma clean_if: "clean m \<Longrightarrow> clean n \<Longrightarrow> clean (if c then m else n)"
  by simp

lemma clean_readers: "clean (sqlite_image p)" "clean (schema_version p)" "clean (verify_database p v)"
  by (auto simp: clean_def wp_sqlite_image split: option.split
      intro: wp_mono [OF wp_schema_version] wp_mono [OF wp_verify_database])

lemmas clean_intros = clean_bind clean_seq clean_raise_if clean_raise clean_values clean_change clean_finally
  clean_option clean_if clean_readers plain_errors

lemma guard_error_clean: "take 1 m \<noteq> ''M'' \<Longrightarrow> \<not> is_reverted (guard_error m)"
  by (auto simp: is_reverted_def MIGRATION_REVERTED_def)

lemma clean_guard_now: "clean guard_now"
  unfolding guard_now_def by (intro clean_intros)

lemma clean_write_json: "clean (write_json_atomic p payload)"
  unfolding write_json_atomic_def guard_hex_def Let_def replace_file_def remove_existing_def
  by (intro clean_intros)

lemma clean_created_at: "clean (created_at manifest identity)"
  unfolding created_at_def guard_now_def read_json_def
  by (intro clean_intros guard_error_clean) simp_all

lemma guard_check: "(c \<Longrightarrow> E e w) \<Longrightarrow> (\<not> c \<Longrightarrow> wp n Q E w) \<Longrightarrow> wp (seq (raise_if c e) n) Q E w"
  by (simp add: py_wp)

lemma guard_bind: "wp m P E w \<Longrightarrow> (\<And>x u. P x u \<Longrightarrow> wp (f x) Q E u) \<Longrightarrow> wp (bind m f) Q E w"
  unfolding wp_bind by (erule wp_mono) auto

lemma guard_seq: "wp m (\<lambda>_. P) E w \<Longrightarrow> (\<And>u. P u \<Longrightarrow> wp n Q E u) \<Longrightarrow> wp (seq m n) Q E w"
  unfolding wp_seq by (erule wp_mono) auto

text \<open>A step that only reads.\<close>

lemma guard_read: "wp m (\<lambda>x u. u = w \<and> C x) E w \<Longrightarrow> (\<And>x. C x \<Longrightarrow> wp (f x) Q E w) \<Longrightarrow> wp (bind m f) Q E w"
  unfolding wp_bind by (erule wp_mono) auto

lemma guard_file: "wp (f (gw_files w p)) Q E w \<Longrightarrow> wp (bind (file_at p) f) Q E w"
  by (simp add: guard_wp)

lemma wp_kept:
  assumes "keeps (same_on Q) m" and "wp m P E w"
  shows "wp m (\<lambda>x u. P x u \<and> same_on Q w u) (\<lambda>e u. E e u \<and> same_on Q w u) w"
  using assms(2) same.keepsD [OF assms(1), of w] by (auto simp: wp_def split: prod.splits sum.splits)

lemma wp_clean_kept:
  assumes "keeps (same_on Q) m" and "clean m"
  shows "wp m (\<lambda>_ u. same_on Q w u) (\<lambda>e u. \<not> is_reverted e \<and> same_on Q w u) w"
  by (rule wp_mono [OF wp_kept [OF assms(1)]]) (use assms(2) in \<open>auto simp: clean_def\<close>)

lemma wp_ensure:
  assumes p: "gw_files w p = Some f" and none: "gw_files w (backup_path p v n) = None"
  shows "wp (ensure_pre_migration_backup p v n)
    (\<lambda>_ u. gw_files u (backup_path p v n) = Some (gw_copy w f) \<and> healthy v (gw_copy w f) \<and> gw_copy u = gw_copy w)
    (\<lambda>e u. \<not> is_reverted e \<and> gw_files u p = Some f \<and>
       (gw_files u (backup_path p v n) = None \<or> gw_files u (backup_path p v n) = Some (gw_copy w f) \<and> healthy v (gw_copy w f))) w"
proof -
  let ?b = "backup_path p v n" and ?m = "manifest_path (backup_path p v n)"
  let ?Q = "\<lambda>u. gw_files u ?b = Some (gw_copy w f) \<and> healthy v (gw_copy w f) \<and> gw_copy u = gw_copy w \<and> gw_files u p = Some f"
  let ?E = "\<lambda>e u. \<not> is_reverted e \<and> gw_files u p = Some f \<and> (gw_files u ?b = None \<or> gw_files u ?b = Some (gw_copy w f) \<and> healthy v (gw_copy w f))"
  have copied: "wp (publish_copy p ?b ''.tmp-'' v) (\<lambda>_. ?Q) ?E w"
    by (rule wp_mono [OF wp_kept [where Q = "{p}", OF keeps_publish wp_publish_copy [OF p]]])
      (use p none temporary_fresh [of ?b] temporary_fresh manifest_fresh in \<open>auto simp: same_on_def\<close>)
  have rest: "wp (bind (verify_database ?b v) (\<lambda>verified. bind (created_at ?m (g verified)) (\<lambda>stamp.
      seq (write_json_atomic ?m (h verified stamp)) (ret (h verified stamp))))) (\<lambda>_. ?Q) ?E u"
    if "?Q u" for u and g :: "pydict \<Rightarrow> pydict" and h :: "pydict \<Rightarrow> pyval \<Rightarrow> pydict"
    by (rule wp_mono [OF wp_clean_kept [where Q = "{p, ?b}"]])
      (use that temporary_fresh manifest_fresh in
        \<open>auto simp: same_on_def intro!: guard_keeps keeps_write_json keeps_created_at clean_intros clean_created_at clean_write_json\<close>)
  have "wp (ensure_pre_migration_backup p v n) (\<lambda>_. ?Q) ?E w"
    unfolding ensure_pre_migration_backup_def Let_def
  proof (rule guard_check, goal_cases)
    case 2
    show ?case
    proof (rule guard_bind [where P = "\<lambda>_ u. u = w"], goal_cases)
      case 1
      show ?case by (rule wp_mono [OF wp_schema_version]) (use p none in auto)
    next
      case (2 version u)
      then show ?case
        using p none
        by (intro guard_check guard_file)
          (simp_all add: guard_error_clean, intro guard_seq [OF copied] rest)
    qed
  qed (use p none in \<open>simp add: guard_error_clean\<close>)
  then show ?thesis by (rule wp_mono) auto
qed

lemma wp_replace_database:
  assumes b: "gw_files w (backup_path p v n) = Some c"
  shows "wp (replace_database p (backup_path p v n) v n current digest)
    (\<lambda>_ u. gw_files u p = Some (gw_copy w c) \<and> healthy v (gw_copy w c)) (\<lambda>_ _. True) w"
proof -
  let ?b = "backup_path p v n"
  let ?Q = "\<lambda>u. gw_files u ?b = Some c \<and> gw_copy u = gw_copy w"
  let ?R = "\<lambda>u. gw_files u p = Some (gw_copy w c) \<and> healthy v (gw_copy w c)"
  have moved: "wp (quarantine p (quarantine_path p current t hex) ['''', ''-wal'', ''-shm'']) (\<lambda>_. ?Q) (\<lambda>_ _. True) u"
    if "?Q u" for u t hex
  proof (rule wp_mono [OF wp_kept [where Q = "{?b}", OF keeps_quarantine wp_quarantine_moves]])
    fix e assume "e \<in> set ['''', ''-wal'', ''-shm'']"
    then show "sidecar p e \<notin> {?b} \<and> sidecar (quarantine_path p current t hex) e \<notin> {?b}"
      using backup_name_distinct [where p = p and v = v and n = n] by auto
  qed (use that in \<open>auto simp: same_on_def\<close>)
  have published: "wp (try_except (publish_copy ?b p ''.restore-'' v) (\<lambda>e. seq (for_each moves put_back) (raise e)))
      (\<lambda>_. ?R) (\<lambda>_ _. True) u" if "?Q u" for u moves
    unfolding wp_try_except
    by (rule wp_mono [OF wp_publish_copy [where f = c]])
      (use that temporary_fresh in \<open>auto simp: wp_def py_run split: prod.splits sum.splits\<close>)
  have noted: "wp (bind guard_now (\<lambda>t. seq (write_json_atomic (sidecar p ''.migration-restore-evidence.json'') (g t)) (ret (g t))))
      (\<lambda>_. ?R) (\<lambda>_ _. True) u" if "?R u" for u and g :: "instant \<Rightarrow> pydict"
    by (rule wp_mono [OF wp_clean_kept [where Q = "{p}"]])
      (use that temporary_fresh longer_path [of p "sidecar p ''.migration-restore-evidence.json''"] in
        \<open>auto simp: same_on_def sidecar_def intro!: guard_keeps keeps_write_json
          clean_intros clean_guard_now clean_write_json\<close>)
  show ?thesis
    unfolding replace_database_def Let_def guard_hex_def
    apply (rule guard_bind [where P = "\<lambda>_. ?Q"])
     apply (use b in \<open>simp add: guard_now_def py_wp\<close>)
    apply (rule guard_bind [where P = "\<lambda>_. ?Q"])
     apply (simp add: py_wp)
    by (intro guard_bind [OF moved] guard_seq [OF published] noted)
qed

lemma wp_restore:
  assumes b: "gw_files w (backup_path p v n) = Some c"
  shows "wp (restore_pre_migration_backup p v n)
    (\<lambda>_ u. \<exists>g. gw_files u p = Some g \<and> (g = gw_copy w c \<and> healthy v g \<or> sf_sha256 g = sf_sha256 c)) (\<lambda>_ _. True) w"
proof -
  have digest: "wp (file_digest p) (\<lambda>d u. u = w \<and> (\<exists>g. gw_files w p = Some g \<and> d = sf_sha256 g)) (\<lambda>_ _. True) w" for p
    by (simp add: file_digest_def guard_wp split: option.split)
  have json: "wp (read_json q e) (\<lambda>_ u. u = w \<and> True) (\<lambda>_ _. True) w" for q e
    by (simp add: read_json_def guard_wp split: option.split)
  have schema: "wp (schema_version p) (\<lambda>_ u. u = w \<and> True) (\<lambda>_ _. True) w"
    by (rule wp_mono [OF wp_schema_version]) auto
  have verified: "wp (verify_database (backup_path p v n) v)
      (\<lambda>d u. u = w \<and> dget d ''sha256'' = PStr (sf_sha256 c)) (\<lambda>_ _. True) w"
    by (rule wp_mono [OF wp_verify_database]) (use b in auto)
  show ?thesis
    unfolding restore_pre_migration_backup_def Let_def
    by (intro guard_file guard_check guard_read [OF verified] guard_read [OF json] guard_read [OF schema]
        guard_read [OF digest] TrueI)
      (auto simp: wp_ret intro!: guard_check wp_mono [OF wp_replace_database [OF b]])
qed

lemma wp_run_migration:
  assumes b: "gw_files w (backup_path p v LATEST_SCHEMA_VERSION) = Some c"
    and runner: "keeps (same_on (- {p, sidecar p ''-wal'', sidecar p ''-shm''})) runner"
  shows "wp (run_migration p runner v)
    (\<lambda>_ u. gw_files u (backup_path p v LATEST_SCHEMA_VERSION) = Some c \<and>
       (\<exists>g. gw_files u p = Some g \<and> healthy LATEST_SCHEMA_VERSION g))
    (\<lambda>e u. gw_files u (backup_path p v LATEST_SCHEMA_VERSION) = Some c \<and> (is_reverted e \<longrightarrow>
       (\<exists>g. gw_files u p = Some g \<and> (g = gw_copy w c \<and> healthy v g \<or> sf_sha256 g = sf_sha256 c)))) w"
proof -
  let ?b = "backup_path p v LATEST_SCHEMA_VERSION"
  let ?K = "\<lambda>u. gw_files u ?b = Some c \<and> gw_copy u = gw_copy w"
  let ?E = "\<lambda>e u. gw_files u ?b = Some c \<and> (is_reverted e \<longrightarrow>
       (\<exists>g. gw_files u p = Some g \<and> (g = gw_copy w c \<and> healthy v g \<or> sf_sha256 g = sf_sha256 c)))"
  have "?b \<in> - {p, sidecar p ''-wal'', sidecar p ''-shm''}"
    using backup_name_distinct [where p = p and v = v and n = LATEST_SCHEMA_VERSION] by auto
  then have ran: "wp runner (\<lambda>_. ?K) (\<lambda>_. ?K) w"
    using same.keepsD [OF runner, of w] b by (auto simp: wp_def same_on_def split: prod.splits sum.splits)
  have stuck: "\<not> is_reverted (guard_error MIGRATION_STUCK)"
    by (auto simp: is_reverted_def MIGRATION_STUCK_def MIGRATION_REVERTED_def)
  have undone: "wp (seq (try_except (restore_pre_migration_backup p v LATEST_SCHEMA_VERSION)
                   (\<lambda>e. raise (guard_error MIGRATION_STUCK)))
                (raise (guard_error (MIGRATION_REVERTED v)))) Q ?E u" if "?K u" for u and Q :: "pydict \<Rightarrow> guard_world \<Rightarrow> bool"
    unfolding wp_seq wp_try_except wp_raise
    by (rule wp_mono [OF wp_kept [OF keeps_restore wp_restore [where c = c]]]) (use that stuck in \<open>auto simp: same_on_def\<close>)
  show ?thesis
    unfolding run_migration_def wp_try_except wp_seq [where m = runner]
    by (rule wp_mono [OF ran]; (rule wp_mono [OF wp_verify_database])?) (auto intro: undone)
qed

text \<open>A migration that changes the database of version 17 and leaves it damaged.\<close>

definition demo_path :: path where
  "demo_path = Path ''/data'' ''os.db''"

definition demo_database :: "string \<Rightarrow> int list \<Rightarrow> stored_file" where
  "demo_database verdict ledger = \<lparr>sf_bytes = 8192, sf_sha256 = ''d1'',
     sf_database = Some \<lparr>di_integrity = verdict, di_violations = False, di_ledger = Some ledger\<rparr>, sf_json = None\<rparr>"

definition demo_directory :: guard_world where
  "demo_directory = \<lparr>gw_files = (\<lambda>_. None)(demo_path := Some (demo_database ''ok'' [1..17])),
     gw_copy = (\<lambda>f. f\<lparr>sf_sha256 := ''d2''\<rparr>), gw_print = (\<lambda>_. (100, ''d3'')), gw_fault = (\<lambda>_. False), gw_changes = 0,
     gw_clock = (\<lambda>n. int n), gw_tick = 0, gw_hex = dec, gw_fresh = 0\<rparr>"

definition demo_migration :: "unit guarded" where
  "demo_migration = change (\<lambda>files. files(demo_path := Some (demo_database ''malformed'' [1..18])))"





end
