(* ===== verification/Py_Codec.thy ===== *)
theory Py_Codec
  imports Calendar
begin

text \<open>
  The decoders of the Python standard library that the runtime applies to data from outside:
  \<open>json.loads\<close> of a text and \<open>base64.b64decode(s, validate=True)\<close>, each with the encoder it
  inverts. An escape of a code point above 255, which the model's strings do not hold, is an error
  of \<open>json_loads\<close>. The fuel of the parser is twice the length of the text, and more changes nothing
  (\<open>scan_fuel\<close>); the interpreter's own limit on nesting is not modelled.
\<close>

section \<open>JSON texts\<close>

definition json_space :: "char \<Rightarrow> bool" where
  "json_space c = (c = CHR '' '' \<or> c = CHR 0x09 \<or> c = CHR 0x0A \<or> c = CHR 0x0D)"

abbreviation skip_ws :: "string \<Rightarrow> string" where
  "skip_ws \<equiv> dropWhile json_space"

definition hex_value :: "char \<Rightarrow> nat option" where
  "hex_value c = (let n = (of_char c :: nat) in
     if is_digit c then Some (n - 48)
     else if CHR ''a'' \<le> c \<and> c \<le> CHR ''f'' then Some (n - 87)
     else if CHR ''A'' \<le> c \<and> c \<le> CHR ''F'' then Some (n - 55) else None)"

text \<open>The character a \<open>\u\<close> escape names.\<close>

definition unicode_escape :: "string \<Rightarrow> char option" where
  "unicode_escape s = (case map hex_value s of
     [Some a, Some b, Some c, Some d] \<Rightarrow> if a = 0 \<and> b = 0 then Some (char_of (16 * c + d)) else None
   | _ \<Rightarrow> None)"

definition simple_escape :: "char \<Rightarrow> char option" where
  "simple_escape c = map_of [(CHR 0x22, CHR 0x22), (CHR 0x5C, CHR 0x5C), (CHR ''/'', CHR ''/''), (CHR ''b'', CHR 0x08),
     (CHR ''f'', CHR 0x0C), (CHR ''n'', CHR 0x0A), (CHR ''r'', CHR 0x0D), (CHR ''t'', CHR 0x09)] c"

text \<open>The rest of a string literal after its opening quote.\<close>

fun scan_string :: "string \<Rightarrow> (string \<times> string) option" where
  "scan_string [] = None"
| "scan_string (c # s) =
     (if c = CHR 0x22 then Some ([], s)
      else if c = CHR 0x5C then
        (case s of
           [] \<Rightarrow> None
         | e # t \<Rightarrow>
             if e = CHR ''u'' then
               (case unicode_escape (take 4 t) of
                  None \<Rightarrow> None
                | Some x \<Rightarrow> map_option (\<lambda>(r, u). (x # r, u)) (scan_string (drop 4 t)))
             else
               (case simple_escape e of
                  None \<Rightarrow> None
                | Some x \<Rightarrow> map_option (\<lambda>(r, u). (x # r, u)) (scan_string t)))
      else if (of_char c :: nat) < 32 then None
      else map_option (\<lambda>(r, u). (c # r, u)) (scan_string s))"

text \<open>The rest of a number: a fraction needs a digit after its point, and so does an exponent.\<close>

definition scan_fraction :: "string \<Rightarrow> string \<times> string" where
  "scan_fraction s = (case s of
     c # d # t \<Rightarrow> if c = CHR ''.'' \<and> is_digit d then (c # takeWhile is_digit (d # t), dropWhile is_digit (d # t)) else ([], s)
   | _ \<Rightarrow> ([], s))"

definition scan_exponent :: "string \<Rightarrow> string \<times> string" where
  "scan_exponent s = (case s of
     c # t \<Rightarrow>
       let sign = takeWhile (\<lambda>x. x = CHR ''+'' \<or> x = CHR ''-'') (take 1 t); u = drop (length sign) t in
       if lower_char c = CHR ''e'' \<and> takeWhile is_digit u \<noteq> []
       then (c # sign @ takeWhile is_digit u, dropWhile is_digit u) else ([], s)
   | _ \<Rightarrow> ([], s))"

definition scan_digits :: "string \<Rightarrow> (string \<times> string) option" where
  "scan_digits s = (case s of
     [] \<Rightarrow> None
   | c # t \<Rightarrow> if \<not> is_digit c then None
       else if c = CHR ''0'' then Some ([c], t) else Some (takeWhile is_digit s, dropWhile is_digit s))"

definition scan_number :: "string \<Rightarrow> (pyval \<times> string) option" where
  "scan_number s =
     (let negative = starts_with s ''-''; body = (if negative then tl s else s) in
      case scan_digits body of
        None \<Rightarrow> None
      | Some (whole, t) \<Rightarrow>
          let (frac, u) = scan_fraction t; (ex, v) = scan_exponent u in
          if frac = [] \<and> ex = []
          then Some (PInt (if negative then - int (digits_value whole) else int (digits_value whole)), v)
          else map_option (\<lambda>x. (PFloat (if negative then fneg x else x), v)) (parse_unsigned_float (whole @ frac @ ex)))"

definition scan_word :: "string \<Rightarrow> (pyval \<times> string) option" where
  "scan_word s =
     (case find (\<lambda>(w, v). starts_with s w) [(''null'', PNone), (''true'', PBool True), (''false'', PBool False),
        (''NaN'', PFloat NaN), (''Infinity'', PFloat PosInf), (''-Infinity'', PFloat NegInf)] of
        Some (w, v) \<Rightarrow> Some (v, drop (length w) s)
      | None \<Rightarrow> scan_number s)"

text \<open>
  A value at the start of a text, the items of an array up to its bracket, and the members of an
  object up to its brace. A later member with the same key replaces the value of an earlier one.
\<close>

fun scan_value :: "nat \<Rightarrow> string \<Rightarrow> (pyval \<times> string) option"
  and scan_items :: "nat \<Rightarrow> string \<Rightarrow> (pyval list \<times> string) option"
  and scan_members :: "nat \<Rightarrow> pydict \<Rightarrow> string \<Rightarrow> (pydict \<times> string) option" where
  "scan_value 0 s = None"
| "scan_value (Suc n) s = (case s of
     [] \<Rightarrow> None
   | c # t \<Rightarrow>
       if c = CHR 0x22 then map_option (\<lambda>(r, u). (PStr r, u)) (scan_string t)
       else if c = CHR ''['' then
         (let u = skip_ws t in
          if starts_with u '']'' then Some (PList [], tl u)
          else map_option (\<lambda>(xs, v). (PList xs, v)) (scan_items n u))
       else if c = CHR ''{'' then
         (let u = skip_ws t in
          if starts_with u ''}'' then Some (PDict [], tl u)
          else map_option (\<lambda>(d, v). (PDict d, v)) (scan_members n [] u))
       else scan_word s)"
| "scan_items 0 s = None"
| "scan_items (Suc n) s = (case scan_value n s of
     None \<Rightarrow> None
   | Some (x, t) \<Rightarrow>
       (let u = skip_ws t in
        if starts_with u '']'' then Some ([x], tl u)
        else if starts_with u '','' then map_option (\<lambda>(xs, v). (x # xs, v)) (scan_items n (skip_ws (tl u)))
        else None))"
| "scan_members 0 d s = None"
| "scan_members (Suc n) d s =
     (if \<not> starts_with s [CHR 0x22] then None
      else case scan_string (tl s) of
        None \<Rightarrow> None
      | Some (k, t) \<Rightarrow>
          (let u = skip_ws t in
           if \<not> starts_with u '':'' then None
           else case scan_value n (skip_ws (tl u)) of
             None \<Rightarrow> None
           | Some (x, v) \<Rightarrow>
               (let w = skip_ws v; e = dput k x d in
                if starts_with w ''}'' then Some (e, tl w)
                else if starts_with w '','' then scan_members n e (skip_ws (tl w))
                else None)))"

definition json_loads :: "string \<Rightarrow> exn + pyval" where
  "json_loads s = (case scan_value (Suc (2 * length s)) (skip_ws s) of
     Some (v, t) \<Rightarrow> if skip_ws t = [] then Inr v else Inl (ValueError ''Extra data'')
   | None \<Rightarrow> Inl (ValueError ''Expecting value''))"

section \<open>Base64\<close>

definition b64_char :: "nat \<Rightarrow> char" where
  "b64_char n = (if n < 26 then char_of (n + 65) else if n < 52 then char_of (n + 71) else if n < 62 then char_of (n - 4)
     else if n = 62 then CHR ''+'' else CHR ''/'')"

definition b64_value :: "char \<Rightarrow> nat option" where
  "b64_value c = (let n = (of_char c :: nat) in
     if is_upper c then Some (n - 65) else if is_lower c then Some (n - 71) else if is_digit c then Some (n + 4)
     else if c = CHR ''+'' then Some 62 else if c = CHR ''/'' then Some 63 else None)"

text \<open>Bytes as digits of six bits, and back; the last digits of an incomplete group are padded.\<close>

fun b64_digits :: "nat list \<Rightarrow> nat list" where
  "b64_digits (x # y # z # r) =
     [x div 4, (x mod 4) * 16 + y div 16, (y mod 16) * 4 + z div 64, z mod 64] @ b64_digits r"
| "b64_digits [x, y] = [x div 4, (x mod 4) * 16 + y div 16, (y mod 16) * 4]"
| "b64_digits [x] = [x div 4, (x mod 4) * 16]"
| "b64_digits [] = []"

fun b64_bytes :: "nat list \<Rightarrow> nat list" where
  "b64_bytes (a # b # c # d # r) =
     [a * 4 + b div 16, (b mod 16) * 16 + c div 4, (c mod 4) * 64 + d] @ b64_bytes r"
| "b64_bytes [a, b, c] = [a * 4 + b div 16, (b mod 16) * 16 + c div 4]"
| "b64_bytes [a, b] = [a * 4 + b div 16]"
| "b64_bytes ds = []"

definition b64_padding :: "nat \<Rightarrow> string" where
  "b64_padding n = (if n mod 4 = 2 then ''=='' else if n mod 4 = 3 then ''='' else [])"

definition b64encode :: "string \<Rightarrow> string" where
  "b64encode s = (let ds = b64_digits (map of_char s) in map b64_char ds @ b64_padding (length ds))"

text \<open>Padding after complete groups is ignored, whatever its length; elsewhere it must be exact.\<close>

definition b64decode :: "string \<Rightarrow> string option" where
  "b64decode s =
     (let body = takeWhile (\<lambda>c. c \<noteq> CHR ''='') s; pad = dropWhile (\<lambda>c. c \<noteq> CHR ''='') s; ds = map b64_value body in
      if list_ex (\<lambda>d. d = None) ds \<or> length body mod 4 = 1 \<or> (body = [] \<and> pad \<noteq> []) then None
      else if (if length body mod 4 = 0 then list_all (\<lambda>c. c = CHR ''='') pad else pad = b64_padding (length body))
      then Some (map char_of (b64_bytes (map the ds)))
      else None)"

section \<open>Base64 and back\<close>

lemma digit_pair:
  fixes a b m :: nat
  assumes "b < m"
  shows "(a * m + b) div m = a" "(a * m + b) mod m = b"
  using assms by simp_all

lemma b64_bytes_digits: "list_all (\<lambda>n. n < 256) xs \<Longrightarrow> b64_bytes (b64_digits xs) = xs"
proof (induction xs rule: b64_digits.induct)
  case (1 x y z r)
  then have "y div 16 < 16" "z div 64 < 4" by (simp_all add: less_mult_imp_div_less)
  then show ?case using 1 by (simp only: b64_digits.simps b64_bytes.simps append_Cons append_Nil digit_pair) simp
next
  case (2 x y)
  then have "y div 16 < 16" by (simp add: less_mult_imp_div_less)
  then show ?case by (simp only: b64_digits.simps b64_bytes.simps digit_pair) simp
qed auto

lemma b64_digits_small: "list_all (\<lambda>n. n < 256) xs \<Longrightarrow> list_all (\<lambda>d. d < 64) (b64_digits xs)"
  by (induction xs rule: b64_digits.induct) auto

lemma b64_length: "length (b64_digits xs) mod 4 \<noteq> 1" "b64_digits xs = [] \<longleftrightarrow> xs = []"
  by (induction xs rule: b64_digits.induct) auto

lemma b64_value_char: "d < 64 \<Longrightarrow> b64_value (b64_char d) = Some d \<and> b64_char d \<noteq> CHR ''=''"
proof -
  assume d: "d < 64"
  have "(of_char CHR ''='' :: nat) = 61" by simp
  then have code: "c = CHR ''='' \<longleftrightarrow> (of_char c :: nat) = 61" for c by (metis of_char_eq_iff)
  consider "d < 26" | "26 \<le> d" "d < 52" | "52 \<le> d" "d < 62" | "d = 62" | "d = 63" using d by linarith
  then show ?thesis
    by cases (auto simp: b64_value_def b64_char_def code Let_def is_upper_def is_lower_def is_digit_def less_eq_char_def)
qed

lemma padding_split:
  assumes "\<forall>c\<in>set t. c \<noteq> CHR ''=''"
  shows "takeWhile (\<lambda>c. c \<noteq> CHR ''='') (t @ b64_padding n) = t"
    "dropWhile (\<lambda>c. c \<noteq> CHR ''='') (t @ b64_padding n) = b64_padding n"
  using assms by (induction t) (auto simp: b64_padding_def)

lemma b64decode_encode: "b64decode (b64encode s) = Some s"
proof -
  let ?ds = "b64_digits (map of_char s)"
  have small: "list_all (\<lambda>n. n < 256) (map of_char s :: nat list)" by (simp add: list_all_iff)
  have ds: "d < 64" if "d \<in> set ?ds" for d
    using b64_digits_small [OF small] that by (simp add: list_all_iff)
  have body: "\<forall>c\<in>set (map b64_char ?ds). c \<noteq> CHR ''=''" using ds b64_value_char by auto
  have vals: "map b64_value (map b64_char ?ds) = map Some ?ds" using ds b64_value_char by auto
  have bytes: "map char_of (b64_bytes ?ds) = s" by (simp add: b64_bytes_digits [OF small] comp_def)
  have full: "length ?ds mod 4 = 0 \<Longrightarrow> b64_padding (length ?ds) = []" "b64_padding 0 = []"
    by (simp_all add: b64_padding_def)
  show ?thesis
    unfolding b64decode_def b64encode_def Let_def padding_split [OF body] vals
    using b64_length(1) [of "map of_char s"] full bytes
    by (auto simp: list_ex_iff comp_def)
qed

section \<open>Fuel\<close>

lemma scan_string_length: "scan_string s = Some (r, t) \<Longrightarrow> length t < length s"
proof (induction s arbitrary: r rule: scan_string.induct)
  case 1
  then show ?case by simp
next
  case (2 c s)
  show ?case
  proof (cases "c = CHR 0x22 \<or> c \<noteq> CHR 0x5C")
    case True
    then show ?thesis using 2 by (fastforce split: if_splits)
  next
    case False
    then obtain e u where s: "s = e # u" using 2 by (cases s) auto
    show ?thesis using False 2 s
      by (fastforce split: if_splits option.splits)
  qed
qed

lemma skip_ws_length: "length (skip_ws s) \<le> length s"
  by (rule length_dropWhile_le)

lemma starts_single: "starts_with s [c] \<longleftrightarrow> (\<exists>t. s = c # t)"
  by (cases s) (auto simp: starts_with_def)

lemma scan_digits_length: "scan_digits s = Some (r, t) \<Longrightarrow> length t < length s"
  by (cases s) (auto simp: scan_digits_def le_imp_less_Suc length_dropWhile_le split: if_splits)

lemma scan_fraction_length: "length (snd (scan_fraction s)) \<le> length s"
proof (cases s rule: remdups_adj.cases)
  case (3 c d t)
  have "length (dropWhile is_digit (d # t)) \<le> length (d # t)" by (rule length_dropWhile_le)
  then show ?thesis using 3 by (auto simp: scan_fraction_def)
qed (auto simp: scan_fraction_def)

lemma scan_exponent_length: "length (snd (scan_exponent s)) \<le> length s"
proof (cases s)
  case (Cons c t)
  have "length (dropWhile is_digit (drop k t)) \<le> length t" for k
    using length_dropWhile_le [of is_digit "drop k t"] by simp
  then show ?thesis using Cons by (auto simp: scan_exponent_def Let_def le_SucI)
qed (simp add: scan_exponent_def)

lemma scan_number_length:
  assumes "scan_number s = Some (v, t)"
  shows "length t < length s"
proof -
  let ?body = "if starts_with s ''-'' then tl s else s"
  obtain whole u where u: "scan_digits ?body = Some (whole, u)"
    using assms by (auto simp: scan_number_def Let_def split: option.splits)
  have t: "t = snd (scan_exponent (snd (scan_fraction u)))"
    using assms u by (auto simp: scan_number_def Let_def split_def split: if_splits)
  have "length t \<le> length u" unfolding t
    using scan_exponent_length scan_fraction_length le_trans by blast
  also have "\<dots> < length ?body" using u by (rule scan_digits_length)
  also have "\<dots> \<le> length s" by simp
  finally show ?thesis .
qed

lemma scan_word_length:
  assumes "scan_word s = Some (v, t)"
  shows "length t < length s"
proof (cases "find (\<lambda>(w, v). starts_with s w) [(''null'', PNone), (''true'', PBool True), (''false'', PBool False),
        (''NaN'', PFloat NaN), (''Infinity'', PFloat PosInf), (''-Infinity'', PFloat NegInf)]")
  case None
  then show ?thesis using assms scan_number_length by (simp add: scan_word_def)
next
  case (Some p)
  then have "starts_with s (fst p)" "fst p \<noteq> []" "t = drop (length (fst p)) s"
    using assms by (auto simp: scan_word_def split: if_splits)
  moreover from this have "s \<noteq> []" by (auto simp: starts_with_def)
  ultimately show ?thesis by simp
qed

lemma scan_length:
  "scan_value n s = Some (v, t) \<Longrightarrow> length t < length s"
  "scan_items n s = Some (xs, t) \<Longrightarrow> length t < length s"
  "scan_members n d s = Some (e, t) \<Longrightarrow> length t < length s"
proof (induction n s and n s and n d s arbitrary: v t and xs t and e t
    rule: scan_value_scan_items_scan_members.induct)
  case (2 n s)
  obtain c r where s: "s = c # r" using 2 by (cases s) auto
  have tl: "length (tl (skip_ws r)) \<le> length r" "length (skip_ws r) \<le> length r"
    using skip_ws_length [of r] by auto
  show ?case
    using 2 s tl by (auto simp: Let_def dest: scan_string_length scan_word_length split: if_splits)
      (fastforce dest: scan_string_length scan_word_length)+
next
  case (4 n s)
  obtain x u where x: "scan_value n s = Some (x, u)" using 4 by (auto split: option.splits)
  have u: "length u < length s" using 4 x by simp
  have "length (skip_ws u) \<le> length u" "length (skip_ws (tl (skip_ws u))) \<le> length (tl (skip_ws u))"
    by (rule skip_ws_length)+
  then show ?case
    using 4 x u by (auto simp: Let_def split: if_splits) (fastforce)+
next
  case (6 n d s)
  obtain k u where k: "scan_string (tl s) = Some (k, u)" and q: "starts_with s [CHR 0x22]"
    using 6 by (auto split: if_splits option.splits)
  obtain x r where x: "scan_value n (skip_ws (tl (skip_ws u))) = Some (x, r)" and colon: "starts_with (skip_ws u) '':''"
    using 6 k q by (auto simp: Let_def split: if_splits option.splits)
  have "length r < length (skip_ws (tl (skip_ws u)))" using 6 k q x colon by simp
  also have "\<dots> \<le> length u" using skip_ws_length [of "tl (skip_ws u)"] skip_ws_length [of u] by simp
  also have "\<dots> < length s" using scan_string_length [OF k] by simp
  finally have r: "length r < length s" .
  have w: "length (skip_ws r) \<le> length r" "length (skip_ws (tl (skip_ws r))) \<le> length (skip_ws r)"
    using skip_ws_length [of r] skip_ws_length [of "tl (skip_ws r)"] by auto
  show ?case
  proof (cases "starts_with (skip_ws r) ''}''")
    case True
    then have "t = tl (skip_ws r)" using "6.prems" k q x colon by (simp add: Let_def)
    then show ?thesis using r w by simp
  next
    case False
    then have "starts_with (skip_ws r) '',''"
      "scan_members n (dput k x d) (skip_ws (tl (skip_ws r))) = Some (e, t)"
      using 6 k q x colon by (simp_all add: Let_def split: if_splits)
    then have "length t < length (skip_ws (tl (skip_ws r)))" using 6 k q x colon False by simp
    then show ?thesis using r w by simp
  qed
qed auto

lemma scan_fuel:
  "2 * length s < n \<Longrightarrow> scan_value (Suc n) s = scan_value n s"
  "2 * length s + 1 < n \<Longrightarrow> scan_items (Suc n) s = scan_items n s"
  "2 * length s < n \<Longrightarrow> scan_members (Suc n) d s = scan_members n d s"
proof (induction n s and n s and n d s rule: scan_value_scan_items_scan_members.induct)
  case (2 n s)
  show ?case
  proof (cases s)
    case (Cons c t)
    have "length (skip_ws t) \<le> length t" by (rule skip_ws_length)
    then have "2 * length (skip_ws t) + 1 < n" using 2 Cons by simp
    then show ?thesis
      using 2 Cons unfolding Cons scan_value.simps(2)
      by (auto simp: Let_def simp del: scan_value.simps(2) scan_items.simps(2) scan_members.simps(2))
  qed simp
next
  case (4 n s)
  then have v: "scan_value (Suc n) s = scan_value n s" by simp
  show ?case
  proof (cases "scan_value n s")
    case (Some p)
    obtain x u where p: "p = (x, u)" by (cases p)
    have "length u < length s" using Some p scan_length by blast
    moreover have "length (skip_ws (tl (skip_ws u))) \<le> length (tl (skip_ws u))" "length (skip_ws u) \<le> length u"
      by (rule skip_ws_length)+
    ultimately have "2 * length (skip_ws (tl (skip_ws u))) + 1 < n" using 4 by simp
    then show ?thesis
      using 4 Some p v unfolding scan_items.simps(2)
      by (auto simp: Let_def simp del: scan_value.simps(2) scan_items.simps(2) scan_members.simps(2))
  qed (use v in \<open>simp del: scan_value.simps(2)\<close>)
next
  case (6 n d s)
  show ?case
  proof (cases "scan_string (tl s)")
    case (Some p)
    obtain k u where p: "p = (k, u)" by (cases p)
    have "length u < length s" using scan_string_length [of "tl s" k u] Some p by simp
    then have u: "length (skip_ws (tl (skip_ws u))) \<le> length u" "length u < length s"
      using skip_ws_length [of "tl (skip_ws u)"] skip_ws_length [of u] by auto
    then have v: "scan_value (Suc n) (skip_ws (tl (skip_ws u))) = scan_value n (skip_ws (tl (skip_ws u)))"
      if "starts_with s [CHR 0x22]" "starts_with (skip_ws u) '':''"
      using 6 Some p that by simp
    show ?thesis
    proof (cases "scan_value n (skip_ws (tl (skip_ws u)))")
      case None
      then show ?thesis using Some p v unfolding scan_members.simps(2)
        by (auto simp: Let_def simp del: scan_value.simps(2) scan_items.simps(2) scan_members.simps(2))
    next
      case (Some q)
      obtain x r where q: "q = (x, r)" by (cases q)
      have "length r < length s" using Some q scan_length(1) u by fastforce
      then have "length (skip_ws (tl (skip_ws r))) < length s"
        using skip_ws_length [of "tl (skip_ws r)"] skip_ws_length [of r] by simp
      then show ?thesis
        using 6 \<open>scan_string (tl s) = Some p\<close> p Some q v unfolding scan_members.simps(2)
        by (auto simp: Let_def simp del: scan_value.simps(2) scan_items.simps(2) scan_members.simps(2))
    qed
  qed simp
qed auto

lemma scan_enough:
  assumes "2 * length s < n" "n \<le> m"
  shows "scan_value m s = scan_value n s"
  using assms(2)
proof (induction m rule: dec_induct)
  case (step k)
  then show ?case using scan_fuel(1) [of s k] assms(1) by simp
qed simp

section \<open>Encoding and back\<close>

text \<open>Values without floats, whose decimal form is not inverted here.\<close>

fun float_free :: "pyval \<Rightarrow> bool" where
  "float_free (PFloat x) = False"
| "float_free (PList xs) = list_all float_free xs"
| "float_free (PDict d) = list_all (\<lambda>(k, v). float_free v) d"
| "float_free v = True"

lemma hex_value_digit: "hex_value (hex_digit n) = Some (n mod 16)"
proof -
  have "list_all (\<lambda>k. hex_value (hex_digit k) = Some k) [0..<16]" by code_simp
  then have "hex_value (hex_digit (n mod 16)) = Some (n mod 16)" by (simp add: list_all_iff)
  then show ?thesis by (simp add: hex_digit_def)
qed

lemma control_codes: "char_of (10 :: nat) = CHR 0x0A" "char_of (13 :: nat) = CHR 0x0D" "char_of (9 :: nat) = CHR 0x09"
    "char_of (8 :: nat) = CHR 0x08" "char_of (12 :: nat) = CHR 0x0C"
  by code_simp+

lemma escape_char: "unicode_escape [CHR ''0'', CHR ''0'', hex_digit (of_char c div 16), hex_digit (of_char c)] = Some c"
proof -
  have "hex_value CHR ''0'' = Some 0" by code_simp
  moreover have "(of_char c div 16) mod 16 = (of_char c div 16 :: nat)"
    by (simp add: less_mult_imp_div_less)
  ultimately show ?thesis by (simp add: unicode_escape_def hex_value_digit)
qed

lemma scan_string_char: "scan_string (json_char c @ t) = map_option (\<lambda>(r, u). (c # r, u)) (scan_string t)"
proof -
  let ?n = "of_char c :: nat"
  have c: "c = char_of ?n" by simp
  consider "c = CHR 0x22" | "c = CHR 0x5C" | "?n \<in> {10, 13, 9, 8, 12}"
    | "c \<noteq> CHR 0x22" "c \<noteq> CHR 0x5C" "?n \<notin> {10, 13, 9, 8, 12}" "32 \<le> ?n" "?n \<le> 126"
    | "c \<noteq> CHR 0x22" "c \<noteq> CHR 0x5C" "?n \<notin> {10, 13, 9, 8, 12}" "\<not> (32 \<le> ?n \<and> ?n \<le> 126)" by blast
  then show ?thesis
  proof cases
    case 3
    then have "?n = 10 \<or> ?n = 13 \<or> ?n = 9 \<or> ?n = 8 \<or> ?n = 12" by simp
    then have "c = CHR 0x0A \<or> c = CHR 0x0D \<or> c = CHR 0x09 \<or> c = CHR 0x08 \<or> c = CHR 0x0C"
      using c unfolding control_codes [symmetric] by metis
    then show ?thesis by (auto simp: json_char_def simple_escape_def)
  next
    case 5
    then show ?thesis by (simp add: json_char_def Let_def escape_char)
  qed (simp_all add: json_char_def simple_escape_def Let_def)
qed

lemma scan_string_text: "scan_string (concat (map json_char s) @ CHR 0x22 # t) = Some (s, t)"
  by (induction s) (simp_all add: scan_string_char)

section \<open>Integers\<close>

lemma dec_digits: "dec n \<noteq> []" "list_all is_digit (dec n)" "digits_value (dec n) = n"
proof (induction n rule: dec.induct)
  case (1 n)
  { case 1 show ?case by (simp add: dec.simps [of n]) }
  { case 2 show ?case using 1 by (simp add: dec.simps [of n]) }
  { case 3 show ?case using 1 by (simp add: dec.simps [of n] digits_value_snoc digit_char_code) (simp add: digits_value_def digit_char_code) }
qed

lemma dec_zero: "hd (dec n) = CHR ''0'' \<Longrightarrow> n = 0"
proof (induction n rule: dec.induct)
  case (1 n)
  have "n = 0" if "digit_char n = CHR ''0''" "n < 10"
    using digit_char_code [of n] that by simp
  then show ?case using 1 dec_digits(1) [of "n div 10"] by (auto simp: dec.simps [of n] split: if_splits)
qed

text \<open>What follows a value in a compact encoding.\<close>

definition closes :: "string \<Rightarrow> bool" where
  "closes t = (t = [] \<or> List.member ['','', '']'', ''}''] (take 1 t))"

lemma closes_simps: "closes []" "closes (CHR '','' # t)" "closes (CHR '']'' # t)" "closes (CHR ''}'' # t)"
  by (simp_all add: closes_def)

lemma scan_digits_dec:
  assumes "closes t"
  shows "scan_digits (dec n @ t) = Some (dec n, t)"
proof -
  obtain c r where d: "dec n = c # r" "is_digit c" using dec_digits [of n] by (cases "dec n") auto
  have stop: "takeWhile is_digit t = []" "dropWhile is_digit t = t"
    using assms by (cases t; auto simp: closes_def is_digit_def less_eq_char_def)+
  have "takeWhile is_digit (dec n @ t) = dec n" "dropWhile is_digit (dec n @ t) = t"
    using dec_digits(2) [of n] stop by (simp_all add: list_all_iff takeWhile_append2 dropWhile_append2)
  moreover have "c = CHR ''0'' \<Longrightarrow> r = []" using dec_zero [of n] d by (simp add: dec.simps [of 0])
  ultimately show ?thesis using d by (auto simp: scan_digits_def)
qed

lemma scan_rest:
  assumes "closes t"
  shows "scan_fraction t = ([], t)" "scan_exponent t = ([], t)"
proof -
  show "scan_fraction t = ([], t)"
    using assms by (cases t rule: remdups_adj.cases) (auto simp: scan_fraction_def closes_def)
  show "scan_exponent t = ([], t)"
    using assms by (cases t) (auto simp: scan_exponent_def closes_def lower_char_def is_upper_def less_eq_char_def)
qed

lemma scan_word_int:
  assumes "closes t"
  shows "scan_word (dec_int i @ t) = Some (PInt i, t)"
proof -
  obtain c r where d: "dec (nat \<bar>i\<bar>) = c # r" "is_digit c" using dec_digits [of "nat \<bar>i\<bar>"] by (cases "dec (nat \<bar>i\<bar>)") auto
  have "c \<noteq> CHR ''n'' \<and> c \<noteq> CHR ''t'' \<and> c \<noteq> CHR ''f'' \<and> c \<noteq> CHR ''N'' \<and> c \<noteq> CHR ''I'' \<and> c \<noteq> CHR ''-''"
    using d(2) by (auto simp: is_digit_def less_eq_char_def)
  then have "scan_word (dec_int i @ t) = scan_number (dec_int i @ t)"
    using d by (auto simp: scan_word_def dec_int_def starts_with_def)
  also have "\<dots> = Some (PInt i, t)"
  proof (cases "i < 0")
    case True
    then show ?thesis using scan_digits_dec [OF assms, of "nat (- i)"]
      by (simp add: scan_number_def dec_int_def starts_with_def scan_rest [OF assms] dec_digits)
  next
    case False
    then have "\<not> starts_with (dec (nat i) @ t) ''-''" using d \<open>c \<noteq> _ \<and> _\<close> by (simp add: starts_with_def)
    then show ?thesis using False scan_digits_dec [OF assms, of "nat i"]
      by (simp add: scan_number_def dec_int_def scan_rest [OF assms] dec_digits)
  qed
  finally show ?thesis .
qed

section \<open>The round trip\<close>

text \<open>With enough fuel the parser reads the encoding of a value and stops where it ends.\<close>

definition reads_back :: "pyval \<Rightarrow> bool" where
  "reads_back v \<longleftrightarrow> (\<forall>t. closes t \<longrightarrow> (\<exists>m. \<forall>n\<ge>m. scan_value n (dumps_canon v @ t) = Some (v, t)))"

lemma dumps_head:
  assumes "float_free v"
  obtains c r where "dumps_canon v = c # r" "\<not> json_space c" "c \<noteq> CHR '']''" "c \<noteq> CHR ''}''"
proof -
  have "\<exists>c r. dumps_canon v = c # r \<and> \<not> json_space c \<and> c \<noteq> CHR '']'' \<and> c \<noteq> CHR ''}''"
  proof (cases v)
    case (PInt i)
    obtain c r where d: "dec (nat i) = c # r" "is_digit c" using dec_digits [of "nat i"] by (cases "dec (nat i)") auto
    have "\<not> json_space c \<and> c \<noteq> CHR '']'' \<and> c \<noteq> CHR ''}''"
      using d(2) by (auto simp: json_space_def is_digit_def less_eq_char_def)
    then show ?thesis using PInt d by (simp add: dec_int_def json_space_def)
  qed (use assms in \<open>auto simp: json_string_def json_space_def\<close>)
  then show ?thesis using that by blast
qed

lemma skip_dumps: "float_free v \<Longrightarrow> skip_ws (dumps_canon v @ t) = dumps_canon v @ t"
  by (erule dumps_head [of v]) simp

lemma skip_mark: "\<not> json_space CHR '',''" "\<not> json_space CHR '']''" "\<not> json_space CHR ''}''" "\<not> json_space CHR '':''"
    "\<not> json_space CHR 0x22"
  by (simp_all add: json_space_def)

lemma starts_mark: "starts_with (c # t) [d] \<longleftrightarrow> c = d" "\<not> starts_with [] [d]"
  by (simp_all add: starts_with_def)

lemma join_Cons: "join p (x # xs) = x @ (if xs = [] then [] else p @ join p xs)"
  by (cases xs) simp_all

lemma reads_backD:
  assumes "reads_back v" "closes t"
  obtains m where "\<And>n. m \<le> n \<Longrightarrow> scan_value n (dumps_canon v @ t) = Some (v, t)"
  using assms unfolding reads_back_def by blast

lemma scan_items_join:
  assumes "xs \<noteq> []" "list_all (\<lambda>x. float_free x \<and> reads_back x) xs"
  shows "\<exists>m. \<forall>n\<ge>m. scan_items n (join '','' (map dumps_canon xs) @ CHR '']'' # t) = Some (xs, t)"
  using assms
proof (induction xs)
  case (Cons x xs)
  show ?case
  proof (cases "xs = []")
    case True
    have rb: "reads_back x" using Cons by simp
    obtain m where m: "\<And>n. m \<le> n \<Longrightarrow> scan_value n (dumps_canon x @ CHR '']'' # t) = Some (x, CHR '']'' # t)"
      using reads_backD [OF rb closes_simps(3)] by blast
    have "scan_items n (join '','' (map dumps_canon (x # xs)) @ CHR '']'' # t) = Some (x # xs, t)" if "Suc m \<le> n" for n
      using that m [of "n - 1"] True by (cases n) (simp_all add: Let_def skip_mark starts_mark)
    then show ?thesis by blast
  next
    case False
    let ?r = "join '','' (map dumps_canon xs) @ CHR '']'' # t"
    obtain k where k: "\<And>n. k \<le> n \<Longrightarrow> scan_items n ?r = Some (xs, t)" using Cons False by auto
    have rb: "reads_back x" using Cons by simp
    obtain m where m: "\<And>n. m \<le> n \<Longrightarrow> scan_value n (dumps_canon x @ CHR '','' # ?r) = Some (x, CHR '','' # ?r)"
      using reads_backD [OF rb closes_simps(2)] by blast
    obtain y ys where xs: "xs = y # ys" using False by (cases xs) auto
    then have "skip_ws ?r = ?r" using Cons by (simp add: join_Cons skip_dumps)
    then have "scan_items n (join '','' (map dumps_canon (x # xs)) @ CHR '']'' # t) = Some (x # xs, t)"
      if "Suc (max k m) \<le> n" for n
      using that m [of "n - 1"] k [of "n - 1"] False
      by (cases n) (simp_all add: join_Cons Let_def skip_mark starts_mark)
    then show ?thesis by blast
  qed
qed simp

lemma dput_new: "k \<notin> set (map fst d) \<Longrightarrow> dput k v d = d @ [(k, v)]"
  by (induction d) auto

abbreviation member_text :: "string \<times> pyval \<Rightarrow> string" where
  "member_text \<equiv> \<lambda>(k, v). json_string k @ '':'' @ dumps_canon v"

lemma scan_members_join:
  assumes "d \<noteq> []" "list_all (\<lambda>(k, v). float_free v \<and> reads_back v) d" "distinct (map fst (acc @ d))"
  shows "\<exists>m. \<forall>n\<ge>m. scan_members n acc (join '','' (map member_text d) @ CHR ''}'' # t) = Some (acc @ d, t)"
  using assms
proof (induction d arbitrary: acc)
  case (Cons p d)
  obtain k v where p: "p = (k, v)" by (cases p)
  have new: "dput k v acc = acc @ [(k, v)]" using Cons p by (intro dput_new) auto
  have free: "float_free v" and rb: "reads_back v" using Cons p by simp_all
  show ?case
  proof (cases "d = []")
    case True
    obtain m where m: "\<And>n. m \<le> n \<Longrightarrow> scan_value n (dumps_canon v @ CHR ''}'' # t) = Some (v, CHR ''}'' # t)"
      using reads_backD [OF rb closes_simps(4)] by blast
    have "scan_members n acc (join '','' (map member_text (p # d)) @ CHR ''}'' # t) = Some (acc @ p # d, t)" if "Suc m \<le> n" for n
      using that m [of "n - 1"] True p new free
      by (cases n) (simp_all add: json_string_def scan_string_text Let_def skip_mark starts_mark skip_dumps)
    then show ?thesis by blast
  next
    case False
    let ?r = "join '','' (map member_text d) @ CHR ''}'' # t"
    obtain j where j: "\<And>n. j \<le> n \<Longrightarrow> scan_members n (acc @ [(k, v)]) ?r = Some (acc @ p # d, t)"
      using Cons.IH [of "acc @ [(k, v)]"] Cons.prems False p by auto
    obtain m where m: "\<And>n. m \<le> n \<Longrightarrow> scan_value n (dumps_canon v @ CHR '','' # ?r) = Some (v, CHR '','' # ?r)"
      using reads_backD [OF rb closes_simps(2)] by blast
    obtain k' v' e where d: "d = (k', v') # e" using False by (cases d) auto
    have "skip_ws ?r = ?r" using d by (simp add: join_Cons json_string_def skip_mark)
    then have "scan_members n acc (join '','' (map member_text (p # d)) @ CHR ''}'' # t) = Some (acc @ p # d, t)"
      if "Suc (max j m) \<le> n" for n
      using that m [of "n - 1"] j [of "n - 1"] False p new free
      by (cases n) (simp_all add: join_Cons json_string_def scan_string_text Let_def skip_mark starts_mark skip_dumps)
    then show ?thesis by blast
  qed
qed simp

lemma reads_backI: "(\<And>t. closes t \<Longrightarrow> \<exists>m. \<forall>n\<ge>m. scan_value n (dumps_canon v @ t) = Some (v, t)) \<Longrightarrow> reads_back v"
  by (simp add: reads_back_def)

lemma scan_later:
  assumes "\<And>n. scan_value (Suc n) s = Some r"
  shows "\<exists>m. \<forall>n\<ge>m. scan_value n s = Some r"
proof (intro exI allI impI)
  show "scan_value n s = Some r" if "1 \<le> n" for n using assms that by (cases n) simp_all
qed

lemma scan_word_names:
  "scan_word (''null'' @ t) = Some (PNone, t)"
  "scan_word (''true'' @ t) = Some (PBool True, t)"
  "scan_word (''false'' @ t) = Some (PBool False, t)"
  by (simp_all add: scan_word_def starts_with_def)

lemma reads_back_list:
  assumes "list_all (\<lambda>x. float_free x \<and> reads_back x) xs"
  shows "reads_back (PList xs)"
proof (rule reads_backI)
  fix t
  show "\<exists>m. \<forall>n\<ge>m. scan_value n (dumps_canon (PList xs) @ t) = Some (PList xs, t)"
  proof (cases "xs = []")
    case True
    show ?thesis by (rule scan_later) (simp add: True skip_mark starts_mark)
  next
    case False
    let ?r = "join '','' (map dumps_canon xs) @ CHR '']'' # t"
    obtain m where m: "\<And>n. m \<le> n \<Longrightarrow> scan_items n ?r = Some (xs, t)"
      using scan_items_join [OF False assms] by blast
    obtain y ys where xs: "xs = y # ys" using False by (cases xs) auto
    then have y: "float_free y" using assms by simp
    obtain c r where c: "dumps_canon y = c # r" "\<not> json_space c" "c \<noteq> CHR '']''" "c \<noteq> CHR ''}''"
      using y by (rule dumps_head)
    have "skip_ws ?r = ?r" "\<not> starts_with ?r '']''" using xs c by (simp_all add: join_Cons starts_mark)
    then have "scan_value n (dumps_canon (PList xs) @ t) = Some (PList xs, t)" if "Suc m \<le> n" for n
      using that m [of "n - 1"] by (cases n) (simp_all add: Let_def)
    then show ?thesis by blast
  qed
qed

lemma reads_back_dict:
  assumes "list_all (\<lambda>(k, v). float_free v \<and> reads_back v) d" "distinct (map fst d)"
  shows "reads_back (PDict d)"
proof (rule reads_backI)
  fix t
  show "\<exists>m. \<forall>n\<ge>m. scan_value n (dumps_canon (PDict d) @ t) = Some (PDict d, t)"
  proof (cases "d = []")
    case True
    show ?thesis by (rule scan_later) (simp add: True skip_mark starts_mark)
  next
    case False
    let ?r = "join '','' (map member_text d) @ CHR ''}'' # t"
    obtain m where m: "\<And>n. m \<le> n \<Longrightarrow> scan_members n [] ?r = Some (d, t)"
      using scan_members_join [OF False assms(1), of "[]"] assms(2) by auto
    obtain k v e where d: "d = (k, v) # e" using False by (cases d) auto
    have "skip_ws ?r = ?r" "\<not> starts_with ?r ''}''" using d by (simp_all add: join_Cons json_string_def skip_mark starts_mark)
    then have "scan_value n (dumps_canon (PDict d) @ t) = Some (PDict d, t)" if "Suc m \<le> n" for n
      using that m [of "n - 1"] by (cases n) (simp_all add: Let_def)
    then show ?thesis by blast
  qed
qed

lemma reads_back_int: "reads_back (PInt i)"
proof (rule reads_backI)
  fix t assume t: "closes t"
  obtain c r where d: "dumps_canon (PInt i) = c # r" "\<not> json_space c" by (rule dumps_head [of "PInt i"]) auto
  have "c \<in> set (dec_int i)" using d by simp
  then have "c = CHR ''-'' \<or> is_digit c" using dec_digits(2) by (auto simp: dec_int_def list_all_iff split: if_splits)
  then have "c \<noteq> CHR 0x22 \<and> c \<noteq> CHR ''['' \<and> c \<noteq> CHR ''{''" by (auto simp: is_digit_def less_eq_char_def)
  then show "\<exists>m. \<forall>n\<ge>m. scan_value n (dumps_canon (PInt i) @ t) = Some (PInt i, t)"
    using d scan_word_int [OF t, of i] by (intro scan_later) simp
qed

lemma reads_back: "wf_val v \<Longrightarrow> float_free v \<Longrightarrow> reads_back v"
proof (induction v rule: dumps_canon.induct)
  case 1
  show ?case using scan_word_names by (intro reads_backI scan_later) simp
next
  case (2 b)
  show ?case using scan_word_names by (intro reads_backI scan_later) (cases b; simp)
next
  case (3 i)
  show ?case by (rule reads_back_int)
next
  case (5 s)
  show ?case by (intro reads_backI scan_later) (simp add: json_string_def scan_string_text)
next
  case (6 xs)
  then show ?case by (intro reads_back_list) (auto simp: list_all_iff)
next
  case (7 d)
  then show ?case by (intro reads_back_dict) (fastforce simp: list_all_iff)+
qed simp

lemma float_free_canon: "float_free v \<Longrightarrow> float_free (canon v)"
  by (induction v rule: canon.induct) (auto simp: list_all_iff)

text \<open>Decoding the canonical encoding gives the canonical value.\<close>

lemma json_loads_dumps:
  assumes "wf_val v" "float_free v"
  shows "json_loads (dumps v) = Inr (canon v)"
proof -
  let ?s = "dumps v"
  have free: "float_free (canon v)" using assms(2) by (rule float_free_canon)
  have "reads_back (canon v)" using assms by (intro reads_back wf_canon float_free_canon)
  then obtain m where m: "\<And>n. m \<le> n \<Longrightarrow> scan_value n (?s @ []) = Some (canon v, [])"
    using reads_backD [OF _ closes_simps(1)] unfolding dumps_def by blast
  have "scan_value (Suc (2 * length ?s)) ?s = scan_value (max m (Suc (2 * length ?s))) ?s"
    by (rule scan_enough [symmetric]) simp_all
  also have "\<dots> = Some (canon v, [])" using m [of "max m (Suc (2 * length ?s))"] by simp
  finally show ?thesis
    using skip_dumps [OF free, of "[]"] by (simp add: json_loads_def dumps_def)
qed

end
