(* ===== verification/Backup_Secrets.thy ===== *)
theory Backup_Secrets
  imports Backup_Pilot Restore_Operator Py_Codec
begin

text \<open>
  \<^verbatim>\<open>sean_os/backup_secrets.py\<close> and \<^verbatim>\<open>backup_restore_secrets.py\<close>: how the adapters read the managed
  variables of the process, open the encryption key and build an object storage client. The SDK
  that makes a client is a parameter: a function of the request below. Key buffers are wiped after
  use; the model does not keep memory.
\<close>

definition B2_KEY_ID_VARIABLE :: string where
  "B2_KEY_ID_VARIABLE = ''SEAN_OS_MANAGED_B2_KEY_ID''"

definition B2_APPLICATION_KEY_VARIABLE :: string where
  "B2_APPLICATION_KEY_VARIABLE = ''SEAN_OS_MANAGED_B2_APPLICATION_KEY''"

definition ENCRYPTION_KEY_VARIABLE :: string where
  "ENCRYPTION_KEY_VARIABLE = ''SEAN_OS_MANAGED_BACKUP_AES256_KEY_B64''"

definition RESTORE_KEY_ID_VARIABLE :: string where
  "RESTORE_KEY_ID_VARIABLE = ''SEAN_OS_MANAGED_B2_RESTORE_KEY_ID''"

definition RESTORE_APPLICATION_KEY_VARIABLE :: string where
  "RESTORE_APPLICATION_KEY_VARIABLE = ''SEAN_OS_MANAGED_B2_RESTORE_APPLICATION_KEY''"

text \<open>A value of 8 to 256 characters, none of them white space or a control character.\<close>

definition well_formed_secret :: "string option \<Rightarrow> bool" where
  "well_formed_secret v = (case v of
     None \<Rightarrow> False
   | Some s \<Rightarrow> 8 \<le> length s \<and> length s \<le> 256 \<and> strip s = s \<and>
       \<not> list_ex (\<lambda>c. is_space c \<or> (of_char c :: nat) < 33) s)"

definition managed_secret :: "environment \<Rightarrow> string \<Rightarrow> exn + string" where
  "managed_secret env variable =
     (if \<not> well_formed_secret (env variable)
      then Inl (BackupSecretError ''Required managed backup secret is missing or malformed'')
      else Inr (the (env variable)))"

definition restore_secret :: "environment \<Rightarrow> string \<Rightarrow> exn + string" where
  "restore_secret env variable =
     (if \<not> well_formed_secret (env variable)
      then Inl (BackupRestoreSecretError ''Required managed restore secret is missing or malformed'')
      else Inr (the (env variable)))"

section \<open>The encryption key\<close>

record key_resolver =
  kr_env :: environment
  kr_ref :: string

definition make_resolver :: "environment \<Rightarrow> string \<Rightarrow> string \<Rightarrow> exn + key_resolver" where
  "make_resolver env ref variable_name =
     (if variable_name \<noteq> ENCRYPTION_KEY_VARIABLE
      then Inl (BackupSecretError ''Encryption key must use the reviewed managed variable'')
      else if ref = [] \<or> 200 < length ref
      then Inl (BackupSecretError ''Encryption key reference is malformed'')
      else Inr \<lparr>kr_env = env, kr_ref = ref\<rparr>)"

definition open_key :: "key_resolver \<Rightarrow> string \<Rightarrow> exn + string" where
  "open_key r ref =
     (if ref \<noteq> kr_ref r then Inl (BackupSecretError ''Encryption key reference does not match the runtime'')
      else
        ebind (managed_secret (kr_env r) ENCRYPTION_KEY_VARIABLE) (\<lambda>encoded.
        case b64decode encoded of
          None \<Rightarrow> Inl (BackupSecretError ''Managed backup encryption key is malformed'')
        | Some material \<Rightarrow>
            if length material \<noteq> 32 then Inl (BackupSecretError ''Managed backup encryption key must contain 32 bytes'')
            else Inr material))"

section \<open>The clients\<close>

text \<open>What the SDK is asked for; the fixed options are part of the request.\<close>

record client_request =
  cr_service :: string
  cr_endpoint_url :: string
  cr_region :: string
  cr_key_id :: string
  cr_application_key :: string
  cr_options :: pydict

definition B2_ENDPOINT_RX :: rx where
  "B2_ENDPOINT_RX = Seq (Lit ''s3.'') (Seq (Seq (Lit ''ca-east-'') (Reps (\<lambda>c. is_lower c \<or> is_digit c \<or> c = CHR ''-'') 1 None))
     (Lit ''.backblazeb2.com''))"

text \<open>The group \<open>region\<close>: the label between the fixed ends, which holds no dot.\<close>

definition endpoint_region :: "string \<Rightarrow> string" where
  "endpoint_region endpoint = takeWhile (\<lambda>c. c \<noteq> CHR ''.'') (drop 3 endpoint)"

definition client_options :: "string \<Rightarrow> pydict" where
  "client_options app = [(''signature_version'', PStr ''s3v4''), (''connect_timeout'', PInt 10), (''read_timeout'', PInt 120),
     (''parameter_validation'', PBool True),
     (''retries'', PDict [(''mode'', PStr ''standard''), (''total_max_attempts'', PInt 1)]),
     (''s3'', PDict [(''addressing_style'', PStr ''path''), (''payload_signing_enabled'', PBool True)]),
     (''ignore_configured_endpoint_urls'', PBool True), (''user_agent_appid'', PStr app)]"

definition request_for :: "string \<Rightarrow> string \<Rightarrow> string \<Rightarrow> string \<Rightarrow> client_request" where
  "request_for endpoint key_id application_key app =
     \<lparr>cr_service = ''s3'', cr_endpoint_url = ''https://'' @ endpoint, cr_region = endpoint_region endpoint,
      cr_key_id = key_id, cr_application_key = application_key, cr_options = client_options app\<rparr>"

definition build_backblaze_s3_client ::
  "(client_request \<Rightarrow> exn + 'c) \<Rightarrow> environment \<Rightarrow> runtime_config \<Rightarrow> exn + 'c" where
  "build_backblaze_s3_client sdk env config =
     (if \<not> rc_enabled config \<or> rc_provider config \<noteq> Some ''BACKBLAZE_B2'' \<or> rc_region config \<noteq> Some ''CA_EAST'' \<or>
         rc_endpoint config = None
      then Inl (BackupSecretError ''Backblaze client requires an enabled Canada East runtime'')
      else
        let endpoint = the (rc_endpoint config) in
        if \<not> rx_fullmatch B2_ENDPOINT_RX endpoint
        then Inl (BackupSecretError ''Backblaze client endpoint is outside Canada East'')
        else
          ebind (managed_secret env B2_KEY_ID_VARIABLE) (\<lambda>key_id.
          ebind (managed_secret env B2_APPLICATION_KEY_VARIABLE) (\<lambda>application_key.
          case sdk (request_for endpoint key_id application_key ''sean-os-backup-v0.1'') of
            Inl e \<Rightarrow> Inl (BackupSecretError ''Backblaze client construction failed'')
          | Inr client \<Rightarrow> Inr client)))"

definition build_backblaze_s3_restore_client ::
  "(client_request \<Rightarrow> exn + 'c) \<Rightarrow> environment \<Rightarrow> runtime_config \<Rightarrow> exn + 'c" where
  "build_backblaze_s3_restore_client sdk env config =
     (if \<not> rc_enabled config \<or> rc_provider config \<noteq> Some ''BACKBLAZE_B2'' \<or> rc_region config \<noteq> Some ''CA_EAST'' \<or>
         rc_endpoint config = None
      then Inl (BackupRestoreSecretError ''Backblaze restore client requires an enabled Canada East runtime'')
      else
        let endpoint = the (rc_endpoint config) in
        if \<not> rx_fullmatch B2_ENDPOINT_RX endpoint
        then Inl (BackupRestoreSecretError ''Backblaze restore client endpoint is outside Canada East'')
        else
          ebind (restore_secret env RESTORE_KEY_ID_VARIABLE) (\<lambda>key_id.
          ebind (restore_secret env RESTORE_APPLICATION_KEY_VARIABLE) (\<lambda>application_key.
          case sdk (request_for endpoint key_id application_key ''sean-os-restore-v0.1'') of
            Inl e \<Rightarrow> Inl (BackupRestoreSecretError ''Backblaze restore client construction failed'')
          | Inr client \<Rightarrow> Inr client)))"

text \<open>A key that was opened has 32 bytes; the variable that holds its encoding opens as the key.\<close>

lemma open_key_length: "open_key r ref = Inr k \<Longrightarrow> length k = 32 \<and> ref = kr_ref r"
  by (auto simp: open_key_def ebind_Inr_iff split: if_splits option.splits)

lemma length_b64_digits: "length (b64_digits xs) = length xs + (length xs + 2) div 3"
  by (induction xs rule: b64_digits.induct) auto

lemma printable_b64:
  assumes "c \<in> set (b64encode s)"
  shows "33 \<le> (of_char c :: nat)" "(of_char c :: nat) \<le> 126"
proof -
  have small: "d < 64" if "d \<in> set (b64_digits (map of_char s))" for d
    using b64_digits_small [of "map of_char s"] that by (simp add: list_all_iff)
  have "33 \<le> (of_char (b64_char d) :: nat) \<and> (of_char (b64_char d) :: nat) \<le> 126" if "d < 64" for d
    using that by (auto simp: b64_char_def)
  then have "33 \<le> (of_char c :: nat) \<and> (of_char c :: nat) \<le> 126"
    using assms small by (auto simp: b64encode_def b64_padding_def Let_def split: if_splits)
  then show "33 \<le> (of_char c :: nat)" "(of_char c :: nat) \<le> 126" by simp_all
qed

lemma strip_id: "(\<And>c. c \<in> set s \<Longrightarrow> \<not> is_space c) \<Longrightarrow> strip s = s"
  by (simp add: strip_def lstrip_def dropWhile_eq_self_iff hd_rev)
    (metis dropWhile_eq_self_iff hd_in_set hd_rev last_in_set rev_rev_ident set_rev)

lemma open_key_encoded:
  assumes "length key = 32" "kr_env r ENCRYPTION_KEY_VARIABLE = Some (b64encode key)"
  shows "open_key r (kr_ref r) = Inr key"
proof -
  let ?s = "b64encode key"
  have "length ?s = 44" using assms(1) by (simp add: b64encode_def Let_def length_b64_digits b64_padding_def)
  moreover have "\<not> is_space c" if "c \<in> set ?s" for c
    using printable_b64 [OF that] by (simp add: is_space_def)
  moreover have "\<not> (of_char c :: nat) < 33" if "c \<in> set ?s" for c using printable_b64 [OF that] by simp
  ultimately have "well_formed_secret (Some ?s)"
    using strip_id [of ?s] by (simp add: well_formed_secret_def list_ex_iff)
  then show ?thesis using assms by (simp add: open_key_def managed_secret_def b64decode_encode)
qed

end
