(* ===== verification/Mail_Date.thy ===== *)
theory Mail_Date
  imports Calendar Py_Dynamic
begin

text \<open>
  \<open>email.utils.parsedate_to_datetime\<close>, which reads the \<open>date\<close> header of a provider response: a
  transcription of the parser of the Python standard library, with its tolerance for a missing day
  name, RFC 850 dates, swapped fields and dotted times.
\<close>

definition MONTH_NAMES :: "string list" where
  "MONTH_NAMES = [''jan'', ''feb'', ''mar'', ''apr'', ''may'', ''jun'', ''jul'', ''aug'', ''sep'', ''oct'', ''nov'', ''dec'',
     ''january'', ''february'', ''march'', ''april'', ''may'', ''june'', ''july'', ''august'', ''september'', ''october'',
     ''november'', ''december'']"

definition DAY_NAMES :: "string list" where
  "DAY_NAMES = [''mon'', ''tue'', ''wed'', ''thu'', ''fri'', ''sat'', ''sun'']"

definition ZONES :: "(string \<times> int) list" where
  "ZONES = [(''UT'', 0), (''UTC'', 0), (''GMT'', 0), (''Z'', 0), (''AST'', -400), (''ADT'', -300), (''EST'', -500),
     (''EDT'', -400), (''CST'', -600), (''CDT'', -500), (''MST'', -700), (''MDT'', -600), (''PST'', -800), (''PDT'', -700)]"

definition month_number :: "string \<Rightarrow> int option" where
  "month_number s = (let k = length (takeWhile (\<lambda>m. m \<noteq> s) MONTH_NAMES) in
     if k < length MONTH_NAMES then Some (int (k mod 12) + 1) else None)"

definition after_last :: "char \<Rightarrow> string \<Rightarrow> string" where
  "after_last c s = rev (takeWhile (\<lambda>x. x \<noteq> c) (rev s))"

definition drop_comma :: "string \<Rightarrow> string" where
  "drop_comma s = (if s \<noteq> [] \<and> last s = CHR '','' then butlast s else s)"

section \<open>The words\<close>

fun drop_day_name :: "string list \<Rightarrow> string list" where
  "drop_day_name [] = []"
| "drop_day_name (w # ws) =
     (if ends_with w '','' \<or> List.member DAY_NAMES (lower w) then ws else after_last CHR '','' w # ws)"

definition split_zone :: "string \<Rightarrow> string list" where
  "split_zone s = (case (case index_of CHR ''+'' s of None \<Rightarrow> index_of CHR ''-'' s | Some i \<Rightarrow> Some i) of
     Some (Suc i) \<Rightarrow> [take (Suc i) s, drop (Suc i) s] | _ \<Rightarrow> [s, []])"

definition mail_words :: "string \<Rightarrow> string list" where
  "mail_words s =
     (let ws = drop_day_name (split_ws s);
          dashed = (case ws of [d, t, z] \<Rightarrow> (let parts = split_on CHR ''-'' d in
            if length parts = 3 then parts @ [t, z] else ws) | _ \<Rightarrow> ws) in
      case dashed of [d, m, y, t] \<Rightarrow> [d, m, y] @ split_zone t | _ \<Rightarrow> dashed)"

section \<open>The fields\<close>

definition mail_month :: "string \<Rightarrow> string \<Rightarrow> (string \<times> int) option" where
  "mail_month dd mm = (case month_number (lower mm) of
     Some m \<Rightarrow> Some (dd, m)
   | None \<Rightarrow> map_option (Pair (lower mm)) (month_number (lower dd)))"

text \<open>\<open>s.isdigit()\<close> of one character also holds for superscripts, which \<open>int\<close> refuses.\<close>

definition digit_like :: "char \<Rightarrow> bool" where
  "digit_like c = (is_digit c \<or> c = CHR 0xB2 \<or> c = CHR 0xB3 \<or> c = CHR 0xB9)"

text \<open>Year, time and zone, which may have changed places.\<close>

definition mail_year :: "string \<Rightarrow> string \<Rightarrow> string \<Rightarrow> (string \<times> string \<times> string) option" where
  "mail_year yy tm tz =
     (let swapped = (case index_of CHR '':'' yy of Some (Suc i) \<Rightarrow> True | _ \<Rightarrow> False);
          y = drop_comma (if swapped then tm else yy); t = drop_comma (if swapped then yy else tm) in
      if y = [] then None
      else if digit_like (hd y) then Some (y, t, tz) else Some (tz, t, y))"

definition mail_clock :: "string \<Rightarrow> (string \<times> string \<times> string) option" where
  "mail_clock t =
     (let three = (\<lambda>ps. case ps of [h, m] \<Rightarrow> Some (h, m, ''0'') | [h, m, s] \<Rightarrow> Some (h, m, s) | _ \<Rightarrow> None);
          parts = split_on CHR '':'' t in
      if length parts = 1 then (if List.member t CHR ''.'' then three (split_on CHR ''.'' t) else None)
      else three parts)"

definition full_year :: "int \<Rightarrow> int" where
  "full_year y = (if y < 100 then (if 68 < y then y + 1900 else y + 2000) else y)"

text \<open>The offset in seconds; a zone that is not understood, and \<open>-0000\<close>, give none.\<close>

definition mail_offset :: "string \<Rightarrow> int option" where
  "mail_offset zone =
     (let tz = upper zone;
          hundreds = (case map_of ZONES tz of Some n \<Rightarrow> Some n | None \<Rightarrow>
            (case parse_int tz of None \<Rightarrow> None | Some n \<Rightarrow> if n = 0 \<and> starts_with tz ''-'' then None else Some n)) in
      map_option (\<lambda>n. sgn n * ((\<bar>n\<bar> div 100) * 3600 + (\<bar>n\<bar> mod 100) * 60)) hundreds)"

definition mail_numbers :: "string \<Rightarrow> string \<Rightarrow> string \<times> string \<times> string \<Rightarrow> (int \<times> int \<times> int \<times> int \<times> int) option" where
  "mail_numbers y d clock = (case clock of (h, m, s) \<Rightarrow>
     (case map parse_int [y, d, h, m, s] of
        [Some y, Some d, Some h, Some m, Some s] \<Rightarrow> Some (full_year y, d, h, m, s)
      | _ \<Rightarrow> None))"

text \<open>A date, its time of day in seconds, and the offset.\<close>

definition parsedate_tz :: "string \<Rightarrow> ((int \<times> int \<times> int) \<times> (int \<times> int \<times> int) \<times> int option) option" where
  "parsedate_tz s = (case take 5 (mail_words s) of
     [dd, mm, yy, tm, tz] \<Rightarrow>
       if dd = [] \<or> mm = [] \<or> yy = [] then None
       else (case mail_month dd mm of None \<Rightarrow> None
       | Some (day, month) \<Rightarrow>
         (case mail_year yy tm tz of None \<Rightarrow> None
         | Some (y, t, zone) \<Rightarrow>
           (case mail_clock t of None \<Rightarrow> None
           | Some clock \<Rightarrow>
             (case mail_numbers y (drop_comma day) clock of None \<Rightarrow> None
             | Some (year, d, h, m, sec) \<Rightarrow> Some ((year, month, d), (h, m, sec), mail_offset zone)))))
   | _ \<Rightarrow> None)"

text \<open>
  The time zone is built first; a field that does not fit a C integer is an overflow, which is not a
  value error.
\<close>

definition mail_zone :: "int option \<Rightarrow> exn + int option" where
  "mail_zone off = (case off of
     None \<Rightarrow> Inr None
   | Some n \<Rightarrow>
       if 999999999 < \<bar>n div 86400\<bar> then Inl (OverflowError ''days out of range'')
       else if 86400 \<le> \<bar>n\<bar> then Inl (ValueError ''offset must be less than a day'')
       else Inr (Some (seconds n)))"

definition c_int :: "int \<Rightarrow> bool" where
  "c_int n = (- (2 ^ 31) \<le> n \<and> n < 2 ^ 31)"

definition parsedate_to_datetime :: "string \<Rightarrow> exn + datetime" where
  "parsedate_to_datetime s = (case parsedate_tz s of
     None \<Rightarrow> Inl (ValueError (''Invalid date value or format: '' @ s))
   | Some ((y, mo, d), (h, m, sec), off) \<Rightarrow>
       ebind (mail_zone off) (\<lambda>zone.
       if \<not> list_all c_int [y, mo, d, h, m, sec] then Inl (OverflowError ''Python int too large to convert to C int'')
       else if \<not> valid_date y mo d \<or> \<not> (0 \<le> h \<and> h < 24 \<and> 0 \<le> m \<and> m < 60 \<and> 0 \<le> sec \<and> sec < 60)
       then Inl (ValueError ''date or time is out of range'')
       else Inr ((ymd2ord y mo d - 1) * usec_of_day + clock_usec (h, m, sec, 0), zone)))"

end
