(* ===== verification/Spec2Isabelle.thy ===== *)
theory Spec2Isabelle
  imports Runtime_Behaviour Interface_Behaviour Alert_Behaviour Operator_Behaviour Migration_Behaviour Backup_Secrets Mail_Date
begin

text \<open>
  A verification development for the Sean OS / IAC runtime (\<^verbatim>\<open>src/sean_os\<close> and \<^verbatim>\<open>src/scripts\<close>,
  Python over SQLite).

  \<^bold>\<open>The program.\<close> \<^verbatim>\<open>SeanOSStore\<close> (\<^verbatim>\<open>store.py\<close>, tables in \<^verbatim>\<open>schema.sql\<close>) is the system of record:
  scoped records and projects, an audit log, an approval queue, a durable work queue with budgets,
  connector gates, and three approval-gated outboxes (alert deliveries, backup transfers, backup
  restores). Commands reach the queue through the gateway, the bridge and the scheduler; a worker
  claims an item and runs the registered action behind the policy gate; a monitor turns the health
  of the store into alerts. The actions are those of the chief of staff, the revenue agent, the
  reports and the integrations. A backup goes from a supervised pilot package over a synthetic
  activation, an operator review and an exact approval to the executors, whose ports encrypt,
  upload, download and decrypt. A migration of the database file runs under a guard. Everything
  persisted passes the scanner of \<^verbatim>\<open>security.py\<close>.

  \<^bold>\<open>The model.\<close> An operation is a function \<open>'a py = world \<Rightarrow> (exn + 'a) \<times> world\<close>: the value it
  returns or the exception it raises, and the world it leaves. A world holds the tables as the
  open transaction sees them (\<open>w_db\<close>) and as last committed (\<open>w_committed\<close>), whether a
  transaction is open, the scope profile of the database, and the sources Python reads: a clock
  and a supply of UUIDs, each read advancing a counter, and the SHA-256 function. A table is the
  list of its rows in insertion order. Constraints the guards do not already imply raise
  \<open>IntegrityError\<close>, \<open>BEGIN IMMEDIATE\<close> inside a transaction raises \<open>OperationalError\<close>, and a
  failed statement leaves the implicit transaction open, as \<^verbatim>\<open>sqlite3\<close> does. Integers are
  unbounded as in Python, floats are IEEE doubles over rationals with correct rounding, JSON
  columns hold the value \<open>json.loads\<close> returns, timestamps are the texts \<open>isoformat\<close> prints and
  are compared as texts or parsed as the code does. File systems, network clients and ciphers are
  records of answers (\<open>activation_host\<close>, \<open>upload_ports\<close>, \<open>restore_ports\<close>), and the directory of
  the migration guard is a state of its own (\<open>guard_world\<close>) in which any change may fail.

  \<^bold>\<open>Foundations.\<close>
  \<^item> \<^verbatim>\<open>Prelude\<close>: strings, decimal numbers, row lookup and update. \<^verbatim>\<open>Py_Monad\<close>: exceptions,
    state passing, weakest preconditions. \<^verbatim>\<open>Py_Float\<close>, \<^verbatim>\<open>Py_Value\<close>, \<^verbatim>\<open>Py_Time\<close>: doubles,
    JSON values with canonical encoding, \<open>datetime\<close> with printing and parsing.
    \<^verbatim>\<open>Py_Dynamic\<close>: operations on values of any type. \<^verbatim>\<open>Calendar\<close>: dates, and the order and the
    round trip of timestamps.
  \<^item> \<^verbatim>\<open>Py_Codec\<close>: \<open>json.loads\<close> and \<open>base64\<close> as functions on texts; both read back what the
    encoders print. \<^verbatim>\<open>Mail_Date\<close>: the date header of a mail or of an HTTP response.
  \<^item> \<^verbatim>\<open>Security\<close> (\<^verbatim>\<open>security.py\<close>): the secret scan with its regular expressions; the scan is
    empty exactly for \<open>clean_value\<close>.
  \<^item> \<^verbatim>\<open>Store_State\<close>: rows, tables, the world, SQL statements, and the locale \<open>history\<close>: an
    action whose every write respects a preorder on a view of the database evolves the
    committed database along it, whatever it commits or rolls back. \<^verbatim>\<open>Store_Laws\<close>: what each
    table promises, as the locale \<open>table_law\<close> interpreted per table, joined in \<open>store_le\<close>, on
    which \<open>history\<close> is interpreted.

  \<^bold>\<open>The store and its contracts.\<close>
  \<^item> \<^verbatim>\<open>Store_Records\<close>, \<^verbatim>\<open>Store_Approvals\<close>, \<^verbatim>\<open>Store_Work\<close>, \<^verbatim>\<open>Store_Alerts\<close>,
    \<^verbatim>\<open>Store_Deliveries\<close>, \<^verbatim>\<open>Store_Transfers\<close>, \<^verbatim>\<open>Store_Restores\<close> (\<^verbatim>\<open>store.py\<close>): the operations,
    one definition each, and a lemma for each that it is lawful. \<^verbatim>\<open>Store_Rules\<close> and
    \<^verbatim>\<open>Work_Behaviour\<close>: rules for their outcomes.
  \<^item> \<^verbatim>\<open>Backup_Approval\<close>, \<^verbatim>\<open>Backup_Adapter\<close>, \<^verbatim>\<open>Backup_Restore\<close>, \<^verbatim>\<open>Backup_Pilot\<close> (the files of these
    names and \<^verbatim>\<open>backup_credentials.py\<close>): the evidence contracts, pure functions of the values
    and of SHA-256.

  \<^bold>\<open>The runtime.\<close>
  \<^item> \<^verbatim>\<open>Runtime_Policy\<close> (\<^verbatim>\<open>policy.py\<close>), \<^verbatim>\<open>Commands\<close>, \<^verbatim>\<open>Bridge\<close>, \<^verbatim>\<open>Scheduler\<close>, \<^verbatim>\<open>Monitoring\<close>: the ways in
    and the gate in front of actions. \<^verbatim>\<open>Chief_Of_Staff\<close>, \<^verbatim>\<open>Revenue_Agent\<close>, \<^verbatim>\<open>Integrations\<close>,
    \<^verbatim>\<open>Reporting\<close>: the agents; \<^verbatim>\<open>Chief_Registry\<close>: the registry \<open>chief_of_staff_registry\<close> builds.
  \<^item> \<^verbatim>\<open>Backup_Execution\<close>, \<^verbatim>\<open>Restore_Execution\<close>: the executors over their ports. \<^verbatim>\<open>Worker\<close>
    (\<^verbatim>\<open>scripts/worker.py\<close>, \<^verbatim>\<open>restore_worker.py\<close>, \<^verbatim>\<open>monitor_worker.py\<close>): the loops of the processes;
    \<^verbatim>\<open>Worker_Laws\<close>: they are lawful. A loop takes fuel, one unit per turn; the monitor loop
    with a maximum needs no more than that maximum (\<open>monitor_loop_ends\<close>).
  \<^item> \<^verbatim>\<open>Backup_Activation\<close>, \<^verbatim>\<open>Backup_Operator\<close>, \<^verbatim>\<open>Restore_Operator\<close>: the supervised path from a
    synthetic source to an authorized transfer or restore.
  \<^item> \<^verbatim>\<open>Backup_Secrets\<close> (\<^verbatim>\<open>backup_secrets.py\<close>, \<^verbatim>\<open>backup_restore_secrets.py\<close>): the managed variables,
    the encryption key and the requests for a storage client.
  \<^item> \<^verbatim>\<open>Migration_Guard\<close> (\<^verbatim>\<open>migration_guard.py\<close>): the copy before a migration and its restoration.

  \<^bold>\<open>What is shown.\<close>
  \<^item> \<^verbatim>\<open>Store_Lifecycle\<close>: the step relation over all operations and crashes, reachable worlds.
    \<^verbatim>\<open>Scenario\<close> and \<^verbatim>\<open>Worker_Scenario\<close>: concrete runs for the witnesses. \<^verbatim>\<open>Store_Safety\<close>: what no
    run can do. \<^verbatim>\<open>Store_Behaviour\<close>: outcomes of single operations.
  \<^item> \<^verbatim>\<open>Runtime_Behaviour\<close>: permission and single execution of actions. \<^verbatim>\<open>Interface_Behaviour\<close>:
    idempotent submission, the bridge, the scheduler. \<^verbatim>\<open>Alert_Behaviour\<close>: alerts and the monitor
    loop. \<^verbatim>\<open>Worker_Behaviour\<close>: what a worker leaves behind, also after failures of its ports.
    \<^verbatim>\<open>Operator_Behaviour\<close>: reviews, authorization, connectors, the registry.
    \<^verbatim>\<open>Migration_Behaviour\<close>: what a failed migration leaves.

  \<^bold>\<open>Not modelled.\<close> SQLite's own storage and the DDL of \<^verbatim>\<open>migrations.py\<close>; the copies of the database
  file that \<^verbatim>\<open>store.py\<close> makes; the adapters behind the ports (AES-GCM and the calls of the object
  storage client); the release verification and the command-line front ends under
  \<^verbatim>\<open>scripts\<close>. One connection uses the database at a time. Integers are assumed to fit SQLite's
  64 bits.
\<close>

end
